(* ===== verification/Prelude.thy ===== *)
theory Prelude
  imports Main
begin

text \<open>
  Shared groundwork: the collection of definitions that unfold a write of a file, the
  list operations behind the pattern \<open>iter_mut().find(p)\<close> followed by an in-place
  update or an insertion at the front, and the three generic contracts (locales) that several
  components provide: a system with an invariant, a system whose observation only grows, and
  a frame system that fires on the rising edge of a condition.
\<close>

named_theorems io_defs \<open>what a write of a file unfolds to\<close>

subsection \<open>First match: find and update\<close>

fun upd_first :: "('a \<Rightarrow> bool) \<Rightarrow> ('a \<Rightarrow> 'a) \<Rightarrow> 'a list \<Rightarrow> 'a list" where
  "upd_first p f [] = []"
| "upd_first p f (x # xs) = (if p x then f x # xs else x # upd_first p f xs)"

lemma length_upd_first [simp]: "length (upd_first p f xs) = length xs"
  by (induction xs) auto

lemma upd_first_none: "\<not> list_ex p xs \<Longrightarrow> upd_first p f xs = xs"
  by (induction xs) auto

lemma map_upd_first: "(\<And>x. p x \<Longrightarrow> g (f x) = g x) \<Longrightarrow> map g (upd_first p f xs) = map g xs"
  by (induction xs) auto

lemma set_upd_first: "set (upd_first p f xs) \<subseteq> set xs \<union> f ` {x \<in> set xs. p x}"
  by (induction xs) auto

lemma find_upd_first_same:
  "(\<And>x. p x \<Longrightarrow> p (f x)) \<Longrightarrow> List.find p (upd_first p f xs) = map_option f (List.find p xs)"
  by (induction xs) auto

lemma find_upd_first_other:
  "(\<And>x. p x \<Longrightarrow> q (f x) = q x) \<Longrightarrow> (\<And>x. p x \<Longrightarrow> \<not> q x) \<Longrightarrow>
   List.find q (upd_first p f xs) = List.find q xs"
  by (induction xs) auto

lemma list_ex_find: "list_ex p xs \<longleftrightarrow> List.find p xs \<noteq> None"
  by (induction xs) auto

lemma find_append: "List.find p (xs @ ys) =
    (case List.find p xs of None \<Rightarrow> List.find p ys | Some x \<Rightarrow> Some x)"
  by (induction xs) auto

lemma find_some_in: "List.find p xs = Some x \<Longrightarrow> p x \<and> x \<in> set xs"
  by (induction xs) (auto split: if_splits)

lemma find_take_some: "List.find p (take n xs) = Some x \<Longrightarrow> List.find p xs = Some x"
  by (induction xs arbitrary: n) (auto simp: take_Cons split: nat.splits if_splits)

subsection \<open>The first position\<close>

fun position :: "('a \<Rightarrow> bool) \<Rightarrow> 'a list \<Rightarrow> nat option" where
  "position p [] = None"
| "position p (x # xs) = (if p x then Some 0 else map_option Suc (position p xs))"

subsection \<open>Insertion at the front of a bounded list\<close>

definition push_front_cap :: "nat \<Rightarrow> 'a \<Rightarrow> 'a list \<Rightarrow> 'a list" where
  "push_front_cap n x xs = take n (x # xs)"

lemma length_push_front_cap: "length (push_front_cap n x xs) \<le> n"
  by (simp add: push_front_cap_def)

lemma set_push_front_cap: "set (push_front_cap n x xs) \<subseteq> insert x (set xs)"
  using set_take_subset [of n "x # xs"] by (simp add: push_front_cap_def)

lemma distinct_filter_take:
  assumes "distinct (filter p (map g ys))"
  shows "distinct (filter p (map g (take n ys)))"
proof -
  have "filter p (map g ys) = filter p (map g (take n ys)) @ filter p (map g (drop n ys))"
    by (metis append_take_drop_id filter_append map_append)
  with assms show ?thesis by (metis distinct_append)
qed

lemma distinct_filter_push_front:
  assumes "distinct (filter p (map g xs))" and "p (g x) \<Longrightarrow> g x \<notin> g ` set xs"
  shows "distinct (filter p (map g (push_front_cap n x xs)))"
  unfolding push_front_cap_def by (rule distinct_filter_take) (use assms in auto)

subsection \<open>A system with an invariant\<close>

text \<open>The operations of a component as one step function over its events; the provider shows
  that every step keeps the invariant, a client gets it for every run.\<close>

locale invariant_system =
  fixes step :: "'e \<Rightarrow> 's \<Rightarrow> 's" and inv :: "'s \<Rightarrow> bool"
  assumes step_inv: "inv s \<Longrightarrow> inv (step e s)"
begin

lemma run_inv: "inv s \<Longrightarrow> inv (fold step es s)"
  by (induction es arbitrary: s) (auto intro: step_inv)

end

text \<open>A system whose observation moves up in a given preorder at every admissible step.\<close>

fun admissible_run :: "('e \<Rightarrow> 's \<Rightarrow> 's) \<Rightarrow> ('e \<Rightarrow> 's \<Rightarrow> bool) \<Rightarrow> 'e list \<Rightarrow> 's \<Rightarrow> bool" where
  "admissible_run step adm [] s = True"
| "admissible_run step adm (e # es) s = (adm e s \<and> admissible_run step adm es (step e s))"

locale monotone_system = invariant_system step inv
  for step :: "'e \<Rightarrow> 's \<Rightarrow> 's" and inv :: "'s \<Rightarrow> bool" +
  fixes adm :: "'e \<Rightarrow> 's \<Rightarrow> bool" and obs :: "'s \<Rightarrow> 'o" and le :: "'o \<Rightarrow> 'o \<Rightarrow> bool"
  assumes le_refl: "le a a"
    and le_trans: "le a b \<Longrightarrow> le b c \<Longrightarrow> le a c"
    and step_mono: "inv s \<Longrightarrow> adm e s \<Longrightarrow> le (obs s) (obs (step e s))"
begin

lemma run_mono:
  "inv s \<Longrightarrow> admissible_run step adm es s \<Longrightarrow> le (obs s) (obs (fold step es s))"
proof (induction es arbitrary: s)
  case Nil
  then show ?case by (simp add: le_refl)
next
  case (Cons e es)
  then have "le (obs (step e s)) (obs (fold step es (step e s)))"
    by (intro Cons.IH step_inv) auto
  with step_mono [of s e] Cons.prems show ?case by (auto intro: le_trans)
qed

end

subsection \<open>A rising-edge trigger\<close>

text \<open>
  Several frame systems keep the value they saw in the previous frame in a \<open>Local\<close>
  (none in the first frame) and act only when a condition has just become true. The provider
  shows that its step stores the current value and emits exactly on the edge.
\<close>

definition rising :: "('v \<Rightarrow> bool) \<Rightarrow> 'v option \<Rightarrow> 'v \<Rightarrow> bool" where
  "rising active prev v \<longleftrightarrow> active v \<and> (case prev of None \<Rightarrow> True | Some w \<Rightarrow> \<not> active w)"

fun edges :: "('v \<Rightarrow> bool) \<Rightarrow> 'v option \<Rightarrow> 'v list \<Rightarrow> 'v list" where
  "edges active prev [] = []"
| "edges active prev (v # vs) =
     (if rising active prev v then [v] else []) @ edges active (Some v) vs"

fun run_frames :: "('v option \<Rightarrow> 'v \<Rightarrow> 'v option \<times> 'c list) \<Rightarrow> 'v option \<Rightarrow> 'v list \<Rightarrow> 'c list" where
  "run_frames step prev [] = []"
| "run_frames step prev (v # vs) =
     (let (prev', out) = step prev v in out @ run_frames step prev' vs)"

locale edge_trigger =
  fixes active :: "'v \<Rightarrow> bool" and emit :: "'v \<Rightarrow> 'c list"
    and step :: "'v option \<Rightarrow> 'v \<Rightarrow> 'v option \<times> 'c list"
  assumes step_prev: "fst (step prev v) = Some v"
    and step_out: "snd (step prev v) = (if rising active prev v then emit v else [])"
begin

lemma step_eq: "step prev v = (Some v, if rising active prev v then emit v else [])"
  using step_prev [of prev v] step_out [of prev v] by (cases "step prev v") simp

lemma run_eq_edges: "run_frames step prev vs = concat (map emit (edges active prev vs))"
  by (induction vs arbitrary: prev) (auto simp: step_eq)

lemma run_eq_rising:
  "run_frames step prev vs =
     concat (map (\<lambda>(p, v). emit v) (filter (\<lambda>(p, v). rising active p v) (zip (prev # map Some vs) vs)))"
  by (induction vs arbitrary: prev) (auto simp: step_eq)

lemma silent_while_active:
  "active w \<Longrightarrow> \<forall>v\<in>set vs. active v \<Longrightarrow> run_frames step (Some w) vs = []"
  by (induction vs arbitrary: w) (auto simp: step_eq rising_def)

lemma silent_while_inactive:
  "\<forall>v\<in>set vs. \<not> active v \<Longrightarrow> run_frames step prev vs = []"
  by (induction vs arbitrary: prev) (auto simp: step_eq rising_def)

end

subsection \<open>The buttons of a pointer\<close>

datatype pointer_button = PB_Primary | PB_Secondary | PB_Middle

end
