(* ===== verification/Rust_Str.thy ===== *)
theory Rust_Str
  imports Prelude "HOL-Library.Char_ord" "HOL-Library.List_Lexorder"
begin

text \<open>
  Rust strings. A Rust \<open>String\<close> is its UTF-8 byte sequence, so it is modelled as an
  Isabelle \<open>string\<close> read as bytes: every \<open>char\<close> is one byte, a non-ASCII character
  is several of them. Equality, concatenation, prefix tests and the byte order of
  \<open>str::cmp\<close> are then those of lists; the operations that look at characters
  (\<open>trim\<close>, \<open>pop\<close>, \<open>chars().count()\<close>) are written out on the encoding.
\<close>

type_synonym str = string

definition newline :: char where "newline = CHR 0x0A"
definition carriage :: char where "carriage = CHR 0x0D"

text \<open>The bytes of a literal that is not ASCII.\<close>

definition utf8 :: "nat list \<Rightarrow> str" where
  "utf8 bs = map char_of bs"

subsection \<open>Prefixes\<close>

definition starts_with :: "str \<Rightarrow> str \<Rightarrow> bool" where
  "starts_with p s \<longleftrightarrow> take (length p) s = p"

definition strip_prefix :: "str \<Rightarrow> str \<Rightarrow> str option" where
  "strip_prefix p s = (if starts_with p s then Some (drop (length p) s) else None)"

lemma starts_with_append [simp]: "starts_with p (p @ s)"
  by (simp add: starts_with_def)

lemma strip_prefix_append [simp]: "strip_prefix p (p @ s) = Some s"
  by (simp add: strip_prefix_def)

lemma strip_prefix_Some: "strip_prefix p s = Some r \<longleftrightarrow> s = p @ r"
  by (auto simp: strip_prefix_def starts_with_def)
     (metis append_take_drop_id)

definition ends_with :: "str \<Rightarrow> str \<Rightarrow> bool" where
  "ends_with w s \<longleftrightarrow> length w \<le> length s \<and> drop (length s - length w) s = w"

lemma ends_with_append [simp]: "ends_with w (s @ w)"
  by (simp add: ends_with_def)

subsection \<open>\<open>trim\<close>: the Unicode White_Space characters, in UTF-8\<close>

definition ws_encodings :: "str list" where
  "ws_encodings =
     [[CHR 0x09], [CHR 0x0A], [CHR 0x0B], [CHR 0x0C], [CHR 0x0D], [CHR 0x20],
      [CHR 0xC2, CHR 0x85], [CHR 0xC2, CHR 0xA0],
      [CHR 0xE1, CHR 0x9A, CHR 0x80],
      [CHR 0xE2, CHR 0x80, CHR 0x80], [CHR 0xE2, CHR 0x80, CHR 0x81],
      [CHR 0xE2, CHR 0x80, CHR 0x82], [CHR 0xE2, CHR 0x80, CHR 0x83],
      [CHR 0xE2, CHR 0x80, CHR 0x84], [CHR 0xE2, CHR 0x80, CHR 0x85],
      [CHR 0xE2, CHR 0x80, CHR 0x86], [CHR 0xE2, CHR 0x80, CHR 0x87],
      [CHR 0xE2, CHR 0x80, CHR 0x88], [CHR 0xE2, CHR 0x80, CHR 0x89],
      [CHR 0xE2, CHR 0x80, CHR 0x8A], [CHR 0xE2, CHR 0x80, CHR 0xA8],
      [CHR 0xE2, CHR 0x80, CHR 0xA9], [CHR 0xE2, CHR 0x80, CHR 0xAF],
      [CHR 0xE2, CHR 0x81, CHR 0x9F], [CHR 0xE3, CHR 0x80, CHR 0x80]]"

lemma ws_encodings_nonempty: "w \<in> set ws_encodings \<Longrightarrow> w \<noteq> []"
  by (auto simp: ws_encodings_def)

function trim_start :: "str \<Rightarrow> str" where
  "trim_start s =
     (case List.find (\<lambda>w. starts_with w s) ws_encodings of
        None \<Rightarrow> s
      | Some w \<Rightarrow> trim_start (drop (length w) s))"
  by pat_completeness auto
termination
proof (relation "measure length")
  fix s w
  assume "List.find (\<lambda>w. starts_with w s) ws_encodings = Some w"
  note f = find_some_in [OF this]
  from f have w: "length w \<le> length s"
    by (auto simp: starts_with_def dest: arg_cong [of _ _ length])
  from f have "w \<noteq> []" by (intro ws_encodings_nonempty) simp
  then have "0 < length w" by simp
  with w have "length s - length w < length s" by arith
  with w show "(drop (length w) s, s) \<in> measure length" by simp
qed simp

declare trim_start.simps [simp del]

function trim_end :: "str \<Rightarrow> str" where
  "trim_end s =
     (case List.find (\<lambda>w. ends_with w s) ws_encodings of
        None \<Rightarrow> s
      | Some w \<Rightarrow> trim_end (take (length s - length w) s))"
  by pat_completeness auto
termination
proof (relation "measure length")
  fix s w
  assume "List.find (\<lambda>w. ends_with w s) ws_encodings = Some w"
  note f = find_some_in [OF this]
  from f have w: "length w \<le> length s"
    by (auto simp: ends_with_def dest: arg_cong [of _ _ length])
  from f have "w \<noteq> []" by (intro ws_encodings_nonempty) simp
  then have "0 < length w" by simp
  with w have "length s - length w < length s" by arith
  with w show "(take (length s - length w) s, s) \<in> measure length" by simp
qed simp

declare trim_end.simps [simp del]

definition trim :: "str \<Rightarrow> str" where
  "trim s = trim_end (trim_start s)"

definition trim_newlines :: "str \<Rightarrow> str" where
  "trim_newlines s = rev (dropWhile (\<lambda>c. c = newline) (rev s))"

lemma trim_newlines_id: "s = [] \<or> last s \<noteq> newline \<Longrightarrow> trim_newlines s = s"
  by (cases s rule: rev_cases) (auto simp: trim_newlines_def)

lemma trim_newlines_append_newline: "trim_newlines (s @ [newline]) = trim_newlines s"
  by (simp add: trim_newlines_def)

subsection \<open>\<open>lines\<close> and \<open>join\<close>\<close>

definition strip_cr :: "str \<Rightarrow> str" where
  "strip_cr l = (if l \<noteq> [] \<and> last l = carriage then butlast l else l)"

text \<open>\<open>str::lines\<close>: the text is cut after each newline; a line that ended in a newline loses
  it and one carriage return before it, a last line without newline is kept as it is.\<close>

function lines :: "str \<Rightarrow> str list" where
  "lines s =
     (case dropWhile (\<lambda>c. c \<noteq> newline) s of
        [] \<Rightarrow> (if s = [] then [] else [s])
      | _ # rest \<Rightarrow> strip_cr (takeWhile (\<lambda>c. c \<noteq> newline) s) # lines rest)"
  by pat_completeness auto
termination
proof (relation "measure length")
  fix s rest :: str and c
  assume "dropWhile (\<lambda>c. c \<noteq> newline) s = c # rest"
  then have "length (c # rest) \<le> length s"
    by (metis length_dropWhile_le)
  then show "(rest, s) \<in> measure length" by simp
qed simp

declare lines.simps [simp del]

lemma lines_Nil [simp]: "lines [] = []"
  by (subst lines.simps) simp

lemma lines_Cons_line:
  assumes "newline \<notin> set l"
  shows "lines (l @ newline # rest) = strip_cr l # lines rest"
proof -
  have "dropWhile (\<lambda>c. c \<noteq> newline) (l @ newline # rest) = newline # rest"
    using assms by (induction l) auto
  moreover have "takeWhile (\<lambda>c. c \<noteq> newline) (l @ newline # rest) = l"
    using assms by (induction l) auto
  ultimately show ?thesis by (subst lines.simps) simp
qed

fun join :: "str \<Rightarrow> str list \<Rightarrow> str" where
  "join sep [] = []"
| "join sep [l] = l"
| "join sep (l # ls) = l @ sep @ join sep ls"

text \<open>\<open>str::split\<close> at one byte: the parts between its occurrences, at least one.\<close>

fun split_on :: "char \<Rightarrow> str \<Rightarrow> str list" where
  "split_on d [] = [[]]"
| "split_on d (c # cs) =
     (if c = d then [] # split_on d cs else (c # hd (split_on d cs)) # tl (split_on d cs))"

lemma split_on_nonempty [simp]: "split_on d b \<noteq> []"
  by (cases b) auto

lemma join_cons: "join sep (l # ls) = (if ls = [] then l else l @ sep @ join sep ls)"
  by (cases ls) auto

lemma join_split_on: "join [d] (split_on d b) = b"
proof (induction b)
  case (Cons c cs)
  then show ?case by (cases "split_on d cs") (auto simp: join_cons split: if_splits)
qed simp

lemma split_on_none: "d \<notin> set b \<Longrightarrow> split_on d b = [b]"
  by (induction b) auto

lemma split_on_append: "d \<notin> set l \<Longrightarrow> split_on d (l @ d # b) = l # split_on d b"
  by (induction l) auto

subsection \<open>Characters\<close>

definition byte :: "char \<Rightarrow> nat" where "byte c = of_char c"

definition is_cont :: "char \<Rightarrow> bool" where
  "is_cont c \<longleftrightarrow> 0x80 \<le> byte c \<and> byte c < 0xC0"

definition chars_count :: "str \<Rightarrow> nat" where
  "chars_count s = length (filter (\<lambda>c. \<not> is_cont c) s)"

text \<open>The characters one by one: a byte and the continuation bytes after it.\<close>

fun utf8_chars :: "str \<Rightarrow> str list" where
  "utf8_chars [] = []"
| "utf8_chars (c # cs) =
     (case utf8_chars cs of
        [] \<Rightarrow> [[c]]
      | w # ws \<Rightarrow> (if is_cont (hd w) then (c # w) # ws else [c] # w # ws))"

text \<open>\<open>String::pop\<close>: remove the last character with all its bytes.\<close>

definition pop_char :: "str \<Rightarrow> str" where
  "pop_char s = rev (drop 1 (dropWhile is_cont (rev s)))"

definition is_digit :: "char \<Rightarrow> bool" where
  "is_digit c \<longleftrightarrow> 0x30 \<le> byte c \<and> byte c \<le> 0x39"

definition digit_val :: "char \<Rightarrow> nat" where "digit_val c = byte c - 0x30"

definition is_control_ascii :: "char \<Rightarrow> bool" where
  "is_control_ascii c \<longleftrightarrow> byte c < 0x20 \<or> byte c = 0x7F"

definition ascii_upper :: "char \<Rightarrow> char" where
  "ascii_upper c = (if 0x61 \<le> byte c \<and> byte c \<le> 0x7A then char_of (byte c - 32) else c)"

definition to_ascii_uppercase :: "str \<Rightarrow> str" where
  "to_ascii_uppercase s = map ascii_upper s"

definition eq_ignore_ascii_case :: "str \<Rightarrow> str \<Rightarrow> bool" where
  "eq_ignore_ascii_case s t \<longleftrightarrow> to_ascii_uppercase s = to_ascii_uppercase t"

definition before_dot :: "str \<Rightarrow> str" where
  "before_dot s = takeWhile (\<lambda>c. c \<noteq> CHR ''.'') s"

subsection \<open>Integers as text\<close>

fun digits_value :: "nat \<Rightarrow> str \<Rightarrow> nat" where
  "digits_value acc [] = acc"
| "digits_value acc (c # cs) = digits_value (10 * acc + digit_val c) cs"

definition all_digits :: "str \<Rightarrow> bool" where
  "all_digits s \<longleftrightarrow> s \<noteq> [] \<and> list_all is_digit s"

text \<open>\<open>str::parse\<close> for unsigned and signed integers: an optional sign, at least one
  digit, nothing else, and the value in the range of the type.\<close>

definition parse_unsigned :: "nat \<Rightarrow> str \<Rightarrow> nat option" where
  "parse_unsigned bound s =
     (let d = (case s of c # cs \<Rightarrow> if c = CHR ''+'' then cs else s | [] \<Rightarrow> s) in
      if all_digits d \<and> digits_value 0 d < bound then Some (digits_value 0 d) else None)"

definition parse_i64 :: "str \<Rightarrow> int option" where
  "parse_i64 s =
     (case s of
        [] \<Rightarrow> None
      | c # cs \<Rightarrow>
          (if c = CHR ''-'' then
             (if all_digits cs \<and> digits_value 0 cs \<le> 2 ^ 63 then Some (- int (digits_value 0 cs)) else None)
           else (let d = (if c = CHR ''+'' then cs else s) in
             if all_digits d \<and> digits_value 0 d < 2 ^ 63 then Some (int (digits_value 0 d)) else None)))"

lemma parse_i64_range: "parse_i64 s = Some n \<Longrightarrow> - (2 ^ 63) \<le> n \<and> n < 2 ^ 63"
proof -
  have nn: "int m \<le> 2 ^ 63" if "m \<le> 2 ^ 63" for m :: nat
    using that by (metis of_nat_le_iff of_nat_numeral of_nat_power)
  have ll: "int m < 2 ^ 63" if "m < 2 ^ 63" for m :: nat
    using that by (metis of_nat_less_iff of_nat_numeral of_nat_power)
  assume "parse_i64 s = Some n"
  then show ?thesis
    by (auto simp: parse_i64_def Let_def nn ll split: list.splits if_splits dest!: nn ll)
qed

function show_nat :: "nat \<Rightarrow> str" where
  "show_nat n = (if n < 10 then [char_of (0x30 + n)] else show_nat (n div 10) @ [char_of (0x30 + n mod 10)])"
  by pat_completeness auto
termination by (relation "measure (\<lambda>n. n)") auto

declare show_nat.simps [simp del]

text \<open>\<open>{:03}\<close>: at least three digits, padded with zeros.\<close>

definition show_nat_pad3 :: "nat \<Rightarrow> str" where
  "show_nat_pad3 n = replicate (3 - length (show_nat n)) (CHR ''0'') @ show_nat n"

end
