(* ===== verification/F64.thy ===== *)
theory F64
  imports Prelude Complex_Main "HOL-Library.Log_Nat"
begin

text \<open>
  IEEE 754 binary64 as the order and account code uses it: not-a-number, the two infinities
  and the finite values as rationals (the sign of a zero is not kept: no code modelled here
  observes it). The comparisons are those of Rust: every one with a NaN operand is false.
  Arithmetic is exact arithmetic followed by \<open>f64_round\<close>, round-to-nearest with ties
  to even, with gradual underflow at \<open>2 ^ -1074\<close> and overflow to an infinity. All of it
  is executable.
\<close>

datatype f64 = F64_NaN | F64_NegInf | F64_Fin rat | F64_PosInf

subsection \<open>Comparisons\<close>

fun f64_lt :: "f64 \<Rightarrow> f64 \<Rightarrow> bool" where
  "f64_lt F64_NaN y = False"
| "f64_lt x F64_NaN = False"
| "f64_lt x F64_NegInf = False"
| "f64_lt F64_PosInf y = False"
| "f64_lt F64_NegInf (F64_Fin b) = True"
| "f64_lt F64_NegInf F64_PosInf = True"
| "f64_lt (F64_Fin a) (F64_Fin b) = (a < b)"
| "f64_lt (F64_Fin a) F64_PosInf = True"

text \<open>The operator \<open>==\<close>: a NaN differs from itself.\<close>

definition f64_eq :: "f64 \<Rightarrow> f64 \<Rightarrow> bool" where
  "f64_eq x y \<longleftrightarrow> x = y \<and> x \<noteq> F64_NaN"

instantiation f64 :: ord
begin

definition less_f64 :: "f64 \<Rightarrow> f64 \<Rightarrow> bool" where "x < y = f64_lt x y"
definition less_eq_f64 :: "f64 \<Rightarrow> f64 \<Rightarrow> bool" where "x \<le> y = (f64_lt x y \<or> f64_eq x y)"

instance ..

end

instantiation f64 :: zero
begin

definition zero_f64 :: f64 where "0 = F64_Fin 0"

instance ..

end

definition f64_is_finite :: "f64 \<Rightarrow> bool" where
  "f64_is_finite x \<longleftrightarrow> (case x of F64_Fin r \<Rightarrow> True | _ \<Rightarrow> False)"

lemma f64_nan_compare [simp]:
  "\<not> F64_NaN < x" "\<not> x < F64_NaN" "\<not> F64_NaN \<le> x" "\<not> x \<le> F64_NaN"
  by (cases x; simp add: less_f64_def less_eq_f64_def f64_eq_def)+

lemma f64_fin_less [simp]: "F64_Fin a < F64_Fin b \<longleftrightarrow> a < b"
  by (simp add: less_f64_def)

lemma f64_fin_le [simp]: "F64_Fin a \<le> F64_Fin b \<longleftrightarrow> a \<le> b"
  by (auto simp: less_eq_f64_def f64_eq_def)

lemma f64_inf_compare [simp]:
  "F64_Fin a < F64_PosInf" "\<not> F64_PosInf < x" "F64_NegInf < F64_Fin a" "\<not> x < F64_NegInf"
  by (cases x; simp add: less_f64_def)+

lemma f64_le_refl: "x \<noteq> F64_NaN \<Longrightarrow> x \<le> x"
  by (simp add: less_eq_f64_def f64_eq_def)

lemma f64_less_trans: "x < y \<Longrightarrow> y < z \<Longrightarrow> x < (z :: f64)"
  by (cases x; cases y; cases z) (auto simp: less_f64_def)

lemma f64_le_trans: "x \<le> y \<Longrightarrow> y \<le> z \<Longrightarrow> x \<le> (z :: f64)"
  by (auto simp: less_eq_f64_def f64_eq_def dest: f64_less_trans [unfolded less_f64_def])

lemma f64_not_less: "x \<noteq> F64_NaN \<Longrightarrow> y \<noteq> F64_NaN \<Longrightarrow> \<not> x < y \<longleftrightarrow> y \<le> x"
  by (cases x; cases y) (auto simp: less_f64_def less_eq_f64_def f64_eq_def)

lemma f64_less_imp_le: "x < y \<Longrightarrow> x \<le> (y :: f64)"
  by (simp add: less_f64_def less_eq_f64_def)

lemma f64_less_irrefl [simp]: "\<not> x < (x :: f64)"
  by (cases x) (simp_all add: less_f64_def)

lemma f64_pos_finite: "0 < x \<Longrightarrow> f64_is_finite x \<Longrightarrow> \<exists>r. x = F64_Fin r \<and> 0 < r"
  by (cases x) (auto simp: f64_is_finite_def zero_f64_def)

subsection \<open>Rounding\<close>

definition pow2 :: "int \<Rightarrow> rat" where
  "pow2 k = (if 0 \<le> k then 2 ^ nat k else 1 / 2 ^ nat (- k))"

definition round_half_even :: "rat \<Rightarrow> int" where
  "round_half_even x =
     (let f = \<lfloor>x\<rfloor>; r = x - of_int f in
      if r < 1 / 2 then f else if 1 / 2 < r then f + 1 else if even f then f else f + 1)"

text \<open>The binary exponent of a positive rational: \<open>2 ^ e \<le> x\<close>.\<close>

definition ilog2 :: "rat \<Rightarrow> int" where
  "ilog2 x =
     (let (a, b) = quotient_of x; e = bitlen a - bitlen b in
      if x < pow2 e then e - 1 else e)"

definition f64_round :: "rat \<Rightarrow> f64" where
  "f64_round x =
     (if x = 0 then F64_Fin 0 else
      let q = max (ilog2 \<bar>x\<bar> - 52) (- 1074);
          y = of_int (round_half_even (x / pow2 q)) * pow2 q in
      if pow2 1024 \<le> y then F64_PosInf else if y \<le> - pow2 1024 then F64_NegInf else F64_Fin y)"

lemma pow2_pos [simp]: "0 < pow2 k"
  by (simp add: pow2_def)

lemma pow2_nonneg [simp]: "0 \<le> pow2 k"
  using pow2_pos [of k] by (rule less_imp_le)

lemma pow2_add: "pow2 (a + b) = pow2 a * pow2 b"
proof -
  have pn: "pow2 (int m + b) = 2 ^ m * pow2 b" for m b
  proof (cases "0 \<le> b")
    case True
    then show ?thesis by (simp add: pow2_def nat_add_distrib power_add)
  next
    case False
    then obtain n where b: "b = - int n" and n: "0 < n"
      by (metis int_cases2 neg_0_le_iff_le of_nat_0_less_iff of_nat_0_le_iff order.strict_iff_not not_less)
    show ?thesis
    proof (cases "n \<le> m")
      case True
      then have "pow2 (int m + b) = 2 ^ (m - n)"
        by (simp add: pow2_def b nat_diff_distrib)
      with True n show ?thesis by (simp add: pow2_def b power_diff)
    next
      case False
      then have "pow2 (int m + b) = 1 / 2 ^ (n - m)"
        by (simp add: pow2_def b nat_diff_distrib)
      with False n show ?thesis by (simp add: pow2_def b power_diff)
    qed
  qed
  have inv: "pow2 (- k) * pow2 k = 1" for k
    by (simp add: pow2_def)
  show ?thesis
  proof (cases "0 \<le> a")
    case True
    then show ?thesis using pn [of "nat a" b] by (simp add: pow2_def)
  next
    case False
    have "pow2 b = pow2 (- a) * pow2 (a + b)"
      using pn [of "nat (- a)" "a + b"] False by (simp add: pow2_def)
    then have "pow2 a * pow2 b = (pow2 (- a) * pow2 a) * pow2 (a + b)" by simp
    then show ?thesis by (simp add: inv)
  qed
qed

lemma pow2_mono: "a \<le> b \<Longrightarrow> pow2 a \<le> pow2 b"
proof -
  assume "a \<le> b"
  then have "pow2 b = pow2 a * 2 ^ nat (b - a)"
    using pow2_add [of a "b - a"] by (simp add: pow2_def)
  moreover have "(1::rat) \<le> 2 ^ nat (b - a)" by simp
  ultimately show ?thesis
    using mult_left_mono [of 1 "2 ^ nat (b - a)" "pow2 a"] by simp
qed

lemma pow2_strict_mono: "a < b \<Longrightarrow> pow2 a < pow2 b"
proof -
  assume "a < b"
  then have "pow2 (a + 1) \<le> pow2 b" by (intro pow2_mono) simp
  moreover have "pow2 (a + 1) = 2 * pow2 a" by (simp add: pow2_add) (simp add: pow2_def)
  ultimately show ?thesis using pow2_pos [of a] by linarith
qed

lemma pow2_less_cancel: "pow2 a \<le> pow2 b \<Longrightarrow> a \<le> b"
  using pow2_strict_mono [of b a] by (meson not_le)

lemma round_half_even_int [simp]: "round_half_even (of_int n) = n"
  by (simp add: round_half_even_def)

lemma ilog2_lower:
  assumes "0 < x"
  shows "pow2 (ilog2 x) \<le> x"
proof -
  obtain a b where ab: "quotient_of x = (a, b)" by (cases "quotient_of x")
  then have b: "0 < b" by (rule quotient_of_denom_pos)
  have x: "x = of_int a / of_int b" using ab by (rule quotient_of_div)
  with assms b have a: "0 < a" by (simp add: zero_less_divide_iff)
  let ?e = "bitlen a - bitlen b"
  have "pow2 (bitlen a - 1) \<le> of_int a"
  proof -
    have "2 ^ nat (bitlen a - 1) \<le> a" using bitlen_bounds [of a] a by simp
    then have "(of_int (2 ^ nat (bitlen a - 1)) :: rat) \<le> of_int a" by (simp only: of_int_le_iff)
    moreover have "1 \<le> bitlen a" using a bitlen_le_iff_power [of a 0] by auto
    ultimately show ?thesis by (simp add: pow2_def)
  qed
  moreover have "of_int b \<le> pow2 (bitlen b)"
  proof -
    have "b < 2 ^ nat (bitlen b)" using bitlen_bounds [of b] b by simp
    then have "(of_int b :: rat) < of_int (2 ^ nat (bitlen b))" by (simp only: of_int_less_iff)
    then show ?thesis using bitlen_nonneg [of b] by (simp add: pow2_def)
  qed
  moreover have "pow2 (bitlen a - 1) = pow2 (?e - 1) * pow2 (bitlen b)"
    using pow2_add [of "?e - 1" "bitlen b"] by simp
  ultimately have "pow2 (?e - 1) * of_int b \<le> of_int a"
    using mult_left_mono [of "of_int b" "pow2 (bitlen b)" "pow2 (?e - 1)"]
    by (metis order.trans pow2_nonneg)
  then have "pow2 (?e - 1) \<le> x" using b by (simp add: x le_divide_eq)
  then show ?thesis by (simp add: ilog2_def ab Let_def)
qed

lemma f64_round_multiple:
  assumes "x = of_int m * pow2 (max (ilog2 \<bar>x\<bar> - 52) (- 1074))"
    and "\<bar>x\<bar> < pow2 1024"
  shows "f64_round x = F64_Fin x"
proof (cases "x = 0")
  case False
  let ?q = "max (ilog2 \<bar>x\<bar> - 52) (- 1074)"
  have "pow2 ?q \<noteq> 0" using pow2_pos [of ?q] by linarith
  then have "x / pow2 ?q = of_int m" using assms(1) by (simp add: divide_eq_eq)
  then have "of_int (round_half_even (x / pow2 ?q)) * pow2 ?q = x"
    using assms(1) by simp
  with False assms(2) show ?thesis by (simp add: f64_round_def Let_def abs_less_iff)
qed (simp add: f64_round_def)

theorem f64_round_int:
  assumes "\<bar>n\<bar> \<le> 2 ^ 53"
  shows "f64_round (of_int n) = F64_Fin (of_int n)"
proof (cases "n = 0")
  case False
  let ?x = "of_int n :: rat"
  let ?e = "ilog2 \<bar>?x\<bar>"
  have le: "\<bar>?x\<bar> \<le> pow2 53"
    using assms by (simp add: pow2_def flip: of_int_abs)
  have lo: "pow2 ?e \<le> \<bar>?x\<bar>" using False by (intro ilog2_lower) simp
  from lo le have e: "?e \<le> 53" by (intro pow2_less_cancel) simp
  have lt: "\<bar>?x\<bar> < pow2 1024"
    using le pow2_strict_mono [of 53 1024] by simp
  show ?thesis
  proof (cases "?e \<le> 52")
    case True
    let ?q = "max (?e - 52) (- 1074)"
    have q: "?q \<le> 0" using True by simp
    have "pow2 (- ?q) = of_int (2 ^ nat (- ?q))" using q by (simp add: pow2_def)
    moreover have "pow2 (- ?q) * pow2 ?q = 1"
      using pow2_add [of "- ?q" ?q] by (simp add: pow2_def)
    ultimately have "?x = of_int (n * 2 ^ nat (- ?q)) * pow2 ?q" by simp
    then show ?thesis using lt by (rule f64_round_multiple)
  next
    case e53: False
    with e have e1: "?e = 53" by simp
    with lo le have "\<bar>?x\<bar> = pow2 53" by simp
    then have "of_int \<bar>n\<bar> = (of_int (2 ^ 53) :: rat)" by (simp add: pow2_def)
    then have "\<bar>n\<bar> = 2 ^ 53" by (simp only: of_int_eq_iff)
    then obtain m where "n = m * 2" by (auto simp: abs_if split: if_splits intro: that [of "2 ^ 52"] that [of "- (2 ^ 52)"])
    moreover have "pow2 (max (?e - 52) (- 1074)) = 2"
      by (simp only: e1) (simp add: pow2_def)
    ultimately have "?x = of_int m * pow2 (max (?e - 52) (- 1074))" by simp
    then show ?thesis using lt by (rule f64_round_multiple)
  qed
qed (simp add: f64_round_def)

subsection \<open>Arithmetic\<close>

fun f64_add :: "f64 \<Rightarrow> f64 \<Rightarrow> f64" where
  "f64_add (F64_Fin a) (F64_Fin b) = f64_round (a + b)"
| "f64_add F64_NaN y = F64_NaN"
| "f64_add x F64_NaN = F64_NaN"
| "f64_add F64_PosInf F64_NegInf = F64_NaN"
| "f64_add F64_NegInf F64_PosInf = F64_NaN"
| "f64_add F64_PosInf y = F64_PosInf"
| "f64_add x F64_PosInf = F64_PosInf"
| "f64_add F64_NegInf y = F64_NegInf"
| "f64_add x F64_NegInf = F64_NegInf"

fun f64_neg :: "f64 \<Rightarrow> f64" where
  "f64_neg F64_NaN = F64_NaN"
| "f64_neg F64_NegInf = F64_PosInf"
| "f64_neg F64_PosInf = F64_NegInf"
| "f64_neg (F64_Fin a) = F64_Fin (- a)"

definition f64_sub :: "f64 \<Rightarrow> f64 \<Rightarrow> f64" where
  "f64_sub x y = f64_add x (f64_neg y)"

fun f64_mul :: "f64 \<Rightarrow> f64 \<Rightarrow> f64" where
  "f64_mul (F64_Fin a) (F64_Fin b) = f64_round (a * b)"
| "f64_mul F64_NaN y = F64_NaN"
| "f64_mul x F64_NaN = F64_NaN"
| "f64_mul F64_PosInf y = (if y = F64_Fin 0 then F64_NaN else if 0 < y then F64_PosInf else F64_NegInf)"
| "f64_mul F64_NegInf y = (if y = F64_Fin 0 then F64_NaN else if 0 < y then F64_NegInf else F64_PosInf)"
| "f64_mul x F64_PosInf = (if x = F64_Fin 0 then F64_NaN else if 0 < x then F64_PosInf else F64_NegInf)"
| "f64_mul x F64_NegInf = (if x = F64_Fin 0 then F64_NaN else if 0 < x then F64_NegInf else F64_PosInf)"

text \<open>An \<open>i64\<close> or \<open>usize\<close> cast with \<open>as f64\<close>.\<close>

definition f64_of_int :: "int \<Rightarrow> f64" where "f64_of_int n = f64_round (of_int n)"

lemma f64_of_int_exact: "\<bar>n\<bar> \<le> 2 ^ 53 \<Longrightarrow> f64_of_int n = F64_Fin (of_int n)"
  by (simp add: f64_of_int_def f64_round_int)

end
