(* ===== verification/Json.thy ===== *)
theory Json
  imports Rust_Str F64
begin

text \<open>
  JSON values as \<open>serde_json::Value\<close> holds them, with the accessors the program uses.
  The text parser belongs to the third-party crate and is a parameter of the definitions that
  use it. An object is its list of entries, one per key.
\<close>

datatype json =
    JNull
  | JBool bool
  | JInt int
  | JFloat f64
  | JStr str
  | JArr "json list"
  | JObj "(str \<times> json) list"

definition json_get :: "str \<Rightarrow> json \<Rightarrow> json option" where
  "json_get k v = (case v of JObj es \<Rightarrow> map_of es k | _ \<Rightarrow> None)"

text \<open>\<open>v[key]\<close>: a missing key and a value that is no object both give null.\<close>

definition json_index :: "json \<Rightarrow> str \<Rightarrow> json" where
  "json_index v k = (case json_get k v of Some w \<Rightarrow> w | None \<Rightarrow> JNull)"

definition as_i64 :: "json \<Rightarrow> int option" where
  "as_i64 v = (case v of JInt n \<Rightarrow> if - (2 ^ 63) \<le> n \<and> n < 2 ^ 63 then Some n else None | _ \<Rightarrow> None)"

definition as_f64 :: "json \<Rightarrow> f64 option" where
  "as_f64 v = (case v of JInt n \<Rightarrow> Some (f64_of_int n) | JFloat x \<Rightarrow> Some x | _ \<Rightarrow> None)"

definition as_str :: "json \<Rightarrow> str option" where
  "as_str v = (case v of JStr s \<Rightarrow> Some s | _ \<Rightarrow> None)"

definition as_bool :: "json \<Rightarrow> bool option" where
  "as_bool v = (case v of JBool b \<Rightarrow> Some b | _ \<Rightarrow> None)"

definition as_array :: "json \<Rightarrow> json list option" where
  "as_array v = (case v of JArr vs \<Rightarrow> Some vs | _ \<Rightarrow> None)"

definition unwrap_or :: "'a \<Rightarrow> 'a option \<Rightarrow> 'a" where
  "unwrap_or d x = (case x of Some v \<Rightarrow> v | None \<Rightarrow> d)"

lemma unwrap_or_simps [simp]: "unwrap_or d None = d" "unwrap_or d (Some v) = v"
  by (simp_all add: unwrap_or_def)

lemma json_accessors [simp]:
  "json_get k (JObj es) = map_of es k"
  "json_index (JObj es) k = (case map_of es k of Some w \<Rightarrow> w | None \<Rightarrow> JNull)"
  "json_index JNull k = JNull"
  "as_i64 JNull = None" "as_f64 JNull = None" "as_str JNull = None" "as_bool JNull = None"
  "as_array JNull = None"
  "as_str (JStr s) = Some s" "as_f64 (JFloat x) = Some x" "as_bool (JBool b) = Some b"
  "as_array (JArr vs) = Some vs"
  by (simp_all add: json_get_def json_index_def as_i64_def as_f64_def as_str_def as_bool_def
      as_array_def)

end
