(* ===== verification/Trading.thy ===== *)
theory Trading
  imports Json "HOL-Library.Word"
begin

text \<open>
  The data of \<open>src/trading.rs\<close>: the polled backend state, the commands the interface
  sends to the transport task, the status updates and push events that come back, and the
  resources they are reduced into. Constructors and fields carry a short prefix for their type
  (\<open>TC_\<close> transport command, \<open>SU_\<close> status update, \<open>BE_\<close> backend event).
  A \<open>u32\<close> is a 32 bit word, a \<open>u64\<close> a 64 bit word; an \<open>i64\<close> that is only
  stored is an integer; the \<open>f32\<close> chart values are only stored and share the type of the
  \<open>f64\<close> ones. A \<open>HashMap\<close> with string keys is its list of entries, one per key.
  A calendar date is a day number.
\<close>

type_synonym u32 = "32 word"
type_synonym u64 = "64 word"
type_synonym date = int
type_synonym path = str
type_synonym 'a smap = "(str \<times> 'a) list"

subsection \<open>The polled state\<close>

record history_point =
  hp_timestamp_ms :: int
  hp_price :: f64

record ohlc_point =
  oh_timestamp_ms :: int
  oh_open_time_ms :: int
  oh_open :: f64
  oh_high :: f64
  oh_low :: f64
  oh_close :: f64
  oh_volume :: "f64 option"

record depth_level =
  dl_price :: f64
  dl_size :: f64

record depth_snapshot =
  ds_bids :: "depth_level list"
  ds_asks :: "depth_level list"
  ds_timestamp_ms :: "int option"

record instrument_trading_data =
  itd_price :: "f64 option"
  itd_ohlc_points :: "ohlc_point list"
  itd_depth :: "depth_snapshot option"

record backend_trading_state =
  bts_price :: f64
  bts_history :: "f64 list"
  bts_timestamp :: f64
  bts_timestamp_ms :: "int option"
  bts_history_points :: "history_point list"
  bts_ohlc_points :: "ohlc_point list"
  bts_open :: "f64 option"
  bts_high :: "f64 option"
  bts_low :: "f64 option"
  bts_close :: "f64 option"
  bts_open_time_ms :: "int option"
  bts_replay_state :: "str option"
  bts_venue_state :: "str option"
  bts_execution_mode :: "str option"
  bts_venue_id :: "str option"
  bts_instruments_loaded :: "u32 option"
  bts_last_prices :: "f64 smap"
  bts_per_instrument :: "instrument_trading_data smap"
  bts_configured_venue :: "str option"

record backend_status =
  bs_connected :: bool
  bs_running :: bool
  bs_last_error :: "str option"

text \<open>The session clock; its poll timer only paces the frame loop and is left out.\<close>

record trading_session =
  ts_timestamp_ms :: int
  ts_replay_state :: "str option"

text \<open>A cast \<open>f64 as i64\<close>: truncation towards zero, saturating, zero for a NaN.\<close>

definition rat_trunc :: "rat \<Rightarrow> int" where
  "rat_trunc r = (if 0 \<le> r then \<lfloor>r\<rfloor> else - \<lfloor>- r\<rfloor>)"

definition f64_as_i64 :: "f64 \<Rightarrow> int" where
  "f64_as_i64 x =
     (case x of
        F64_NaN \<Rightarrow> 0
      | F64_NegInf \<Rightarrow> - (2 ^ 63)
      | F64_PosInf \<Rightarrow> 2 ^ 63 - 1
      | F64_Fin r \<Rightarrow> max (- (2 ^ 63)) (min (2 ^ 63 - 1) (rat_trunc r)))"

text \<open>\<open>backend_update_system\<close>: drain every polled state of the frame; the per-instrument
  map is replaced wholesale.\<close>

definition backend_update_one ::
  "backend_trading_state \<Rightarrow> trading_session \<times> instrument_trading_data smap \<Rightarrow>
   trading_session \<times> instrument_trading_data smap" where
  "backend_update_one st sm =
     (\<lparr>ts_timestamp_ms =
         unwrap_or (f64_as_i64 (f64_mul (bts_timestamp st) (F64_Fin 1000))) (bts_timestamp_ms st),
       ts_replay_state = bts_replay_state st\<rparr>,
      bts_per_instrument st)"

definition backend_update_system ::
  "bool \<Rightarrow> backend_trading_state list \<Rightarrow> trading_session \<times> instrument_trading_data smap \<Rightarrow>
   trading_session \<times> instrument_trading_data smap" where
  "backend_update_system backend_enabled queue sm =
     (if \<not> backend_enabled then sm else fold backend_update_one queue sm)"

subsection \<open>Settings\<close>

record trading_settings =
  set_backend_enabled :: bool
  set_backend_url :: str
  set_token :: str
  set_poll_interval_ms :: u64
  set_max_history_points :: u64
  set_catalog_path :: "str option"
  set_use_inproc :: bool
  set_python_engine_path :: str
  set_live_venue_id :: "str option"

text \<open>\<open>Path::join\<close> with a relative second part.\<close>

definition path_join :: "str \<Rightarrow> str \<Rightarrow> str" where
  "path_join base p =
     (if base = [] \<or> last base = CHR ''/'' then base @ p else base @ ''/'' @ p)"

definition settings_from_env :: "(str \<Rightarrow> str option) \<Rightarrow> str option \<Rightarrow> trading_settings" where
  "settings_from_env env cwd =
     (let num = (\<lambda>k d. unwrap_or d
                  (case env k of None \<Rightarrow> None
                   | Some v \<Rightarrow> map_option word_of_nat (parse_unsigned (2 ^ 64) v)));
          base = unwrap_or (path_join (unwrap_or [] cwd) ''artifacts'') (env ''ARTIFACTS_PATH'') in
      \<lparr>set_backend_enabled =
         unwrap_or False (map_option (\<lambda>v. eq_ignore_ascii_case v ''true'') (env ''BACKEND_ENABLED'')),
       set_backend_url = unwrap_or ''http://127.0.0.1:19876'' (env ''BACKEND_URL''),
       set_token = unwrap_or ''dev-token'' (env ''BACKEND_TOKEN''),
       set_poll_interval_ms = num ''BACKEND_POLL_INTERVAL_MS'' 500,
       set_max_history_points = num ''MAX_HISTORY_POINTS'' 1000,
       set_catalog_path = Some (path_join base ''jquants-catalog''),
       set_use_inproc = True,
       set_python_engine_path = unwrap_or ''python'' (env ''PYTHON_ENGINE_PATH''),
       set_live_venue_id =
         (case env ''LIVE_VENUE'' of Some s \<Rightarrow> if s = [] then None else Some s | None \<Rightarrow> None)\<rparr>)"

subsection \<open>Modes, venue and tickers\<close>

datatype venue_state =
    VS_Disconnected | VS_Authenticating | VS_Connected | VS_Subscribed | VS_Reconnecting | VS_Error

datatype execution_mode = EM_Replay | EM_LiveManual | EM_LiveAuto

definition as_wire_str :: "execution_mode \<Rightarrow> str" where
  "as_wire_str m =
     (case m of EM_Replay \<Rightarrow> ''Replay'' | EM_LiveManual \<Rightarrow> ''LiveManual'' | EM_LiveAuto \<Rightarrow> ''LiveAuto'')"

record venue_status =
  vst_state :: venue_state
  vst_venue_id :: "str option"
  vst_instruments_loaded :: u32
  vst_configured_venue :: "str option"

datatype tickers_source =
    TS_Unknown | TS_LiveVenue | TS_LocalVenueSnapshot | TS_ReplayCatalogFallback

datatype tickers_status =
    TK_NotFetched | TK_InFlight | TK_PendingLiveUniverse | TK_Loaded | TK_Failed str

definition tickers_source_to_wire :: "tickers_source \<Rightarrow> str option" where
  "tickers_source_to_wire src =
     (case src of
        TS_Unknown \<Rightarrow> None
      | TS_ReplayCatalogFallback \<Rightarrow> Some ''local''
      | TS_LocalVenueSnapshot \<Rightarrow> Some ''local''
      | TS_LiveVenue \<Rightarrow> Some ''live'')"

definition is_venue_live :: "venue_state \<Rightarrow> bool" where
  "is_venue_live st \<longleftrightarrow> (case st of VS_Connected \<Rightarrow> True | VS_Subscribed \<Rightarrow> True | _ \<Rightarrow> False)"

definition is_venue_busy_for_menu :: "venue_state \<Rightarrow> bool" where
  "is_venue_busy_for_menu st \<longleftrightarrow>
     (case st of VS_Authenticating \<Rightarrow> True | VS_Connected \<Rightarrow> True | VS_Subscribed \<Rightarrow> True
      | VS_Reconnecting \<Rightarrow> True | VS_Error \<Rightarrow> True | VS_Disconnected \<Rightarrow> False)"

definition is_live_mode :: "execution_mode \<Rightarrow> bool" where
  "is_live_mode m \<longleftrightarrow> (case m of EM_LiveManual \<Rightarrow> True | EM_LiveAuto \<Rightarrow> True | EM_Replay \<Rightarrow> False)"

lemma venue_live_busy: "is_venue_live st \<Longrightarrow> is_venue_busy_for_menu st"
  by (cases st) (simp_all add: is_venue_live_def is_venue_busy_for_menu_def)

lemma is_live_mode_simps [simp]:
  "\<not> is_live_mode EM_Replay" "is_live_mode EM_LiveManual" "is_live_mode EM_LiveAuto"
  by (simp_all add: is_live_mode_def)

lemma is_venue_live_simps [simp]:
  "is_venue_live VS_Connected" "is_venue_live VS_Subscribed" "\<not> is_venue_live VS_Disconnected"
  "\<not> is_venue_live VS_Authenticating" "\<not> is_venue_live VS_Reconnecting" "\<not> is_venue_live VS_Error"
  by (simp_all add: is_venue_live_def)

record ticker =
  tk_id :: str
  tk_name :: str
  tk_market :: str

record tickers =
  tks_list :: "ticker list"
  tks_source :: tickers_source
  tks_status :: tickers_status

subsection \<open>Commands\<close>

record strategy_run_config =
  rc_instruments :: "str list"
  rc_start :: str
  rc_end :: str
  rc_granularity :: str
  rc_initial_cash :: "int option"

text \<open>\<open>RedactedSecret\<close>: the plaintext behind \<open>expose\<close>; its debug text is constant.\<close>

datatype redacted_secret = RedactedSecret (expose: str)

definition debug_secret :: "redacted_secret \<Rightarrow> str" where
  "debug_secret s = ''RedactedSecret(***)''"

datatype transport_command =
    TC_Pause
  | TC_Resume
  | TC_StepForward
  | TC_ForceStop
  | TC_SetSpeed u32
  | TC_RunStrategy path strategy_run_config u64
  | TC_LoadAndStep strategy_run_config u64
  | TC_RestartReplay strategy_run_config
  | TC_StartLiveAuto str str path
  | TC_FetchAvailableInstruments date
  | TC_SetExecutionMode execution_mode
  | TC_VenueLogin str str str
  | TC_VenueLogout
  | TC_ListInstruments tickers_source
  | TC_SubscribeMarketData str
  | TC_UnsubscribeMarketData str
  | TC_PlaceOrder str str str f64 "f64 option" str str "redacted_secret option"
  | TC_CancelOrder str str "redacted_secret option"
  | TC_ModifyOrder str str "f64 option" "f64 option" "redacted_secret option"
  | TC_SubmitSecret str redacted_secret
  | TC_GetOrders str
  | TC_GetOrdersAndReconcile str
  | TC_PauseLiveStrategy str
  | TC_ResumeLiveStrategy str
  | TC_StopLiveStrategy str
  | TC_ForceAccountSnapshot

text \<open>The optional channel to the transport task: the resource may be missing, and a send on a
  channel whose receiver is gone fails.\<close>

datatype link = NoSender | ClosedSender | OpenSender

definition link_send :: "link \<Rightarrow> transport_command \<Rightarrow> transport_command list" where
  "link_send l c = (if l = OpenSender then [c] else [])"

lemma link_send_open [simp]: "link_send OpenSender c = [c]"
  by (simp add: link_send_def)

subsection \<open>Runs, portfolio and instruments\<close>

record run_summary =
  sum_fills_count :: int
  sum_equity_points :: int
  sum_total_pnl :: f64
  sum_status :: str
  sum_max_drawdown :: f64
  sum_sharpe :: f64
  sum_sortino :: f64

definition parse_summary_json :: "(str \<Rightarrow> json option) \<Rightarrow> str \<Rightarrow> run_summary option" where
  "parse_summary_json parse txt =
     (case parse txt of
        None \<Rightarrow> None
      | Some v \<Rightarrow> Some
          \<lparr>sum_fills_count = unwrap_or 0 (as_i64 (json_index v ''fills_count'')),
           sum_equity_points = unwrap_or 0 (as_i64 (json_index v ''equity_points'')),
           sum_total_pnl = unwrap_or 0 (as_f64 (json_index v ''total_pnl'')),
           sum_status = unwrap_or ''unknown'' (as_str (json_index v ''status'')),
           sum_max_drawdown = unwrap_or 0 (as_f64 (json_index v ''max_drawdown'')),
           sum_sharpe = unwrap_or 0 (as_f64 (json_index v ''sharpe'')),
           sum_sortino = unwrap_or 0 (as_f64 (json_index v ''sortino''))\<rparr>)"

datatype run_state = RS_Idle | RS_Running | RS_Paused | RS_Stopped | RS_Completed | RS_Failed str

record current_run =
  cr_run_id :: "str option"
  cr_summary_json :: "str option"
  cr_parsed_summary :: "run_summary option"
  cr_state :: run_state
  cr_strategy_name :: str
  cr_started_ts_ms :: int
  cr_realized_pnl :: f64
  cr_unrealized_pnl :: f64
  cr_order_count :: int
  cr_fill_count :: int

text \<open>The instruments of each end date, the dates being fetched, and the last failure.\<close>

record available_instruments =
  ai_by_end_date :: "date \<Rightarrow> str list option"
  ai_in_flight :: "date list"
  ai_last_error :: "(date \<times> str) option"

definition code_to_instrument_id :: "str \<Rightarrow> str" where
  "code_to_instrument_id code = code @ ''.TSE''"

definition instrument_id_to_code :: "str \<Rightarrow> str" where
  "instrument_id_to_code i = before_dot i"

lemma instrument_code_roundtrip:
  assumes "CHR ''.'' \<notin> set code"
  shows "instrument_id_to_code (code_to_instrument_id code) = code"
proof -
  have "takeWhile (\<lambda>c. c \<noteq> CHR ''.'') (code @ ''.TSE'') = code"
    using assms by (induction code) auto
  then show ?thesis
    by (simp add: instrument_id_to_code_def code_to_instrument_id_def before_dot_def)
qed

record portfolio_position =
  pp_symbol :: str
  pp_qty :: int
  pp_avg_price :: f64
  pp_unrealized_pnl :: f64

record portfolio_order =
  po_symbol :: str
  po_side :: str
  po_qty :: f64
  po_price :: f64
  po_status :: str
  po_ts_ms :: int

record portfolio_state =
  pf_buying_power :: f64
  pf_cash :: f64
  pf_equity :: f64
  pf_positions :: "portfolio_position list"
  pf_orders :: "portfolio_order list"
  pf_loaded :: bool

definition portfolio_default :: portfolio_state where
  "portfolio_default =
     \<lparr>pf_buying_power = 0, pf_cash = 0, pf_equity = 0, pf_positions = [], pf_orders = [],
      pf_loaded = False\<rparr>"

subsection \<open>Live orders, prompts and toasts\<close>

record live_order =
  lo_client_order_id :: str
  lo_venue_order_id :: str
  lo_symbol :: str
  lo_side :: str
  lo_qty :: f64
  lo_price :: "f64 option"
  lo_status :: str
  lo_filled_qty :: f64
  lo_avg_price :: f64
  lo_ts_ms :: int
  lo_strategy_id :: str

definition live_order_default :: live_order where
  "live_order_default =
     \<lparr>lo_client_order_id = [], lo_venue_order_id = [], lo_symbol = [], lo_side = [], lo_qty = 0,
      lo_price = None, lo_status = [], lo_filled_qty = 0, lo_avg_price = 0, lo_ts_ms = 0,
      lo_strategy_id = []\<rparr>"

record secret_prompt_request =
  spr_request_id :: str
  spr_venue :: str
  spr_kind :: str
  spr_purpose :: str

record secret_prompt =
  sp_active :: "secret_prompt_request option"
  sp_error :: "str option"

definition secret_prompt_close :: "secret_prompt \<Rightarrow> secret_prompt" where
  "secret_prompt_close p = p\<lparr>sp_active := None, sp_error := None\<rparr>"

datatype toast_kind = TO_SafetyRail | TO_BackendError

record safety_toast_entry =
  ste_toast_kind :: toast_kind
  ste_run_id :: str
  ste_kind :: str
  ste_detail :: str
  ste_ts_ms :: int

text \<open>\<open>SafetyToast::show\<close>: the newer violation replaces the older one.\<close>

definition safety_toast_show ::
  "toast_kind \<Rightarrow> str \<Rightarrow> str \<Rightarrow> str \<Rightarrow> int \<Rightarrow> safety_toast_entry option \<Rightarrow> safety_toast_entry option" where
  "safety_toast_show k run_id kind detail ts t =
     Some \<lparr>ste_toast_kind = k, ste_run_id = run_id, ste_kind = kind, ste_detail = detail,
           ste_ts_ms = ts\<rparr>"

record strategy_log_line =
  sl_run_id :: str
  sl_level :: str
  sl_message :: str
  sl_ts_ms :: int

record reconcile_unknown_order =
  ru_client_order_id :: str
  ru_symbol :: str
  ru_status :: str

subsection \<open>Status updates and push events\<close>

datatype backend_startup_stage =
    ST_ResettingReplay | ST_LoadingData | ST_StartingStrategy | ST_WaitingForFirstTick

record account_position =
  ap_symbol :: str
  ap_qty :: int
  ap_avg_price :: f64
  ap_unrealized_pnl :: f64

text \<open>The order updates in the order of the source's fields: ids, static attributes, status,
  cumulative fill, average price, time, strategy.\<close>

datatype backend_status_update =
    SU_Connected bool
  | SU_Running bool
  | SU_Error str
  | SU_RunStarted
  | SU_ReplayStartup u64 backend_startup_stage
  | SU_RunComplete "u64 option" str str
  | SU_RunFailed "u64 option" str
  | SU_PortfolioLoaded f64 f64 f64 "portfolio_position list" "portfolio_order list"
  | SU_AvailableInstrumentsLoaded date "str list"
  | SU_AvailableInstrumentsFetchFailed date str
  | SU_VenueChanged venue_state "str option" u32
  | SU_ExecutionModeChanged execution_mode
  | SU_InstrumentsListStarted tickers_source
  | SU_InstrumentsListed tickers_source "ticker list"
  | SU_InstrumentsListFailed tickers_source str
  | SU_LastPricesUpdated "f64 smap"
  | SU_ConfiguredVenueDiscovered "str option"
  | SU_OrderSeeded str str str str f64 "f64 option" str f64 f64 int str
  | SU_OrderStatusUpdated str str str f64 f64 int
  | SU_OrderModified str str "f64 option" "f64 option" str f64 f64 int
  | SU_OrderRejected str str
  | SU_SecretSubmitFailed str
  | SU_OrderNotice str
  | SU_OrdersReconciled "str list"
  | SU_OrdersSeeded "live_order list"
  | SU_ReplayStateChanged str

datatype backend_event =
    BE_SecretRequired str str str str
  | BE_OrderEvent str str str str f64 f64 int str
  | BE_AccountEvent f64 f64 "account_position list" int
  | BE_VenueLogoutDetected str
  | BE_LiveStrategyEvent str str str int
  | BE_SafetyRailViolation str str str int
  | BE_StrategyLogMessage str str str int
  | BE_LiveStrategyTelemetry str str f64 f64 int int int
  | BE_BackendError str str int

end
