(* ===== verification/Orders.thy ===== *)
theory Orders
  imports Trading
begin

text \<open>
  The live order book of \<open>src/trading.rs\<close>: \<open>LiveOrders\<close> with its operations, the
  strategy filter of the orders panel, the strategy log ring and the reconciliation after a
  restart. The theorems: the book stays within its bound with one row per client order id; a
  recorded fill never goes down; an order that is settled stays settled; the operations refine
  updates of a map from client order ids; the filter cycles through all its options; the log
  holds exactly the last hundred lines; reconciliation reports exactly the working rows the
  backend does not track.
\<close>

type_synonym live_orders = "live_order list"

definition MAX_LIVE_ORDERS :: nat where "MAX_LIVE_ORDERS = 64"

definition MANUAL_STRATEGY_ID :: str where "MANUAL_STRATEGY_ID = ''MANUAL-001''"

subsection \<open>Operations\<close>

definition advance_fill :: "f64 \<Rightarrow> f64 \<Rightarrow> live_order \<Rightarrow> live_order" where
  "advance_fill filled avg r =
     (if lo_filled_qty r \<le> filled then r\<lparr>lo_filled_qty := filled, lo_avg_price := avg\<rparr> else r)"

definition is_terminal_order_status :: "str \<Rightarrow> bool" where
  "is_terminal_order_status st \<longleftrightarrow>
     st = ''FILLED'' \<or> st = ''CANCELED'' \<or> st = ''REJECTED'' \<or> st = ''EXPIRED'' \<or> st = ''DENIED''"

definition has_id :: "str \<Rightarrow> live_order \<Rightarrow> bool" where
  "has_id c r \<longleftrightarrow> lo_client_order_id r = c"

definition insert_front :: "live_order \<Rightarrow> live_orders \<Rightarrow> live_orders" where
  "insert_front r b = push_front_cap MAX_LIVE_ORDERS r b"

definition upsert_full :: "live_order \<Rightarrow> live_orders \<Rightarrow> live_orders" where
  "upsert_full r b =
     (if list_ex (has_id (lo_client_order_id r)) b
      then upd_first (has_id (lo_client_order_id r)) (\<lambda>_. r) b
      else insert_front r b)"

definition keep_unless :: "str \<Rightarrow> str \<Rightarrow> str" where
  "keep_unless new old = (if new \<noteq> [] then new else old)"

definition event_merge ::
  "str \<Rightarrow> str \<Rightarrow> f64 \<Rightarrow> f64 \<Rightarrow> int \<Rightarrow> str \<Rightarrow> live_order \<Rightarrow> live_order" where
  "event_merge vo st filled avg ts sid r =
     (advance_fill filled avg
        (r\<lparr>lo_venue_order_id := keep_unless vo (lo_venue_order_id r),
           lo_strategy_id := keep_unless sid (lo_strategy_id r),
           lo_status := st\<rparr>))\<lparr>lo_ts_ms := ts\<rparr>"

definition apply_event ::
  "str \<Rightarrow> str \<Rightarrow> str \<Rightarrow> f64 \<Rightarrow> f64 \<Rightarrow> int \<Rightarrow> str \<Rightarrow> live_orders \<Rightarrow> live_orders" where
  "apply_event co vo st filled avg ts sid b =
     (if list_ex (has_id co) b
      then upd_first (has_id co) (event_merge vo st filled avg ts sid) b
      else insert_front
        (live_order_default\<lparr>lo_client_order_id := co, lo_venue_order_id := vo, lo_status := st,
           lo_filled_qty := filled, lo_avg_price := avg, lo_ts_ms := ts, lo_strategy_id := sid\<rparr>) b)"

definition modify_merge ::
  "str \<Rightarrow> f64 option \<Rightarrow> f64 option \<Rightarrow> str \<Rightarrow> f64 \<Rightarrow> f64 \<Rightarrow> int \<Rightarrow> live_order \<Rightarrow> live_order" where
  "modify_merge vo new_qty new_price st filled avg ts r =
     (advance_fill filled avg
        (r\<lparr>lo_venue_order_id := keep_unless vo (lo_venue_order_id r),
           lo_qty := (case new_qty of Some q \<Rightarrow> q | None \<Rightarrow> lo_qty r),
           lo_price := (case new_price of Some p \<Rightarrow> Some p | None \<Rightarrow> lo_price r),
           lo_status := st\<rparr>))\<lparr>lo_ts_ms := ts\<rparr>"

text \<open>A modification of an unknown order does nothing.\<close>

definition apply_modify ::
  "str \<Rightarrow> str \<Rightarrow> f64 option \<Rightarrow> f64 option \<Rightarrow> str \<Rightarrow> f64 \<Rightarrow> f64 \<Rightarrow> int \<Rightarrow> live_orders \<Rightarrow> live_orders" where
  "apply_modify co vo new_qty new_price st filled avg ts b =
     upd_first (has_id co) (modify_merge vo new_qty new_price st filled avg ts) b"

text \<open>The matching key of a snapshot row: its client order id, or its venue order id when it has
  no client order id.\<close>

definition seed_matches :: "live_order \<Rightarrow> live_order \<Rightarrow> bool" where
  "seed_matches seed r \<longleftrightarrow>
     (if lo_client_order_id seed \<noteq> [] then lo_client_order_id r = lo_client_order_id seed
      else lo_venue_order_id seed \<noteq> [] \<and> lo_venue_order_id r = lo_venue_order_id seed)"

text \<open>The status is refreshed unless the row is settled, the fill advances, ids given by the
  snapshot win, and the static attributes are filled in only where they are empty or zero; the
  price of a row matched by client order id is overwritten when the snapshot has one.\<close>

definition seed_merge :: "live_order \<Rightarrow> live_order \<Rightarrow> live_order" where
  "seed_merge seed r =
     (advance_fill (lo_filled_qty seed) (lo_avg_price seed)
        (r\<lparr>lo_status := (if is_terminal_order_status (lo_status r) then lo_status r else lo_status seed)\<rparr>))
       \<lparr>lo_ts_ms := lo_ts_ms seed,
        lo_venue_order_id := keep_unless (lo_venue_order_id seed) (lo_venue_order_id r),
        lo_strategy_id := keep_unless (lo_strategy_id seed) (lo_strategy_id r),
        lo_symbol := (if lo_symbol r = [] then lo_symbol seed else lo_symbol r),
        lo_side := (if lo_side r = [] then lo_side seed else lo_side r),
        lo_qty := (if f64_eq (lo_qty r) 0 then lo_qty seed else lo_qty r),
        lo_price := (if lo_client_order_id seed \<noteq> [] \<and> lo_price seed \<noteq> None then lo_price seed
                     else if lo_price r = None then lo_price seed else lo_price r)\<rparr>"

definition seed_working :: "live_order \<Rightarrow> live_orders \<Rightarrow> live_orders" where
  "seed_working seed b =
     (if list_ex (seed_matches seed) b then upd_first (seed_matches seed) (seed_merge seed) b
      else insert_front seed b)"

subsection \<open>The filter\<close>

datatype orders_filter = OF_All | OF_Manual | OF_Strategy str

definition order_matches_filter :: "str \<Rightarrow> orders_filter \<Rightarrow> bool" where
  "order_matches_filter sid f \<longleftrightarrow>
     (case f of OF_All \<Rightarrow> True | OF_Manual \<Rightarrow> sid = MANUAL_STRATEGY_ID | OF_Strategy s \<Rightarrow> sid = s)"

definition filtered :: "orders_filter \<Rightarrow> live_orders \<Rightarrow> live_order list" where
  "filtered f b = filter (\<lambda>r. order_matches_filter (lo_strategy_id r) f) b"

text \<open>The iterator \<open>filter(p).nth(n)\<close>, one element at a time.\<close>

fun nth_matching :: "('a \<Rightarrow> bool) \<Rightarrow> nat \<Rightarrow> 'a list \<Rightarrow> 'a option" where
  "nth_matching p n [] = None"
| "nth_matching p n (x # xs) =
     (if p x then (case n of 0 \<Rightarrow> Some x | Suc m \<Rightarrow> nth_matching p m xs) else nth_matching p n xs)"

definition nth_filtered :: "orders_filter \<Rightarrow> nat \<Rightarrow> live_orders \<Rightarrow> live_order option" where
  "nth_filtered f n b = nth_matching (\<lambda>r. order_matches_filter (lo_strategy_id r) f) n b"

fun distinct_ids_loop :: "str list \<Rightarrow> live_orders \<Rightarrow> str list" where
  "distinct_ids_loop seen [] = seen"
| "distinct_ids_loop seen (r # os) =
     distinct_ids_loop
       (if lo_strategy_id r \<noteq> [] \<and> lo_strategy_id r \<notin> set seen then seen @ [lo_strategy_id r] else seen) os"

definition distinct_strategy_ids :: "live_orders \<Rightarrow> str list" where
  "distinct_strategy_ids b = distinct_ids_loop [] b"

definition filter_cycle :: "live_orders \<Rightarrow> orders_filter list" where
  "filter_cycle b =
     (let ids = distinct_strategy_ids b in
      [OF_All] @ (if list_ex (\<lambda>s. s = MANUAL_STRATEGY_ID) ids then [OF_Manual] else []) @
      map OF_Strategy (filter (\<lambda>s. s \<noteq> MANUAL_STRATEGY_ID) ids))"

definition next_filter :: "orders_filter \<Rightarrow> live_orders \<Rightarrow> orders_filter" where
  "next_filter current b =
     (let c = filter_cycle b in
      case position (\<lambda>f. f = current) c of
        Some i \<Rightarrow> c ! ((i + 1) mod length c)
      | None \<Rightarrow> (if 1 < length c then c ! 1 else OF_All))"

definition short_id :: "str \<Rightarrow> nat \<Rightarrow> str" where
  "short_id i n =
     (let count = chars_count i in
      if count \<le> n then i else utf8 [0xE2, 0x80, 0xA6] @ concat (drop (count - n) (utf8_chars i)))"

definition filter_label :: "orders_filter \<Rightarrow> str" where
  "filter_label f =
     (case f of OF_All \<Rightarrow> ''All'' | OF_Manual \<Rightarrow> ''Manual''
      | OF_Strategy s \<Rightarrow> ''Strategy: '' @ short_id s 8)"

subsection \<open>The strategy log ring\<close>

definition LOG_CAP :: nat where "LOG_CAP = 100"

text \<open>\<open>StrategyLogs::push\<close>: append, then drop from the front while above the cap.\<close>

function drop_front_to :: "nat \<Rightarrow> 'a list \<Rightarrow> 'a list" where
  "drop_front_to n xs = (if n < length xs then drop_front_to n (tl xs) else xs)"
  by pat_completeness auto
termination by (relation "measure (\<lambda>(n, xs). length xs)") auto

declare drop_front_to.simps [simp del]

definition strategy_logs_push :: "strategy_log_line \<Rightarrow> strategy_log_line list \<Rightarrow> strategy_log_line list" where
  "strategy_logs_push l ls = drop_front_to LOG_CAP (ls @ [l])"

definition strategy_logs_recent :: "nat \<Rightarrow> strategy_log_line list \<Rightarrow> strategy_log_line list" where
  "strategy_logs_recent n ls = drop (length ls - n) ls"

subsection \<open>Reconciliation\<close>

definition reconcile_unknown_orders :: "live_orders \<Rightarrow> str list \<Rightarrow> reconcile_unknown_order list" where
  "reconcile_unknown_orders b ids =
     (let backend_ids = filter (\<lambda>i. i \<noteq> []) ids in
      map (\<lambda>r. \<lparr>ru_client_order_id = lo_client_order_id r, ru_symbol = lo_symbol r, ru_status = lo_status r\<rparr>)
        (filter (\<lambda>r. lo_client_order_id r \<notin> set backend_ids)
          (filter (\<lambda>r. \<not> is_terminal_order_status (lo_status r)) b)))"

text \<open>The notice says: fetching the orders from the venue failed, with the code in brackets;
  check the order state at the venue.\<close>

definition get_orders_notice :: "str \<Rightarrow> backend_status_update option" where
  "get_orders_notice error_code =
     (if error_code = [] then None
      else Some (SU_OrderNotice
        (''venue '' @ utf8 [0xE3, 0x81, 0xAE, 0xE6, 0xB3, 0xA8, 0xE6, 0x96, 0x87, 0xE5,
         0x8F, 0x96, 0xE5, 0xBE, 0x97, 0xE3, 0x81, 0xAB, 0xE5, 0xA4, 0xB1, 0xE6, 0x95, 0x97,
         0xE3, 0x81, 0x97, 0xE3, 0x81, 0xBE, 0xE3, 0x81, 0x97, 0xE3, 0x81, 0x9F, 0xEF, 0xBC,
         0x88] @
         error_code @
         utf8 [0xEF, 0xBC, 0x89, 0xE2, 0x80, 0x94] @ '' venue '' @ utf8 [0xE3, 0x81, 0xA7,
         0xE6, 0xB3, 0xA8, 0xE6, 0x96, 0x87, 0xE7, 0x8A, 0xB6, 0xE6, 0x85, 0x8B, 0xE3, 0x82,
         0x92, 0xE7, 0xA2, 0xBA, 0xE8, 0xAA, 0x8D, 0xE3, 0x81, 0x97, 0xE3, 0x81, 0xA6, 0xE3,
         0x81, 0x8F, 0xE3, 0x81, 0xA0, 0xE3, 0x81, 0x95, 0xE3, 0x81, 0x84])))"

definition reconcile_ids_for_seed :: "live_orders \<Rightarrow> bool \<Rightarrow> str list option" where
  "reconcile_ids_for_seed seeded rec =
     (if \<not> rec then None else Some (filter (\<lambda>i. i \<noteq> []) (map lo_client_order_id seeded)))"

section \<open>The order book\<close>

subsection \<open>One row per client order id, at most 64 rows\<close>

definition book_ids :: "live_orders \<Rightarrow> str list" where
  "book_ids b = filter (\<lambda>i. i \<noteq> []) (map lo_client_order_id b)"

definition book_ok :: "live_orders \<Rightarrow> bool" where
  "book_ok b \<longleftrightarrow> length b \<le> MAX_LIVE_ORDERS \<and> distinct (book_ids b)"

datatype order_op =
    OP_Upsert live_order
  | OP_Event str str str f64 f64 int str
  | OP_Modify str str "f64 option" "f64 option" str f64 f64 int
  | OP_Seed live_order

fun apply_op :: "order_op \<Rightarrow> live_orders \<Rightarrow> live_orders" where
  "apply_op (OP_Upsert r) b = upsert_full r b"
| "apply_op (OP_Event co vo st filled avg ts sid) b = apply_event co vo st filled avg ts sid b"
| "apply_op (OP_Modify co vo q p st filled avg ts) b = apply_modify co vo q p st filled avg ts b"
| "apply_op (OP_Seed r) b = seed_working r b"

lemma advance_fill_fields [simp]:
  "lo_client_order_id (advance_fill f a r) = lo_client_order_id r"
  "lo_venue_order_id (advance_fill f a r) = lo_venue_order_id r"
  "lo_symbol (advance_fill f a r) = lo_symbol r"
  "lo_side (advance_fill f a r) = lo_side r"
  "lo_qty (advance_fill f a r) = lo_qty r"
  "lo_price (advance_fill f a r) = lo_price r"
  "lo_status (advance_fill f a r) = lo_status r"
  "lo_ts_ms (advance_fill f a r) = lo_ts_ms r"
  "lo_strategy_id (advance_fill f a r) = lo_strategy_id r"
  by (simp_all add: advance_fill_def)

lemma merge_keeps_id [simp]:
  "lo_client_order_id (event_merge vo st f a ts sid r) = lo_client_order_id r"
  "lo_client_order_id (modify_merge vo q p st f a ts r) = lo_client_order_id r"
  "lo_client_order_id (seed_merge s r) = lo_client_order_id r"
  by (simp_all add: event_merge_def modify_merge_def seed_merge_def Let_def split: option.split)

lemma book_ids_upd_first:
  "(\<And>r. p r \<Longrightarrow> lo_client_order_id (f r) = lo_client_order_id r) \<Longrightarrow>
   book_ids (upd_first p f b) = book_ids b"
  by (simp add: book_ids_def map_upd_first)

lemma book_ok_upd_first:
  "(\<And>r. p r \<Longrightarrow> lo_client_order_id (f r) = lo_client_order_id r) \<Longrightarrow>
   book_ok (upd_first p f b) = book_ok b"
  by (simp add: book_ok_def book_ids_upd_first)

lemma not_has_id: "\<not> list_ex (has_id c) b \<longleftrightarrow> c \<notin> lo_client_order_id ` set b"
  by (auto simp: list_ex_iff has_id_def)

lemma book_ok_insert_front:
  assumes "book_ok b" and "lo_client_order_id r \<noteq> [] \<Longrightarrow> \<not> list_ex (has_id (lo_client_order_id r)) b"
  shows "book_ok (insert_front r b)"
  unfolding book_ok_def
proof
  show "length (insert_front r b) \<le> MAX_LIVE_ORDERS"
    by (simp add: insert_front_def length_push_front_cap)
  show "distinct (book_ids (insert_front r b))"
    unfolding book_ids_def insert_front_def
    by (rule distinct_filter_push_front)
      (use assms in \<open>auto simp: book_ok_def book_ids_def not_has_id\<close>)
qed

lemma book_ok_apply_op: "book_ok b \<Longrightarrow> book_ok (apply_op e b)"
proof (cases e)
  case (OP_Upsert r)
  have "book_ok (upd_first (has_id (lo_client_order_id r)) (\<lambda>_. r) b) = book_ok b"
    by (rule book_ok_upd_first) (simp add: has_id_def)
  with OP_Upsert show "book_ok b \<Longrightarrow> ?thesis"
    by (auto simp: upsert_full_def intro!: book_ok_insert_front)
next
  case (OP_Event co vo st filled avg ts sid)
  then show "book_ok b \<Longrightarrow> ?thesis"
    by (auto simp: apply_event_def book_ok_upd_first intro!: book_ok_insert_front)
next
  case (OP_Modify co vo q p st filled avg ts)
  then show "book_ok b \<Longrightarrow> ?thesis"
    by (simp add: apply_modify_def book_ok_upd_first)
next
  case (OP_Seed r)
  then show "book_ok b \<Longrightarrow> ?thesis"
    by (auto simp: seed_working_def book_ok_upd_first seed_matches_def [abs_def] has_id_def [abs_def]
        intro!: book_ok_insert_front)
qed

interpretation order_book: invariant_system apply_op book_ok
  by unfold_locales (rule book_ok_apply_op)

text \<open>C7: whatever operations run, from the empty book on: at most 64 rows, and no two
  rows with the same client order id.\<close>

theorem order_book_invariant:
  "let b = fold apply_op es [] in length b \<le> 64 \<and> distinct (filter (\<lambda>i. i \<noteq> []) (map lo_client_order_id b))"
proof -
  have "book_ok (fold apply_op es [])"
    by (rule order_book.run_inv) (simp add: book_ok_def book_ids_def MAX_LIVE_ORDERS_def)
  then show ?thesis by (simp add: book_ok_def book_ids_def MAX_LIVE_ORDERS_def Let_def)
qed

subsection \<open>A recorded fill never goes down, a settled order stays settled\<close>

lemma find_upd_first_either:
  "(\<And>x. p x \<Longrightarrow> q (f x) = q x) \<Longrightarrow>
   List.find q (upd_first p f xs) = List.find q xs \<or>
   List.find q (upd_first p f xs) = map_option f (List.find q xs)"
  by (induction xs) auto

lemma find_insert_front:
  "length b < MAX_LIVE_ORDERS \<Longrightarrow>
   List.find q (insert_front r b) = (if q r then Some r else List.find q b)"
  by (simp add: insert_front_def push_front_cap_def)

lemma find_none_not_ex: "\<not> list_ex p b \<Longrightarrow> List.find p b = None"
  by (simp add: list_ex_find)

lemma length_apply_op: "length (apply_op e b) \<le> Suc (length b)"
  by (cases e) (simp_all add: upsert_full_def apply_event_def apply_modify_def seed_working_def
      insert_front_def push_front_cap_def)

text \<open>What one operation does to the row of one client order id, when the book has room: it
  stays, it is merged, or it appears.\<close>

fun replaces :: "str \<Rightarrow> order_op \<Rightarrow> bool" where
  "replaces c (OP_Upsert r) = (lo_client_order_id r = c)"
| "replaces c e = False"

fun op_merge :: "order_op \<Rightarrow> live_order \<Rightarrow> live_order" where
  "op_merge (OP_Upsert r) = (\<lambda>_. r)"
| "op_merge (OP_Event co vo st filled avg ts sid) = event_merge vo st filled avg ts sid"
| "op_merge (OP_Modify co vo q p st filled avg ts) = modify_merge vo q p st filled avg ts"
| "op_merge (OP_Seed r) = seed_merge r"

lemma find_apply_op:
  assumes "length b < MAX_LIVE_ORDERS" and "\<not> replaces c e" and "List.find (has_id c) b = Some r"
    and "c \<noteq> []"
  shows "List.find (has_id c) (apply_op e b) = Some r \<or>
         List.find (has_id c) (apply_op e b) = Some (op_merge e r)"
proof (cases e)
  case (OP_Upsert s)
  with assms(2) have n: "lo_client_order_id s \<noteq> c" by simp
  have "List.find (has_id c) (upd_first (has_id (lo_client_order_id s)) (\<lambda>_. s) b) = Some r"
    using n assms(3) by (subst find_upd_first_other) (auto simp: has_id_def)
  with OP_Upsert n assms show ?thesis
    by (simp add: upsert_full_def find_insert_front has_id_def)
next
  case (OP_Event co vo st filled avg ts sid)
  have "list_ex (has_id co) b" if "has_id c (live_order_default\<lparr>lo_client_order_id := co,
      lo_venue_order_id := vo, lo_status := st, lo_filled_qty := filled, lo_avg_price := avg,
      lo_ts_ms := ts, lo_strategy_id := sid\<rparr>)"
    using that assms(3) by (simp add: has_id_def [of c] list_ex_find)
  with OP_Event assms show ?thesis
    using find_upd_first_either [of "has_id co" "has_id c" "event_merge vo st filled avg ts sid" b]
    by (auto simp: apply_event_def find_insert_front has_id_def [of c])
next
  case (OP_Modify co vo q p st filled avg ts)
  with assms show ?thesis
    using find_upd_first_either [of "has_id co" "has_id c" "modify_merge vo q p st filled avg ts" b]
    by (auto simp: apply_modify_def has_id_def [of c])
next
  case (OP_Seed s)
  have "list_ex (seed_matches s) b" if "has_id c s" "c \<noteq> []"
    using that find_some_in [OF assms(3)] by (auto simp: list_ex_iff seed_matches_def has_id_def)
  with OP_Seed assms show ?thesis
    using find_upd_first_either [of "seed_matches s" "has_id c" "seed_merge s" b]
    by (auto simp: seed_working_def find_insert_front has_id_def [of c])
qed


definition has_room :: "str \<Rightarrow> order_op \<Rightarrow> live_orders \<Rightarrow> bool" where
  "has_room c e b \<longleftrightarrow> c \<noteq> [] \<and> length b < MAX_LIVE_ORDERS \<and> \<not> replaces c e"

lemma admissible_has_room:
  "c \<noteq> [] \<Longrightarrow> length b + length es \<le> MAX_LIVE_ORDERS \<Longrightarrow> list_all (\<lambda>e. \<not> replaces c e) es \<Longrightarrow>
   admissible_run apply_op (has_room c) es b"
proof (induction es arbitrary: b)
  case (Cons e es)
  then show ?case
    using length_apply_op [of e b] by (auto simp: has_room_def intro!: Cons.IH)
qed simp

definition tracked_fill :: "str \<Rightarrow> live_orders \<Rightarrow> f64 option" where
  "tracked_fill c b = map_option lo_filled_qty (List.find (has_id c) b)"

definition fill_le :: "f64 option \<Rightarrow> f64 option \<Rightarrow> bool" where
  "fill_le x y \<longleftrightarrow>
     (case x of None \<Rightarrow> True
      | Some p \<Rightarrow> (case y of None \<Rightarrow> False | Some q \<Rightarrow> p = q \<or> p \<le> q))"

lemma advance_fill_filled [simp]:
  "lo_filled_qty (advance_fill f a r) = (if lo_filled_qty r \<le> f then f else lo_filled_qty r)"
  by (simp add: advance_fill_def)

lemma op_merge_fill:
  "(\<And>s. e \<noteq> OP_Upsert s) \<Longrightarrow>
   lo_filled_qty (op_merge e r) = lo_filled_qty r \<or> lo_filled_qty r \<le> lo_filled_qty (op_merge e r)"
  by (cases e) (auto simp: event_merge_def modify_merge_def seed_merge_def)

lemma find_apply_upsert_other:
  assumes "List.find (has_id c) b = Some r" and "length b < MAX_LIVE_ORDERS" "lo_client_order_id s \<noteq> c"
  shows "List.find (has_id c) (apply_op (OP_Upsert s) b) = Some r"
proof -
  have "List.find (has_id c) (upd_first (has_id (lo_client_order_id s)) (\<lambda>_. s) b) = Some r"
    using assms by (subst find_upd_first_other) (auto simp: has_id_def)
  with assms show ?thesis by (simp add: upsert_full_def find_insert_front has_id_def)
qed

interpretation fill_book: monotone_system apply_op book_ok "has_room c" "tracked_fill c" fill_le
proof
  show "fill_le x x" for x by (simp add: fill_le_def split: option.split)
  show "fill_le x z" if "fill_le x y" "fill_le y z" for x y z
    using that by (auto simp: fill_le_def split: option.splits intro: f64_le_trans)
  show "fill_le (tracked_fill c b) (tracked_fill c (apply_op e b))" if "has_room c e b" for e b
  proof (cases "List.find (has_id c) b")
    case (Some r)
    show ?thesis
    proof (cases "\<exists>s. e = OP_Upsert s")
      case True
      with Some that show ?thesis
        by (auto simp: has_room_def tracked_fill_def fill_le_def find_apply_upsert_other
            simp del: apply_op.simps)
    next
      case False
      then show ?thesis
        using find_apply_op [of b c e r] op_merge_fill [of e r] Some that
        by (auto simp: has_room_def tracked_fill_def fill_le_def)
    qed
  qed (simp add: tracked_fill_def fill_le_def)
qed

text \<open>C5: As long as the rows of the book and the events together are at most 64, so that no row is evicted,
  the cumulative fill recorded for an order with an id never goes down, whatever events, modifications
  and snapshot rows arrive in whatever order, among them full records of other orders; a full record
  for the same id, which replaces the row, is excluded.\<close>

theorem fill_never_decreases:
  assumes "book_ok b" and "c \<noteq> []" and "length b + length es \<le> 64"
    and "list_all (\<lambda>e. \<not> replaces c e) es"
    and "List.find (has_id c) b = Some r"
  shows "\<exists>r'. List.find (has_id c) (fold apply_op es b) = Some r' \<and>
    (lo_filled_qty r = lo_filled_qty r' \<or> lo_filled_qty r \<le> lo_filled_qty r')"
proof -
  have "admissible_run apply_op (has_room c) es b"
    using assms by (intro admissible_has_room) (simp_all add: MAX_LIVE_ORDERS_def)
  from fill_book.run_mono [OF assms(1) this] assms(5) show ?thesis
    by (auto simp: fill_le_def tracked_fill_def split: option.splits)
qed

definition is_seed :: "order_op \<Rightarrow> bool" where
  "is_seed e \<longleftrightarrow> (case e of OP_Seed s \<Rightarrow> True | _ \<Rightarrow> False)"

definition seed_room :: "str \<Rightarrow> order_op \<Rightarrow> live_orders \<Rightarrow> bool" where
  "seed_room c e b \<longleftrightarrow> has_room c e b \<and> is_seed e"

definition tracked_status :: "str \<Rightarrow> live_orders \<Rightarrow> str option" where
  "tracked_status c b = map_option lo_status (List.find (has_id c) b)"

definition settled_le :: "str option \<Rightarrow> str option \<Rightarrow> bool" where
  "settled_le x y \<longleftrightarrow> (case x of None \<Rightarrow> True | Some s \<Rightarrow> is_terminal_order_status s \<longrightarrow> y = Some s)"

interpretation settled_book: monotone_system apply_op book_ok "seed_room c" "tracked_status c" settled_le
proof
  show "settled_le x x" for x by (simp add: settled_le_def split: option.split)
  show "settled_le x z" if "settled_le x y" "settled_le y z" for x y z
    using that by (auto simp: settled_le_def split: option.splits)
  show "settled_le (tracked_status c b) (tracked_status c (apply_op e b))" if "seed_room c e b" for e b
  proof (cases "List.find (has_id c) b")
    case (Some r)
    from that obtain s where e: "e = OP_Seed s"
      by (auto simp: seed_room_def is_seed_def split: order_op.splits)
    have "is_terminal_order_status (lo_status r) \<Longrightarrow> lo_status (op_merge e r) = lo_status r"
      by (simp add: e seed_merge_def)
    then show ?thesis
      using find_apply_op [of b c e r] Some that
      by (auto simp: seed_room_def has_room_def tracked_status_def settled_le_def)
  qed (simp add: tracked_status_def settled_le_def)
qed

lemma seed_run_admissible:
  "admissible_run apply_op (has_room c) es b \<Longrightarrow> list_all is_seed es \<Longrightarrow>
   admissible_run apply_op (seed_room c) es b"
  by (induction es arbitrary: b) (auto simp: seed_room_def)

text \<open>An order the book knows as settled (filled, cancelled, rejected, expired, denied)
  keeps its status whatever snapshot rows of a late \<open>GetOrders\<close> answer are merged in.\<close>

theorem settled_order_not_revived:
  assumes "book_ok b" and "c \<noteq> []" and "length b + length seeds \<le> 64"
    and "List.find (has_id c) b = Some r" and "is_terminal_order_status (lo_status r)"
  shows "map_option lo_status (List.find (has_id c) (fold apply_op (map OP_Seed seeds) b)) = Some (lo_status r)"
proof -
  have all: "list_all (\<lambda>e. \<not> replaces c e) (map OP_Seed seeds)" "list_all is_seed (map OP_Seed seeds)"
    by (simp_all add: list_all_iff is_seed_def)
  have "admissible_run apply_op (seed_room c) (map OP_Seed seeds) b"
    using assms all by (intro seed_run_admissible admissible_has_room) (simp_all add: MAX_LIVE_ORDERS_def)
  from settled_book.run_mono [OF assms(1) this] assms(4,5) show ?thesis
    by (auto simp: settled_le_def tracked_status_def)
qed

subsection \<open>The operations as updates of a map\<close>

text \<open>The abstract book: a map from client order ids to rows. A row without a client order id
  (a row known only to the venue) is not in it.\<close>

definition book_map :: "live_orders \<Rightarrow> str \<Rightarrow> live_order option" where
  "book_map b c = (if c = [] then None else List.find (has_id c) b)"

fun op_key :: "order_op \<Rightarrow> str" where
  "op_key (OP_Upsert r) = lo_client_order_id r"
| "op_key (OP_Event co vo st filled avg ts sid) = co"
| "op_key (OP_Modify co vo q p st filled avg ts) = co"
| "op_key (OP_Seed r) = lo_client_order_id r"

fun op_fresh :: "order_op \<Rightarrow> live_order option" where
  "op_fresh (OP_Upsert r) = Some r"
| "op_fresh (OP_Event co vo st filled avg ts sid) = Some (live_order_default\<lparr>lo_client_order_id := co,
     lo_venue_order_id := vo, lo_status := st, lo_filled_qty := filled, lo_avg_price := avg,
     lo_ts_ms := ts, lo_strategy_id := sid\<rparr>)"
| "op_fresh (OP_Modify co vo q p st filled avg ts) = None"
| "op_fresh (OP_Seed r) = Some r"

definition spec_op :: "order_op \<Rightarrow> (str \<Rightarrow> live_order option) \<Rightarrow> str \<Rightarrow> live_order option" where
  "spec_op e m =
     m(op_key e := (case m (op_key e) of Some r \<Rightarrow> Some (op_merge e r) | None \<Rightarrow> op_fresh e))"

lemma find_upd_id:
  assumes "\<And>r. has_id k r \<Longrightarrow> has_id k (f r)"
  shows "List.find (has_id c) (upd_first (has_id k) f b) =
    (if c = k then map_option f (List.find (has_id c) b) else List.find (has_id c) b)"
proof (cases "c = k")
  case True
  with assms show ?thesis by (simp add: find_upd_first_same)
next
  case False
  with assms show ?thesis by (simp, intro find_upd_first_other) (auto simp: has_id_def)
qed

lemma seed_matches_id: "lo_client_order_id s \<noteq> [] \<Longrightarrow> seed_matches s = has_id (lo_client_order_id s)"
  by (simp add: seed_matches_def [abs_def] has_id_def [abs_def])

lemma op_fresh_id: "op_fresh e = Some r \<Longrightarrow> has_id (op_key e) r"
  by (cases e) (auto simp: has_id_def)

lemma op_merge_id: "has_id (op_key e) r \<Longrightarrow> has_id (op_key e) (op_merge e r)"
  by (cases e) (auto simp: has_id_def)

lemma apply_op_uniform:
  assumes "op_key e \<noteq> []"
  shows "apply_op e b =
    (if list_ex (has_id (op_key e)) b then upd_first (has_id (op_key e)) (op_merge e) b
     else case op_fresh e of Some r \<Rightarrow> insert_front r b | None \<Rightarrow> b)"
  using assms
  by (cases e) (simp_all add: upsert_full_def apply_event_def apply_modify_def seed_working_def
      seed_matches_id upd_first_none)

text \<open>C1: while the book has room, an operation on an order with a client order id is exactly
  the update of that one entry of the map: merged when the order is known, inserted (or, for a
  modification, ignored) when it is not. Every other order is left as it is.\<close>

theorem order_op_refines_map:
  assumes "length b < 64" and "op_key e \<noteq> []"
  shows "book_map (apply_op e b) = spec_op e (book_map b)"
proof
  fix c
  show "book_map (apply_op e b) c = spec_op e (book_map b) c"
  proof (cases "list_ex (has_id (op_key e)) b")
    case True
    then obtain r where "List.find (has_id (op_key e)) b = Some r" by (auto simp: list_ex_find)
    with True assms show ?thesis
      by (simp add: apply_op_uniform book_map_def spec_op_def find_upd_id op_merge_id)
  next
    case False
    then have "List.find (has_id (op_key e)) b = None" by (simp add: list_ex_find)
    moreover have "\<not> has_id c r" if "op_fresh e = Some r" "c \<noteq> op_key e" for r
      using op_fresh_id [OF that(1)] that(2) by (simp add: has_id_def)
    ultimately show ?thesis
      using False assms op_fresh_id [of e]
      by (auto simp: apply_op_uniform book_map_def spec_op_def find_insert_front MAX_LIVE_ORDERS_def
          split: option.split)
  qed
qed

text \<open>An event whose venue order id and strategy id are empty leaves both ids of every row
  as they were, and no event changes the static attributes of a known order.\<close>

theorem event_keeps_ids_and_statics:
  assumes "list_ex (has_id co) b"
  shows "map (\<lambda>r. (lo_venue_order_id r, lo_strategy_id r)) (apply_event co [] st filled avg ts [] b) =
           map (\<lambda>r. (lo_venue_order_id r, lo_strategy_id r)) b \<and>
         map (\<lambda>r. (lo_client_order_id r, lo_symbol r, lo_side r, lo_qty r, lo_price r))
             (apply_event co vo st filled avg ts sid b) =
           map (\<lambda>r. (lo_client_order_id r, lo_symbol r, lo_side r, lo_qty r, lo_price r)) b"
  using assms
  by (simp add: apply_event_def event_merge_def keep_unless_def map_upd_first)

subsection \<open>The filter\<close>

lemma nth_matching_filter:
  "nth_matching p n xs = (if n < length (filter p xs) then Some (filter p xs ! n) else None)"
  by (induction p n xs rule: nth_matching.induct) (auto split: nat.split)

text \<open>The row the panel pulls one at a time is the row of the filtered list at the same
  position, so what is drawn in row n and what a click on row n hits agree.\<close>

theorem nth_filtered_is_filtered:
  "nth_filtered f n b = (if n < length (filtered f b) then Some (filtered f b ! n) else None)"
  by (simp add: nth_filtered_def filtered_def nth_matching_filter)

lemma distinct_ids_loop_props:
  "distinct seen \<Longrightarrow> distinct (distinct_ids_loop seen b) \<and>
   set (distinct_ids_loop seen b) = set seen \<union> (lo_strategy_id ` set b - {[]})"
  by (induction b arbitrary: seen) auto

lemma distinct_strategy_ids_props:
  "distinct (distinct_strategy_ids b)"
  "set (distinct_strategy_ids b) = lo_strategy_id ` set b - {[]}"
  using distinct_ids_loop_props [of "[]" b] by (auto simp: distinct_strategy_ids_def)

lemma distinct_filter_cycle: "distinct (filter_cycle b)"
  by (auto simp: filter_cycle_def Let_def distinct_map distinct_strategy_ids_props inj_on_def)

lemma position_nth:
  "distinct xs \<Longrightarrow> i < length xs \<Longrightarrow> position (\<lambda>y. y = xs ! i) xs = Some i"
proof (induction xs arbitrary: i)
  case (Cons x xs)
  then show ?case by (cases i) auto
qed simp

lemma next_filter_nth:
  "i < length (filter_cycle b) \<Longrightarrow>
   next_filter (filter_cycle b ! i) b = filter_cycle b ! ((i + 1) mod length (filter_cycle b))"
  by (simp add: next_filter_def Let_def position_nth distinct_filter_cycle)

lemma filter_cycle_nonempty: "0 < length (filter_cycle b)"
  by (simp add: filter_cycle_def Let_def)

text \<open>Clicking the filter cell visits every option in turn: the k-th click from the
  option at position i shows the option at position i + k, modulo their number, and the options
  are \<open>All\<close>, \<open>Manual\<close> when a manual order is in the book, and each other strategy once.\<close>

theorem filter_clicks_cycle:
  "distinct (filter_cycle b) \<and>
   set (filter_cycle b) =
     {OF_All} \<union> {f. f = OF_Manual \<and> MANUAL_STRATEGY_ID \<in> lo_strategy_id ` set b} \<union>
     OF_Strategy ` (lo_strategy_id ` set b - {[], MANUAL_STRATEGY_ID}) \<and>
   ((\<lambda>f. next_filter f b) ^^ k) OF_All = filter_cycle b ! (k mod length (filter_cycle b))"
proof (intro conjI)
  show "distinct (filter_cycle b)" by (rule distinct_filter_cycle)
  show "set (filter_cycle b) =
     {OF_All} \<union> {f. f = OF_Manual \<and> MANUAL_STRATEGY_ID \<in> lo_strategy_id ` set b} \<union>
     OF_Strategy ` (lo_strategy_id ` set b - {[], MANUAL_STRATEGY_ID})"
    by (auto simp: filter_cycle_def Let_def list_ex_iff distinct_strategy_ids_props MANUAL_STRATEGY_ID_def)
  show "((\<lambda>f. next_filter f b) ^^ k) OF_All = filter_cycle b ! (k mod length (filter_cycle b))"
  proof (induction k)
    case 0
    then show ?case by (simp add: filter_cycle_def Let_def)
  next
    case (Suc k)
    have "k mod length (filter_cycle b) < length (filter_cycle b)"
      by (rule mod_less_divisor) (rule filter_cycle_nonempty)
    from next_filter_nth [OF this] Suc show ?case by (simp add: mod_Suc_eq)
  qed
qed

subsection \<open>The log ring\<close>

lemma drop_front_to_eq: "drop_front_to n xs = drop (length xs - n) xs"
proof (induction n xs rule: drop_front_to.induct)
  case (1 n xs)
  show ?case
  proof (cases "n < length xs")
    case True
    then show ?thesis
      using "1.IH" by (subst drop_front_to.simps) (simp add: drop_Suc Suc_diff_Suc flip: drop_Suc)
  qed (subst drop_front_to.simps, simp)
qed

locale bounded_log =
  fixes cap :: nat and push :: "'l \<Rightarrow> 'l list \<Rightarrow> 'l list"
  assumes push_eq: "push l ls = drop (length (ls @ [l]) - cap) (ls @ [l])"
begin

lemma push_last: "fold push xs ls = drop (length (ls @ xs) - cap) (ls @ xs)" if "length ls \<le> cap"
  using that
proof (induction xs arbitrary: ls)
  case (Cons x xs)
  let ?k = "length (ls @ [x]) - cap"
  have k: "?k \<le> 1" using Cons.prems by simp
  have "fold push (x # xs) ls = drop (length (drop ?k (ls @ [x]) @ xs) - cap) (drop ?k (ls @ [x]) @ xs)"
    using Cons.prems by (simp only: fold_simps push_eq) (intro Cons.IH, simp)
  also have "drop ?k (ls @ [x]) @ xs = drop ?k ((ls @ [x]) @ xs)"
    using k by (simp only: drop_append [of ?k "ls @ [x]" xs]) simp
  also have "(ls @ [x]) @ xs = ls @ x # xs" by simp
  finally have "fold push (x # xs) ls =
      drop (length (drop ?k (ls @ x # xs)) - cap + ?k) (ls @ x # xs)"
    by (simp only: drop_drop)
  moreover have "length (drop ?k (ls @ x # xs)) - cap + ?k = length (ls @ x # xs) - cap"
    by simp
  ultimately show ?case by (simp only:)
qed simp

end

interpretation strategy_log: bounded_log LOG_CAP strategy_logs_push
  by unfold_locales (simp add: strategy_logs_push_def drop_front_to_eq)

text \<open>After any number of pushes the ring holds exactly the last hundred lines, oldest
  first, and \<open>recent\<close> shows exactly the last n of them.\<close>

theorem strategy_logs_keep_last_100:
  "fold strategy_logs_push ls [] = drop (length ls - 100) ls \<and>
   strategy_logs_recent n (fold strategy_logs_push ls []) = drop (length ls - min n 100) ls"
  using strategy_log.push_last [of "[]" ls]
  by (auto simp: LOG_CAP_def strategy_logs_recent_def min_def intro: arg_cong [of _ _ "\<lambda>k. drop k ls"])

subsection \<open>Reconciliation\<close>

text \<open>After a restart exactly these rows are reported, in book order: the ones that are not
  settled and whose client order id is empty or not among the ids the backend returned.\<close>

theorem reconcile_reports_exactly:
  "reconcile_unknown_orders b ids =
     map (\<lambda>r. \<lparr>ru_client_order_id = lo_client_order_id r, ru_symbol = lo_symbol r, ru_status = lo_status r\<rparr>)
       (filter (\<lambda>r. \<not> is_terminal_order_status (lo_status r) \<and>
          (lo_client_order_id r = [] \<or> lo_client_order_id r \<notin> set ids)) b)"
proof -
  have "filter (\<lambda>r. lo_client_order_id r \<notin> set (filter (\<lambda>i. i \<noteq> []) ids))
          (filter (\<lambda>r. \<not> is_terminal_order_status (lo_status r)) b) =
        filter (\<lambda>r. \<not> is_terminal_order_status (lo_status r) \<and>
          (lo_client_order_id r = [] \<or> lo_client_order_id r \<notin> set ids)) b"
    unfolding filter_filter by (rule filter_cong) auto
  then show ?thesis by (simp only: reconcile_unknown_orders_def Let_def)
qed

subsection \<open>Witnesses\<close>

definition sample_order :: "str \<Rightarrow> str \<Rightarrow> rat \<Rightarrow> live_order" where
  "sample_order c st q = live_order_default\<lparr>lo_client_order_id := c, lo_status := st, lo_filled_qty := F64_Fin q\<rparr>"

lemma has_id_apply: "has_id c (sample_order d st q) \<longleftrightarrow> d = c"
  by (simp add: has_id_def sample_order_def live_order_default_def)

lemma fill_never_decreases_witness:
  "\<exists>r'. List.find (has_id ''A'')
     (fold apply_op [OP_Event ''A'' [] ''ACCEPTED'' (F64_Fin 0) 0 5 []] [sample_order ''A'' ''PARTIAL'' 30]) = Some r' \<and>
   (F64_Fin 30 = lo_filled_qty r' \<or> F64_Fin 30 \<le> lo_filled_qty r')"
  using fill_never_decreases [of "[sample_order ''A'' ''PARTIAL'' 30]" "''A''"
      "[OP_Event ''A'' [] ''ACCEPTED'' (F64_Fin 0) 0 5 []]" "sample_order ''A'' ''PARTIAL'' 30"]
  by (simp add: book_ok_def book_ids_def MAX_LIVE_ORDERS_def has_id_apply del: fold_simps apply_op.simps)
     (simp add: sample_order_def)

lemma settled_order_not_revived_witness:
  "map_option lo_status (List.find (has_id ''A'')
     (fold apply_op (map OP_Seed [sample_order ''A'' ''ACCEPTED'' 0]) [sample_order ''A'' ''FILLED'' 30])) = Some ''FILLED''"
  using settled_order_not_revived [of "[sample_order ''A'' ''FILLED'' 30]" "''A''"
      "[sample_order ''A'' ''ACCEPTED'' 0]" "sample_order ''A'' ''FILLED'' 30"]
  by (simp add: book_ok_def book_ids_def MAX_LIVE_ORDERS_def has_id_apply is_terminal_order_status_def
      del: fold_simps apply_op.simps list.map) (simp add: sample_order_def)

lemma order_op_refines_map_witness:
  "book_map (apply_op (OP_Seed (sample_order ''B'' ''ACCEPTED'' 0)) [sample_order ''A'' ''FILLED'' 30]) =
   spec_op (OP_Seed (sample_order ''B'' ''ACCEPTED'' 0)) (book_map [sample_order ''A'' ''FILLED'' 30])"
  by (rule order_op_refines_map) (simp_all add: sample_order_def)

lemma event_keeps_ids_and_statics_witness:
  "map (\<lambda>r. (lo_venue_order_id r, lo_strategy_id r))
     (apply_event ''A'' [] ''FILLED'' 0 0 1 [] [sample_order ''A'' ''ACCEPTED'' 0]) = [([], [])]"
  using event_keeps_ids_and_statics [of "''A''" "[sample_order ''A'' ''ACCEPTED'' 0]" "''FILLED''" 0 0 1]
  by (simp add: has_id_apply) (simp add: sample_order_def live_order_default_def)

end
