(* ===== verification/Supervisor.thy ===== *)
theory Supervisor
  imports Trading
begin

text \<open>
  \<open>src/backend_supervisor.rs\<close>: the lifecycle the supervisor publishes, its configuration
  from the environment, the crash budget, and the pure helpers around the spawned process. An
  instant is a number of nanoseconds; \<open>duration_since\<close> saturates at zero. The file system,
  the child process and the URL parser are parameters.
\<close>

subsection \<open>Lifecycle\<close>

datatype backend_lifecycle =
    BL_Disabled
  | BL_NotStarted
  | BL_ProbingExisting
  | BL_Spawning
  | BL_Ready
  | BL_ShuttingDown
  | BL_Stopped
  | BL_Crashed
  | BL_StartupFailed str

definition is_ready :: "backend_lifecycle \<Rightarrow> bool" where
  "is_ready l \<longleftrightarrow> l = BL_Ready"

record supervisor_config =
  sc_enabled :: bool
  sc_url :: str
  sc_token :: str
  sc_autospawn :: bool
  sc_cwd :: "str option"
  sc_python_bin :: "str option"
  sc_live_venue :: "str option"
  sc_inproc :: bool

definition nonempty_env :: "(str \<Rightarrow> str option) \<Rightarrow> str \<Rightarrow> str option" where
  "nonempty_env env k = (case env k of Some s \<Rightarrow> if s = [] then None else Some s | None \<Rightarrow> None)"

definition supervisor_config_from_env :: "(str \<Rightarrow> str option) \<Rightarrow> supervisor_config" where
  "supervisor_config_from_env env =
     \<lparr>sc_enabled =
        unwrap_or False (map_option (\<lambda>v. eq_ignore_ascii_case v ''true'') (env ''BACKEND_ENABLED'')),
      sc_url = unwrap_or ''http://127.0.0.1:19876'' (env ''BACKEND_URL''),
      sc_token = unwrap_or ''dev-token'' (env ''BACKEND_TOKEN''),
      sc_autospawn = unwrap_or True (map_option (\<lambda>v. v \<noteq> ''0'') (env ''BACKEND_AUTOSPAWN'')),
      sc_cwd = nonempty_env env ''BACKEND_CWD'',
      sc_python_bin = nonempty_env env ''PYTHON_BIN'',
      sc_live_venue = nonempty_env env ''LIVE_VENUE'',
      sc_inproc = True\<rparr>"

definition initial_lifecycle :: "supervisor_config \<Rightarrow> backend_lifecycle" where
  "initial_lifecycle cfg = (if sc_enabled cfg then BL_NotStarted else BL_Disabled)"

text \<open>\<open>run_supervisor\<close>: the values it publishes, in order, before it returns.\<close>

definition run_supervisor :: "supervisor_config \<Rightarrow> backend_lifecycle list" where
  "run_supervisor cfg =
     (if \<not> sc_enabled cfg then [BL_Disabled] else if sc_inproc cfg then [BL_Ready] else [])"

text \<open>With the configuration the program builds, the lifecycle that the rest of the program
  ever reads is \<open>NotStarted\<close> and then \<open>Ready\<close> when the backend is enabled, and
  \<open>Disabled\<close> when it is not: a crash is never published.\<close>

theorem lifecycle_values_published:
  "let cfg = supervisor_config_from_env env in
   initial_lifecycle cfg # run_supervisor cfg =
     (if sc_enabled cfg then [BL_NotStarted, BL_Ready] else [BL_Disabled, BL_Disabled])"
  by (simp add: initial_lifecycle_def run_supervisor_def supervisor_config_from_env_def)

subsection \<open>The crash budget\<close>

definition AUTO_RESTART_WINDOW :: nat where "AUTO_RESTART_WINDOW = 60 * 10 ^ 9"
definition AUTO_RESTART_MAX :: nat where "AUTO_RESTART_MAX = 3"

record crash_budget =
  cb_window :: nat
  cb_max :: nat
  cb_crashes :: "nat list"

definition crash_budget_new :: "nat \<Rightarrow> nat \<Rightarrow> crash_budget" where
  "crash_budget_new w m = \<lparr>cb_window = w, cb_max = m, cb_crashes = []\<rparr>"

definition record_and_allows_restart :: "nat \<Rightarrow> crash_budget \<Rightarrow> crash_budget \<times> bool" where
  "record_and_allows_restart now b =
     (let cs = filter (\<lambda>t. now - t < cb_window b) (cb_crashes b) @ [now] in
      (b\<lparr>cb_crashes := cs\<rparr>, length cs < cb_max b))"

definition crash_budget_reset :: "crash_budget \<Rightarrow> crash_budget" where
  "crash_budget_reset b = b\<lparr>cb_crashes := []\<rparr>"

definition record_crash :: "nat \<Rightarrow> crash_budget \<Rightarrow> crash_budget" where
  "record_crash now b = fst (record_and_allows_restart now b)"

lemma record_crash_fields [simp]:
  "cb_window (record_crash t b) = cb_window b"
  "cb_max (record_crash t b) = cb_max b"
  "cb_crashes (record_crash t b) = filter (\<lambda>u. t - u < cb_window b) (cb_crashes b) @ [t]"
  by (simp_all add: record_crash_def record_and_allows_restart_def Let_def)

text \<open>The crashes kept after a history are those of the window that ends at its last crash.\<close>

lemma fold_record_fields [simp]:
  "cb_window (fold record_crash ts b) = cb_window b"
  "cb_max (fold record_crash ts b) = cb_max b"
  by (induction ts arbitrary: b) auto

lemma crash_budget_new_fields [simp]:
  "cb_window (crash_budget_new w m) = w" "cb_max (crash_budget_new w m) = m"
  "cb_crashes (crash_budget_new w m) = []"
  by (simp_all add: crash_budget_new_def)

lemma crashes_kept:
  assumes "sorted (ts @ [now])"
  shows "filter (\<lambda>t. now - t < w) (cb_crashes (fold record_crash ts (crash_budget_new w m))) =
         filter (\<lambda>t. now - t < w) ts"
  using assms
proof (induction ts arbitrary: now rule: rev_induct)
  case (snoc t ts)
  then have s: "sorted (ts @ [t])" and le: "t \<le> now" by (simp_all add: sorted_append)
  let ?cs = "cb_crashes (fold record_crash ts (crash_budget_new w m))"
  have narrow: "filter (\<lambda>u. now - u < w) xs = filter (\<lambda>u. now - u < w) (filter (\<lambda>u. t - u < w) xs)" for xs
    unfolding filter_filter using le by (intro filter_cong) auto
  have "filter (\<lambda>u. now - u < w) (filter (\<lambda>u. t - u < w) ?cs) = filter (\<lambda>u. now - u < w) ts"
    using narrow [of ts] snoc.IH [OF s] by simp
  then show ?case by simp
qed simp

text \<open>After any history of crashes in time order, the next one may be restarted
  automatically exactly when fewer than \<open>max\<close> crashes, itself included, lie within the window
  that ends now.\<close>

theorem crash_budget_counts_window:
  assumes "sorted (ts @ [now])"
  shows "snd (record_and_allows_restart now (fold record_crash ts (crash_budget_new w m))) \<longleftrightarrow>
         length (filter (\<lambda>t. now - t < w) ts) + 1 < m"
proof -
  let ?b = "fold record_crash ts (crash_budget_new w m)"
  have "cb_crashes (record_crash now ?b) = filter (\<lambda>t. now - t < w) ts @ [now]"
    and "cb_max (record_crash now ?b) = m"
    using crashes_kept [OF assms, of w m] by (simp_all del: filter_filter)
  moreover have "snd (record_and_allows_restart now ?b) \<longleftrightarrow>
      length (cb_crashes (record_crash now ?b)) < cb_max (record_crash now ?b)"
    by (simp add: record_crash_def record_and_allows_restart_def Let_def)
  ultimately show ?thesis by simp
qed

lemma crash_budget_counts_window_witness:
  "\<not> snd (record_and_allows_restart 30 (fold record_crash [10, 20] (crash_budget_new 60 3)))"
  using crash_budget_counts_window [of "[10, 20]" 30 60 3] by simp

subsection \<open>Helpers around the backend process\<close>

definition URL_INVALID :: str where "URL_INVALID = ''BACKEND_URL_INVALID''"
definition VENV_NOT_FOUND :: str where "VENV_NOT_FOUND = ''BACKEND_VENV_NOT_FOUND''"
definition CWD_NOT_FOUND :: str where "CWD_NOT_FOUND = ''BACKEND_CWD_NOT_FOUND''"

text \<open>The parsed URL: scheme, host and explicit port.\<close>

definition parse_backend_url ::
  "(str \<Rightarrow> (str \<times> str option \<times> nat option) option) \<Rightarrow> str \<Rightarrow> str + str" where
  "parse_backend_url parse_url url =
     (case parse_url url of
        None \<Rightarrow> Inl URL_INVALID
      | Some (scheme, host, port) \<Rightarrow>
          if scheme \<noteq> ''http'' then Inl URL_INVALID
          else (case host of None \<Rightarrow> Inl URL_INVALID
                | Some h \<Rightarrow> (case port of None \<Rightarrow> Inl URL_INVALID
                   | Some p \<Rightarrow> Inr (h @ '':'' @ show_nat p))))"

definition build_backend_command_args :: "str \<Rightarrow> 16 word \<Rightarrow> str option \<Rightarrow> str list" where
  "build_backend_command_args token port live_venue =
     [''-m'', ''engine'', ''--token'', token, ''--port'', show_nat (unat port)] @
     (case live_venue of Some v \<Rightarrow> [''--live-venue'', v] | None \<Rightarrow> [])"

text \<open>The release build walks up from the executable's directory; the directories from there to
  the root are given.\<close>

definition resolve_cwd :: "bool \<Rightarrow> str \<Rightarrow> (str \<Rightarrow> bool) \<Rightarrow> str list option \<Rightarrow> str option \<Rightarrow> str + str" where
  "resolve_cwd debug manifest_dir is_file exe_ancestors cfg_cwd =
     (case cfg_cwd of
        Some c \<Rightarrow> Inr c
      | None \<Rightarrow>
          if debug then Inr manifest_dir
          else (case exe_ancestors of
                  None \<Rightarrow> Inl CWD_NOT_FOUND
                | Some ds \<Rightarrow>
                    (case List.find (\<lambda>d. is_file (path_join d ''Cargo.toml'')) ds of
                       Some d \<Rightarrow> Inr d
                     | None \<Rightarrow> Inl CWD_NOT_FOUND)))"

definition resolve_python_bin :: "bool \<Rightarrow> (str \<Rightarrow> bool) \<Rightarrow> str option \<Rightarrow> str \<Rightarrow> str + str" where
  "resolve_python_bin windows is_file cfg_python_bin cwd =
     (case cfg_python_bin of
        Some p \<Rightarrow> Inr p
      | None \<Rightarrow>
          (let (d, f) = (if windows then (''Scripts'', ''python.exe'') else (''bin'', ''python''));
               cands = map (\<lambda>v. path_join (path_join (path_join cwd v) d) f) [''.venv'', ''venv''] in
           case List.find is_file cands of Some c \<Rightarrow> Inr c | None \<Rightarrow> Inl VENV_NOT_FOUND))"

text \<open>What waiting five seconds for the preflight child gave.\<close>

datatype wait_result = WR_Exited bool | WR_Timeout | WR_Failed

definition run_preflight :: "wait_result option \<Rightarrow> str + unit" where
  "run_preflight spawned =
     (case spawned of
        None \<Rightarrow> Inl VENV_NOT_FOUND
      | Some (WR_Exited ok) \<Rightarrow> if ok then Inr () else Inl VENV_NOT_FOUND
      | Some WR_Timeout \<Rightarrow> Inl VENV_NOT_FOUND
      | Some WR_Failed \<Rightarrow> Inl VENV_NOT_FOUND)"

definition venue_config_matches :: "str option \<Rightarrow> str option \<Rightarrow> bool" where
  "venue_config_matches expected actual =
     (case expected of None \<Rightarrow> True
      | Some e \<Rightarrow> (case actual of Some a \<Rightarrow> eq_ignore_ascii_case a e | None \<Rightarrow> False))"

definition parse_configured_venue :: "(str \<Rightarrow> json option) \<Rightarrow> str \<Rightarrow> str option" where
  "parse_configured_venue parse txt =
     (case parse txt of
        None \<Rightarrow> None
      | Some v \<Rightarrow> (case json_get ''configured_venue'' v of None \<Rightarrow> None | Some w \<Rightarrow> as_str w))"

definition classify_child_exit :: "bool \<Rightarrow> backend_lifecycle" where
  "classify_child_exit success = (if success then BL_Stopped else BL_Crashed)"

subsection \<open>At the end of the program\<close>

text \<open>The end of the program asks the supervisor to shut the engine down (\<open>src/main.rs\<close>). The channel
  of the commands is open while the supervisor holds its receiver; \<open>acked\<close> says that the answer came
  in time.\<close>

definition should_send_graceful_shutdown :: "backend_lifecycle \<Rightarrow> bool" where
  "should_send_graceful_shutdown l =
     (case l of BL_Disabled \<Rightarrow> False | BL_Stopped \<Rightarrow> False | BL_Crashed \<Rightarrow> False | BL_StartupFailed e \<Rightarrow> False | _ \<Rightarrow> True)"

datatype exit_outcome = EX_NotExiting | EX_NotNeeded | EX_ChannelClosed | EX_Acked | EX_TimedOut

definition app_exit_shutdown_system :: "bool \<Rightarrow> backend_lifecycle \<Rightarrow> bool \<Rightarrow> bool \<Rightarrow> exit_outcome" where
  "app_exit_shutdown_system exiting l channel_open acked =
     (if \<not> exiting then EX_NotExiting
      else if \<not> should_send_graceful_shutdown l then EX_NotNeeded
      else if \<not> channel_open then EX_ChannelClosed
      else if acked then EX_Acked else EX_TimedOut)"

text \<open>The supervisor returns as soon as it has published its last value, and its receiver goes with it:
  from then on a shutdown is never acknowledged.\<close>

lemma shutdown_never_acknowledged:
  "app_exit_shutdown_system True (last (run_supervisor (supervisor_config_from_env env))) False acked =
     (if sc_enabled (supervisor_config_from_env env) then EX_ChannelClosed else EX_NotNeeded)"
  by (simp add: app_exit_shutdown_system_def should_send_graceful_shutdown_def run_supervisor_def supervisor_config_from_env_def)

end
