(* ===== verification/Backend_Sync.thy ===== *)
theory Backend_Sync
  imports Orders Supervisor
begin

text \<open>
  \<open>src/backend_sync.rs\<close>: the reducers that turn status updates and push events into the
  state of the interface, one definition per arm, and the frame systems that ask the backend for
  data on an edge. The resources the two reducers write are one record. The theorems: which part
  of the state each kind of update may touch, which runs the live events are accepted for, the
  startup watermark, the reset at a mode change, and how often the frame systems fire.
\<close>

subsection \<open>State\<close>

datatype replay_startup_phase =
    RP_Idle | RP_CommandAccepted | RP_ResettingReplay | RP_LoadingData | RP_StartingStrategy
  | RP_WaitingForFirstTick

record replay_startup_progress =
  rsp_visible :: bool
  rsp_phase :: replay_startup_phase
  rsp_detail :: "str option"
  rsp_error :: "str option"
  rsp_started_at_elapsed :: "nat option"
  rsp_baseline_timestamp_ms :: "int option"
  rsp_startup_id :: u64
  rsp_next_startup_id :: u64
  rsp_start_engine_accepted :: bool

record ui_world =
  w_status :: backend_status
  w_run :: current_run
  w_portfolio :: portfolio_state
  w_available :: available_instruments
  w_progress :: replay_startup_progress
  w_venue :: venue_status
  w_mode :: execution_mode
  w_tickers :: tickers
  w_last_prices :: "f64 smap"
  w_orders :: live_orders
  w_feedback :: "str option"
  w_reconcile :: "reconcile_unknown_order list"
  w_secret :: secret_prompt
  w_session :: trading_session
  w_relogin :: "str option"
  w_toast :: "safety_toast_entry option"
  w_logs :: "strategy_log_line list"

subsection \<open>Status updates\<close>

definition reduce_error :: "str \<Rightarrow> backend_status \<Rightarrow> backend_status" where
  "reduce_error e s = s\<lparr>bs_last_error := Some e, bs_connected := False\<rparr>"

definition phase_of_stage :: "backend_startup_stage \<Rightarrow> replay_startup_phase" where
  "phase_of_stage st =
     (case st of
        ST_ResettingReplay \<Rightarrow> RP_ResettingReplay
      | ST_LoadingData \<Rightarrow> RP_LoadingData
      | ST_StartingStrategy \<Rightarrow> RP_StartingStrategy
      | ST_WaitingForFirstTick \<Rightarrow> RP_WaitingForFirstTick)"

definition reduce_replay_startup ::
  "u64 \<Rightarrow> backend_startup_stage \<Rightarrow> replay_startup_progress \<Rightarrow> replay_startup_progress" where
  "reduce_replay_startup sid st p =
     (if rsp_visible p \<and> rsp_startup_id p = sid then
        (let p1 = p\<lparr>rsp_phase := phase_of_stage st\<rparr> in
         if st = ST_WaitingForFirstTick then p1\<lparr>rsp_start_engine_accepted := True\<rparr> else p1)
      else p)"

definition close_startup :: "replay_startup_progress \<Rightarrow> replay_startup_progress" where
  "close_startup p =
     p\<lparr>rsp_visible := False, rsp_phase := RP_Idle, rsp_detail := None,
       rsp_baseline_timestamp_ms := None, rsp_started_at_elapsed := None,
       rsp_start_engine_accepted := False\<rparr>"

definition matches_startup :: "u64 option \<Rightarrow> replay_startup_progress \<Rightarrow> bool" where
  "matches_startup sid p \<longleftrightarrow>
     (case sid of Some i \<Rightarrow> rsp_visible p \<and> rsp_startup_id p = i | None \<Rightarrow> False)"

definition reduce_run_complete ::
  "(str \<Rightarrow> json option) \<Rightarrow> u64 option \<Rightarrow> str \<Rightarrow> str \<Rightarrow> ui_world \<Rightarrow> ui_world" where
  "reduce_run_complete parse sid run_id summary w =
     w\<lparr>w_run := (w_run w)\<lparr>cr_parsed_summary := parse_summary_json parse summary,
                          cr_run_id := Some run_id, cr_summary_json := Some summary,
                          cr_state := RS_Completed\<rparr>,
       w_progress := (if matches_startup sid (w_progress w) then close_startup (w_progress w)
                      else w_progress w)\<rparr>"

definition reduce_run_failed :: "u64 option \<Rightarrow> str \<Rightarrow> ui_world \<Rightarrow> ui_world" where
  "reduce_run_failed sid err w =
     w\<lparr>w_progress := (if matches_startup sid (w_progress w)
                      then (w_progress w)\<lparr>rsp_error := Some err\<rparr> else w_progress w),
       w_run := (w_run w)\<lparr>cr_state := RS_Failed err\<rparr>\<rparr>"

definition apply_available_loaded ::
  "date \<Rightarrow> str list \<Rightarrow> available_instruments \<Rightarrow> available_instruments" where
  "apply_available_loaded d ids a =
     a\<lparr>ai_by_end_date := (ai_by_end_date a)(d \<mapsto> ids), ai_in_flight := removeAll d (ai_in_flight a)\<rparr>"

definition apply_available_failed ::
  "date \<Rightarrow> str \<Rightarrow> available_instruments \<Rightarrow> available_instruments" where
  "apply_available_failed d err a =
     a\<lparr>ai_last_error := Some (d, err), ai_in_flight := removeAll d (ai_in_flight a)\<rparr>"

definition reduce_mode_changed :: "execution_mode \<Rightarrow> ui_world \<Rightarrow> ui_world" where
  "reduce_mode_changed m w =
     w\<lparr>w_mode := m, w_feedback := None,
       w_portfolio := (if w_mode w \<noteq> m then portfolio_default else w_portfolio w)\<rparr>"

definition reduce_list_failed :: "tickers_source \<Rightarrow> str \<Rightarrow> tickers \<Rightarrow> tickers" where
  "reduce_list_failed src err t =
     t\<lparr>tks_source := src,
       tks_status := (if err = ''LIVE_UNIVERSE_PENDING'' then TK_PendingLiveUniverse else TK_Failed err)\<rparr>"

text \<open>The messages: the action was rejected, the second password was rejected, each with the
  error code in brackets.\<close>

definition rejected_message :: "str \<Rightarrow> str \<Rightarrow> str" where
  "rejected_message action code =
     action @ utf8 [0xE3, 0x81, 0x8C, 0xE6, 0x8B, 0x92, 0xE5, 0x90, 0xA6, 0xE3, 0x81, 0x95, 0xE3,
         0x82, 0x8C, 0xE3, 0x81, 0xBE, 0xE3, 0x81, 0x97, 0xE3, 0x81, 0x9F] @ '' ('' @ code @ '')''"

definition secret_rejected_message :: "str \<Rightarrow> str" where
  "secret_rejected_message code =
     utf8 [0xE7, 0xAC, 0xAC, 0xE4, 0xBA, 0x8C, 0xE6, 0x9A, 0x97, 0xE8, 0xA8, 0xBC, 0xE7,
       0x95, 0xAA, 0xE5, 0x8F, 0xB7, 0xE3, 0x81, 0x8C, 0xE6, 0x8B, 0x92, 0xE5, 0x90, 0xA6,
       0xE3, 0x81, 0x95, 0xE3, 0x82, 0x8C, 0xE3, 0x81, 0xBE, 0xE3, 0x81, 0x97, 0xE3, 0x81,
       0x9F] @ '' ('' @ code @ '')''"

fun apply_status_update :: "(str \<Rightarrow> json option) \<Rightarrow> backend_status_update \<Rightarrow> ui_world \<Rightarrow> ui_world" where
  "apply_status_update parse (SU_Connected c) w = w\<lparr>w_status := (w_status w)\<lparr>bs_connected := c\<rparr>\<rparr>"
| "apply_status_update parse (SU_Running r) w = w\<lparr>w_status := (w_status w)\<lparr>bs_running := r\<rparr>\<rparr>"
| "apply_status_update parse (SU_Error e) w = w\<lparr>w_status := reduce_error e (w_status w)\<rparr>"
| "apply_status_update parse SU_RunStarted w = w\<lparr>w_run := (w_run w)\<lparr>cr_state := RS_Running\<rparr>\<rparr>"
| "apply_status_update parse (SU_ReplayStartup sid st) w =
     w\<lparr>w_progress := reduce_replay_startup sid st (w_progress w)\<rparr>"
| "apply_status_update parse (SU_RunComplete sid run_id summary) w =
     reduce_run_complete parse sid run_id summary w"
| "apply_status_update parse (SU_RunFailed sid err) w = reduce_run_failed sid err w"
| "apply_status_update parse (SU_PortfolioLoaded bp cash eq ps os) w =
     w\<lparr>w_portfolio := \<lparr>pf_buying_power = bp, pf_cash = cash, pf_equity = eq, pf_positions = ps,
                       pf_orders = os, pf_loaded = True\<rparr>\<rparr>"
| "apply_status_update parse (SU_AvailableInstrumentsLoaded d ids) w =
     w\<lparr>w_available := apply_available_loaded d ids (w_available w)\<rparr>"
| "apply_status_update parse (SU_AvailableInstrumentsFetchFailed d err) w =
     w\<lparr>w_available := apply_available_failed d err (w_available w)\<rparr>"
| "apply_status_update parse (SU_VenueChanged st vid n) w =
     w\<lparr>w_venue := (w_venue w)\<lparr>vst_state := st, vst_venue_id := vid, vst_instruments_loaded := n\<rparr>\<rparr>"
| "apply_status_update parse (SU_ExecutionModeChanged m) w = reduce_mode_changed m w"
| "apply_status_update parse (SU_ConfiguredVenueDiscovered vid) w =
     w\<lparr>w_venue := (w_venue w)\<lparr>vst_configured_venue := vid\<rparr>\<rparr>"
| "apply_status_update parse (SU_InstrumentsListStarted src) w =
     w\<lparr>w_tickers := (w_tickers w)\<lparr>tks_source := src, tks_status := TK_InFlight\<rparr>\<rparr>"
| "apply_status_update parse (SU_InstrumentsListed src ts) w =
     w\<lparr>w_tickers := (w_tickers w)\<lparr>tks_source := src, tks_status := TK_Loaded, tks_list := ts\<rparr>\<rparr>"
| "apply_status_update parse (SU_InstrumentsListFailed src err) w =
     w\<lparr>w_tickers := reduce_list_failed src err (w_tickers w)\<rparr>"
| "apply_status_update parse (SU_LastPricesUpdated ps) w = w\<lparr>w_last_prices := ps\<rparr>"
| "apply_status_update parse (SU_OrderSeeded co vo symb side q p st filled avg ts sid) w =
     w\<lparr>w_orders := upsert_full
         \<lparr>lo_client_order_id = co, lo_venue_order_id = vo, lo_symbol = symb, lo_side = side,
          lo_qty = q, lo_price = p, lo_status = st, lo_filled_qty = filled, lo_avg_price = avg,
          lo_ts_ms = ts, lo_strategy_id = sid\<rparr> (w_orders w),
       w_feedback := None\<rparr>"
| "apply_status_update parse (SU_OrderStatusUpdated co vo st filled avg ts) w =
     w\<lparr>w_orders := apply_event co vo st filled avg ts [] (w_orders w)\<rparr>"
| "apply_status_update parse (SU_OrderModified co vo q p st filled avg ts) w =
     w\<lparr>w_orders := apply_modify co vo q p st filled avg ts (w_orders w), w_feedback := None\<rparr>"
| "apply_status_update parse (SU_OrderRejected action code) w =
     w\<lparr>w_feedback := Some (rejected_message action code)\<rparr>"
| "apply_status_update parse (SU_OrderNotice msg) w = w\<lparr>w_feedback := Some msg\<rparr>"
| "apply_status_update parse (SU_SecretSubmitFailed code) w =
     w\<lparr>w_secret := (w_secret w)\<lparr>sp_error := Some (secret_rejected_message code)\<rparr>\<rparr>"
| "apply_status_update parse (SU_OrdersReconciled ids) w =
     w\<lparr>w_reconcile := reconcile_unknown_orders (w_orders w) ids\<rparr>"
| "apply_status_update parse (SU_OrdersSeeded rows) w =
     w\<lparr>w_orders := fold seed_working rows (w_orders w)\<rparr>"
| "apply_status_update parse (SU_ReplayStateChanged st) w =
     w\<lparr>w_session := (w_session w)\<lparr>ts_replay_state := Some st\<rparr>\<rparr>"

text \<open>\<open>status_update_system\<close> drains the whole channel in one frame.\<close>

definition status_update_system ::
  "(str \<Rightarrow> json option) \<Rightarrow> backend_status_update list \<Rightarrow> ui_world \<Rightarrow> ui_world" where
  "status_update_system parse us w = fold (apply_status_update parse) us w"

subsection \<open>Push events\<close>

definition run_is_over :: "run_state \<Rightarrow> bool" where
  "run_is_over st \<longleftrightarrow>
     (case st of RS_Idle \<Rightarrow> True | RS_Stopped \<Rightarrow> True | RS_Completed \<Rightarrow> True | RS_Failed e \<Rightarrow> True
      | RS_Running \<Rightarrow> False | RS_Paused \<Rightarrow> False)"

definition accepts_run :: "str \<Rightarrow> current_run \<Rightarrow> bool" where
  "accepts_run run_id r \<longleftrightarrow>
     cr_run_id r = Some run_id \<or> cr_run_id r = None \<or> run_is_over (cr_state r)"

definition live_status :: "str \<Rightarrow> run_state \<Rightarrow> run_state" where
  "live_status status st =
     (if status = ''RUNNING'' then RS_Running
      else if status = ''PAUSED'' then RS_Paused
      else if status = ''STOPPED'' then RS_Stopped
      else if status = ''FAILED'' \<or> status = ''ERROR'' then
        (case st of RS_Failed e \<Rightarrow> if e \<noteq> [] then st else RS_Failed [] | _ \<Rightarrow> RS_Failed [])
      else st)"

definition adopt_run :: "str \<Rightarrow> current_run \<Rightarrow> current_run" where
  "adopt_run run_id r =
     (if cr_run_id r = Some run_id then r
      else (if cr_run_id r \<noteq> None
            then r\<lparr>cr_strategy_name := [], cr_started_ts_ms := 0, cr_order_count := 0,
                   cr_fill_count := 0, cr_realized_pnl := 0, cr_unrealized_pnl := 0,
                   cr_parsed_summary := None\<rparr>
            else r)\<lparr>cr_run_id := Some run_id\<rparr>)"

definition reduce_live_strategy_event ::
  "str \<Rightarrow> str \<Rightarrow> str \<Rightarrow> int \<Rightarrow> current_run \<Rightarrow> current_run" where
  "reduce_live_strategy_event run_id sid status ts r =
     (if accepts_run run_id r then
        (let r1 = adopt_run run_id r;
             r2 = (if sid \<noteq> [] then r1\<lparr>cr_strategy_name := sid\<rparr> else r1);
             r3 = (if cr_started_ts_ms r2 = 0 then r2\<lparr>cr_started_ts_ms := ts\<rparr> else r2) in
         r3\<lparr>cr_state := live_status status (cr_state r3)\<rparr>)
      else r)"

definition reduce_live_telemetry ::
  "str \<Rightarrow> str \<Rightarrow> f64 \<Rightarrow> f64 \<Rightarrow> int \<Rightarrow> int \<Rightarrow> current_run \<Rightarrow> current_run" where
  "reduce_live_telemetry run_id sid realized unrealized orders fills r =
     (if accepts_run run_id r then
        (if sid \<noteq> [] then r\<lparr>cr_strategy_name := sid\<rparr> else r)
          \<lparr>cr_realized_pnl := realized, cr_unrealized_pnl := unrealized,
           cr_order_count := orders, cr_fill_count := fills\<rparr>
      else r)"

text \<open>The sum over the positions runs from zero in their order, each step rounded.\<close>

definition position_value :: "portfolio_position \<Rightarrow> f64" where
  "position_value p = f64_add (f64_mul (f64_of_int (pp_qty p)) (pp_avg_price p)) (pp_unrealized_pnl p)"

definition apply_account_event ::
  "f64 \<Rightarrow> f64 \<Rightarrow> account_position list \<Rightarrow> portfolio_state \<Rightarrow> portfolio_state" where
  "apply_account_event cash bp aps pf =
     (let ps = map (\<lambda>p. \<lparr>pp_symbol = ap_symbol p, pp_qty = ap_qty p, pp_avg_price = ap_avg_price p,
                         pp_unrealized_pnl = ap_unrealized_pnl p\<rparr>) aps in
      pf\<lparr>pf_cash := cash, pf_buying_power := bp, pf_positions := ps,
         pf_equity := f64_add cash (foldl f64_add 0 (map position_value ps)),
         pf_loaded := True\<rparr>)"

fun apply_backend_event :: "backend_event \<Rightarrow> ui_world \<Rightarrow> ui_world" where
  "apply_backend_event (BE_SecretRequired rid venue kind purpose) w =
     w\<lparr>w_secret := \<lparr>sp_active = Some \<lparr>spr_request_id = rid, spr_venue = venue, spr_kind = kind,
                                     spr_purpose = purpose\<rparr>, sp_error = None\<rparr>\<rparr>"
| "apply_backend_event (BE_OrderEvent oid vo co st filled avg ts sid) w =
     w\<lparr>w_orders := apply_event co vo st filled avg ts sid (w_orders w)\<rparr>"
| "apply_backend_event (BE_AccountEvent cash bp ps ts) w =
     w\<lparr>w_portfolio := apply_account_event cash bp ps (w_portfolio w)\<rparr>"
| "apply_backend_event (BE_VenueLogoutDetected venue) w = w\<lparr>w_relogin := Some venue\<rparr>"
| "apply_backend_event (BE_LiveStrategyEvent run_id sid status ts) w =
     w\<lparr>w_run := reduce_live_strategy_event run_id sid status ts (w_run w)\<rparr>"
| "apply_backend_event (BE_SafetyRailViolation run_id kind detail ts) w =
     w\<lparr>w_toast := safety_toast_show TO_SafetyRail run_id kind detail ts (w_toast w)\<rparr>"
| "apply_backend_event (BE_BackendError source detail ts) w =
     w\<lparr>w_toast := safety_toast_show TO_BackendError [] source detail ts (w_toast w)\<rparr>"
| "apply_backend_event (BE_StrategyLogMessage run_id level msg ts) w =
     w\<lparr>w_logs := strategy_logs_push
         \<lparr>sl_run_id = run_id, sl_level = level, sl_message = msg, sl_ts_ms = ts\<rparr> (w_logs w)\<rparr>"
| "apply_backend_event (BE_LiveStrategyTelemetry run_id sid realized unrealized orders fills ts) w =
     w\<lparr>w_run := reduce_live_telemetry run_id sid realized unrealized orders fills (w_run w)\<rparr>"

definition backend_event_drain_system :: "backend_event list \<Rightarrow> ui_world \<Rightarrow> ui_world" where
  "backend_event_drain_system es w = fold apply_backend_event es w"

definition lifecycle_status_update :: "backend_lifecycle \<Rightarrow> backend_status_update option" where
  "lifecycle_status_update l =
     (case l of BL_StartupFailed code \<Rightarrow> Some (SU_Error (''backend startup failed: '' @ code))
      | _ \<Rightarrow> None)"

subsection \<open>Frame systems that ask the backend\<close>

record resync_local =
  rl_saw_crash :: bool
  rl_prev :: "backend_lifecycle option"

definition has_working_order :: "live_orders \<Rightarrow> bool" where
  "has_working_order b = list_ex (\<lambda>r. \<not> is_terminal_order_status (lo_status r)) b"

definition backend_restart_resync_system ::
  "backend_lifecycle \<Rightarrow> live_orders \<Rightarrow> str option \<Rightarrow> link \<Rightarrow> resync_local \<Rightarrow>
   resync_local \<times> transport_command list" where
  "backend_restart_resync_system current orders venue_id l loc =
     (let changed = rl_prev loc \<noteq> Some current;
          loc1 = loc\<lparr>rl_prev := Some current\<rparr> in
      if current = BL_Crashed then (loc1\<lparr>rl_saw_crash := True\<rparr>, [])
      else if \<not> (changed \<and> current = BL_Ready \<and> rl_saw_crash loc1) then (loc1, [])
      else (let loc2 = loc1\<lparr>rl_saw_crash := False\<rparr> in
            if \<not> has_working_order orders then (loc2, [])
            else (loc2, link_send l (TC_GetOrdersAndReconcile (unwrap_or [] venue_id)))))"

definition request_force_account_snapshot ::
  "link \<Rightarrow> execution_mode option \<Rightarrow> execution_mode \<Rightarrow> execution_mode option \<times> transport_command list" where
  "request_force_account_snapshot l prev current =
     (let is_live = (current = EM_LiveManual \<or> current = EM_LiveAuto);
          was_live = (prev = Some EM_LiveManual \<or> prev = Some EM_LiveAuto) in
      (Some current, if \<not> (is_live \<and> \<not> was_live) then [] else link_send l TC_ForceAccountSnapshot))"

text \<open>The frame value is the venue's state with its id.\<close>

definition request_get_orders_on_venue_connected ::
  "link \<Rightarrow> (venue_state \<times> str option) option \<Rightarrow> venue_state \<times> str option \<Rightarrow>
   (venue_state \<times> str option) option \<times> transport_command list" where
  "request_get_orders_on_venue_connected l prev v =
     (let current = fst v;
          was = map_option fst prev;
          is_connected = (current = VS_Connected \<or> current = VS_Subscribed);
          was_connected = (was = Some VS_Connected \<or> was = Some VS_Subscribed) in
      (Some v, if \<not> (is_connected \<and> \<not> was_connected) then []
               else link_send l (TC_GetOrders (unwrap_or [] (snd v)))))"

subsection \<open>Messages of a rejected live start\<close>

definition reject_detail :: "str \<Rightarrow> str \<Rightarrow> str" where
  "reject_detail code msg = (if trim msg = [] then code else code @ '': '' @ msg)"

definition build_register_reject_message ::
  "bool \<Rightarrow> str \<Rightarrow> str \<Rightarrow> str \<Rightarrow> str \<Rightarrow> str option" where
  "build_register_reject_message success code msg instrument venue =
     (if success then None
      else Some (''RegisterLiveStrategy rejected: instrument_id='' @ instrument @ '' venue='' @ venue
                 @ '' error='' @ reject_detail code msg))"

definition build_start_reject_message ::
  "bool \<Rightarrow> str \<Rightarrow> str \<Rightarrow> str \<Rightarrow> str \<Rightarrow> str \<Rightarrow> str option" where
  "build_start_reject_message success code msg strategy instrument venue =
     (if success then None
      else Some (''StartLiveStrategy rejected: strategy_id='' @ strategy @ '' instrument_id='' @
                 instrument @ '' venue='' @ venue @ '' error='' @ reject_detail code msg))"

section \<open>Properties\<close>

subsection \<open>Any interleaving of updates and events\<close>

datatype ui_input = UI_Status backend_status_update | UI_Event backend_event

fun ui_step :: "(str \<Rightarrow> json option) \<Rightarrow> ui_input \<Rightarrow> ui_world \<Rightarrow> ui_world" where
  "ui_step parse (UI_Status u) w = apply_status_update parse u w"
| "ui_step parse (UI_Event e) w = apply_backend_event e w"

definition world_ok :: "ui_world \<Rightarrow> bool" where
  "world_ok w \<longleftrightarrow> book_ok (w_orders w) \<and> length (w_logs w) \<le> LOG_CAP"

lemma book_ok_operations:
  "book_ok b \<Longrightarrow> book_ok (upsert_full r b)"
  "book_ok b \<Longrightarrow> book_ok (apply_event co vo st f a ts sid b)"
  "book_ok b \<Longrightarrow> book_ok (apply_modify co vo q p st f a ts b)"
  "book_ok b \<Longrightarrow> book_ok (fold seed_working rows b)"
proof -
  show "book_ok b \<Longrightarrow> book_ok (upsert_full r b)"
    using book_ok_apply_op [of b "OP_Upsert r"] by simp
  show "book_ok b \<Longrightarrow> book_ok (apply_event co vo st f a ts sid b)"
    using book_ok_apply_op [of b "OP_Event co vo st f a ts sid"] by simp
  show "book_ok b \<Longrightarrow> book_ok (apply_modify co vo q p st f a ts b)"
    using book_ok_apply_op [of b "OP_Modify co vo q p st f a ts"] by simp
  have "apply_op (OP_Seed r) = seed_working r" for r by (rule ext) simp
  then have "fold seed_working rows b = fold apply_op (map OP_Seed rows) b"
    by (simp add: fold_map comp_def)
  then show "book_ok b \<Longrightarrow> book_ok (fold seed_working rows b)" by (simp add: order_book.run_inv)
qed

lemma length_strategy_logs_push: "length (strategy_logs_push l ls) \<le> LOG_CAP"
  by (simp add: strategy_logs_push_def drop_front_to_eq)

lemma status_update_keeps_ok: "world_ok w \<Longrightarrow> world_ok (apply_status_update parse u w)"
  by (cases u) (simp_all add: world_ok_def book_ok_operations reduce_run_complete_def
      reduce_run_failed_def reduce_mode_changed_def)

lemma backend_event_keeps_ok: "world_ok w \<Longrightarrow> world_ok (apply_backend_event e w)"
  by (cases e) (simp_all add: world_ok_def book_ok_operations length_strategy_logs_push)

interpretation ui_system: invariant_system "ui_step parse" world_ok
proof
  show "world_ok (ui_step parse i w)" if "world_ok w" for i w
    using that by (cases i) (simp_all add: status_update_keeps_ok backend_event_keeps_ok)
qed

text \<open>Whatever status updates and push events arrive, in whatever order, the order book
  keeps at most 64 rows, one per client order id, and the log ring at most 100 lines.\<close>

theorem ui_world_invariant:
  assumes "w_orders w = []" and "w_logs w = []"
  shows "let w' = fold (ui_step parse) inputs w in
    length (w_orders w') \<le> 64 \<and>
    distinct (filter (\<lambda>i. i \<noteq> []) (map lo_client_order_id (w_orders w'))) \<and>
    length (w_logs w') \<le> 100"
proof -
  have "world_ok w" using assms by (simp add: world_ok_def book_ok_def book_ids_def LOG_CAP_def)
  then have "world_ok (fold (ui_step parse) inputs w)" by (rule ui_system.run_inv)
  then show ?thesis
    by (simp add: world_ok_def book_ok_def book_ids_def MAX_LIVE_ORDERS_def LOG_CAP_def Let_def)
qed

subsection \<open>Which update may touch what\<close>

fun touches_feedback :: "backend_status_update \<Rightarrow> bool" where
  "touches_feedback (SU_ExecutionModeChanged m) = True"
| "touches_feedback (SU_OrderSeeded co vo symb side q p st filled avg ts sid) = True"
| "touches_feedback (SU_OrderModified co vo q p st filled avg ts) = True"
| "touches_feedback (SU_OrderRejected action code) = True"
| "touches_feedback (SU_OrderNotice msg) = True"
| "touches_feedback u = False"

fun touches_orders :: "backend_status_update \<Rightarrow> bool" where
  "touches_orders (SU_OrderSeeded co vo symb side q p st filled avg ts sid) = True"
| "touches_orders (SU_OrderModified co vo q p st filled avg ts) = True"
| "touches_orders (SU_OrderStatusUpdated co vo st filled avg ts) = True"
| "touches_orders (SU_OrdersSeeded rows) = True"
| "touches_orders u = False"

fun touches_portfolio :: "backend_status_update \<Rightarrow> bool" where
  "touches_portfolio (SU_PortfolioLoaded bp cash eq ps os) = True"
| "touches_portfolio (SU_ExecutionModeChanged m) = True"
| "touches_portfolio u = False"

lemma update_frame:
  "\<not> touches_feedback u \<Longrightarrow> w_feedback (apply_status_update parse u w) = w_feedback w"
  "\<not> touches_orders u \<Longrightarrow> w_orders (apply_status_update parse u w) = w_orders w"
  "\<not> touches_portfolio u \<Longrightarrow> w_portfolio (apply_status_update parse u w) = w_portfolio w"
  "w_relogin (apply_status_update parse u w) = w_relogin w"
  "w_toast (apply_status_update parse u w) = w_toast w"
  "w_logs (apply_status_update parse u w) = w_logs w"
  by (cases u; simp add: reduce_run_complete_def reduce_run_failed_def reduce_mode_changed_def)+

text \<open>A rejected second password, a background order sync, a fill or a portfolio update
  never changes the order panel's message: over any batch of updates of which none is a mode
  change, a placed or modified order, an order rejection or an order notice, it stays.\<close>

theorem feedback_only_from_order_flow:
  assumes "list_all (\<lambda>u. \<not> touches_feedback u) us"
  shows "w_feedback (status_update_system parse us w) = w_feedback w"
  using assms unfolding status_update_system_def
  by (induction us arbitrary: w) (simp_all add: update_frame)

subsection \<open>Mode changes\<close>

text \<open>After a drained batch that contains a change to a different mode, with no portfolio
  loaded after it in the batch, the portfolio is the empty one: figures of one mode are never
  shown in another. An update to the mode already active keeps it.\<close>

theorem mode_change_resets_portfolio:
  assumes "list_all (\<lambda>u. \<not> touches_portfolio u) us"
  shows "w_portfolio (status_update_system parse (SU_ExecutionModeChanged m # us) w) =
    (if w_mode w \<noteq> m then portfolio_default else w_portfolio w) \<and>
    \<not> pf_loaded portfolio_default"
proof -
  have "w_portfolio (fold (apply_status_update parse) us w0) = w_portfolio w0" for w0
    using assms by (induction us arbitrary: w0) (simp_all add: update_frame)
  then show ?thesis
    by (simp add: status_update_system_def reduce_mode_changed_def portfolio_default_def)
qed

subsection \<open>The startup watermark\<close>

fun startup_id_of :: "backend_status_update \<Rightarrow> u64 option" where
  "startup_id_of (SU_ReplayStartup sid st) = Some sid"
| "startup_id_of (SU_RunComplete sid run_id summary) = sid"
| "startup_id_of (SU_RunFailed sid err) = sid"
| "startup_id_of u = None"

lemma stale_update_progress:
  "startup_id_of u \<noteq> Some (rsp_startup_id (w_progress w)) \<Longrightarrow>
   w_progress (apply_status_update parse u w) = w_progress w"
  by (cases u) (auto simp: reduce_replay_startup_def reduce_run_complete_def reduce_run_failed_def
      reduce_mode_changed_def matches_startup_def split: option.splits)

text \<open>Updates that carry another startup id, or none, never move, fail or close the startup
  window that is open, however many of them arrive.\<close>

theorem stale_startup_updates_ignored:
  assumes "list_all (\<lambda>u. startup_id_of u \<noteq> Some (rsp_startup_id (w_progress w))) us"
  shows "w_progress (status_update_system parse us w) = w_progress w"
  using assms unfolding status_update_system_def
proof (induction us arbitrary: w)
  case (Cons u us)
  then have "w_progress (apply_status_update parse u w) = w_progress w"
    by (simp add: stale_update_progress)
  with Cons show ?case by simp
qed simp

subsection \<open>Live runs\<close>

fun event_run_id :: "backend_event \<Rightarrow> str option" where
  "event_run_id (BE_LiveStrategyEvent run_id sid status ts) = Some run_id"
| "event_run_id (BE_LiveStrategyTelemetry run_id sid realized unrealized orders fills ts) = Some run_id"
| "event_run_id e = None"

lemma foreign_event_run:
  "cr_run_id (w_run w) = Some rid \<Longrightarrow> \<not> run_is_over (cr_state (w_run w)) \<Longrightarrow>
   event_run_id e \<noteq> Some rid \<Longrightarrow> w_run (apply_backend_event e w) = w_run w"
  by (cases e) (simp_all add: reduce_live_strategy_event_def reduce_live_telemetry_def accepts_run_def)

text \<open>C21: while a run is running or paused, no event of another run changes anything of what is
  shown about it.\<close>

theorem active_run_not_hijacked:
  assumes "cr_run_id (w_run w) = Some rid" and "cr_state (w_run w) \<in> {RS_Running, RS_Paused}"
    and "list_all (\<lambda>e. event_run_id e \<noteq> Some rid) es"
  shows "w_run (backend_event_drain_system es w) = w_run w"
  using assms unfolding backend_event_drain_system_def
proof (induction es arbitrary: w)
  case (Cons e es)
  then have "w_run (apply_backend_event e w) = w_run w"
    by (intro foreign_event_run) (auto simp: run_is_over_def)
  with Cons show ?case by simp
qed simp

text \<open>A run that failed with a known cause keeps that cause when the event channel reports
  its failure later, and a new run is accepted only when the old one is over: then its counters
  start from zero.\<close>

theorem live_event_transitions:
  assumes "cr_run_id r = Some rid" and "cr_state r = RS_Failed err" and "err \<noteq> []" and "rid2 \<noteq> rid"
  shows "cr_state (reduce_live_strategy_event rid sid ''FAILED'' ts r) = RS_Failed err \<and>
    cr_state (reduce_live_strategy_event rid sid ''ERROR'' ts r) = RS_Failed err \<and>
    (let r' = reduce_live_strategy_event rid2 sid2 ''RUNNING'' ts r in
       cr_run_id r' = Some rid2 \<and> cr_state r' = RS_Running \<and> cr_order_count r' = 0 \<and>
       cr_fill_count r' = 0 \<and> cr_realized_pnl r' = 0 \<and> cr_unrealized_pnl r' = 0 \<and>
       cr_parsed_summary r' = None)"
  using assms
  by (simp add: reduce_live_strategy_event_def accepts_run_def adopt_run_def live_status_def
      run_is_over_def Let_def)

text \<open>The error of a failed run survives into the next run: when the next run's first event
  already reports a failure, the run is shown as failed with the previous run's error.\<close>

theorem new_run_inherits_old_error:
  assumes "cr_run_id r = Some rid" and "rid2 \<noteq> rid" and "cr_state r = RS_Failed err" and "err \<noteq> []"
  shows "let r' = reduce_live_strategy_event rid2 sid ''FAILED'' ts r in
    cr_run_id r' = Some rid2 \<and> cr_state r' = RS_Failed err"
  using assms
  by (simp add: reduce_live_strategy_event_def accepts_run_def adopt_run_def live_status_def
      run_is_over_def Let_def)

text \<open>Once a run is over, the telemetry of any other run overwrites the counters shown for
  the finished run, whose id stays.\<close>

theorem late_telemetry_overwrites_finished_run:
  assumes "cr_run_id r = Some rid" and "run_is_over (cr_state r)"
  shows "let r' = reduce_live_telemetry rid2 [] realized unrealized orders fills r in
    cr_run_id r' = Some rid \<and> cr_realized_pnl r' = realized \<and> cr_order_count r' = orders"
  using assms by (simp add: reduce_live_telemetry_def accepts_run_def Let_def)

subsection \<open>Requests on an edge\<close>

interpretation account_edge: edge_trigger is_live_mode "\<lambda>_. link_send l TC_ForceAccountSnapshot"
    "request_force_account_snapshot l"
proof
  show "fst (request_force_account_snapshot l prev v) = Some v" for prev v
    by (simp add: request_force_account_snapshot_def Let_def)
  show "snd (request_force_account_snapshot l prev v) =
      (if rising is_live_mode prev v then link_send l TC_ForceAccountSnapshot else [])" for prev v
    by (cases v; cases prev; cases "the prev")
      (auto simp: request_force_account_snapshot_def Let_def rising_def is_live_mode_def
        split: option.splits)
qed

interpretation connect_edge: edge_trigger "\<lambda>v. is_venue_live (fst v)"
    "\<lambda>v. link_send l (TC_GetOrders (unwrap_or [] (snd v)))" "request_get_orders_on_venue_connected l"
proof
  show "fst (request_get_orders_on_venue_connected l prev v) = Some v" for prev v
    by (simp add: request_get_orders_on_venue_connected_def Let_def)
  show "snd (request_get_orders_on_venue_connected l prev v) =
      (if rising (\<lambda>v. is_venue_live (fst v)) prev v
       then link_send l (TC_GetOrders (unwrap_or [] (snd v))) else [])" for prev v
    by (cases "fst v"; cases prev; cases "fst (the prev)")
      (auto simp: request_get_orders_on_venue_connected_def Let_def rising_def is_venue_live_def
        split: option.splits)
qed

text \<open>Over any run of frames, one account snapshot is requested per entry into a live mode:
  none for a change within the live modes, none when leaving.\<close>

theorem account_snapshot_per_live_entry:
  "run_frames (request_force_account_snapshot OpenSender) None ms =
     replicate (length (filter (\<lambda>(p, m). is_live_mode m \<and> \<not> (\<exists>q. p = Some q \<and> is_live_mode q))
                          (zip (None # map Some ms) ms)))
       TC_ForceAccountSnapshot"
proof -
  have "rising is_live_mode p m \<longleftrightarrow> is_live_mode m \<and> \<not> (\<exists>q. p = Some q \<and> is_live_mode q)" for p m
    by (simp add: rising_def split: option.split)
  moreover have "concat (map (\<lambda>(p, v). [c]) xs) = replicate (length xs) c" for c and xs :: "('a \<times> 'b) list"
    by (induction xs) auto
  ultimately show ?thesis by (simp add: account_edge.run_eq_rising)
qed

text \<open>Over any run of frames, the working orders are fetched once per connection of the
  venue, with the id the venue has in that frame.\<close>

theorem orders_seeded_per_connection:
  "run_frames (request_get_orders_on_venue_connected OpenSender) None vs =
     map (\<lambda>(p, v). TC_GetOrders (unwrap_or [] (snd v)))
       (filter (\<lambda>(p, v). is_venue_live (fst v) \<and> \<not> (\<exists>q. p = Some q \<and> is_venue_live (fst q)))
          (zip (None # map Some vs) vs))"
proof -
  have "rising (\<lambda>v. is_venue_live (fst v)) p v \<longleftrightarrow>
      is_venue_live (fst v) \<and> \<not> (\<exists>q. p = Some q \<and> is_venue_live (fst q))"
    for p :: "(venue_state \<times> str option) option" and v :: "venue_state \<times> str option"
    by (simp add: rising_def split: option.split)
  moreover have "concat (map (\<lambda>(p, v). [f v]) xs) = map (\<lambda>(p, v). f v) xs" for f and xs :: "('a \<times> 'b) list"
    by (induction xs) auto
  ultimately show ?thesis by (simp add: connect_edge.run_eq_rising)
qed

subsection \<open>Reconciliation after a restart\<close>

type_synonym resync_frame = "backend_lifecycle \<times> live_orders \<times> str option"

fun resync_frames :: "link \<Rightarrow> resync_local \<Rightarrow> resync_frame list \<Rightarrow> resync_local \<times> transport_command list" where
  "resync_frames l loc [] = (loc, [])"
| "resync_frames l loc ((lc, orders, vid) # fs) =
     (let (loc1, out) = backend_restart_resync_system lc orders vid l loc;
          (loc2, outs) = resync_frames l loc1 fs in (loc2, out @ outs))"

definition lifecycle_of :: "resync_frame \<Rightarrow> backend_lifecycle" where
  "lifecycle_of f = fst f"

lemma resync_frames_append:
  "resync_frames l loc (fs @ gs) =
     (let (loc1, out) = resync_frames l loc fs; (loc2, outs) = resync_frames l loc1 gs in (loc2, out @ outs))"
  by (induction l loc fs rule: resync_frames.induct) (simp_all add: Let_def split: prod.split)

lemma resync_quiet:
  "\<not> rl_saw_crash loc \<Longrightarrow> list_all (\<lambda>f. lifecycle_of f \<noteq> BL_Crashed) fs \<Longrightarrow>
   snd (resync_frames l loc fs) = [] \<and> \<not> rl_saw_crash (fst (resync_frames l loc fs))"
proof (induction l loc fs rule: resync_frames.induct)
  case (2 l loc lc orders vid fs)
  then have "backend_restart_resync_system lc orders vid l loc = (loc\<lparr>rl_prev := Some lc\<rparr>, [])"
    by (simp add: backend_restart_resync_system_def lifecycle_of_def)
  with 2 show ?case by (simp add: Let_def split: prod.split)
qed simp

text \<open>Between a crash and the next \<open>Ready\<close>, the crash stays noted and the last lifecycle is
  not \<open>Ready\<close>.\<close>

lemma resync_waiting:
  "rl_saw_crash loc \<Longrightarrow> rl_prev loc \<noteq> Some BL_Ready \<Longrightarrow>
   list_all (\<lambda>f. lifecycle_of f \<noteq> BL_Ready) fs \<Longrightarrow>
   snd (resync_frames l loc fs) = [] \<and> rl_saw_crash (fst (resync_frames l loc fs)) \<and>
   rl_prev (fst (resync_frames l loc fs)) \<noteq> Some BL_Ready"
proof (induction l loc fs rule: resync_frames.induct)
  case (2 l loc lc orders vid fs)
  then have lc: "lc \<noteq> BL_Ready" and all: "list_all (\<lambda>f. lifecycle_of f \<noteq> BL_Ready) fs"
    by (simp_all add: lifecycle_of_def)
  obtain loc1 where step: "backend_restart_resync_system lc orders vid l loc = (loc1, [])"
    and c: "rl_saw_crash loc1" and p: "rl_prev loc1 \<noteq> Some BL_Ready"
    using lc 2(2) by (cases "lc = BL_Crashed") (simp_all add: backend_restart_resync_system_def Let_def)
  from 2(1) [OF step [symmetric]] step c p all show ?case
    by (auto simp: Let_def split: prod.split)
qed simp

text \<open>From the start, over any frames without a crash, nothing is requested; a crash seen by
  a frame followed, after frames that are not \<open>Ready\<close>, by a \<open>Ready\<close> frame with a
  working order requests one reconciliation, for the venue of that frame; and nothing more is
  requested until the next crash.\<close>

theorem reconcile_once_per_restart:
  assumes pre: "list_all (\<lambda>f. lifecycle_of f \<noteq> BL_Crashed) pre"
    and mid: "list_all (\<lambda>f. lifecycle_of f \<noteq> BL_Ready) mid"
    and post: "list_all (\<lambda>f. lifecycle_of f \<noteq> BL_Crashed) post"
    and working: "has_working_order orders"
  shows "snd (resync_frames OpenSender \<lparr>rl_saw_crash = False, rl_prev = None\<rparr>
           (pre @ [(BL_Crashed, orders0, v0)] @ mid @ [(BL_Ready, orders, v)] @ post)) =
         [TC_GetOrdersAndReconcile (unwrap_or [] v)]"
proof -
  let ?l0 = "\<lparr>rl_saw_crash = False, rl_prev = None\<rparr>"
  obtain l1 where l1: "resync_frames OpenSender ?l0 pre = (l1, [])"
    using resync_quiet [OF _ pre, of ?l0 OpenSender]
    by (cases "resync_frames OpenSender ?l0 pre") auto
  have l2: "resync_frames OpenSender l1 [(BL_Crashed, orders0, v0)] =
      (l1\<lparr>rl_prev := Some BL_Crashed, rl_saw_crash := True\<rparr>, [])"
    by (simp add: backend_restart_resync_system_def Let_def)
  obtain l3 where l3: "resync_frames OpenSender (l1\<lparr>rl_prev := Some BL_Crashed, rl_saw_crash := True\<rparr>) mid = (l3, [])"
    and c3: "rl_saw_crash l3" and p3: "rl_prev l3 \<noteq> Some BL_Ready"
    using resync_waiting [OF _ _ mid, of "l1\<lparr>rl_prev := Some BL_Crashed, rl_saw_crash := True\<rparr>" OpenSender]
    by (cases "resync_frames OpenSender (l1\<lparr>rl_prev := Some BL_Crashed, rl_saw_crash := True\<rparr>) mid") auto
  let ?l4 = "l3\<lparr>rl_prev := Some BL_Ready, rl_saw_crash := False\<rparr>"
  have l4: "resync_frames OpenSender l3 [(BL_Ready, orders, v)] =
      (?l4, [TC_GetOrdersAndReconcile (unwrap_or [] v)])"
    using c3 p3 working by (simp add: backend_restart_resync_system_def Let_def)
  have l5: "snd (resync_frames OpenSender ?l4 post) = []"
    using resync_quiet [OF _ post, of ?l4 OpenSender] by simp
  from l1 l2 l3 l4 l5 show ?thesis
    by (simp only: resync_frames_append Let_def prod.case split_beta append_Nil snd_conv fst_conv) simp
qed

subsection \<open>Witnesses\<close>

definition run_sample :: "str option \<Rightarrow> run_state \<Rightarrow> current_run" where
  "run_sample rid st =
     \<lparr>cr_run_id = rid, cr_summary_json = None, cr_parsed_summary = None, cr_state = st,
      cr_strategy_name = [], cr_started_ts_ms = 0, cr_realized_pnl = 0, cr_unrealized_pnl = 0,
      cr_order_count = 0, cr_fill_count = 0\<rparr>"

definition progress_default :: replay_startup_progress where
  "progress_default =
     \<lparr>rsp_visible = False, rsp_phase = RP_Idle, rsp_detail = None, rsp_error = None,
      rsp_started_at_elapsed = None, rsp_baseline_timestamp_ms = None, rsp_startup_id = 0,
      rsp_next_startup_id = 0, rsp_start_engine_accepted = False\<rparr>"

definition world_default :: ui_world where
  "world_default =
     \<lparr>w_status = \<lparr>bs_connected = False, bs_running = False, bs_last_error = None\<rparr>,
      w_run = run_sample None RS_Idle, w_portfolio = portfolio_default,
      w_available = \<lparr>ai_by_end_date = (\<lambda>_. None), ai_in_flight = [], ai_last_error = None\<rparr>,
      w_progress = progress_default,
      w_venue = \<lparr>vst_state = VS_Disconnected, vst_venue_id = None, vst_instruments_loaded = 0,
                 vst_configured_venue = None\<rparr>,
      w_mode = EM_Replay,
      w_tickers = \<lparr>tks_list = [], tks_source = TS_Unknown, tks_status = TK_NotFetched\<rparr>,
      w_last_prices = [], w_orders = [], w_feedback = None, w_reconcile = [],
      w_secret = \<lparr>sp_active = None, sp_error = None\<rparr>,
      w_session = \<lparr>ts_timestamp_ms = 0, ts_replay_state = None\<rparr>,
      w_relogin = None, w_toast = None, w_logs = []\<rparr>"

lemma ui_world_invariant_witness:
  "length (w_orders (fold (ui_step (\<lambda>_. None))
     [UI_Status (SU_OrderStatusUpdated ''A'' [] ''ACCEPTED'' 0 0 1)] world_default)) \<le> 64"
  using ui_world_invariant [of world_default "\<lambda>_. None" "[UI_Status (SU_OrderStatusUpdated ''A'' [] ''ACCEPTED'' 0 0 1)]"]
  by (simp add: Let_def world_default_def)

lemma feedback_only_from_order_flow_witness:
  "w_feedback (status_update_system (\<lambda>_. None) [SU_SecretSubmitFailed ''E1'', SU_Running True]
     (world_default\<lparr>w_feedback := Some ''x''\<rparr>)) = Some ''x''"
  using feedback_only_from_order_flow [of "[SU_SecretSubmitFailed ''E1'', SU_Running True]" "\<lambda>_. None"
      "world_default\<lparr>w_feedback := Some ''x''\<rparr>"] by simp

lemma mode_change_resets_portfolio_witness:
  "w_portfolio (status_update_system (\<lambda>_. None) [SU_ExecutionModeChanged EM_LiveManual, SU_Running True]
     (world_default\<lparr>w_portfolio := portfolio_default\<lparr>pf_loaded := True\<rparr>\<rparr>)) = portfolio_default"
  using mode_change_resets_portfolio [of "[SU_Running True]" "\<lambda>_. None" EM_LiveManual
      "world_default\<lparr>w_portfolio := portfolio_default\<lparr>pf_loaded := True\<rparr>\<rparr>"]
  by (simp add: world_default_def)

lemma stale_startup_updates_ignored_witness:
  "w_progress (status_update_system (\<lambda>_. None) [SU_RunComplete (Some 1) ''r'' ''{}'']
     (world_default\<lparr>w_progress := progress_default\<lparr>rsp_visible := True, rsp_startup_id := 2\<rparr>\<rparr>)) =
   progress_default\<lparr>rsp_visible := True, rsp_startup_id := 2\<rparr>"
  using stale_startup_updates_ignored [of "world_default\<lparr>w_progress := progress_default\<lparr>rsp_visible := True, rsp_startup_id := 2\<rparr>\<rparr>"
      "[SU_RunComplete (Some 1) ''r'' ''{}'']" "\<lambda>_. None"]
  by simp

lemma active_run_not_hijacked_witness:
  "w_run (backend_event_drain_system [BE_LiveStrategyEvent ''b'' ''s'' ''RUNNING'' 5]
     (world_default\<lparr>w_run := run_sample (Some ''a'') RS_Paused\<rparr>)) = run_sample (Some ''a'') RS_Paused"
  using active_run_not_hijacked [of "world_default\<lparr>w_run := run_sample (Some ''a'') RS_Paused\<rparr>" "''a''"
      "[BE_LiveStrategyEvent ''b'' ''s'' ''RUNNING'' 5]"]
  by (simp add: run_sample_def)

lemma live_event_transitions_witness:
  "cr_state (reduce_live_strategy_event ''a'' [] ''FAILED'' 7 (run_sample (Some ''a'') (RS_Failed ''boom''))) =
   RS_Failed ''boom''"
  using live_event_transitions [of "run_sample (Some ''a'') (RS_Failed ''boom'')" "''a''" "''boom''" "''b''" "[]" 7 "[]"]
  by (simp add: run_sample_def)

lemma new_run_inherits_old_error_witness:
  "cr_state (reduce_live_strategy_event ''b'' [] ''FAILED'' 7 (run_sample (Some ''a'') (RS_Failed ''boom''))) =
   RS_Failed ''boom''"
  using new_run_inherits_old_error [of "run_sample (Some ''a'') (RS_Failed ''boom'')" "''a''" "''b''" "''boom''" "[]" 7]
  by (simp add: run_sample_def Let_def)

lemma late_telemetry_overwrites_finished_run_witness:
  "cr_order_count (reduce_live_telemetry ''b'' [] 0 0 9 4 (run_sample (Some ''a'') RS_Stopped)) = 9"
  using late_telemetry_overwrites_finished_run [of "run_sample (Some ''a'') RS_Stopped" "''a''" "''b''" 0 0 9 4]
  by (simp add: run_sample_def run_is_over_def Let_def)

lemma reconcile_once_per_restart_witness:
  "snd (resync_frames OpenSender \<lparr>rl_saw_crash = False, rl_prev = None\<rparr>
     ([(BL_Ready, [], None)] @ [(BL_Crashed, [], None)] @ [(BL_Spawning, [], None)] @
      [(BL_Ready, [live_order_default], Some ''KABU'')] @ [(BL_Ready, [], None)])) =
   [TC_GetOrdersAndReconcile ''KABU'']"
  using reconcile_once_per_restart [of "[(BL_Ready, [], None)]" "[(BL_Spawning, [], None)]"
      "[(BL_Ready, [], None)]" "[live_order_default]" "[]" None "Some ''KABU''"]
  by (simp add: lifecycle_of_def has_working_order_def live_order_default_def is_terminal_order_status_def
      del: resync_frames.simps)

end
