(* ===== verification/Transport.thy ===== *)
theory Transport
  imports Backend_Sync
begin

text \<open>
  \<open>src/backend_transport.rs\<close>: the in-process transport. A worker thread takes commands one
  at a time, calls methods of the Python engine and of the live server, and sends responses; a
  task turns the responses into status updates, comparing each polled state with the one before.
  The Python side is a parameter: its reply to a call may depend on every call made so far, so
  the definitions carry the list of calls. A reply is an exception, a pair (the result type of the
  replay methods), a value that has a JSON form, or one that has none. The arguments are built
  from strings and numbers only, which does not fail. Calls that Python makes back into the
  program (the sink methods) are operations of their own.
\<close>

subsection \<open>Calls and replies\<close>

datatype py_target = PT_Module | PT_Engine | PT_Live

datatype py_value =
    PV_None
  | PV_Str str
  | PV_Float f64
  | PV_Int int
  | PV_Strs "str list"
  | PV_Dict "(str \<times> py_value) list"
  | PV_Sink u64
  | PV_EventSink
  | PV_Engine

record py_call =
  pc_target :: py_target
  pc_method :: str
  pc_args :: "py_value list"
  pc_kwargs :: "(str \<times> py_value) list"

datatype py_reply =
    PR_Raise str
  | PR_Pair bool "str option"
  | PR_Value json
  | PR_Opaque str

type_synonym python = "py_call list \<Rightarrow> py_reply"

text \<open>What is not the program's own: the Python side, the date format of the calendar crate, and
  the text of the error when a reply is not of the type asked for.\<close>

record externals =
  ex_python :: python
  ex_fmt_date :: "date \<Rightarrow> str"
  ex_extract_error :: "py_reply \<Rightarrow> str"

datatype inproc_resp = IR_StateJson str | IR_Status backend_status_update

record io =
  io_calls :: "py_call list"
  io_out :: "inproc_resp list"

definition py_invoke :: "python \<Rightarrow> py_call \<Rightarrow> io \<Rightarrow> py_reply \<times> io" where
  "py_invoke py c s = (py (io_calls s @ [c]), s\<lparr>io_calls := io_calls s @ [c]\<rparr>)"

definition emit :: "backend_status_update \<Rightarrow> io \<Rightarrow> io" where
  "emit u s = s\<lparr>io_out := io_out s @ [IR_Status u]\<rparr>"

definition emit_state :: "str \<Rightarrow> io \<Rightarrow> io" where
  "emit_state txt s = s\<lparr>io_out := io_out s @ [IR_StateJson txt]\<rparr>"

definition pv_opt :: "('a \<Rightarrow> py_value) \<Rightarrow> 'a option \<Rightarrow> py_value" where
  "pv_opt f x = (case x of Some v \<Rightarrow> f v | None \<Rightarrow> PV_None)"

definition pv_secret :: "redacted_secret option \<Rightarrow> py_value" where
  "pv_secret s = pv_opt PV_Str (map_option expose s)"

text \<open>The Python value as a JSON value, as \<open>json.dumps\<close> and the parser give it.\<close>

definition reply_json :: "str \<Rightarrow> py_reply \<Rightarrow> str + json" where
  "reply_json method r =
     (case r of
        PR_Raise e \<Rightarrow> Inl (method @ '': PyO3 error: '' @ e)
      | PR_Pair b e \<Rightarrow> Inr (JArr [JBool b, (case e of Some m \<Rightarrow> JStr m | None \<Rightarrow> JNull)])
      | PR_Value v \<Rightarrow> Inr v
      | PR_Opaque e \<Rightarrow> Inl (method @ '': json.dumps: '' @ e))"

definition live_call ::
  "python \<Rightarrow> str \<Rightarrow> (str \<times> py_value) list \<Rightarrow> io \<Rightarrow> (str + json) \<times> io" where
  "live_call py method kwargs s =
     (let (r, s1) = py_invoke py
            \<lparr>pc_target = PT_Live, pc_method = method, pc_args = [], pc_kwargs = kwargs\<rparr> s in
      (reply_json method r, s1))"

definition call_replay :: "python \<Rightarrow> str \<Rightarrow> io \<Rightarrow> (bool \<times> str option) \<times> io" where
  "call_replay py method s =
     (let (r, s1) = py_invoke py
            \<lparr>pc_target = PT_Engine, pc_method = method, pc_args = [], pc_kwargs = []\<rparr> s in
      (case r of
         PR_Pair ok e \<Rightarrow> (ok, e)
       | PR_Raise e \<Rightarrow> (False, Some (method @ '': PyO3 error: '' @ e))
       | _ \<Rightarrow> (False, Some (method @ '': extract failed'')), s1))"

definition call_load_replay_data ::
  "externals \<Rightarrow> strategy_run_config \<Rightarrow> str option \<Rightarrow> io \<Rightarrow> (bool \<times> str option) \<times> io" where
  "call_load_replay_data x cfg catalog s =
     (let (r, s1) = py_invoke (ex_python x)
            \<lparr>pc_target = PT_Engine, pc_method = ''load_replay_data'', pc_args = [],
             pc_kwargs = [(''instrument_ids'', PV_Strs (rc_instruments cfg)),
                          (''start_date'', PV_Str (rc_start cfg)), (''end_date'', PV_Str (rc_end cfg)),
                          (''granularity'', PV_Str (rc_granularity cfg))] @
                         (case catalog of Some cp \<Rightarrow> [(''catalog_path'', PV_Str cp)] | None \<Rightarrow> [])\<rparr> s in
      (case r of
         PR_Pair ok e \<Rightarrow> (ok, e)
       | PR_Raise e \<Rightarrow> (False, Some (''load_replay_data: PyO3 error: '' @ e))
       | _ \<Rightarrow> (False, Some (''load_replay_data: PyO3 error: '' @ ex_extract_error x r)), s1))"

text \<open>\<open>inproc_nautilus_control\<close>: any returned value is a success.\<close>

definition nautilus_control :: "python \<Rightarrow> str \<Rightarrow> io \<Rightarrow> bool \<times> io" where
  "nautilus_control py method s =
     (let (r, s1) = py_invoke py
            \<lparr>pc_target = PT_Live, pc_method = method, pc_args = [], pc_kwargs = []\<rparr> s in
      (case r of PR_Raise e \<Rightarrow> False | _ \<Rightarrow> True, s1))"

datatype poll_state_outcome = PO_Forward str | PO_LogAndSkip

definition poll_state_outcome_of :: "(unit + str) \<Rightarrow> poll_state_outcome" where
  "poll_state_outcome_of r = (case r of Inr txt \<Rightarrow> PO_Forward txt | Inl e \<Rightarrow> PO_LogAndSkip)"

definition poll_state :: "python \<Rightarrow> io \<Rightarrow> io" where
  "poll_state py s =
     (let (r, s1) = py_invoke py
            \<lparr>pc_target = PT_Live, pc_method = ''get_state_json'', pc_args = [], pc_kwargs = []\<rparr> s in
      (case poll_state_outcome_of (case r of PR_Value (JStr txt) \<Rightarrow> Inr txt | _ \<Rightarrow> Inl ()) of
         PO_Forward txt \<Rightarrow> emit_state txt s1
       | PO_LogAndSkip \<Rightarrow> s1))"

definition engine_state_to_str :: "int \<Rightarrow> str option" where
  "engine_state_to_str n =
     (if n = 0 then Some ''IDLE'' else if n = 1 then Some ''LOADED'' else if n = 2 then Some ''RUNNING''
      else if n = 3 then Some ''PAUSED'' else if n = 4 then Some ''STOPPING'' else None)"

subsection \<open>Reading a reply\<close>

definition fld_str :: "json \<Rightarrow> str \<Rightarrow> str \<Rightarrow> str" where
  "fld_str v k d = unwrap_or d (case json_get k v of Some w \<Rightarrow> as_str w | None \<Rightarrow> None)"

definition fld_f64 :: "json \<Rightarrow> str \<Rightarrow> f64" where
  "fld_f64 v k = unwrap_or 0 (case json_get k v of Some w \<Rightarrow> as_f64 w | None \<Rightarrow> None)"

definition fld_i64 :: "json \<Rightarrow> str \<Rightarrow> int" where
  "fld_i64 v k = unwrap_or 0 (case json_get k v of Some w \<Rightarrow> as_i64 w | None \<Rightarrow> None)"

definition fld_arr :: "json \<Rightarrow> str \<Rightarrow> json list" where
  "fld_arr v k = unwrap_or [] (case json_get k v of Some w \<Rightarrow> as_array w | None \<Rightarrow> None)"

definition reply_ok :: "json \<Rightarrow> bool" where
  "reply_ok v = unwrap_or False (case json_get ''success'' v of Some w \<Rightarrow> as_bool w | None \<Rightarrow> None)"

definition as_u64 :: "json \<Rightarrow> int option" where
  "as_u64 v = (case v of JInt n \<Rightarrow> if 0 \<le> n \<and> n < 2 ^ 64 then Some n else None | _ \<Rightarrow> None)"

definition error_code :: "json \<Rightarrow> str" where
  "error_code v = fld_str v ''error_code'' []"

text \<open>The order event of a reply, when there is one that is not null.\<close>

definition order_event_of :: "json \<Rightarrow> json option" where
  "order_event_of v =
     (case json_get ''order_event'' v of Some w \<Rightarrow> if w = JNull then None else Some w | None \<Rightarrow> None)"

text \<open>Required fields: the first missing or ill-typed one drops the row.\<close>

definition need :: "(json \<Rightarrow> 'a option) \<Rightarrow> json \<Rightarrow> str \<Rightarrow> 'a option" where
  "need conv v k = (case json_get k v of Some w \<Rightarrow> conv w | None \<Rightarrow> None)"

definition live_order_of_json :: "json \<Rightarrow> live_order option" where
  "live_order_of_json v =
     (case (need as_str v ''client_order_id'', need as_str v ''venue_order_id'', need as_str v ''symbol'',
            need as_str v ''side'', need as_f64 v ''qty'') of
        (Some co, Some vo, Some symb, Some side, Some q) \<Rightarrow>
          (case (need as_str v ''status'', need as_f64 v ''filled_qty'', need as_f64 v ''avg_price'',
                 need as_i64 v ''ts_ms'') of
             (Some st, Some filled, Some avg, Some ts) \<Rightarrow> Some
               \<lparr>lo_client_order_id = co, lo_venue_order_id = vo, lo_symbol = symb, lo_side = side,
                lo_qty = q, lo_price = need as_f64 v ''price'', lo_status = st, lo_filled_qty = filled,
                lo_avg_price = avg, lo_ts_ms = ts, lo_strategy_id = fld_str v ''strategy_id'' []\<rparr>
           | _ \<Rightarrow> None)
      | _ \<Rightarrow> None)"

definition portfolio_position_of_json :: "json \<Rightarrow> portfolio_position option" where
  "portfolio_position_of_json v =
     (case (need as_str v ''symbol'', need as_i64 v ''qty'', need as_f64 v ''avg_price'',
            need as_f64 v ''unrealized_pnl'') of
        (Some symb, Some q, Some avg, Some u) \<Rightarrow>
          Some \<lparr>pp_symbol = symb, pp_qty = q, pp_avg_price = avg, pp_unrealized_pnl = u\<rparr>
      | _ \<Rightarrow> None)"

definition portfolio_order_of_json :: "json \<Rightarrow> portfolio_order option" where
  "portfolio_order_of_json v =
     (case (need as_str v ''symbol'', need as_str v ''side'', need as_f64 v ''qty'',
            need as_f64 v ''price'', need as_str v ''status'', need as_i64 v ''ts_ms'') of
        (Some symb, Some side, Some q, Some p, Some st, Some ts) \<Rightarrow>
          Some \<lparr>po_symbol = symb, po_side = side, po_qty = q, po_price = p, po_status = st, po_ts_ms = ts\<rparr>
      | _ \<Rightarrow> None)"

definition ticker_of_json :: "json \<Rightarrow> ticker option" where
  "ticker_of_json v =
     (case (need as_str v ''id'', need as_str v ''name'', need as_str v ''market'') of
        (Some i, Some n, Some m) \<Rightarrow> Some \<lparr>tk_id = i, tk_name = n, tk_market = m\<rparr>
      | _ \<Rightarrow> None)"

subsection \<open>The arms of \<open>inproc_dispatch\<close>\<close>

definition seed_orders :: "python \<Rightarrow> str \<Rightarrow> bool \<Rightarrow> io \<Rightarrow> io" where
  "seed_orders py venue rec s =
     (case live_call py ''get_orders'' [(''venue'', PV_Str venue)] s of
        (Inr r, s1) \<Rightarrow>
          (let orders = List.map_filter live_order_of_json (fld_arr r ''orders'');
               s2 = (case get_orders_notice (error_code r) of Some n \<Rightarrow> emit n s1 | None \<Rightarrow> s1);
               s3 = emit (SU_OrdersSeeded orders) s2 in
           case reconcile_ids_for_seed orders rec of
             Some ids \<Rightarrow> emit (SU_OrdersReconciled ids) s3
           | None \<Rightarrow> s3)
      | (Inl msg, s1) \<Rightarrow> s1)"

definition get_portfolio :: "python \<Rightarrow> io \<Rightarrow> io" where
  "get_portfolio py s =
     (case live_call py ''get_portfolio'' [] s of
        (Inr r, s1) \<Rightarrow>
          (if reply_ok r then
             emit (SU_PortfolioLoaded (fld_f64 r ''buying_power'') (fld_f64 r ''cash'') (fld_f64 r ''equity'')
                     (List.map_filter portfolio_position_of_json (fld_arr r ''positions''))
                     (List.map_filter portfolio_order_of_json (fld_arr r ''orders''))) s1
           else s1)
      | (Inl msg, s1) \<Rightarrow> s1)"

definition dispatch_pause :: "python \<Rightarrow> io \<Rightarrow> io" where
  "dispatch_pause py s =
     (let (ok, s1) = nautilus_control py ''pause_backtest'' s in emit (SU_ReplayStateChanged ''PAUSED'') s1)"

definition dispatch_resume :: "python \<Rightarrow> io \<Rightarrow> io" where
  "dispatch_resume py s =
     (let (ok, s1) = nautilus_control py ''resume_backtest'' s in emit (SU_ReplayStateChanged ''RUNNING'') s1)"

definition dispatch_step_forward :: "python \<Rightarrow> io \<Rightarrow> io" where
  "dispatch_step_forward py s =
     (let (ok, s1) = nautilus_control py ''step_backtest'' s in if ok then poll_state py s1 else s1)"

definition dispatch_force_stop :: "python \<Rightarrow> io \<Rightarrow> io" where
  "dispatch_force_stop py s = snd (call_replay py ''force_stop_replay'' s)"

definition speed_call :: "py_target \<Rightarrow> u32 \<Rightarrow> py_call" where
  "speed_call t m =
     \<lparr>pc_target = t, pc_method = ''set_replay_speed'', pc_args = [PV_Int (uint m)], pc_kwargs = []\<rparr>"

definition dispatch_set_speed :: "python \<Rightarrow> u32 \<Rightarrow> io \<Rightarrow> io" where
  "dispatch_set_speed py m s =
     snd (py_invoke py (speed_call PT_Live m) (snd (py_invoke py (speed_call PT_Engine m) s)))"

definition dispatch_load_and_step :: "u64 \<Rightarrow> io \<Rightarrow> io" where
  "dispatch_load_and_step sid s =
     emit (SU_RunFailed (Some sid) ''LoadAndStep is no longer supported in inproc mode'') s"

definition dispatch_restart_replay :: "externals \<Rightarrow> strategy_run_config \<Rightarrow> str option \<Rightarrow> io \<Rightarrow> io" where
  "dispatch_restart_replay x cfg catalog s =
     (let ((stop_ok, stop_err), s1) = call_replay (ex_python x) ''force_stop_replay'' s in
      if \<not> stop_ok then
        emit (SU_RunFailed None (''RestartReplay: ForceStop failed: '' @ unwrap_or ''unknown error'' stop_err)) s1
      else
        (let ((load_ok, load_err), s2) = call_load_replay_data x cfg catalog s1 in
         if \<not> load_ok then
           emit (SU_RunFailed None
             (''RestartReplay: LoadReplayData failed: '' @ unwrap_or ''unknown error'' load_err)) s2
         else emit (SU_ReplayStateChanged ''LOADED'') s2))"

definition start_replay_call :: "path \<Rightarrow> strategy_run_config \<Rightarrow> u64 \<Rightarrow> str option \<Rightarrow> py_call" where
  "start_replay_call file cfg sid catalog =
     \<lparr>pc_target = PT_Live, pc_method = ''start_nautilus_replay'',
      pc_args = [PV_Dict
        ([(''strategy_file'', PV_Str file), (''instruments'', PV_Strs (rc_instruments cfg)),
          (''start_date'', PV_Str (rc_start cfg)), (''end_date'', PV_Str (rc_end cfg)),
          (''granularity'', PV_Str (rc_granularity cfg)), (''rust_sink'', PV_Sink sid)] @
         (case catalog of Some cp \<Rightarrow> [(''catalog_path'', PV_Str cp)] | None \<Rightarrow> []) @
         (case rc_initial_cash cfg of Some ic \<Rightarrow> [(''initial_cash'', PV_Int ic)] | None \<Rightarrow> []))],
      pc_kwargs = []\<rparr>"

definition start_replay_result :: "py_reply \<Rightarrow> str + json" where
  "start_replay_result r =
     (case r of PR_Raise e \<Rightarrow> Inl (''start_nautilus_replay PyO3: '' @ e)
      | _ \<Rightarrow> reply_json ''start_nautilus_replay'' r)"

definition dispatch_run_strategy ::
  "python \<Rightarrow> path \<Rightarrow> strategy_run_config \<Rightarrow> u64 \<Rightarrow> str option \<Rightarrow> io \<Rightarrow> io" where
  "dispatch_run_strategy py file cfg sid catalog s =
     (let s1 = emit (SU_ReplayStartup sid ST_StartingStrategy) (emit SU_RunStarted s);
          (r, s2) = py_invoke py (start_replay_call file cfg sid catalog) s1 in
      case start_replay_result r of
        Inr v \<Rightarrow>
          (if reply_ok v then s2
           else emit (SU_RunFailed (Some sid)
             (''start_nautilus_replay: '' @ error_code v @ '' '' @ fld_str v ''error_message'' [])) s2)
      | Inl msg \<Rightarrow> emit (SU_RunFailed (Some sid) msg) s2)"

definition dispatch_set_execution_mode :: "python \<Rightarrow> execution_mode \<Rightarrow> io \<Rightarrow> io" where
  "dispatch_set_execution_mode py m s =
     snd (live_call py ''set_execution_mode'' [(''mode'', PV_Str (as_wire_str m))] s)"

text \<open>Parsing the state and mode names of the wire.\<close>

definition parse_venue_state :: "str \<Rightarrow> venue_state option" where
  "parse_venue_state t =
     (if t = ''DISCONNECTED'' then Some VS_Disconnected
      else if t = ''AUTHENTICATING'' then Some VS_Authenticating
      else if t = ''CONNECTED'' then Some VS_Connected
      else if t = ''SUBSCRIBED'' then Some VS_Subscribed
      else if t = ''RECONNECTING'' then Some VS_Reconnecting
      else if t = ''ERROR'' then Some VS_Error else None)"

definition parse_execution_mode :: "str \<Rightarrow> execution_mode option" where
  "parse_execution_mode t =
     (if t = ''Replay'' then Some EM_Replay else if t = ''LiveManual'' then Some EM_LiveManual
      else if t = ''LiveAuto'' then Some EM_LiveAuto else None)"

definition parse_replay_granularity :: "str \<Rightarrow> int option" where
  "parse_replay_granularity t =
     (if t = ''Daily'' then Some 3 else if t = ''Minute'' then Some 2 else None)"

definition dispatch_venue_login :: "python \<Rightarrow> str \<Rightarrow> str \<Rightarrow> str \<Rightarrow> io \<Rightarrow> io" where
  "dispatch_venue_login py vid creds hint s =
     (case live_call py ''venue_login''
             [(''venue_id'', PV_Str vid), (''credentials_source'', PV_Str creds),
              (''environment_hint'', PV_Str hint)] s of
        (Inr r, s1) \<Rightarrow>
          (if reply_ok r then
             (case parse_venue_state (fld_str r ''venue_state'' []) of
                Some vs \<Rightarrow> emit (SU_VenueChanged vs (Some vid)
                    (word_of_int (unwrap_or 0 (need as_u64 r ''instruments_loaded'')))) s1
              | None \<Rightarrow> s1)
           else s1)
      | (Inl msg, s1) \<Rightarrow> s1)"

definition dispatch_list_instruments :: "python \<Rightarrow> tickers_source \<Rightarrow> io \<Rightarrow> io" where
  "dispatch_list_instruments py src s =
     (case live_call py ''list_instruments'' [(''source'', pv_opt PV_Str (tickers_source_to_wire src))]
             (emit (SU_InstrumentsListStarted src) s) of
        (Inr r, s1) \<Rightarrow>
          (if reply_ok r
           then emit (SU_InstrumentsListed src (List.map_filter ticker_of_json (fld_arr r ''instruments''))) s1
           else emit (SU_InstrumentsListFailed src (fld_str r ''error_code'' ''unknown'')) s1)
      | (Inl msg, s1) \<Rightarrow> emit (SU_InstrumentsListFailed src msg) s1)"

definition dispatch_fetch_available :: "python \<Rightarrow> (date \<Rightarrow> str) \<Rightarrow> date \<Rightarrow> io \<Rightarrow> io" where
  "dispatch_fetch_available py fmt d s =
     (case live_call py ''list_all_listed_symbols'' [(''end_date'', PV_Str (fmt d))] s of
        (Inr r, s1) \<Rightarrow>
          (if reply_ok r
           then emit (SU_AvailableInstrumentsLoaded d (List.map_filter as_str (fld_arr r ''instrument_ids''))) s1
           else emit (SU_AvailableInstrumentsFetchFailed d (error_code r)) s1)
      | (Inl msg, s1) \<Rightarrow> emit (SU_AvailableInstrumentsFetchFailed d msg) s1)"

text \<open>The calls whose reply is only logged.\<close>

definition dispatch_logged :: "python \<Rightarrow> str \<Rightarrow> (str \<times> py_value) list \<Rightarrow> io \<Rightarrow> io" where
  "dispatch_logged py method kwargs s = snd (live_call py method kwargs s)"

subsection \<open>Orders\<close>

text \<open>The Japanese texts: place, cancel, modify; the answer to the order is incomplete, check its
  state at the venue; communication error, check the order's state at the venue.\<close>

definition act_place :: str where "act_place = utf8 [0xE7, 0x99, 0xBA, 0xE6, 0xB3, 0xA8]"
definition act_cancel :: str where "act_cancel = utf8 [0xE5, 0x8F, 0x96, 0xE6, 0xB6, 0x88]"
definition act_modify :: str where "act_modify = utf8 [0xE8, 0xA8, 0x82, 0xE6, 0xAD, 0xA3]"

definition msg_incomplete :: str where
  "msg_incomplete =
     utf8 [0xE7, 0x99, 0xBA, 0xE6, 0xB3, 0xA8, 0xE5, 0xBF, 0x9C, 0xE7, 0xAD, 0x94, 0xE3,
     0x81, 0x8C, 0xE4, 0xB8, 0x8D, 0xE5, 0xAE, 0x8C, 0xE5, 0x85, 0xA8, 0xE3, 0x81, 0xA7,
     0xE3, 0x81, 0x99] @ '' '' @ utf8 [0xE2, 0x80, 0x94] @ '' venue '' @ utf8 [0xE3, 0x81,
     0xA7, 0xE6, 0xB3, 0xA8, 0xE6, 0x96, 0x87, 0xE7, 0x8A, 0xB6, 0xE6, 0x85, 0x8B, 0xE3,
     0x82, 0x92, 0xE7, 0xA2, 0xBA, 0xE8, 0xAA, 0x8D, 0xE3, 0x81, 0x97, 0xE3, 0x81, 0xA6,
     0xE3, 0x81, 0x8F, 0xE3, 0x81, 0xA0, 0xE3, 0x81, 0x95, 0xE3, 0x81, 0x84]"

definition msg_comm_error :: "str \<Rightarrow> str" where
  "msg_comm_error action =
     utf8 [0xE9, 0x80, 0x9A, 0xE4, 0xBF, 0xA1, 0xE3, 0x82, 0xA8, 0xE3, 0x83, 0xA9, 0xE3,
     0x83, 0xBC] @ '' '' @ utf8 [0xE2, 0x80, 0x94] @ '' venue '' @ utf8 [0xE3, 0x81, 0xA7,
     0xE6, 0xB3, 0xA8, 0xE6, 0x96, 0x87, 0xE7, 0x8A, 0xB6, 0xE6, 0x85, 0x8B, 0xE3, 0x82,
     0x92, 0xE7, 0xA2, 0xBA, 0xE8, 0xAA, 0x8D, 0xE3, 0x81, 0x97, 0xE3, 0x81, 0xA6, 0xE3,
     0x81, 0x8F, 0xE3, 0x81, 0xA0, 0xE3, 0x81, 0x95, 0xE3, 0x81, 0x84] @ '' ('' @ action @ '')''"

definition place_kwargs ::
  "str \<Rightarrow> str \<Rightarrow> str \<Rightarrow> f64 \<Rightarrow> f64 option \<Rightarrow> str \<Rightarrow> str \<Rightarrow> redacted_secret option \<Rightarrow>
   (str \<times> py_value) list" where
  "place_kwargs venue instr side q p otype tif secret =
     [(''venue'', PV_Str venue), (''instrument_id'', PV_Str instr), (''side'', PV_Str side),
      (''qty'', PV_Float q), (''price'', pv_opt PV_Float p), (''order_type'', PV_Str otype),
      (''time_in_force'', PV_Str tif), (''second_secret'', pv_secret secret)]"

definition place_result ::
  "str \<Rightarrow> str \<Rightarrow> f64 \<Rightarrow> f64 option \<Rightarrow> (str + json) \<Rightarrow> backend_status_update" where
  "place_result instr side q p res =
     (case res of
        Inr r \<Rightarrow>
          (if reply_ok r then
             (case order_event_of r of
                Some ev \<Rightarrow>
                  SU_OrderSeeded (fld_str ev ''client_order_id'' []) (fld_str ev ''venue_order_id'' [])
                    instr side q p (fld_str ev ''status'' []) (fld_f64 ev ''filled_qty'')
                    (fld_f64 ev ''avg_price'') (fld_i64 ev ''ts_ms'') (fld_str ev ''strategy_id'' [])
              | None \<Rightarrow> SU_OrderNotice msg_incomplete)
           else SU_OrderRejected act_place (error_code r))
      | Inl msg \<Rightarrow> SU_OrderNotice (msg_comm_error act_place))"

definition dispatch_place_order ::
  "python \<Rightarrow> str \<Rightarrow> str \<Rightarrow> str \<Rightarrow> f64 \<Rightarrow> f64 option \<Rightarrow> str \<Rightarrow> str \<Rightarrow> redacted_secret option \<Rightarrow>
   io \<Rightarrow> io" where
  "dispatch_place_order py venue instr side q p otype tif secret s =
     (let (res, s1) = live_call py ''place_order'' (place_kwargs venue instr side q p otype tif secret) s in
      emit (place_result instr side q p res) s1)"

definition cancel_kwargs :: "str \<Rightarrow> str \<Rightarrow> redacted_secret option \<Rightarrow> (str \<times> py_value) list" where
  "cancel_kwargs venue oid secret =
     [(''venue'', PV_Str venue), (''order_id'', PV_Str oid), (''second_secret'', pv_secret secret)]"

definition cancel_result :: "(str + json) \<Rightarrow> backend_status_update option" where
  "cancel_result res =
     (case res of
        Inr r \<Rightarrow>
          (if reply_ok r then
             (case order_event_of r of
                Some ev \<Rightarrow> Some
                  (SU_OrderStatusUpdated (fld_str ev ''client_order_id'' []) (fld_str ev ''venue_order_id'' [])
                    (fld_str ev ''status'' []) (fld_f64 ev ''filled_qty'') (fld_f64 ev ''avg_price'')
                    (fld_i64 ev ''ts_ms''))
              | None \<Rightarrow> None)
           else Some (SU_OrderRejected act_cancel (error_code r)))
      | Inl msg \<Rightarrow> Some (SU_OrderNotice (msg_comm_error act_cancel)))"

definition dispatch_cancel_order :: "python \<Rightarrow> str \<Rightarrow> str \<Rightarrow> redacted_secret option \<Rightarrow> io \<Rightarrow> io" where
  "dispatch_cancel_order py venue oid secret s =
     (let (res, s1) = live_call py ''cancel_order'' (cancel_kwargs venue oid secret) s in
      case cancel_result res of Some u \<Rightarrow> emit u s1 | None \<Rightarrow> s1)"

definition modify_kwargs ::
  "str \<Rightarrow> str \<Rightarrow> f64 option \<Rightarrow> f64 option \<Rightarrow> redacted_secret option \<Rightarrow> (str \<times> py_value) list" where
  "modify_kwargs venue co q p secret =
     [(''venue'', PV_Str venue), (''client_order_id'', PV_Str co), (''new_qty'', pv_opt PV_Float q),
      (''new_price'', pv_opt PV_Float p), (''second_secret'', pv_secret secret)]"

definition modify_result :: "f64 option \<Rightarrow> f64 option \<Rightarrow> (str + json) \<Rightarrow> backend_status_update" where
  "modify_result q p res =
     (case res of
        Inr r \<Rightarrow>
          (if reply_ok r then
             (case order_event_of r of
                Some ev \<Rightarrow>
                  SU_OrderModified (fld_str ev ''client_order_id'' []) (fld_str ev ''venue_order_id'' [])
                    q p (fld_str ev ''status'' []) (fld_f64 ev ''filled_qty'') (fld_f64 ev ''avg_price'')
                    (fld_i64 ev ''ts_ms'')
              | None \<Rightarrow> SU_OrderNotice msg_incomplete)
           else SU_OrderRejected act_modify (error_code r))
      | Inl msg \<Rightarrow> SU_OrderNotice (msg_comm_error act_modify))"

definition dispatch_modify_order ::
  "python \<Rightarrow> str \<Rightarrow> str \<Rightarrow> f64 option \<Rightarrow> f64 option \<Rightarrow> redacted_secret option \<Rightarrow> io \<Rightarrow> io" where
  "dispatch_modify_order py venue co q p secret s =
     (let (res, s1) = live_call py ''modify_order'' (modify_kwargs venue co q p secret) s in
      emit (modify_result q p res) s1)"

definition dispatch_submit_secret :: "python \<Rightarrow> str \<Rightarrow> redacted_secret \<Rightarrow> io \<Rightarrow> io" where
  "dispatch_submit_secret py rid secret s =
     (case live_call py ''submit_secret'' [(''request_id'', PV_Str rid), (''secret'', PV_Str (expose secret))] s of
        (Inr r, s1) \<Rightarrow> (if reply_ok r then s1 else emit (SU_SecretSubmitFailed (error_code r)) s1)
      | (Inl msg, s1) \<Rightarrow> s1)"

subsection \<open>Starting a live strategy\<close>

record safety_limits =
  sfl_max_position_size_jpy :: int
  sfl_max_order_value_jpy :: int
  sfl_max_daily_loss_jpy :: int
  sfl_max_orders_per_minute :: int
  sfl_allowed_instruments :: "str list"

definition default_live_auto_safety_limits :: "str \<Rightarrow> safety_limits" where
  "default_live_auto_safety_limits instr =
     \<lparr>sfl_max_position_size_jpy = 1000000, sfl_max_order_value_jpy = 500000,
      sfl_max_daily_loss_jpy = 100000, sfl_max_orders_per_minute = 5,
      sfl_allowed_instruments = [instr]\<rparr>"

definition safety_dict :: "safety_limits \<Rightarrow> py_value" where
  "safety_dict l = PV_Dict
     [(''max_position_size_jpy'', PV_Int (sfl_max_position_size_jpy l)),
      (''max_order_value_jpy'', PV_Int (sfl_max_order_value_jpy l)),
      (''max_daily_loss_jpy'', PV_Int (sfl_max_daily_loss_jpy l)),
      (''max_orders_per_minute'', PV_Int (sfl_max_orders_per_minute l)),
      (''allowed_instruments'', PV_Strs (sfl_allowed_instruments l))]"

definition start_live_kwargs :: "str \<Rightarrow> str \<Rightarrow> str \<Rightarrow> (str \<times> py_value) list" where
  "start_live_kwargs sid instr venue =
     [(''strategy_id'', PV_Str sid), (''instrument_id'', PV_Str instr), (''venue'', PV_Str venue),
      (''safety_limits_dict'', safety_dict (default_live_auto_safety_limits instr))]"

definition dispatch_start_live_auto :: "python \<Rightarrow> str \<Rightarrow> str \<Rightarrow> path \<Rightarrow> io \<Rightarrow> io" where
  "dispatch_start_live_auto py instr venue file s =
     (case live_call py ''register_live_strategy'' [(''strategy_file'', PV_Str file)] s of
        (Inl msg, s1) \<Rightarrow>
          emit (SU_RunFailed None (''RegisterLiveStrategy failed: instrument_id='' @ instr @ '' venue='' @
                                   venue @ '' err='' @ msg)) s1
      | (Inr r, s1) \<Rightarrow>
          (if \<not> reply_ok r then
             emit (SU_RunFailed None (unwrap_or (''RegisterLiveStrategy rejected: '' @ error_code r)
               (build_register_reject_message False (error_code r) (fld_str r ''error_message'' []) instr venue))) s1
           else
             (let sid = fld_str r ''strategy_id'' [] in
              case live_call py ''start_live_strategy'' (start_live_kwargs sid instr venue) s1 of
                (Inr r2, s2) \<Rightarrow>
                  (if \<not> reply_ok r2 then
                     emit (SU_RunFailed None (unwrap_or (''StartLiveStrategy rejected: '' @ error_code r2)
                       (build_start_reject_message False (error_code r2) (fld_str r2 ''error_message'' [])
                          sid instr venue))) s2
                   else s2)
              | (Inl msg, s2) \<Rightarrow>
                  emit (SU_RunFailed None (''StartLiveStrategy failed: strategy_id='' @ sid @
                    '' instrument_id='' @ instr @ '' venue='' @ venue @ '' err='' @ msg)) s2)))"

subsection \<open>Dispatch\<close>

fun inproc_dispatch :: "externals \<Rightarrow> str option \<Rightarrow> transport_command \<Rightarrow> io \<Rightarrow> io" where
  "inproc_dispatch x catalog TC_Pause = dispatch_pause (ex_python x)"
| "inproc_dispatch x catalog TC_Resume = dispatch_resume (ex_python x)"
| "inproc_dispatch x catalog TC_StepForward = dispatch_step_forward (ex_python x)"
| "inproc_dispatch x catalog TC_ForceStop = dispatch_force_stop (ex_python x)"
| "inproc_dispatch x catalog (TC_SetSpeed m) = dispatch_set_speed (ex_python x) m"
| "inproc_dispatch x catalog (TC_LoadAndStep cfg sid) = dispatch_load_and_step sid"
| "inproc_dispatch x catalog (TC_RestartReplay cfg) = dispatch_restart_replay x cfg catalog"
| "inproc_dispatch x catalog (TC_RunStrategy file cfg sid) = dispatch_run_strategy (ex_python x) file cfg sid catalog"
| "inproc_dispatch x catalog (TC_SetExecutionMode m) = dispatch_set_execution_mode (ex_python x) m"
| "inproc_dispatch x catalog (TC_VenueLogin vid creds hint) = dispatch_venue_login (ex_python x) vid creds hint"
| "inproc_dispatch x catalog TC_VenueLogout = dispatch_logged (ex_python x) ''venue_logout'' []"
| "inproc_dispatch x catalog (TC_ListInstruments src) = dispatch_list_instruments (ex_python x) src"
| "inproc_dispatch x catalog (TC_FetchAvailableInstruments d) = dispatch_fetch_available (ex_python x) (ex_fmt_date x) d"
| "inproc_dispatch x catalog (TC_SubscribeMarketData i) =
     dispatch_logged (ex_python x) ''subscribe_market_data'' [(''instrument_id'', PV_Str i)]"
| "inproc_dispatch x catalog (TC_UnsubscribeMarketData i) =
     dispatch_logged (ex_python x) ''unsubscribe_market_data'' [(''instrument_id'', PV_Str i)]"
| "inproc_dispatch x catalog (TC_PlaceOrder venue instr side q p otype tif secret) =
     dispatch_place_order (ex_python x) venue instr side q p otype tif secret"
| "inproc_dispatch x catalog (TC_CancelOrder venue oid secret) = dispatch_cancel_order (ex_python x) venue oid secret"
| "inproc_dispatch x catalog (TC_ModifyOrder venue co q p secret) =
     dispatch_modify_order (ex_python x) venue co q p secret"
| "inproc_dispatch x catalog (TC_GetOrders venue) = seed_orders (ex_python x) venue False"
| "inproc_dispatch x catalog (TC_GetOrdersAndReconcile venue) = seed_orders (ex_python x) venue True"
| "inproc_dispatch x catalog (TC_SubmitSecret rid secret) = dispatch_submit_secret (ex_python x) rid secret"
| "inproc_dispatch x catalog TC_ForceAccountSnapshot = dispatch_logged (ex_python x) ''force_account_snapshot'' []"
| "inproc_dispatch x catalog (TC_StartLiveAuto instr venue file) =
     dispatch_start_live_auto (ex_python x) instr venue file"
| "inproc_dispatch x catalog (TC_PauseLiveStrategy r) =
     dispatch_logged (ex_python x) ''pause_live_strategy'' [(''run_id'', PV_Str r)]"
| "inproc_dispatch x catalog (TC_ResumeLiveStrategy r) =
     dispatch_logged (ex_python x) ''resume_live_strategy'' [(''run_id'', PV_Str r)]"
| "inproc_dispatch x catalog (TC_StopLiveStrategy r) =
     dispatch_logged (ex_python x) ''stop_live_strategy'' [(''run_id'', PV_Str r)]"

subsection \<open>The worker\<close>

definition startup_status_sequence :: "bool \<Rightarrow> backend_status_update list" where
  "startup_status_sequence ok =
     (if \<not> ok then [SU_Connected False, SU_Error ''InprocLiveServer init failed'']
      else [SU_Connected True, SU_Running True])"

definition startup_instrument_fetch :: "tickers_source option" where
  "startup_instrument_fetch = Some TS_ReplayCatalogFallback"

datatype worker_input = WI_Cmd transport_command | WI_Timeout

text \<open>The loop: a command is dispatched, a timeout polls the state; when the command channel is
  closed the live server is closed and the worker ends.\<close>

fun worker_loop :: "externals \<Rightarrow> str option \<Rightarrow> worker_input list \<Rightarrow> io \<Rightarrow> io" where
  "worker_loop x catalog [] s =
     snd (py_invoke (ex_python x) \<lparr>pc_target = PT_Live, pc_method = ''close'', pc_args = [], pc_kwargs = []\<rparr> s)"
| "worker_loop x catalog (WI_Cmd c # is) s = worker_loop x catalog is (inproc_dispatch x catalog c s)"
| "worker_loop x catalog (WI_Timeout # is) s = worker_loop x catalog is (poll_state (ex_python x) s)"

record worker_config =
  wc_catalog_path :: "str option"
  wc_max_history_len :: int
  wc_live_venue_id :: "str option"

definition inproc_python_worker ::
  "externals \<Rightarrow> worker_config \<Rightarrow> worker_input list \<Rightarrow> io \<Rightarrow> io" where
  "inproc_python_worker x cfg inputs s =
     (let catalog = wc_catalog_path cfg;
          (r1, s1) = py_invoke (ex_python x)
            \<lparr>pc_target = PT_Module, pc_method = ''engine.core.DataEngine'', pc_args = [],
             pc_kwargs = (case catalog of Some cp \<Rightarrow> [(''nautilus_catalog_path'', PV_Str cp)] | None \<Rightarrow> []) @
                         [(''max_history_len'', PV_Int (wc_max_history_len cfg))]\<rparr> s in
      case r1 of
        PR_Raise e \<Rightarrow> emit (SU_Error (''InProc DataEngine init failed: '' @ e)) s1
      | _ \<Rightarrow>
          (let (r2, s2) = py_invoke (ex_python x)
                 \<lparr>pc_target = PT_Engine, pc_method = ''set_rust_event_sink'', pc_args = [PV_EventSink],
                  pc_kwargs = []\<rparr> s1;
               (r3, s3) = py_invoke (ex_python x)
                 \<lparr>pc_target = PT_Module, pc_method = ''engine.inproc_server.InprocLiveServer'',
                  pc_args = [PV_Engine],
                  pc_kwargs = (case wc_live_venue_id cfg of
                                 Some v \<Rightarrow> [(''live_venue_id'', PV_Str v)] | None \<Rightarrow> [])\<rparr> s2 in
           case r3 of
             PR_Raise e \<Rightarrow> fold emit (startup_status_sequence False) s3
           | _ \<Rightarrow>
               (let s4 = fold emit (startup_status_sequence True) s3;
                    s5 = (case startup_instrument_fetch of
                            Some src \<Rightarrow> inproc_dispatch x catalog (TC_ListInstruments src) s4
                          | None \<Rightarrow> s4) in
                worker_loop x catalog inputs s5)))"

subsection \<open>The sinks Python calls\<close>

text \<open>A derived deserializer takes an object by field name, or an array by position.\<close>

definition raw_struct :: "str list \<Rightarrow> json \<Rightarrow> json option" where
  "raw_struct names v =
     (case v of JObj es \<Rightarrow> Some v
      | JArr vs \<Rightarrow> if length vs = length names then Some (JObj (zip names vs)) else None
      | _ \<Rightarrow> None)"

definition push_bar :: "str \<Rightarrow> inproc_resp list" where
  "push_bar txt = [IR_StateJson txt]"

definition push_order :: "(str \<Rightarrow> json option) \<Rightarrow> str \<Rightarrow> inproc_resp list" where
  "push_order parse txt =
     (case Option.bind (parse txt) (raw_struct [''symbol'', ''client_order_id'', ''venue_order_id'',
              ''strategy_id'', ''side'', ''status'', ''qty'', ''price'', ''timestamp_ms'']) of
        None \<Rightarrow> []
      | Some v \<Rightarrow>
          (case (need as_str v ''symbol'', need as_str v ''client_order_id'', need as_str v ''venue_order_id'',
                 need as_str v ''strategy_id'', need as_str v ''side'') of
             (Some symb, Some co, Some vo, Some strat, Some side) \<Rightarrow>
               (case (need as_str v ''status'', need as_f64 v ''qty'', need as_f64 v ''price'',
                      need as_i64 v ''timestamp_ms'') of
                  (Some st, Some q, Some p, Some ts) \<Rightarrow>
                    [IR_Status (SU_OrderSeeded co vo symb side q (Some p) st q p ts strat)]
                | _ \<Rightarrow> [])
           | _ \<Rightarrow> []))"

definition raw_position :: "json \<Rightarrow> portfolio_position option" where
  "raw_position j =
     (case raw_struct [''symbol'', ''qty'', ''avg_price''] j of
        None \<Rightarrow> None
      | Some v \<Rightarrow>
          (case (need as_str v ''symbol'', need as_f64 v ''qty'', need as_f64 v ''avg_price'') of
             (Some symb, Some q, Some avg) \<Rightarrow>
               Some \<lparr>pp_symbol = symb, pp_qty = f64_as_i64 q, pp_avg_price = avg, pp_unrealized_pnl = 0\<rparr>
           | _ \<Rightarrow> None))"

definition push_portfolio :: "(str \<Rightarrow> json option) \<Rightarrow> str \<Rightarrow> inproc_resp list" where
  "push_portfolio parse txt =
     (case Option.bind (parse txt) (raw_struct [''buying_power'', ''equity'', ''positions'']) of
        None \<Rightarrow> []
      | Some v \<Rightarrow>
          (case (need as_f64 v ''buying_power'', need as_f64 v ''equity'', need as_array v ''positions'') of
             (Some bp, Some eq, Some ps) \<Rightarrow>
               (if list_all (\<lambda>p. raw_position p \<noteq> None) ps
                then [IR_Status (SU_PortfolioLoaded bp bp eq (List.map_filter raw_position ps) [])]
                else [])
           | _ \<Rightarrow> []))"

definition push_run_complete :: "u64 \<Rightarrow> str \<Rightarrow> str \<Rightarrow> inproc_resp list" where
  "push_run_complete sid run_id summary = [IR_Status (SU_RunComplete (Some sid) run_id summary)]"

definition push_run_failed :: "u64 \<Rightarrow> str \<Rightarrow> inproc_resp list" where
  "push_run_failed sid err = [IR_Status (SU_RunFailed (Some sid) err)]"

subsection \<open>From responses to status updates\<close>

record diff_state =
  dst_prev_venue :: "str option"
  dst_prev_mode :: "str option"
  dst_prev_configured :: "str option option"

definition diff_init :: diff_state where
  "diff_init = \<lparr>dst_prev_venue = None, dst_prev_mode = None, dst_prev_configured = None\<rparr>"

definition venue_updates :: "str option \<Rightarrow> backend_trading_state \<Rightarrow> backend_status_update list" where
  "venue_updates prev st =
     (if bts_venue_state st \<noteq> prev then
        (case bts_venue_state st of
           Some t \<Rightarrow>
             (case parse_venue_state t of
                Some vs \<Rightarrow> [SU_VenueChanged vs (bts_venue_id st) (unwrap_or 0 (bts_instruments_loaded st))]
              | None \<Rightarrow> [])
         | None \<Rightarrow> [])
      else [])"

definition mode_updates :: "str option \<Rightarrow> backend_trading_state \<Rightarrow> backend_status_update list" where
  "mode_updates prev st =
     (if bts_execution_mode st \<noteq> prev then
        (case bts_execution_mode st of
           Some t \<Rightarrow>
             (case parse_execution_mode t of Some m \<Rightarrow> [SU_ExecutionModeChanged m] | None \<Rightarrow> [])
         | None \<Rightarrow> [])
      else [])"

definition diff_step ::
  "(str \<Rightarrow> backend_trading_state option) \<Rightarrow> inproc_resp \<Rightarrow> diff_state \<Rightarrow>
   diff_state \<times> backend_status_update list \<times> backend_trading_state list" where
  "diff_step parse_state r d =
     (case r of
        IR_Status u \<Rightarrow> (d, [u], [])
      | IR_StateJson txt \<Rightarrow>
          (case parse_state txt of
             None \<Rightarrow> (d, [], [])
           | Some st \<Rightarrow>
               (\<lparr>dst_prev_venue = bts_venue_state st, dst_prev_mode = bts_execution_mode st,
                 dst_prev_configured = Some (bts_configured_venue st)\<rparr>,
                venue_updates (dst_prev_venue d) st @
                mode_updates (dst_prev_mode d) st @
                (if dst_prev_configured d \<noteq> Some (bts_configured_venue st)
                 then [SU_ConfiguredVenueDiscovered (bts_configured_venue st)] else []) @
                [SU_LastPricesUpdated (bts_last_prices st), SU_Connected True],
                [st])))"

fun response_loop ::
  "(str \<Rightarrow> backend_trading_state option) \<Rightarrow> inproc_resp list \<Rightarrow> diff_state \<Rightarrow>
   backend_status_update list" where
  "response_loop parse_state [] d = []"
| "response_loop parse_state (r # rs) d =
     (let (d1, us, sts) = diff_step parse_state r d in us @ response_loop parse_state rs d1)"

text \<open>The whole task ends with a disconnect when the worker is gone.\<close>

definition transport_status :: "(str \<Rightarrow> backend_trading_state option) \<Rightarrow> inproc_resp list \<Rightarrow> backend_status_update list" where
  "transport_status parse_state rs = response_loop parse_state rs diff_init @ [SU_Connected False]"

subsection \<open>Reconnect\<close>

definition is_reconcile_command :: "transport_command \<Rightarrow> bool" where
  "is_reconcile_command c \<longleftrightarrow>
     (case c of TC_GetOrdersAndReconcile v \<Rightarrow> True | TC_FetchAvailableInstruments d \<Rightarrow> True | _ \<Rightarrow> False)"

definition flush_stale_transport_commands :: "transport_command list \<Rightarrow> transport_command list" where
  "flush_stale_transport_commands cs = filter is_reconcile_command cs"

section \<open>Properties\<close>

subsection \<open>What a command adds\<close>

lemma py_invoke_simps [simp]:
  "io_out (snd (py_invoke py c s)) = io_out s"
  "io_calls (snd (py_invoke py c s)) = io_calls s @ [c]"
  "fst (py_invoke py c s) = py (io_calls s @ [c])"
  by (simp_all add: py_invoke_def)

lemma emit_simps [simp]:
  "io_out (emit u s) = io_out s @ [IR_Status u]" "io_calls (emit u s) = io_calls s"
  "io_out (emit_state t s) = io_out s @ [IR_StateJson t]" "io_calls (emit_state t s) = io_calls s"
  by (simp_all add: emit_def emit_state_def)

definition live_py_call :: "str \<Rightarrow> (str \<times> py_value) list \<Rightarrow> py_call" where
  "live_py_call method kwargs =
     \<lparr>pc_target = PT_Live, pc_method = method, pc_args = [], pc_kwargs = kwargs\<rparr>"

lemma live_call_eq:
  "live_call py method kwargs s =
     (reply_json method (py (io_calls s @ [live_py_call method kwargs])),
      s\<lparr>io_calls := io_calls s @ [live_py_call method kwargs]\<rparr>)"
  by (simp add: live_call_def py_invoke_def live_py_call_def)

definition adds :: "nat \<Rightarrow> nat \<Rightarrow> io \<Rightarrow> io \<Rightarrow> bool" where
  "adds n m s t \<longleftrightarrow>
     take (length (io_calls s)) (io_calls t) = io_calls s \<and> length (io_calls t) \<le> length (io_calls s) + n \<and>
     take (length (io_out s)) (io_out t) = io_out s \<and> length (io_out t) \<le> length (io_out s) + m"

lemmas adds_defs = dispatch_pause_def dispatch_resume_def dispatch_step_forward_def dispatch_force_stop_def
  dispatch_set_speed_def dispatch_load_and_step_def dispatch_restart_replay_def dispatch_run_strategy_def
  dispatch_set_execution_mode_def dispatch_venue_login_def dispatch_logged_def dispatch_list_instruments_def
  dispatch_fetch_available_def dispatch_place_order_def dispatch_cancel_order_def dispatch_modify_order_def
  seed_orders_def dispatch_submit_secret_def dispatch_start_live_auto_def nautilus_control_def
  call_replay_def call_load_replay_data_def poll_state_def

text \<open>Every command only appends: it makes at most two calls into Python and sends at most
  three responses, after all earlier ones.\<close>

theorem dispatch_appends:
  "adds 2 3 s (inproc_dispatch x catalog c s)"
  by (cases c)
    (auto simp: adds_defs adds_def live_call_eq py_invoke_def emit_def emit_state_def Let_def
      split: py_reply.split json.split sum.split option.split poll_state_outcome.split prod.split)

subsection \<open>Orders\<close>

text \<open>Placing an order makes one call and sends one update: the order with the instrument,
  side, quantity and price of the command when the reply has an order event, an incomplete-answer
  notice when it has none, a rejection with the error code when the reply is a failure, and a
  communication notice when the call fails.\<close>

theorem place_order_one_update:
  "inproc_dispatch x catalog (TC_PlaceOrder venue instr side q p otype tif secret) s =
     (let c = live_py_call ''place_order'' (place_kwargs venue instr side q p otype tif secret);
          res = reply_json ''place_order'' (ex_python x (io_calls s @ [c])) in
      s\<lparr>io_calls := io_calls s @ [c],
        io_out := io_out s @ [IR_Status
          (case res of
             Inl msg \<Rightarrow> SU_OrderNotice (msg_comm_error act_place)
           | Inr r \<Rightarrow>
               (if \<not> reply_ok r then SU_OrderRejected act_place (error_code r)
                else (case order_event_of r of
                        None \<Rightarrow> SU_OrderNotice msg_incomplete
                      | Some ev \<Rightarrow>
                          SU_OrderSeeded (fld_str ev ''client_order_id'' []) (fld_str ev ''venue_order_id'' [])
                            instr side q p (fld_str ev ''status'' []) (fld_f64 ev ''filled_qty'')
                            (fld_f64 ev ''avg_price'') (fld_i64 ev ''ts_ms'') (fld_str ev ''strategy_id'' []))))]\<rparr>)"
  by (simp add: dispatch_place_order_def live_call_eq emit_def place_result_def Let_def
      split: sum.split option.split)

text \<open>A cancellation that succeeds without an order event sends nothing: the screen keeps
  showing the order as it was, while placing and modifying report the incomplete answer.\<close>

theorem cancel_incomplete_is_silent:
  assumes "ex_python x (io_calls s @ [live_py_call ''cancel_order'' (cancel_kwargs venue oid secret)]) = PR_Value r"
    and "reply_ok r" and "order_event_of r = None"
  shows "io_out (inproc_dispatch x catalog (TC_CancelOrder venue oid secret) s) = io_out s \<and>
    place_result instr side q p (Inr r) = SU_OrderNotice msg_incomplete \<and>
    modify_result nq np (Inr r) = SU_OrderNotice msg_incomplete"
  using assms
  by (simp add: dispatch_cancel_order_def live_call_eq cancel_result_def place_result_def
      modify_result_def reply_json_def)

subsection \<open>The second password\<close>

definition secret_of :: "transport_command \<Rightarrow> str option" where
  "secret_of c =
     (case c of
        TC_PlaceOrder venue instr side q p otype tif s \<Rightarrow> map_option expose s
      | TC_CancelOrder venue oid s \<Rightarrow> map_option expose s
      | TC_ModifyOrder venue co q p s \<Rightarrow> map_option expose s
      | TC_SubmitSecret rid s \<Rightarrow> Some (expose s)
      | _ \<Rightarrow> None)"

definition with_secret :: "redacted_secret \<Rightarrow> transport_command \<Rightarrow> transport_command" where
  "with_secret z c =
     (case c of
        TC_PlaceOrder venue instr side q p otype tif s \<Rightarrow>
          TC_PlaceOrder venue instr side q p otype tif (map_option (\<lambda>_. z) s)
      | TC_CancelOrder venue oid s \<Rightarrow> TC_CancelOrder venue oid (map_option (\<lambda>_. z) s)
      | TC_ModifyOrder venue co q p s \<Rightarrow> TC_ModifyOrder venue co q p (map_option (\<lambda>_. z) s)
      | TC_SubmitSecret rid s \<Rightarrow> TC_SubmitSecret rid z
      | _ \<Rightarrow> c)"

text \<open>The call a command with a secret makes.\<close>

definition secret_call :: "transport_command \<Rightarrow> py_call" where
  "secret_call c =
     (case c of
        TC_PlaceOrder venue instr side q p otype tif s \<Rightarrow>
          live_py_call ''place_order'' (place_kwargs venue instr side q p otype tif s)
      | TC_CancelOrder venue oid s \<Rightarrow> live_py_call ''cancel_order'' (cancel_kwargs venue oid s)
      | TC_ModifyOrder venue co q p s \<Rightarrow> live_py_call ''modify_order'' (modify_kwargs venue co q p s)
      | TC_SubmitSecret rid s \<Rightarrow>
          live_py_call ''submit_secret'' [(''request_id'', PV_Str rid), (''secret'', PV_Str (expose s))]
      | _ \<Rightarrow> live_py_call [] [])"

text \<open>The secret of an order or of a secret submission reaches the interface by no way of
  the program's own: two commands that differ only in the secret, whose one call gets the same
  reply, send the same responses, and the debug text of a secret is constant.\<close>

theorem secret_does_not_flow_to_ui:
  assumes "secret_of c \<noteq> None"
    and "ex_python x (io_calls s @ [secret_call (with_secret z1 c)]) =
         ex_python y (io_calls s @ [secret_call (with_secret z2 c)])"
  shows "io_out (inproc_dispatch x catalog (with_secret z1 c) s) =
    io_out (inproc_dispatch y catalog (with_secret z2 c) s) \<and>
    debug_secret z1 = debug_secret z2"
  using assms
  by (cases c)
    (simp_all add: with_secret_def secret_of_def secret_call_def debug_secret_def dispatch_place_order_def
      dispatch_cancel_order_def dispatch_modify_order_def dispatch_submit_secret_def live_call_eq
      split: sum.split option.split)

subsection \<open>Starting and restarting\<close>

text \<open>A live strategy is started only after its registration succeeded, with the id the
  registration returned, and always with the fixed safety limits and the one instrument allowed;
  each failure, of the call or reported by the backend, sends exactly one \<open>RunFailed\<close>, success
  sends nothing.\<close>

theorem start_live_auto_sequence:
  "let reg = live_py_call ''register_live_strategy'' [(''strategy_file'', PV_Str file)];
       r1 = reply_json ''register_live_strategy'' (ex_python x (io_calls s @ [reg]));
       s' = inproc_dispatch x catalog (TC_StartLiveAuto instr venue file) s in
   case r1 of
     Inr v \<Rightarrow>
       (if reply_ok v then
          (let start = live_py_call ''start_live_strategy''
                 [(''strategy_id'', PV_Str (fld_str v ''strategy_id'' [])), (''instrument_id'', PV_Str instr),
                  (''venue'', PV_Str venue),
                  (''safety_limits_dict'', PV_Dict
                     [(''max_position_size_jpy'', PV_Int 1000000), (''max_order_value_jpy'', PV_Int 500000),
                      (''max_daily_loss_jpy'', PV_Int 100000), (''max_orders_per_minute'', PV_Int 5),
                      (''allowed_instruments'', PV_Strs [instr])])];
               r2 = reply_json ''start_live_strategy'' (ex_python x (io_calls s @ [reg, start])) in
           io_calls s' = io_calls s @ [reg, start] \<and>
           (if (\<exists>w. r2 = Inr w \<and> reply_ok w) then io_out s' = io_out s
            else \<exists>msg. io_out s' = io_out s @ [IR_Status (SU_RunFailed None msg)]))
        else io_calls s' = io_calls s @ [reg] \<and>
             (\<exists>msg. io_out s' = io_out s @ [IR_Status (SU_RunFailed None msg)]))
   | Inl e \<Rightarrow> io_calls s' = io_calls s @ [reg] \<and>
             (\<exists>msg. io_out s' = io_out s @ [IR_Status (SU_RunFailed None msg)])"
  by (simp add: dispatch_start_live_auto_def live_call_eq emit_def Let_def start_live_kwargs_def
      safety_dict_def default_live_auto_safety_limits_def split: sum.split)

lemma call_replay_out: "call_replay py m s = (p, t) \<Longrightarrow> io_out t = io_out s"
  by (auto simp: call_replay_def py_invoke_def)

lemma call_load_replay_data_out: "call_load_replay_data x cfg catalog s = (p, t) \<Longrightarrow> io_out t = io_out s"
  by (auto simp: call_load_replay_data_def py_invoke_def)

text \<open>A restart of the replay loads the data only after the stop succeeded and reports
  \<open>LOADED\<close> exactly when both calls did; otherwise it reports one failure.\<close>

theorem restart_replay_sequence:
  "let ((stop_ok, e1), s1) = call_replay (ex_python x) ''force_stop_replay'' s;
       ((load_ok, e2), s2) = call_load_replay_data x cfg catalog s1;
       s' = inproc_dispatch x catalog (TC_RestartReplay cfg) s in
   (if stop_ok then
      io_calls s' = io_calls s2 \<and>
      (if load_ok then io_out s' = io_out s @ [IR_Status (SU_ReplayStateChanged ''LOADED'')]
       else \<exists>m. io_out s' = io_out s @ [IR_Status (SU_RunFailed None m)])
    else io_calls s' = io_calls s1 \<and>
      (\<exists>m. io_out s' = io_out s @ [IR_Status (SU_RunFailed None m)]))"
proof -
  obtain ok1 e1 s1 where c1: "call_replay (ex_python x) ''force_stop_replay'' s = ((ok1, e1), s1)"
    by (metis prod.collapse)
  obtain ok2 e2 s2 where c2: "call_load_replay_data x cfg catalog s1 = ((ok2, e2), s2)"
    by (metis prod.collapse)
  show ?thesis
    using call_replay_out [OF c1] call_load_replay_data_out [OF c2]
    by (simp add: dispatch_restart_replay_def c1 c2 Let_def)
qed

text \<open>Pausing reports \<open>PAUSED\<close> and resuming reports \<open>RUNNING\<close> also when the call
  to the backend failed.\<close>

theorem pause_reported_on_failure:
  assumes "ex_python x (io_calls s @ [live_py_call ''pause_backtest'' []]) = PR_Raise e"
    and "ex_python x (io_calls s @ [live_py_call ''resume_backtest'' []]) = PR_Raise e'"
  shows "io_out (inproc_dispatch x catalog TC_Pause s) =
      io_out s @ [IR_Status (SU_ReplayStateChanged ''PAUSED'')] \<and>
    io_out (inproc_dispatch x catalog TC_Resume s) =
      io_out s @ [IR_Status (SU_ReplayStateChanged ''RUNNING'')]"
  by (simp add: dispatch_pause_def dispatch_resume_def nautilus_control_def py_invoke_def emit_def Let_def)

subsection \<open>The worker\<close>

lemma fold_emit_out: "io_out (fold emit us s) = io_out s @ map IR_Status us"
  by (induction us arbitrary: s) auto

lemma fold_emit_calls [simp]: "io_calls (fold emit us s) = io_calls s"
  by (induction us arbitrary: s) auto

definition engine_init_call :: "worker_config \<Rightarrow> py_call" where
  "engine_init_call cfg =
     \<lparr>pc_target = PT_Module, pc_method = ''engine.core.DataEngine'', pc_args = [],
      pc_kwargs = (case wc_catalog_path cfg of Some cp \<Rightarrow> [(''nautilus_catalog_path'', PV_Str cp)] | None \<Rightarrow> []) @
                  [(''max_history_len'', PV_Int (wc_max_history_len cfg))]\<rparr>"

text \<open>When the engine cannot be created the worker makes no further call, takes no command
  and reports exactly one error.\<close>

theorem worker_stops_without_engine:
  assumes "ex_python x [engine_init_call cfg] = PR_Raise e"
  shows "inproc_python_worker x cfg inputs \<lparr>io_calls = [], io_out = []\<rparr> =
    \<lparr>io_calls = [engine_init_call cfg],
     io_out = [IR_Status (SU_Error (''InProc DataEngine init failed: '' @ e))]\<rparr>"
  using assms
  by (simp add: inproc_python_worker_def py_invoke_def emit_def Let_def engine_init_call_def)

subsection \<open>The interface mirrors the polled state\<close>

fun mode_of_update :: "backend_status_update \<Rightarrow> execution_mode option" where
  "mode_of_update (SU_ExecutionModeChanged m) = Some m"
| "mode_of_update u = None"

lemma w_mode_update:
  "w_mode (apply_status_update parse u w) = (case mode_of_update u of Some m \<Rightarrow> m | None \<Rightarrow> w_mode w)"
  by (cases u) (simp_all add: reduce_run_complete_def reduce_run_failed_def reduce_mode_changed_def)

lemma w_mode_no_update:
  "list_all (\<lambda>u. mode_of_update u = None) us \<Longrightarrow> w_mode (fold (apply_status_update parse) us w) = w_mode w"
  by (induction us arbitrary: w) (simp_all add: w_mode_update)

text \<open>The mode the polled states name last, among the names that are known.\<close>

definition last_mode :: "execution_mode \<Rightarrow> backend_trading_state list \<Rightarrow> execution_mode" where
  "last_mode m sts =
     foldl (\<lambda>m st. case bts_execution_mode st of
                     Some t \<Rightarrow> (case parse_execution_mode t of Some k \<Rightarrow> k | None \<Rightarrow> m)
                   | None \<Rightarrow> m) m sts"

definition mode_synced :: "diff_state \<Rightarrow> ui_world \<Rightarrow> bool" where
  "mode_synced d w \<longleftrightarrow>
     (case dst_prev_mode d of
        Some t \<Rightarrow> (case parse_execution_mode t of Some k \<Rightarrow> w_mode w = k | None \<Rightarrow> True)
      | None \<Rightarrow> True)"

lemma diff_step_mode:
  assumes "parse_state txt = Some st" and "mode_synced d w"
    and "diff_step parse_state (IR_StateJson txt) d = (d1, us, sts)"
  shows "w_mode (fold (apply_status_update parse) us w) = last_mode (w_mode w) [st] \<and>
    mode_synced d1 (fold (apply_status_update parse) us w)"
proof -
  have none: "list_all (\<lambda>u. mode_of_update u = None) (venue_updates p st)" for p
    by (simp add: venue_updates_def split: option.split)
  let ?rest = "(if dst_prev_configured d \<noteq> Some (bts_configured_venue st)
                 then [SU_ConfiguredVenueDiscovered (bts_configured_venue st)] else []) @
               [SU_LastPricesUpdated (bts_last_prices st), SU_Connected True]"
  have rest: "list_all (\<lambda>u. mode_of_update u = None) ?rest" by simp
  have us: "us = venue_updates (dst_prev_venue d) st @ mode_updates (dst_prev_mode d) st @ ?rest"
    and d1: "dst_prev_mode d1 = bts_execution_mode st"
    using assms(1,3) by (auto simp: diff_step_def)
  have "w_mode (fold (apply_status_update parse) us w) =
      w_mode (fold (apply_status_update parse) (mode_updates (dst_prev_mode d) st)
               (fold (apply_status_update parse) (venue_updates (dst_prev_venue d) st) w))"
    unfolding us fold_append comp_def by (rule w_mode_no_update [OF rest, unfolded fold_append comp_def])
  moreover have "w_mode (fold (apply_status_update parse) (mode_updates (dst_prev_mode d) st) v) =
      last_mode (w_mode w) [st]" if "w_mode v = w_mode w" for v
    using that assms(2)
    by (auto simp: mode_updates_def last_mode_def mode_synced_def reduce_mode_changed_def split: option.splits)
  ultimately have m: "w_mode (fold (apply_status_update parse) us w) = last_mode (w_mode w) [st]"
    by (simp add: w_mode_no_update [OF none])
  then have "mode_synced d1 (fold (apply_status_update parse) us w)"
    by (simp add: mode_synced_def d1 last_mode_def split: option.split)
  with m show ?thesis by blast
qed

text \<open>C19: after the polled states of a session have been compared, turned into updates and
  reduced, the mode of the interface is the last mode a state named (or the mode it had, when none
  did): no change is missed although only differences are sent.\<close>

theorem ui_mode_follows_polled_states:
  assumes "list_all2 (\<lambda>r st. \<exists>txt. r = IR_StateJson txt \<and> parse_state txt = Some st) rs sts"
  shows "w_mode (status_update_system parse (transport_status parse_state rs) w) = last_mode (w_mode w) sts"
proof -
  have "w_mode (fold (apply_status_update parse) (response_loop parse_state rs d) w) = last_mode (w_mode w) sts"
    if "mode_synced d w" for d w
    using assms that
  proof (induction rs sts arbitrary: d w rule: list_all2_induct)
    case Nil
    then show ?case by (simp add: last_mode_def)
  next
    case (Cons r rs st sts)
    then obtain t where r: "r = IR_StateJson t" and st: "parse_state t = Some st" by blast
    obtain d1 us ss where ds: "diff_step parse_state (IR_StateJson t) d = (d1, us, ss)"
      by (cases "diff_step parse_state (IR_StateJson t) d") auto
    let ?w1 = "fold (apply_status_update parse) us w"
    from diff_step_mode [OF st Cons.prems ds, of parse]
    have step: "w_mode ?w1 = last_mode (w_mode w) [st]" "mode_synced d1 ?w1" by blast+
    have "w_mode (fold (apply_status_update parse) (response_loop parse_state rs d1) ?w1) = last_mode (w_mode ?w1) sts"
      by (rule Cons.IH) (rule step(2))
    with step(1) show ?case by (simp add: r ds last_mode_def)
  qed
  moreover have "mode_synced diff_init w" by (simp add: mode_synced_def diff_init_def)
  ultimately show ?thesis
    by (simp add: status_update_system_def transport_status_def w_mode_update)
qed

text \<open>A polled state equal to the one before it sends only the prices and the connection
  flag: no venue, mode or configuration update.\<close>

theorem repeated_state_only_prices:
  assumes "parse_state txt = Some st"
  shows "let (d1, us1, ss1) = diff_step parse_state (IR_StateJson txt) d in
    diff_step parse_state (IR_StateJson txt) d1 =
      (d1, [SU_LastPricesUpdated (bts_last_prices st), SU_Connected True], [st])"
  using assms by (simp add: diff_step_def venue_updates_def mode_updates_def Let_def)

text \<open>A state that differs from the one before it only in the venue's id or in the number of
  loaded instruments sends no venue update: the venue panel keeps the values of the last change of
  the venue's state.\<close>

theorem venue_details_not_refreshed:
  assumes "parse_state txt1 = Some st" and "parse_state txt2 = Some (st\<lparr>bts_venue_id := vid, bts_instruments_loaded := n\<rparr>)"
  shows "let (d1, us1, ss1) = diff_step parse_state (IR_StateJson txt1) d;
             (d2, us2, ss2) = diff_step parse_state (IR_StateJson txt2) d1 in
    us2 = [SU_LastPricesUpdated (bts_last_prices st), SU_Connected True] \<and>
    w_venue (fold (apply_status_update parse) us2 w) = w_venue w"
  using assms by (simp add: diff_step_def venue_updates_def mode_updates_def Let_def)

subsection \<open>Reconnect\<close>

lemma is_reconcile_command_iff:
  "is_reconcile_command c \<longleftrightarrow> (\<exists>v. c = TC_GetOrdersAndReconcile v) \<or> (\<exists>d. c = TC_FetchAvailableInstruments d)"
  by (cases c) (simp_all add: is_reconcile_command_def)

text \<open>Of the commands queued before a reconnect exactly the reconciliation and
  available-instruments requests survive, in their order; no order, cancellation or secret does.\<close>

theorem flush_keeps_only_reconcile:
  "flush_stale_transport_commands cs =
     filter (\<lambda>c. (\<exists>v. c = TC_GetOrdersAndReconcile v) \<or> (\<exists>d. c = TC_FetchAvailableInstruments d)) cs"
  by (auto simp: flush_stale_transport_commands_def is_reconcile_command_iff intro!: filter_cong)

subsection \<open>Witnesses\<close>

definition python_const :: "py_reply \<Rightarrow> externals" where
  "python_const r = \<lparr>ex_python = (\<lambda>_. r), ex_fmt_date = (\<lambda>_. []), ex_extract_error = (\<lambda>_. [])\<rparr>"

definition ok_reply :: json where "ok_reply = JObj [(''success'', JBool True)]"

definition io_empty :: io where "io_empty = \<lparr>io_calls = [], io_out = []\<rparr>"

definition sample_state :: backend_trading_state where
  "sample_state =
     \<lparr>bts_price = 0, bts_history = [], bts_timestamp = 0, bts_timestamp_ms = None,
      bts_history_points = [], bts_ohlc_points = [], bts_open = None, bts_high = None, bts_low = None,
      bts_close = None, bts_open_time_ms = None, bts_replay_state = None,
      bts_venue_state = Some ''CONNECTED'', bts_execution_mode = Some ''LiveManual'',
      bts_venue_id = None, bts_instruments_loaded = None, bts_last_prices = [],
      bts_per_instrument = [], bts_configured_venue = None\<rparr>"

lemma cancel_incomplete_is_silent_witness:
  "io_out (inproc_dispatch (python_const (PR_Value ok_reply)) None (TC_CancelOrder ''V'' ''o'' None) io_empty) = []"
  using cancel_incomplete_is_silent [of "python_const (PR_Value ok_reply)" io_empty "''V''" "''o''" None ok_reply]
  by (simp add: python_const_def ok_reply_def reply_ok_def order_event_of_def io_empty_def
      del: inproc_dispatch.simps)

lemma secret_does_not_flow_to_ui_witness:
  "io_out (inproc_dispatch (python_const (PR_Raise ''e'')) None
     (with_secret (RedactedSecret ''a'') (TC_SubmitSecret ''r'' (RedactedSecret ''q''))) io_empty) =
   io_out (inproc_dispatch (python_const (PR_Raise ''e'')) None
     (with_secret (RedactedSecret ''b'') (TC_SubmitSecret ''r'' (RedactedSecret ''q''))) io_empty)"
  using secret_does_not_flow_to_ui [of "TC_SubmitSecret ''r'' (RedactedSecret ''q'')" "python_const (PR_Raise ''e'')"
      io_empty "RedactedSecret ''a''" "python_const (PR_Raise ''e'')" "RedactedSecret ''b''" None]
  by (simp add: python_const_def secret_of_def del: inproc_dispatch.simps)

lemma pause_reported_on_failure_witness:
  "io_out (inproc_dispatch (python_const (PR_Raise ''e'')) None TC_Pause io_empty) =
   [IR_Status (SU_ReplayStateChanged ''PAUSED'')]"
  using pause_reported_on_failure [of "python_const (PR_Raise ''e'')" io_empty "''e''" "''e''" None]
  by (simp add: python_const_def io_empty_def del: inproc_dispatch.simps)

lemma worker_stops_without_engine_witness:
  "io_out (inproc_python_worker (python_const (PR_Raise ''no module'')) \<lparr>wc_catalog_path = None,
     wc_max_history_len = 10, wc_live_venue_id = None\<rparr> [WI_Cmd TC_Pause] \<lparr>io_calls = [], io_out = []\<rparr>) =
   [IR_Status (SU_Error ''InProc DataEngine init failed: no module'')]"
  using worker_stops_without_engine [of "python_const (PR_Raise ''no module'')"
      "\<lparr>wc_catalog_path = None, wc_max_history_len = 10, wc_live_venue_id = None\<rparr>" "''no module''" "[WI_Cmd TC_Pause]"]
  by (simp add: python_const_def)

lemma ui_mode_follows_polled_states_witness:
  "w_mode (status_update_system (\<lambda>_. None)
     (transport_status (\<lambda>t. Some sample_state) [IR_StateJson ''{}'', IR_StateJson ''{}'']) world_default) = EM_LiveManual"
  using ui_mode_follows_polled_states [of "\<lambda>t. Some sample_state" "[IR_StateJson ''{}'', IR_StateJson ''{}'']"
      "[sample_state, sample_state]" "\<lambda>_. None" world_default]
  by (simp add: last_mode_def) (simp add: sample_state_def parse_execution_mode_def)

lemma repeated_state_only_prices_witness:
  "diff_step (\<lambda>t. Some sample_state) (IR_StateJson ''{}'')
     (fst (diff_step (\<lambda>t. Some sample_state) (IR_StateJson ''{}'') diff_init)) =
   (fst (diff_step (\<lambda>t. Some sample_state) (IR_StateJson ''{}'') diff_init),
    [SU_LastPricesUpdated [], SU_Connected True], [sample_state])"
  using repeated_state_only_prices [of "\<lambda>t. Some sample_state" "''{}''" sample_state diff_init]
  by (simp add: Let_def split_beta) (simp add: sample_state_def)

lemma venue_details_not_refreshed_witness:
  "fst (snd (diff_step (\<lambda>t. Some (if t = ''1'' then sample_state else sample_state\<lparr>bts_venue_id := Some ''K'', bts_instruments_loaded := Some 9\<rparr>))
     (IR_StateJson ''2'')
     (fst (diff_step (\<lambda>t. Some (if t = ''1'' then sample_state else sample_state\<lparr>bts_venue_id := Some ''K'', bts_instruments_loaded := Some 9\<rparr>))
        (IR_StateJson ''1'') diff_init)))) = [SU_LastPricesUpdated (bts_last_prices sample_state), SU_Connected True]"
  using venue_details_not_refreshed [of
      "\<lambda>t. Some (if t = ''1'' then sample_state else sample_state\<lparr>bts_venue_id := Some ''K'', bts_instruments_loaded := Some 9\<rparr>)"
      "''1''" sample_state "''2''" "Some 9" "Some ''K''" diff_init "\<lambda>_. None" world_default]
  by (simp add: Let_def split_beta)


end
