(* ===== verification/F64_Text.thy ===== *)
theory F64_Text
  imports F64 Rust_Str
begin

text \<open>
  More of \<open>f64\<close> as the order forms use it: division, rounding to an integer, absolute value
  and \<open>max\<close>, and \<open>str::parse\<close> for \<open>f64\<close> with the grammar of the standard library
  (a sign, then \<open>inf\<close>, \<open>infinity\<close> or \<open>nan\<close> in any case, or digits with at most one
  point and at least one digit, then an optional exponent), correctly rounded; and the texts of a fixed
  count of decimals.
\<close>

subsection \<open>Division, rounding, absolute value\<close>

text \<open>The divisors of the program are positive; a zero divisor counts as positive zero.\<close>

fun f64_div :: "f64 \<Rightarrow> f64 \<Rightarrow> f64" where
  "f64_div F64_NaN y = F64_NaN"
| "f64_div x F64_NaN = F64_NaN"
| "f64_div (F64_Fin a) (F64_Fin b) =
     (if b = 0 then (if a = 0 then F64_NaN else if 0 < a then F64_PosInf else F64_NegInf)
      else f64_round (a / b))"
| "f64_div (F64_Fin a) y = F64_Fin 0"
| "f64_div F64_PosInf (F64_Fin b) = (if 0 \<le> b then F64_PosInf else F64_NegInf)"
| "f64_div F64_NegInf (F64_Fin b) = (if 0 \<le> b then F64_NegInf else F64_PosInf)"
| "f64_div x y = F64_NaN"

text \<open>\<open>f64::round\<close>: to the nearest integer, a half away from zero.\<close>

fun f64_round_to_int :: "f64 \<Rightarrow> f64" where
  "f64_round_to_int (F64_Fin r) =
     F64_Fin (of_int (if 0 \<le> r then \<lfloor>r + 1 / 2\<rfloor> else - \<lfloor>- r + 1 / 2\<rfloor>))"
| "f64_round_to_int x = x"

fun f64_abs :: "f64 \<Rightarrow> f64" where
  "f64_abs (F64_Fin r) = F64_Fin \<bar>r\<bar>"
| "f64_abs F64_NegInf = F64_PosInf"
| "f64_abs x = x"

text \<open>\<open>f64::max\<close>: a NaN gives the other operand.\<close>

definition f64_max :: "f64 \<Rightarrow> f64 \<Rightarrow> f64" where
  "f64_max x y = (if x = F64_NaN then y else if y = F64_NaN then x else if x < y then y else x)"

lemma f64_round_to_int_of_int [simp]:
  "f64_round_to_int (F64_Fin (of_int n)) = F64_Fin (of_int n)"
proof -
  have "\<lfloor>of_int m + 1 / 2 :: rat\<rfloor> = m" for m :: int by linarith
  from this [of n] this [of "- n"] show ?thesis by simp
qed

lemma f64_add_ints:
  "\<bar>a + b\<bar> \<le> 2 ^ 53 \<Longrightarrow> f64_add (F64_Fin (of_int a)) (F64_Fin (of_int b)) = F64_Fin (of_int (a + b))"
  using f64_round_int [of "a + b"] by simp

lemma round_half_even_lower: "\<lfloor>x\<rfloor> \<le> round_half_even x"
  by (simp add: round_half_even_def Let_def)

text \<open>A positive value that is not below the normal range does not round to zero.\<close>

lemma f64_round_positive:
  assumes "pow2 (- 1022) \<le> x" and "x < pow2 1023"
  shows "0 < f64_round x"
proof -
  have x: "0 < x" using assms(1) pow2_pos [of "- 1022"] by linarith
  let ?e = "ilog2 \<bar>x\<bar>"
  have lo: "pow2 ?e \<le> x" using ilog2_lower [OF x] x by simp
  let ?q = "max (?e - 52) (- 1074)"
  have q: "pow2 ?q \<le> x"
  proof (cases "- 1074 \<le> ?e - 52")
    case True
    then have "?q \<le> ?e" by simp
    then show ?thesis using pow2_mono [of ?q ?e] lo by linarith
  next
    case False
    then have "?q = - 1074" by simp
    then show ?thesis using pow2_mono [of "- 1074" "- 1022"] assms(1) by simp
  qed
  then have "1 \<le> x / pow2 ?q" by simp
  then have "1 \<le> \<lfloor>x / pow2 ?q\<rfloor>" by (simp only: one_le_floor)
  then have "1 \<le> round_half_even (x / pow2 ?q)"
    using round_half_even_lower [of "x / pow2 ?q"] by linarith
  then have "(0::rat) < of_int (round_half_even (x / pow2 ?q))" by simp
  then have pos: "0 < of_int (round_half_even (x / pow2 ?q)) * pow2 ?q" by simp
  moreover have "\<not> of_int (round_half_even (x / pow2 ?q)) * pow2 ?q \<le> - pow2 1024"
    using pos pow2_pos [of 1024] by linarith
  ultimately show ?thesis
    using x by (simp add: f64_round_def Let_def zero_f64_def)
qed

subsection \<open>Parsing\<close>

definition pow10 :: "int \<Rightarrow> rat" where
  "pow10 e = (if 0 \<le> e then 10 ^ nat e else 1 / 10 ^ nat (- e))"

definition parse_exponent :: "str \<Rightarrow> int option" where
  "parse_exponent s =
     (case s of
        [] \<Rightarrow> None
      | c # cs \<Rightarrow>
          (if c = CHR ''-'' then (if all_digits cs then Some (- int (digits_value 0 cs)) else None)
           else (let d = (if c = CHR ''+'' then cs else s) in
                 if all_digits d then Some (int (digits_value 0 d)) else None)))"

definition parse_f64_unsigned :: "str \<Rightarrow> rat option" where
  "parse_f64_unsigned s =
     (let ip = takeWhile is_digit s; r1 = dropWhile is_digit s;
          (fp, r2) = (case r1 of
             [] \<Rightarrow> ([], [])
           | c # cs \<Rightarrow> (if c = CHR ''.'' then (takeWhile is_digit cs, dropWhile is_digit cs) else ([], r1)));
          m = (of_int (int (digits_value 0 (ip @ fp))) :: rat) in
      if ip = [] \<and> fp = [] then None
      else (case r2 of
              [] \<Rightarrow> Some (m * pow10 (- int (length fp)))
            | c # cs \<Rightarrow>
                (if c = CHR ''e'' \<or> c = CHR ''E'' then
                   map_option (\<lambda>e. m * pow10 (e - int (length fp))) (parse_exponent cs)
                 else None)))"

definition parse_f64 :: "str \<Rightarrow> f64 option" where
  "parse_f64 s =
     (let neg = (s \<noteq> [] \<and> hd s = CHR ''-'');
          r = (if s \<noteq> [] \<and> (hd s = CHR ''-'' \<or> hd s = CHR ''+'') then tl s else s) in
      if eq_ignore_ascii_case r ''inf'' \<or> eq_ignore_ascii_case r ''infinity''
      then Some (if neg then F64_NegInf else F64_PosInf)
      else if eq_ignore_ascii_case r ''nan'' then Some F64_NaN
      else map_option (\<lambda>v. f64_round (if neg then - v else v)) (parse_f64_unsigned r))"

subsection \<open>A fixed count of decimals\<close>

text \<open>\<open>format!("{:.d}")\<close>: the exact value, rounded to d decimals, ties to even.\<close>

definition zeros :: "nat \<Rightarrow> str" where
  "zeros n = replicate n (CHR ''0'')"

definition fixed_digits :: "nat \<Rightarrow> nat \<Rightarrow> str" where
  "fixed_digits d n =
     (let ds = show_nat n; s = zeros (Suc d - length ds) @ ds; k = length s - d in
      if d = 0 then s else take k s @ ''.'' @ drop k s)"

fun fmt_fixed :: "nat \<Rightarrow> f64 \<Rightarrow> str" where
  "fmt_fixed d F64_NaN = ''NaN''"
| "fmt_fixed d F64_PosInf = ''inf''"
| "fmt_fixed d F64_NegInf = ''-inf''"
| "fmt_fixed d (F64_Fin r) =
     (if r < 0 then ''-'' else []) @ fixed_digits d (nat (round_half_even (\<bar>r\<bar> * 10 ^ d)))"

lemma show_small: "n < 10 \<Longrightarrow> show_nat n = [char_of (0x30 + n)]"
  by (simp add: show_nat.simps)

lemma fixed_examples:
  "fmt_fixed 2 (F64_Fin (1 / 32)) = ''0.03''" "fmt_fixed 0 (F64_Fin (5 / 2)) = ''2''"
  "fmt_fixed 1 (F64_Fin (- 1 / 20)) = ''-0.0''"
proof -
  have f: "\<lfloor>25 / 8 :: rat\<rfloor> = 3" "\<lfloor>5 / 2 :: rat\<rfloor> = 2" "\<lfloor>1 / 2 :: rat\<rfloor> = 0" by linarith+
  have c: "char_of (51 :: nat) = CHR ''3''" "char_of (50 :: nat) = CHR ''2''" "char_of (48 :: nat) = CHR ''0''" by code_simp+
  show "fmt_fixed 2 (F64_Fin (1 / 32)) = ''0.03''" "fmt_fixed 0 (F64_Fin (5 / 2)) = ''2''"
    "fmt_fixed 1 (F64_Fin (- 1 / 20)) = ''-0.0''"
    by (simp_all add: fixed_digits_def zeros_def show_small round_half_even_def f c Let_def)
qed

end
