(* ===== verification/Modals.thy ===== *)
theory Modals
  imports Backend_Sync F64_Text
begin

text \<open>
  The modal dialogs: the stack with its escape handling (\<open>src/ui/component/modal_layer.rs\<close>),
  the keyboard drain (\<open>keyboard_drain.rs\<close>), the second-password dialog
  (\<open>src/ui/secret_modal.rs\<close>) and the order-modification dialog (\<open>src/ui/modify_modal.rs\<close>)
  with the venue capabilities it consults. An entity is a number, an instant a number of
  nanoseconds. What only lays out or paints nodes is left out. The contract of a dialog that is
  kept in step with the stack is the locale \<open>managed_modal\<close>, interpreted on each dialog.
\<close>

subsection \<open>The modal stack\<close>

datatype dismiss_decision = DD_Dismiss | DD_Pending

record active_modal =
  am_root :: nat
  am_backdrop :: nat
  am_previous_focus :: "nat option"
  am_dismiss_priority :: int
  am_on_before_dismiss :: "unit \<Rightarrow> dismiss_decision"

type_synonym modal_layer = "active_modal list"

definition modal_push :: "active_modal \<Rightarrow> modal_layer \<Rightarrow> modal_layer" where
  "modal_push m st = st @ [m]"

definition modal_pop :: "modal_layer \<Rightarrow> active_modal option \<times> modal_layer" where
  "modal_pop st = (if st = [] then (None, st) else (Some (last st), butlast st))"

definition try_dismiss_top :: "modal_layer \<Rightarrow> bool \<times> modal_layer" where
  "try_dismiss_top st =
     (if st = [] then (False, st)
      else (case am_on_before_dismiss (last st) () of
              DD_Dismiss \<Rightarrow> (True, butlast st)
            | DD_Pending \<Rightarrow> (False, st)))"

text \<open>\<open>enumerate().max_by_key(..)\<close>: the last of the entries with the greatest key.\<close>

fun max_index :: "('a \<Rightarrow> int) \<Rightarrow> 'a list \<Rightarrow> nat option" where
  "max_index key [] = None"
| "max_index key (x # xs) =
     (case max_index key xs of
        None \<Rightarrow> Some 0
      | Some i \<Rightarrow> if key x \<le> key (xs ! i) then Some (Suc i) else Some 0)"

definition remove_at :: "nat \<Rightarrow> 'a list \<Rightarrow> 'a list" where
  "remove_at i xs = take i xs @ drop (Suc i) xs"

definition try_dismiss_highest_z :: "modal_layer \<Rightarrow> bool \<times> modal_layer" where
  "try_dismiss_highest_z st =
     (case max_index am_dismiss_priority st of
        Some i \<Rightarrow>
          (case am_on_before_dismiss (st ! i) () of
             DD_Dismiss \<Rightarrow> (True, remove_at i st)
           | DD_Pending \<Rightarrow> (False, st))
      | None \<Rightarrow> (False, st))"

definition modal_layer_esc_system :: "bool \<Rightarrow> modal_layer \<Rightarrow> modal_layer" where
  "modal_layer_esc_system esc_pressed st =
     (if st = [] then st else if \<not> esc_pressed then st else snd (try_dismiss_highest_z st))"

definition on_stack :: "nat \<Rightarrow> modal_layer \<Rightarrow> bool" where
  "on_stack rt st = list_ex (\<lambda>m. am_root m = rt) st"

text \<open>\<open>reconcile_modal_stack\<close>: the new stack, the new \<open>was_on_stack\<close>, and whether the
  dialog's \<open>clear\<close> runs.\<close>

definition reconcile_modal_stack ::
  "nat \<Rightarrow> int \<Rightarrow> (unit \<Rightarrow> dismiss_decision) \<Rightarrow> bool \<Rightarrow> bool \<Rightarrow> bool \<Rightarrow> modal_layer \<Rightarrow>
   modal_layer \<times> bool \<times> bool" where
  "reconcile_modal_stack rt priority hook is_open prompt_changed was st =
     (let onst = on_stack rt st in
      if prompt_changed \<and> is_open \<and> \<not> onst then
        (modal_push \<lparr>am_root = rt, am_backdrop = rt, am_previous_focus = None,
                     am_dismiss_priority = priority, am_on_before_dismiss = hook\<rparr> st, True, False)
      else if \<not> is_open \<and> onst then (filter (\<lambda>m. am_root m \<noteq> rt) st, False, False)
      else (st, onst, was \<and> \<not> onst \<and> is_open))"

subsection \<open>The keyboard drain\<close>

datatype key =
    K_Character str
  | K_Space
  | K_Escape
  | K_Enter
  | K_Tab
  | K_Backspace
  | K_Other

record key_event =
  ke_pressed :: bool
  ke_key :: key

record key_drain_result =
  kd_enter :: bool
  kd_escape :: bool
  kd_tab :: bool
  kd_backspace_count :: nat

text \<open>The result with the characters handed to \<open>on_char\<close>, in order; a character is its
  bytes.\<close>

fun process_key_events :: "(str \<Rightarrow> bool) \<Rightarrow> key_event list \<Rightarrow> key_drain_result \<Rightarrow> key_drain_result \<times> str list" where
  "process_key_events p [] r = (r, [])"
| "process_key_events p (ev # evs) r =
     (if \<not> ke_pressed ev then process_key_events p evs r
      else (case ke_key ev of
              K_Character s \<Rightarrow>
                (let (r', cs) = process_key_events p evs r in (r', filter p (utf8_chars s) @ cs))
            | K_Space \<Rightarrow>
                (let (r', cs) = process_key_events p evs r in (r', (if p '' '' then ['' ''] else []) @ cs))
            | K_Escape \<Rightarrow> process_key_events p evs (r\<lparr>kd_escape := True\<rparr>)
            | K_Enter \<Rightarrow> process_key_events p evs (r\<lparr>kd_enter := True\<rparr>)
            | K_Tab \<Rightarrow> process_key_events p evs (r\<lparr>kd_tab := True\<rparr>)
            | K_Backspace \<Rightarrow> process_key_events p evs (r\<lparr>kd_backspace_count := kd_backspace_count r + 1\<rparr>)
            | K_Other \<Rightarrow> process_key_events p evs r))"

definition key_drain_default :: key_drain_result where
  "key_drain_default = \<lparr>kd_enter = False, kd_escape = False, kd_tab = False, kd_backspace_count = 0\<rparr>"

definition drain_keyboard :: "(str \<Rightarrow> bool) \<Rightarrow> key_event list \<Rightarrow> key_drain_result \<times> str list" where
  "drain_keyboard p evs = process_key_events p evs key_drain_default"

text \<open>\<open>char::is_control\<close>: the code points below 32, 127, and 128 to 159.\<close>

definition is_control_char :: "str \<Rightarrow> bool" where
  "is_control_char w \<longleftrightarrow>
     (case w of
        [c] \<Rightarrow> is_control_ascii c
      | [c, d] \<Rightarrow> byte c = 0xC2 \<and> 0x80 \<le> byte d \<and> byte d < 0xA0
      | _ \<Rightarrow> False)"

subsection \<open>The second-password dialog\<close>

definition SECRET_INPUT_TIMEOUT :: nat where "SECRET_INPUT_TIMEOUT = 25 * 10 ^ 9"

record secret_input =
  si_buffer :: str
  si_opened_at :: "nat option"
  si_request_id :: "str option"

record secret_sys =
  ss_input :: secret_input
  ss_prompt :: secret_prompt
  ss_feedback :: "str option"

definition secret_push_char :: "str \<Rightarrow> secret_input \<Rightarrow> secret_input" where
  "secret_push_char w i = (if \<not> is_control_char w then i\<lparr>si_buffer := si_buffer i @ w\<rparr> else i)"

definition secret_backspace :: "secret_input \<Rightarrow> secret_input" where
  "secret_backspace i = i\<lparr>si_buffer := pop_char (si_buffer i)\<rparr>"

definition secret_clear :: "secret_input \<Rightarrow> secret_input" where
  "secret_clear i = \<lparr>si_buffer = [], si_opened_at = None, si_request_id = None\<rparr>"

definition secret_do_submit :: "link \<Rightarrow> secret_sys \<Rightarrow> secret_sys \<times> transport_command list" where
  "secret_do_submit l s =
     (if si_buffer (ss_input s) = [] then (s, [])
      else (case sp_active (ss_prompt s) of
              None \<Rightarrow> (s, [])
            | Some req \<Rightarrow>
                (s\<lparr>ss_prompt := (ss_prompt s)\<lparr>sp_active := None, sp_error := None\<rparr>,
                   ss_input := secret_clear (ss_input s)\<rparr>,
                 link_send l (TC_SubmitSecret (spr_request_id req) (RedactedSecret (si_buffer (ss_input s)))))))"

definition secret_do_cancel :: "secret_sys \<Rightarrow> secret_sys" where
  "secret_do_cancel s =
     s\<lparr>ss_prompt := secret_prompt_close (ss_prompt s), ss_input := secret_clear (ss_input s)\<rparr>"

definition secret_modal_lifecycle_system :: "nat \<Rightarrow> secret_sys \<Rightarrow> secret_sys" where
  "secret_modal_lifecycle_system now s =
     (case sp_active (ss_prompt s) of
        Some req \<Rightarrow>
          (if si_request_id (ss_input s) = Some (spr_request_id req) then s
           else s\<lparr>ss_input := (secret_clear (ss_input s))\<lparr>si_request_id := Some (spr_request_id req),
                                                          si_opened_at := Some now\<rparr>\<rparr>)
      | None \<Rightarrow>
          (if si_opened_at (ss_input s) \<noteq> None \<or> si_request_id (ss_input s) \<noteq> None
           then s\<lparr>ss_input := secret_clear (ss_input s)\<rparr> else s))"

definition secret_modal_visible :: "secret_prompt \<Rightarrow> bool" where
  "secret_modal_visible p \<longleftrightarrow> sp_active p \<noteq> None"

definition secret_apply_keys :: "key_event list \<Rightarrow> secret_input \<Rightarrow> secret_input" where
  "secret_apply_keys evs i =
     (let (r, cs) = drain_keyboard (\<lambda>_. True) evs in
      (secret_backspace ^^ kd_backspace_count r) (fold secret_push_char cs i))"

definition secret_modal_input_system ::
  "link \<Rightarrow> key_event list \<Rightarrow> secret_sys \<Rightarrow> secret_sys \<times> transport_command list" where
  "secret_modal_input_system l evs s =
     (if sp_active (ss_prompt s) = None then (s, [])
      else (let r = fst (drain_keyboard (\<lambda>_. True) evs);
                s1 = s\<lparr>ss_input := secret_apply_keys evs (ss_input s)\<rparr> in
            if kd_enter r \<and> \<not> kd_escape r then secret_do_submit l s1 else (s1, [])))"

datatype secret_button = SB_Submit | SB_Cancel

fun secret_modal_button_system ::
  "link \<Rightarrow> secret_button list \<Rightarrow> secret_sys \<Rightarrow> secret_sys \<times> transport_command list" where
  "secret_modal_button_system l [] s = (s, [])"
| "secret_modal_button_system l (b # bs) s =
     (let (s1, out) = (case b of SB_Submit \<Rightarrow> secret_do_submit l s | SB_Cancel \<Rightarrow> (secret_do_cancel s, []));
          (s2, outs) = secret_modal_button_system l bs s1 in (s2, out @ outs))"

text \<open>The notice says that the input of the second password timed out.\<close>

definition msg_secret_timeout :: str where
  "msg_secret_timeout =
     utf8 [0xE7, 0xAC, 0xAC, 0xE4, 0xBA, 0x8C, 0xE6, 0x9A, 0x97, 0xE8, 0xA8, 0xBC, 0xE7,
     0x95, 0xAA, 0xE5, 0x8F, 0xB7, 0xE3, 0x81, 0xAE, 0xE5, 0x85, 0xA5, 0xE5, 0x8A, 0x9B,
     0xE3, 0x81, 0x8C, 0xE3, 0x82, 0xBF, 0xE3, 0x82, 0xA4, 0xE3, 0x83, 0xA0, 0xE3, 0x82,
     0xA2, 0xE3, 0x82, 0xA6, 0xE3, 0x83, 0x88, 0xE3, 0x81, 0x97, 0xE3, 0x81, 0xBE, 0xE3,
     0x81, 0x97, 0xE3, 0x81, 0x9F] @ '' (SECRET_INPUT_CANCELED)''"

definition secret_modal_timeout_system :: "nat \<Rightarrow> secret_sys \<Rightarrow> secret_sys" where
  "secret_modal_timeout_system now s =
     (if sp_active (ss_prompt s) = None then s
      else (case si_opened_at (ss_input s) of
              None \<Rightarrow> s
            | Some t \<Rightarrow>
                (if SECRET_INPUT_TIMEOUT \<le> now - t
                 then (secret_do_cancel s)\<lparr>ss_feedback := Some msg_secret_timeout\<rparr> else s)))"

text \<open>The text of the information line.\<close>

definition secret_info_text :: "secret_prompt \<Rightarrow> str" where
  "secret_info_text p =
     (case sp_active p of
        Some req \<Rightarrow>
          (let base = ''venue: '' @ spr_venue req @ '' / purpose: '' @ spr_purpose req in
           case sp_error p of Some err \<Rightarrow> base @ [newline] @ err | None \<Rightarrow> base)
      | None \<Rightarrow> [])"

definition always_dismiss :: "unit \<Rightarrow> dismiss_decision" where
  "always_dismiss u = DD_Dismiss"

subsection \<open>Venue capabilities and the modification dialog\<close>

record venue_capabilities =
  vc_supports_order_correction :: bool
  vc_max_subscribed_instruments :: u32
  vc_requires_second_password :: bool
  vc_token_persists_across_restart :: bool

definition for_venue :: "str \<Rightarrow> venue_capabilities option" where
  "for_venue v =
     (if eq_ignore_ascii_case v ''tachibana'' then Some
        \<lparr>vc_supports_order_correction = True, vc_max_subscribed_instruments = - 1,
         vc_requires_second_password = True, vc_token_persists_across_restart = True\<rparr>
      else if eq_ignore_ascii_case v ''kabu'' then Some
        \<lparr>vc_supports_order_correction = False, vc_max_subscribed_instruments = 50,
         vc_requires_second_password = False, vc_token_persists_across_restart = False\<rparr>
      else None)"

datatype modify_focus = MF_Qty | MF_Price

record modify_form =
  mf_open :: bool
  mf_client_order_id :: str
  mf_venue :: str
  mf_new_qty_buf :: str
  mf_new_price_buf :: str
  mf_ack_kabu :: bool
  mf_focus :: modify_focus

definition parse_buf :: "str \<Rightarrow> f64 option" where
  "parse_buf buf =
     (let t = trim buf in
      if t = [] then None
      else (case parse_f64 t of
              Some v \<Rightarrow> if f64_is_finite v \<and> 0 < v then Some v else None
            | None \<Rightarrow> None))"

definition requires_kabu_ack :: "modify_form \<Rightarrow> bool" where
  "requires_kabu_ack f =
     unwrap_or False (map_option (\<lambda>c. \<not> vc_supports_order_correction c) (for_venue (mf_venue f)))"

definition modify_parsed :: "modify_form \<Rightarrow> f64 option \<times> f64 option" where
  "modify_parsed f = (parse_buf (mf_new_qty_buf f), parse_buf (mf_new_price_buf f))"

definition can_confirm :: "modify_form \<Rightarrow> bool" where
  "can_confirm f =
     (let (q, p) = modify_parsed f in
      (q \<noteq> None \<or> p \<noteq> None) \<and> (\<not> requires_kabu_ack f \<or> mf_ack_kabu f))"

definition modify_close :: "modify_form \<Rightarrow> modify_form" where
  "modify_close f =
     \<lparr>mf_open = False, mf_client_order_id = [], mf_venue = [], mf_new_qty_buf = [],
      mf_new_price_buf = [], mf_ack_kabu = False, mf_focus = MF_Qty\<rparr>"

definition push_focused :: "str \<Rightarrow> modify_form \<Rightarrow> modify_form" where
  "push_focused w f =
     (case mf_focus f of
        MF_Qty \<Rightarrow> f\<lparr>mf_new_qty_buf := mf_new_qty_buf f @ w\<rparr>
      | MF_Price \<Rightarrow> f\<lparr>mf_new_price_buf := mf_new_price_buf f @ w\<rparr>)"

definition backspace_focused :: "modify_form \<Rightarrow> modify_form" where
  "backspace_focused f =
     (case mf_focus f of
        MF_Qty \<Rightarrow> f\<lparr>mf_new_qty_buf := pop_char (mf_new_qty_buf f)\<rparr>
      | MF_Price \<Rightarrow> f\<lparr>mf_new_price_buf := pop_char (mf_new_price_buf f)\<rparr>)"

text \<open>The notices: enter a quantity or a price; the modification at this venue needs the
  consent box.\<close>

definition msg_modify_empty :: str where
  "msg_modify_empty =
     utf8 [0xE8, 0xA8, 0x82, 0xE6, 0xAD, 0xA3, 0xE5, 0x86, 0x85, 0xE5, 0xAE, 0xB9] @ '' (''
     @ utf8 [0xE6, 0x95, 0xB0, 0xE9, 0x87, 0x8F, 0xE3, 0x81, 0xBE, 0xE3, 0x81, 0x9F, 0xE3,
     0x81, 0xAF, 0xE4, 0xBE, 0xA1, 0xE6, 0xA0, 0xBC] @ '') '' @ utf8 [0xE3, 0x82, 0x92,
     0xE5, 0x85, 0xA5, 0xE5, 0x8A, 0x9B, 0xE3, 0x81, 0x97, 0xE3, 0x81, 0xA6, 0xE3, 0x81,
     0x8F, 0xE3, 0x81, 0xA0, 0xE3, 0x81, 0x95, 0xE3, 0x81, 0x84]"

definition msg_modify_ack :: str where
  "msg_modify_ack =
     ''kabu '' @ utf8 [0xE3, 0x81, 0xAE, 0xE8, 0xA8, 0x82, 0xE6, 0xAD, 0xA3, 0xE3, 0x81,
     0xAF, 0xE3, 0x80, 0x8C, 0xE7, 0x90, 0x86, 0xE8, 0xA7, 0xA3, 0xE3, 0x81, 0x97, 0xE3,
     0x81, 0x9F, 0xE4, 0xB8, 0x8A, 0xE3, 0x81, 0xA7, 0xE8, 0xA8, 0x82, 0xE6, 0xAD, 0xA3,
     0xE3, 0x81, 0x99, 0xE3, 0x82, 0x8B, 0xE3, 0x80, 0x8D, 0xE3, 0x81, 0xAB, 0xE5, 0x90,
     0x8C, 0xE6, 0x84, 0x8F, 0xE3, 0x81, 0x8C, 0xE5, 0xBF, 0x85, 0xE8, 0xA6, 0x81, 0xE3,
     0x81, 0xA7, 0xE3, 0x81, 0x99]"

type_synonym modify_sys = "modify_form \<times> str option"

definition modify_do_confirm :: "link \<Rightarrow> modify_sys \<Rightarrow> modify_sys \<times> transport_command list" where
  "modify_do_confirm l s =
     (let (f, fb) = s; (q, p) = modify_parsed f in
      if \<not> can_confirm f then
        ((f, if q = None \<and> p = None then Some msg_modify_empty
             else if requires_kabu_ack f \<and> \<not> mf_ack_kabu f then Some msg_modify_ack else fb), [])
      else
        ((modify_close f, None),
         link_send l (TC_ModifyOrder (mf_venue f) (mf_client_order_id f) q p None)))"

definition is_ascii_digit_char :: "str \<Rightarrow> bool" where
  "is_ascii_digit_char w \<longleftrightarrow> (case w of [c] \<Rightarrow> is_digit c | _ \<Rightarrow> False)"

definition modify_modal_input_system ::
  "link \<Rightarrow> key_event list \<Rightarrow> modify_sys \<Rightarrow> modify_sys \<times> transport_command list" where
  "modify_modal_input_system l evs s =
     (let (f, fb) = s in
      if \<not> mf_open f then (s, [])
      else
        (let (r, cs) = drain_keyboard (\<lambda>w. is_ascii_digit_char w \<or> w = ''.'') evs;
             f1 = fold push_focused cs f;
             f2 = (backspace_focused ^^ kd_backspace_count r) f1;
             f3 = (if kd_tab r
                   then f2\<lparr>mf_focus := (case mf_focus f2 of MF_Qty \<Rightarrow> MF_Price | MF_Price \<Rightarrow> MF_Qty)\<rparr> else f2) in
         if kd_enter r \<and> \<not> kd_escape r then modify_do_confirm l (f3, fb) else ((f3, fb), [])))"

datatype modify_button = MB_Confirm | MB_Cancel | MB_AckToggle | MB_FocusQty | MB_FocusPrice

definition modify_press :: "link \<Rightarrow> modify_button \<Rightarrow> modify_sys \<Rightarrow> modify_sys \<times> transport_command list" where
  "modify_press l b s =
     (let (f, fb) = s in
      case b of
        MB_Confirm \<Rightarrow> modify_do_confirm l s
      | MB_Cancel \<Rightarrow> ((modify_close f, fb), [])
      | MB_AckToggle \<Rightarrow> ((f\<lparr>mf_ack_kabu := \<not> mf_ack_kabu f\<rparr>, fb), [])
      | MB_FocusQty \<Rightarrow> ((f\<lparr>mf_focus := MF_Qty\<rparr>, fb), [])
      | MB_FocusPrice \<Rightarrow> ((f\<lparr>mf_focus := MF_Price\<rparr>, fb), []))"

fun modify_presses :: "link \<Rightarrow> modify_button list \<Rightarrow> modify_sys \<Rightarrow> modify_sys \<times> transport_command list" where
  "modify_presses l [] s = (s, [])"
| "modify_presses l (b # bs) s =
     (let (s1, out) = modify_press l b s; (s2, outs) = modify_presses l bs s1 in (s2, out @ outs))"

definition modify_modal_button_system ::
  "link \<Rightarrow> modify_button list \<Rightarrow> modify_sys \<Rightarrow> modify_sys \<times> transport_command list" where
  "modify_modal_button_system l bs s = (if \<not> mf_open (fst s) then (s, []) else modify_presses l bs s)"

section \<open>Properties\<close>

subsection \<open>Escape takes the dialog with the highest priority\<close>

lemma max_index_props:
  "max_index key xs = Some i \<Longrightarrow>
   i < length xs \<and> (\<forall>j < i. key (xs ! j) \<le> key (xs ! i)) \<and>
   (\<forall>j < length xs. i < j \<longrightarrow> key (xs ! j) < key (xs ! i))"
proof (induction xs arbitrary: i)
  case (Cons x xs)
  show ?case
  proof (cases "max_index key xs")
    case None
    then have "xs = []" by (cases xs) (simp_all split: option.splits if_splits)
    with Cons.prems show ?thesis by simp
  next
    case (Some k)
    note IH = Cons.IH [OF Some]
    show ?thesis
    proof (cases "key x \<le> key (xs ! k)")
      case True
      then have i: "i = Suc k" using Cons.prems Some by simp
      show ?thesis unfolding i using IH True by (auto simp: nth_Cons split: nat.split)
    next
      case False
      then have i: "i = 0" using Cons.prems Some by simp
      have "key (xs ! j) < key x" if "j < length xs" for j
        using IH that False by (cases j k rule: linorder_cases) force+
      then show ?thesis unfolding i by (auto simp: nth_Cons split: nat.split)
    qed
  qed
qed simp

lemma max_index_none: "max_index key xs = None \<longleftrightarrow> xs = []"
  by (cases xs) (simp_all split: option.split)

lemma highest_z_splits:
  assumes "st \<noteq> []" and "\<forall>m \<in> set st. am_on_before_dismiss m () = DD_Dismiss"
  obtains xs m ys where "st = xs @ m # ys" and "try_dismiss_highest_z st = (True, xs @ ys)"
    and "\<forall>x \<in> set xs. am_dismiss_priority x \<le> am_dismiss_priority m"
    and "\<forall>y \<in> set ys. am_dismiss_priority y < am_dismiss_priority m"
proof -
  obtain i where i: "max_index am_dismiss_priority st = Some i"
    using assms(1) max_index_none [of am_dismiss_priority st] by auto
  note p = max_index_props [OF i]
  have st: "st = take i st @ st ! i # drop (Suc i) st"
    using p by (simp add: id_take_nth_drop [symmetric])
  have "am_on_before_dismiss (st ! i) () = DD_Dismiss" using assms(2) p by simp
  then have "try_dismiss_highest_z st = (True, take i st @ drop (Suc i) st)"
    by (simp add: try_dismiss_highest_z_def i remove_at_def)
  moreover have "\<forall>x \<in> set (take i st). am_dismiss_priority x \<le> am_dismiss_priority (st ! i)"
    using p by (auto simp: in_set_conv_nth)
  moreover have "\<forall>y \<in> set (drop (Suc i) st). am_dismiss_priority y < am_dismiss_priority (st ! i)"
    using p by (auto simp: in_set_conv_nth)
  ultimately show thesis using st that by blast
qed

text \<open>One press of escape removes exactly one open dialog from the stack, one with the
  highest priority and among those the one opened last; the others keep their order.\<close>

theorem esc_removes_highest_priority:
  assumes "st \<noteq> []" and "\<forall>m \<in> set st. am_on_before_dismiss m () = DD_Dismiss"
  shows "\<exists>xs m ys. st = xs @ m # ys \<and> modal_layer_esc_system True st = xs @ ys \<and>
    (\<forall>x \<in> set xs. am_dismiss_priority x \<le> am_dismiss_priority m) \<and>
    (\<forall>y \<in> set ys. am_dismiss_priority y < am_dismiss_priority m)"
proof -
  obtain xs m ys where "st = xs @ m # ys" "try_dismiss_highest_z st = (True, xs @ ys)"
    "\<forall>x \<in> set xs. am_dismiss_priority x \<le> am_dismiss_priority m"
    "\<forall>y \<in> set ys. am_dismiss_priority y < am_dismiss_priority m"
    using highest_z_splits [OF assms] .
  then show ?thesis using assms(1) by (auto simp: modal_layer_esc_system_def)
qed

subsection \<open>A dialog in step with the stack\<close>

text \<open>One run of a dialog's reconcile system: \<open>was_on_stack\<close>, the stack, the dialog's state.\<close>

definition modal_reconcile_step ::
  "('s \<Rightarrow> bool) \<Rightarrow> ('s \<Rightarrow> 's) \<Rightarrow> nat \<Rightarrow> int \<Rightarrow> bool \<Rightarrow> bool \<times> modal_layer \<times> 's \<Rightarrow> bool \<times> modal_layer \<times> 's" where
  "modal_reconcile_step opened clear rt priority changed x =
     (let (was, st, s) = x;
          (st', was', c) = reconcile_modal_stack rt priority always_dismiss (opened s) changed was st in
      (was', st', if c then clear s else s))"

definition modal_synced :: "('s \<Rightarrow> bool) \<Rightarrow> nat \<Rightarrow> bool \<times> modal_layer \<times> 's \<Rightarrow> bool" where
  "modal_synced opened rt x \<longleftrightarrow>
     (let (was, st, s) = x in was = on_stack rt st \<and> (on_stack rt st \<longleftrightarrow> opened s))"

lemma on_stack_simps [simp]:
  "on_stack rt (modal_push m st) \<longleftrightarrow> am_root m = rt \<or> on_stack rt st"
  "\<not> on_stack rt (filter (\<lambda>m. am_root m \<noteq> rt) st)"
  "on_stack rt (xs @ ys) \<longleftrightarrow> on_stack rt xs \<or> on_stack rt ys"
  "\<not> on_stack rt []"
  "on_stack rt (m # st) \<longleftrightarrow> am_root m = rt \<or> on_stack rt st"
  by (auto simp: on_stack_def modal_push_def list_ex_iff)

locale managed_modal =
  fixes opened :: "'s \<Rightarrow> bool" and clear :: "'s \<Rightarrow> 's" and rt :: nat and priority :: int
  assumes closed_after_clear: "\<not> opened (clear s)"
begin

lemma step_synced:
  "(opened s \<Longrightarrow> \<not> on_stack rt st \<Longrightarrow> changed \<or> was) \<Longrightarrow>
   modal_synced opened rt (modal_reconcile_step opened clear rt priority changed (was, st, s))"
  using closed_after_clear [of s]
  by (auto simp: modal_synced_def modal_reconcile_step_def reconcile_modal_stack_def Let_def)

lemma escape_clears:
  "modal_synced opened rt (was, st, s) \<Longrightarrow> opened s \<Longrightarrow> \<not> on_stack rt st' \<Longrightarrow>
   modal_reconcile_step opened clear rt priority False (was, st', s) = (False, st', clear s)"
  by (simp add: modal_synced_def modal_reconcile_step_def reconcile_modal_stack_def)

lemma idle_step:
  "modal_synced opened rt (was, st, s) \<Longrightarrow> on_stack rt st' = on_stack rt st \<Longrightarrow>
   modal_reconcile_step opened clear rt priority False (was, st', s) = (was, st', s)"
  by (auto simp: modal_synced_def modal_reconcile_step_def reconcile_modal_stack_def Let_def)

lemma open_step:
  "modal_synced opened rt (was, st, s0) \<Longrightarrow> \<not> opened s0 \<Longrightarrow> opened s \<Longrightarrow>
   modal_synced opened rt (modal_reconcile_step opened clear rt priority True (was, st, s))"
  by (intro step_synced) simp

lemma close_step:
  "\<not> opened s \<Longrightarrow> modal_synced opened rt (modal_reconcile_step opened clear rt priority changed (was, st, s))"
  by (intro step_synced) simp

end

interpretation secret_modal: managed_modal "\<lambda>s. sp_active (ss_prompt s) \<noteq> None" secret_do_cancel rt 300 for rt
  by unfold_locales (simp add: secret_do_cancel_def secret_prompt_close_def)

interpretation modify_modal: managed_modal mf_open modify_close rt 270 for rt
  by unfold_locales (simp add: modify_close_def)

interpretation reconcile_modal: managed_modal "\<lambda>us :: reconcile_unknown_order list. us \<noteq> []" "\<lambda>_. []" rt 262 for rt
  by unfold_locales simp

interpretation relogin_modal: managed_modal "\<lambda>v :: str option. v \<noteq> None" "\<lambda>_. None" rt 260 for rt
  by unfold_locales simp

text \<open>When escape has taken the second-password dialog off the stack, the dialog's next run
  closes the prompt and wipes the typed text, the deadline and the request id, sending nothing;
  while it stays on the stack nothing is lost.\<close>

theorem escape_wipes_secret:
  assumes "modal_synced (\<lambda>s. sp_active (ss_prompt s) \<noteq> None) rt (was, st, s)"
    and "sp_active (ss_prompt s) \<noteq> None" and "\<not> on_stack rt st'" and "on_stack rt st''"
  shows "modal_reconcile_step (\<lambda>s. sp_active (ss_prompt s) \<noteq> None) secret_do_cancel rt 300 False (was, st', s) =
      (False, st', s\<lparr>ss_prompt := \<lparr>sp_active = None, sp_error = None\<rparr>,
                    ss_input := \<lparr>si_buffer = [], si_opened_at = None, si_request_id = None\<rparr>\<rparr>) \<and>
    modal_reconcile_step (\<lambda>s. sp_active (ss_prompt s) \<noteq> None) secret_do_cancel rt 300 False (was, st'', s) =
      (was, st'', s)"
proof
  show "modal_reconcile_step (\<lambda>s. sp_active (ss_prompt s) \<noteq> None) secret_do_cancel rt 300 False (was, st', s) =
      (False, st', s\<lparr>ss_prompt := \<lparr>sp_active = None, sp_error = None\<rparr>,
                    ss_input := \<lparr>si_buffer = [], si_opened_at = None, si_request_id = None\<rparr>\<rparr>)"
    using secret_modal.escape_clears [OF assms(1,2,3)]
    by (simp add: secret_do_cancel_def secret_prompt_close_def secret_clear_def)
  have "on_stack rt st'' = on_stack rt st" using assms by (simp add: modal_synced_def)
  with secret_modal.idle_step [OF assms(1), of st'']
  show "modal_reconcile_step (\<lambda>s. sp_active (ss_prompt s) \<noteq> None) secret_do_cancel rt 300 False (was, st'', s) =
      (was, st'', s)" by blast
qed

subsection \<open>What is submitted, and for which request\<close>

definition secret_required :: "secret_prompt_request list \<Rightarrow> secret_sys \<Rightarrow> secret_sys" where
  "secret_required reqs s =
     fold (\<lambda>req s. s\<lparr>ss_prompt := \<lparr>sp_active = Some req, sp_error = None\<rparr>\<rparr>) reqs s"

text \<open>A frame: the drained requests, the lifecycle, the keys, the buttons, the timeout.\<close>

definition secret_frame ::
  "link \<Rightarrow> nat \<Rightarrow> secret_prompt_request list \<Rightarrow> key_event list \<Rightarrow> secret_button list \<Rightarrow> secret_sys \<Rightarrow>
   secret_sys \<times> transport_command list" where
  "secret_frame l now reqs evs bs s =
     (let s1 = secret_modal_lifecycle_system now (secret_required reqs s);
          (s2, out1) = secret_modal_input_system l evs s1;
          (s3, out2) = secret_modal_button_system l bs s2 in
      (secret_modal_timeout_system now s3, out1 @ out2))"

lemma submit_in_buttons:
  "c \<in> set (snd (secret_modal_button_system l bs s)) \<Longrightarrow>
   \<exists>req. sp_active (ss_prompt s) = Some req \<and> si_buffer (ss_input s) \<noteq> [] \<and>
     c = TC_SubmitSecret (spr_request_id req) (RedactedSecret (si_buffer (ss_input s)))"
proof (induction l bs s rule: secret_modal_button_system.induct)
  case (2 l b bs s)
  have closed: "snd (secret_modal_button_system l bs t) = []" if "sp_active (ss_prompt t) = None" for t
    using that
    by (induction l bs t rule: secret_modal_button_system.induct)
      (auto simp: secret_do_submit_def secret_do_cancel_def secret_prompt_close_def split: secret_button.split prod.split)
  show ?case
  proof (cases b)
    case SB_Cancel
    then have "snd (secret_modal_button_system l (b # bs) s) = []"
      using closed [of "secret_do_cancel s"]
      by (simp add: secret_do_cancel_def secret_prompt_close_def split: prod.split)
    with 2(2) show ?thesis by simp
  next
    case SB_Submit
    show ?thesis
    proof (cases "si_buffer (ss_input s) = [] \<or> sp_active (ss_prompt s) = None")
      case True
      then have "secret_do_submit l s = (s, [])" by (auto simp: secret_do_submit_def)
      with 2 SB_Submit show ?thesis by (auto split: prod.splits)
    next
      case False
      then obtain req where req: "sp_active (ss_prompt s) = Some req" and ne: "si_buffer (ss_input s) \<noteq> []"
        by auto
      define t where "t = fst (secret_do_submit l s)"
      have sub: "secret_do_submit l s = (t, link_send l (TC_SubmitSecret (spr_request_id req)
          (RedactedSecret (si_buffer (ss_input s)))))"
        and "sp_active (ss_prompt t) = None"
        using req ne by (simp_all add: t_def secret_do_submit_def)
      with closed [of t] 2(2) SB_Submit req ne show ?thesis
        by (auto simp: link_send_def split: prod.splits if_splits)
    qed
  qed
qed simp

text \<open>C17: in a frame run in the order requests, lifecycle, keys, buttons, a submitted secret is
  never empty, goes to the request shown, and is this frame's keys applied to the text typed for
  that same request before the frame (to no text when another request was shown): text typed for
  one request is not sent for another.\<close>

theorem secret_submitted_for_its_request:
  assumes "TC_SubmitSecret rid z \<in> set (snd (secret_frame l now reqs evs bs s))"
  shows "expose z \<noteq> [] \<and>
    (\<exists>req. sp_active (ss_prompt (secret_required reqs s)) = Some req \<and> spr_request_id req = rid) \<and>
    expose z = si_buffer (secret_apply_keys evs
      (if si_request_id (ss_input s) = Some rid then ss_input s
       else \<lparr>si_buffer = [], si_opened_at = Some now, si_request_id = Some rid\<rparr>))"
proof -
  let ?s0 = "secret_required reqs s"
  let ?s1 = "secret_modal_lifecycle_system now ?s0"
  have inp: "ss_input ?s0 = ss_input s"
    unfolding secret_required_def by (induction reqs arbitrary: s) auto
  have p1: "ss_prompt ?s1 = ss_prompt ?s0"
    by (simp add: secret_modal_lifecycle_system_def split: option.split)
  obtain s2 out1 where s2: "secret_modal_input_system l evs ?s1 = (s2, out1)" by fastforce
  have "TC_SubmitSecret rid z \<in> set out1 \<or> TC_SubmitSecret rid z \<in> set (snd (secret_modal_button_system l bs s2))"
    using assms s2 by (auto simp: secret_frame_def Let_def split: prod.splits)
  then have "\<exists>req. sp_active (ss_prompt ?s1) = Some req \<and> rid = spr_request_id req \<and>
      si_buffer (secret_apply_keys evs (ss_input ?s1)) \<noteq> [] \<and>
      expose z = si_buffer (secret_apply_keys evs (ss_input ?s1))"
  proof
    assume "TC_SubmitSecret rid z \<in> set out1"
    with s2 show ?thesis
      by (auto simp: secret_modal_input_system_def secret_do_submit_def link_send_def Let_def
          split: if_splits option.splits)
  next
    assume "TC_SubmitSecret rid z \<in> set (snd (secret_modal_button_system l bs s2))"
    from submit_in_buttons [OF this] obtain req where
      r: "sp_active (ss_prompt s2) = Some req" "si_buffer (ss_input s2) \<noteq> []"
        "rid = spr_request_id req" "z = RedactedSecret (si_buffer (ss_input s2))" by auto
    then have "s2 = ?s1\<lparr>ss_input := secret_apply_keys evs (ss_input ?s1)\<rparr>"
      using s2 by (auto simp: secret_modal_input_system_def secret_do_submit_def Let_def
          split: if_splits option.splits)
    with r show ?thesis by auto
  qed
  then obtain req where req: "sp_active (ss_prompt ?s0) = Some req" "rid = spr_request_id req"
    and z: "si_buffer (secret_apply_keys evs (ss_input ?s1)) \<noteq> []"
      "expose z = si_buffer (secret_apply_keys evs (ss_input ?s1))" by (auto simp: p1)
  have "ss_input ?s1 = (if si_request_id (ss_input s) = Some rid then ss_input s
       else \<lparr>si_buffer = [], si_opened_at = Some now, si_request_id = Some rid\<rparr>)"
    using req inp by (simp add: secret_modal_lifecycle_system_def secret_clear_def)
  with z req show ?thesis by auto
qed

text \<open>Nothing orders the lifecycle before the keys. When a new request arrives and the keys
  are handled first, the text typed for the old request is submitted for the new one.\<close>

theorem secret_carried_over_without_order:
  assumes "si_buffer (ss_input s) = pw" and "pw \<noteq> []" and "spr_request_id req = rid"
    and "si_request_id (ss_input s) = Some old" and "old \<noteq> rid"
  shows "snd (secret_modal_input_system OpenSender [\<lparr>ke_pressed = True, ke_key = K_Enter\<rparr>] (secret_required [req] s)) =
    [TC_SubmitSecret rid (RedactedSecret pw)]"
  using assms
  by (simp add: secret_modal_input_system_def secret_required_def drain_keyboard_def key_drain_default_def
      secret_apply_keys_def secret_do_submit_def Let_def)

text \<open>The error of a failed submission is never visible: the dialog closes when the secret is
  sent, it stays closed when the failure arrives, and the next request wipes the message before it
  opens the dialog again.\<close>

theorem secret_failure_never_shown:
  assumes "sp_active (ss_prompt s) = Some req" and "si_buffer (ss_input s) \<noteq> []"
  shows "let p1 = ss_prompt (fst (secret_do_submit OpenSender s));
             w1 = apply_status_update parse (SU_SecretSubmitFailed code) (w\<lparr>w_secret := p1\<rparr>);
             w2 = apply_backend_event (BE_SecretRequired rid venue kind purpose) w1 in
    \<not> secret_modal_visible (w_secret w1) \<and> secret_info_text (w_secret w1) = [] \<and>
    secret_modal_visible (w_secret w2) \<and>
    secret_info_text (w_secret w2) = ''venue: '' @ venue @ '' / purpose: '' @ purpose"
  using assms by (simp add: secret_do_submit_def secret_modal_visible_def secret_info_text_def Let_def)

subsection \<open>Modifying an order\<close>

lemma parse_buf_positive: "parse_buf b = Some v \<Longrightarrow> f64_is_finite v \<and> 0 < v"
  by (auto simp: parse_buf_def Let_def split: if_splits option.splits)

lemma modify_confirm_command:
  "c \<in> set (snd (modify_do_confirm l s)) \<Longrightarrow>
   \<exists>q p. c = TC_ModifyOrder (mf_venue (fst s)) (mf_client_order_id (fst s)) q p None \<and>
     (q, p) = modify_parsed (fst s) \<and> can_confirm (fst s)"
  by (auto simp: modify_do_confirm_def link_send_def Let_def split: prod.splits if_splits)

text \<open>What a modification command must satisfy.\<close>

definition modify_command_ok :: "bool \<Rightarrow> transport_command \<Rightarrow> bool" where
  "modify_command_ok acked c \<longleftrightarrow>
     (\<exists>v co q p. c = TC_ModifyOrder v co q p None \<and> (q \<noteq> None \<or> p \<noteq> None) \<and>
        (\<forall>x. q = Some x \<or> p = Some x \<longrightarrow> f64_is_finite x \<and> 0 < x) \<and>
        (\<forall>vc. for_venue v = Some vc \<and> \<not> vc_supports_order_correction vc \<longrightarrow> acked))"

lemma modify_confirm_ok:
  "c \<in> set (snd (modify_do_confirm l s)) \<Longrightarrow> modify_command_ok (mf_ack_kabu (fst s)) c"
  by (drule modify_confirm_command)
    (auto simp: modify_command_ok_def can_confirm_def modify_parsed_def requires_kabu_ack_def Let_def
      dest: parse_buf_positive)

text \<open>Over any sequence of button presses, every modification that is sent changes the
  quantity or the price, to positive finite numbers, and for a venue that cannot correct orders
  only if the consent box was ticked before or one of the presses ticks it.\<close>

theorem modify_commands_consented:
  assumes "c \<in> set (snd (modify_presses l bs s))"
  shows "modify_command_ok (mf_ack_kabu (fst s) \<or> MB_AckToggle \<in> set bs) c"
  using assms
proof (induction l bs s rule: modify_presses.induct)
  case (2 l b bs s)
  obtain s1 out where p: "modify_press l b s = (s1, out)" by fastforce
  have mono: "modify_command_ok a c \<Longrightarrow> (a \<Longrightarrow> a') \<Longrightarrow> modify_command_ok a' c" for a a'
    unfolding modify_command_ok_def by blast
  consider "c \<in> set out" | "c \<in> set (snd (modify_presses l bs s1))"
    using 2(2) p by (auto split: prod.splits)
  then show ?case
  proof cases
    case 1
    then have "b = MB_Confirm"
      using p by (cases b) (auto simp: modify_press_def split: prod.splits)
    with 1 p have "modify_command_ok (mf_ack_kabu (fst s)) c"
      by (intro modify_confirm_ok [of c l s]) (auto simp: modify_press_def split: prod.splits)
    then show ?thesis by (rule mono) simp
  next
    case 2
    then have ok: "modify_command_ok (mf_ack_kabu (fst s1) \<or> MB_AckToggle \<in> set bs) c"
      using "2.IH" p by simp
    have "mf_ack_kabu (fst s1) \<Longrightarrow> mf_ack_kabu (fst s) \<or> b = MB_AckToggle"
      using p by (cases b)
        (auto simp: modify_press_def modify_do_confirm_def modify_close_def Let_def split: prod.splits if_splits)
    then have "mf_ack_kabu (fst s1) \<or> MB_AckToggle \<in> set bs \<Longrightarrow>
        mf_ack_kabu (fst s) \<or> MB_AckToggle \<in> set (b # bs)" by auto
    with ok show ?thesis by (rule mono)
  qed
qed simp

subsection \<open>Witnesses\<close>

definition modal_entry :: "nat \<Rightarrow> int \<Rightarrow> active_modal" where
  "modal_entry rt p = \<lparr>am_root = rt, am_backdrop = rt, am_previous_focus = None,
     am_dismiss_priority = p, am_on_before_dismiss = always_dismiss\<rparr>"

definition sample_request :: "str \<Rightarrow> secret_prompt_request" where
  "sample_request rid = \<lparr>spr_request_id = rid, spr_venue = ''TACHIBANA'', spr_kind = ''second'', spr_purpose = ''order''\<rparr>"

definition sample_secret :: secret_sys where
  "sample_secret =
     \<lparr>ss_input = \<lparr>si_buffer = ''pw'', si_opened_at = Some 5, si_request_id = Some ''A''\<rparr>,
      ss_prompt = \<lparr>sp_active = Some (sample_request ''A''), sp_error = None\<rparr>, ss_feedback = None\<rparr>"

lemma esc_removes_highest_priority_witness:
  "modal_layer_esc_system True [modal_entry 1 300, modal_entry 2 270] = [modal_entry 2 270]"
proof -
  have "\<exists>xs m ys. [modal_entry 1 300, modal_entry 2 270] = xs @ m # ys \<and>
      modal_layer_esc_system True [modal_entry 1 300, modal_entry 2 270] = xs @ ys \<and>
      (\<forall>x \<in> set xs. am_dismiss_priority x \<le> am_dismiss_priority m) \<and>
      (\<forall>y \<in> set ys. am_dismiss_priority y < am_dismiss_priority m)"
    by (rule esc_removes_highest_priority) (simp_all add: modal_entry_def always_dismiss_def)
  then show ?thesis by (auto simp: Cons_eq_append_conv modal_entry_def)
qed

lemma escape_wipes_secret_witness:
  "ss_input (snd (snd (modal_reconcile_step (\<lambda>s. sp_active (ss_prompt s) \<noteq> None) secret_do_cancel 7 300 False
     (True, [], sample_secret)))) = \<lparr>si_buffer = [], si_opened_at = None, si_request_id = None\<rparr>"
  using escape_wipes_secret [of 7 True "[modal_entry 7 300]" sample_secret "[]" "[modal_entry 7 300]"]
  by (simp add: modal_synced_def sample_secret_def modal_entry_def)

lemma secret_submitted_for_its_request_witness:
  "si_buffer (secret_apply_keys [] \<lparr>si_buffer = ''pw'', si_opened_at = Some 5, si_request_id = Some ''A''\<rparr>) = ''pw''"
  using secret_submitted_for_its_request [of "''A''" "RedactedSecret ''pw''" OpenSender 6 "[]" "[]" "[SB_Submit]" sample_secret]
  by (simp add: secret_frame_def sample_secret_def sample_request_def secret_required_def secret_do_submit_def
      secret_modal_lifecycle_system_def secret_modal_input_system_def drain_keyboard_def key_drain_default_def
      secret_apply_keys_def Let_def)

lemma secret_carried_over_without_order_witness:
  "snd (secret_modal_input_system OpenSender [\<lparr>ke_pressed = True, ke_key = K_Enter\<rparr>]
     (secret_required [sample_request ''B''] sample_secret)) = [TC_SubmitSecret ''B'' (RedactedSecret ''pw'')]"
  by (rule secret_carried_over_without_order [of _ _ _ _ "''A''"]) (simp_all add: sample_secret_def sample_request_def)

lemma secret_failure_never_shown_witness:
  "\<not> secret_modal_visible (w_secret (apply_status_update (\<lambda>_. None) (SU_SecretSubmitFailed ''E'')
      (world_default\<lparr>w_secret := ss_prompt (fst (secret_do_submit OpenSender sample_secret))\<rparr>)))"
  using secret_failure_never_shown [of sample_secret "sample_request ''A''" "\<lambda>_. None" "''E''" world_default "''B''" "[]" "[]" "[]"]
  by (simp add: sample_secret_def Let_def del: apply_status_update.simps)

definition sample_modify :: modify_form where
  "sample_modify = \<lparr>mf_open = True, mf_client_order_id = ''o1'', mf_venue = ''KABU'', mf_new_qty_buf = ''200'',
     mf_new_price_buf = [], mf_ack_kabu = False, mf_focus = MF_Qty\<rparr>"

lemma trim_digits: "trim ''200'' = ''200''"
  by code_simp

lemma parse_buf_200: "parse_buf ''200'' = Some (F64_Fin 200)"
proof -
  have "parse_f64_unsigned ''200'' = Some 200"
    by (simp add: parse_f64_unsigned_def is_digit_def byte_def digit_val_def pow10_def Let_def)
  moreover have "\<not> eq_ignore_ascii_case ''200'' ''inf''" "\<not> eq_ignore_ascii_case ''200'' ''infinity''"
    "\<not> eq_ignore_ascii_case ''200'' ''nan''"
    by code_simp+
  ultimately have "parse_f64 ''200'' = Some (f64_round 200)"
    by (simp add: parse_f64_def Let_def)
  then show ?thesis
    using f64_round_int [of 200] trim_digits
    by (simp add: parse_buf_def Let_def f64_is_finite_def zero_f64_def)
qed

lemma modify_commands_consented_witness:
  "modify_command_ok True (TC_ModifyOrder ''KABU'' ''o1'' (Some (F64_Fin 200)) None None)"
proof -
  have e: "parse_buf [] = None" by (simp add: parse_buf_def trim_def trim_start.simps trim_end.simps starts_with_def ends_with_def ws_encodings_def)
  have "TC_ModifyOrder ''KABU'' ''o1'' (Some (F64_Fin 200)) None None \<in>
      set (snd (modify_presses OpenSender [MB_AckToggle, MB_Confirm] (sample_modify, None)))"
    by (simp add: modify_press_def sample_modify_def modify_do_confirm_def modify_parsed_def can_confirm_def
        parse_buf_200 e Let_def)
  from modify_commands_consented [OF this] show ?thesis by (simp add: sample_modify_def)
qed

end
