(* ===== verification/Order_Panel.thy ===== *)
theory Order_Panel
  imports Modals
begin

text \<open>
  The order panel: the form and its validation (\<open>src/ui/order_panel/form.rs\<close>) and the
  two-step confirmation (\<open>src/ui/order_panel/confirm_modal.rs\<close>). What lays out or paints
  nodes is left out. The theorems: what validation accepts; that the steps of the buttons stay on
  the lot and tick grid exactly; that an order is sent only from a draft that validation accepted,
  once per confirmation.
\<close>

subsection \<open>The form\<close>

definition DEFAULT_LOT_SIZE :: f64 where "DEFAULT_LOT_SIZE = F64_Fin 100"
definition DEFAULT_TICK_SIZE :: f64 where "DEFAULT_TICK_SIZE = F64_Fin 1"

datatype side = SD_Buy | SD_Sell
datatype order_type = OT_Market | OT_Limit
datatype time_in_force = TF_Day | TF_Opening | TF_Closing

definition side_wire :: "side \<Rightarrow> str" where
  "side_wire s = (case s of SD_Buy \<Rightarrow> ''BUY'' | SD_Sell \<Rightarrow> ''SELL'')"

definition order_type_wire :: "order_type \<Rightarrow> str" where
  "order_type_wire t = (case t of OT_Market \<Rightarrow> ''MARKET'' | OT_Limit \<Rightarrow> ''LIMIT'')"

definition tif_wire :: "time_in_force \<Rightarrow> str" where
  "tif_wire t = (case t of TF_Day \<Rightarrow> ''DAY'' | TF_Opening \<Rightarrow> ''OPENING'' | TF_Closing \<Rightarrow> ''CLOSING'')"

definition tif_label :: "time_in_force \<Rightarrow> str" where
  "tif_label t = (case t of TF_Day \<Rightarrow> ''DAY'' | TF_Opening \<Rightarrow> ''OPEN'' | TF_Closing \<Rightarrow> ''CLOSE'')"

record order_form =
  fm_side :: side
  fm_order_type :: order_type
  fm_qty :: f64
  fm_price :: f64
  fm_tif :: time_in_force

definition order_form_default :: order_form where
  "order_form_default =
     \<lparr>fm_side = SD_Buy, fm_order_type = OT_Market, fm_qty = DEFAULT_LOT_SIZE, fm_price = 0, fm_tif = TF_Day\<rparr>"

record order_draft =
  dr_venue :: str
  dr_symbol :: str
  dr_side :: side
  dr_order_type :: order_type
  dr_qty :: f64
  dr_price :: "f64 option"
  dr_tif :: time_in_force

datatype order_validation_error =
    OE_SymbolNotSelected
  | OE_QtyNotPositive
  | OE_QtyNotLotMultiple
  | OE_PriceRequiredForLimit
  | OE_PriceNotTickMultiple

text \<open>The messages: no instrument selected; the quantity must be positive; the quantity must be a
  multiple of the trading unit; a limit order needs a price; the price must be a multiple of the
  tick.\<close>

definition validation_message :: "order_validation_error \<Rightarrow> str" where
  "validation_message e =
     (case e of
        OE_SymbolNotSelected \<Rightarrow>
     utf8 [0xE9, 0x8A, 0x98, 0xE6, 0x9F, 0x84, 0xE3, 0x81, 0x8C, 0xE6, 0x9C, 0xAA, 0xE9,
     0x81, 0xB8, 0xE6, 0x8A, 0x9E, 0xE3, 0x81, 0xA7, 0xE3, 0x81, 0x99]
      | OE_QtyNotPositive \<Rightarrow>
     utf8 [0xE6, 0x95, 0xB0, 0xE9, 0x87, 0x8F, 0xE3, 0x81, 0xAF, 0xE6, 0xAD, 0xA3, 0xE3,
     0x81, 0xAE, 0xE5, 0x80, 0xA4, 0xE3, 0x81, 0xAB, 0xE3, 0x81, 0x97, 0xE3, 0x81, 0xA6,
     0xE3, 0x81, 0x8F, 0xE3, 0x81, 0xA0, 0xE3, 0x81, 0x95, 0xE3, 0x81, 0x84]
      | OE_QtyNotLotMultiple \<Rightarrow>
     utf8 [0xE6, 0x95, 0xB0, 0xE9, 0x87, 0x8F, 0xE3, 0x81, 0xAF, 0xE5, 0xA3, 0xB2, 0xE8,
     0xB2, 0xB7, 0xE5, 0x8D, 0x98, 0xE4, 0xBD, 0x8D, 0xE3, 0x81, 0xAE, 0xE5, 0x80, 0x8D,
     0xE6, 0x95, 0xB0, 0xE3, 0x81, 0xAB, 0xE3, 0x81, 0x97, 0xE3, 0x81, 0xA6, 0xE3, 0x81,
     0x8F, 0xE3, 0x81, 0xA0, 0xE3, 0x81, 0x95, 0xE3, 0x81, 0x84]
      | OE_PriceRequiredForLimit \<Rightarrow>
     utf8 [0xE6, 0x8C, 0x87, 0xE5, 0x80, 0xA4, 0xE3, 0x81, 0xAB, 0xE3, 0x81, 0xAF, 0xE4,
     0xBE, 0xA1, 0xE6, 0xA0, 0xBC, 0xE3, 0x81, 0x8C, 0xE5, 0xBF, 0x85, 0xE8, 0xA6, 0x81,
     0xE3, 0x81, 0xA7, 0xE3, 0x81, 0x99]
      | OE_PriceNotTickMultiple \<Rightarrow>
     utf8 [0xE4, 0xBE, 0xA1, 0xE6, 0xA0, 0xBC, 0xE3, 0x81, 0xAF, 0xE5, 0x91, 0xBC, 0xE5,
     0x80, 0xA4, 0xE3, 0x81, 0xAE, 0xE5, 0x80, 0x8D, 0xE6, 0x95, 0xB0, 0xE3, 0x81, 0xAB,
     0xE3, 0x81, 0x97, 0xE3, 0x81, 0xA6, 0xE3, 0x81, 0x8F, 0xE3, 0x81, 0xA0, 0xE3, 0x81,
     0x95, 0xE3, 0x81, 0x84])"

definition is_multiple_of :: "f64 \<Rightarrow> f64 \<Rightarrow> bool" where
  "is_multiple_of value step \<longleftrightarrow>
     (if step \<le> 0 then True
      else (let ratio = f64_div value step in
            f64_abs (f64_sub ratio (f64_round_to_int ratio)) < f64_round (1 / 10 ^ 6)))"

definition validate_order ::
  "order_form \<Rightarrow> str option \<Rightarrow> f64 \<Rightarrow> f64 \<Rightarrow> order_validation_error + unit" where
  "validate_order f sy lot tick =
     (if (case sy of Some s \<Rightarrow> s = [] | None \<Rightarrow> True) then Inl OE_SymbolNotSelected
      else if \<not> f64_is_finite (fm_qty f) \<or> fm_qty f \<le> 0 then Inl OE_QtyNotPositive
      else if \<not> is_multiple_of (fm_qty f) lot then Inl OE_QtyNotLotMultiple
      else if fm_order_type f = OT_Limit then
        (if \<not> f64_is_finite (fm_price f) \<or> fm_price f \<le> 0 then Inl OE_PriceRequiredForLimit
         else if \<not> is_multiple_of (fm_price f) tick then Inl OE_PriceNotTickMultiple
         else Inr ())
      else Inr ())"

definition build_draft :: "order_form \<Rightarrow> str \<Rightarrow> str \<Rightarrow> order_draft" where
  "build_draft f sy venue =
     \<lparr>dr_venue = venue, dr_symbol = sy, dr_side = fm_side f, dr_order_type = fm_order_type f,
      dr_qty = fm_qty f,
      dr_price = (case fm_order_type f of OT_Market \<Rightarrow> None | OT_Limit \<Rightarrow> Some (fm_price f)),
      dr_tif = fm_tif f\<rparr>"

definition estimated_notional :: "order_draft \<Rightarrow> f64 option \<Rightarrow> f64 option" where
  "estimated_notional d last_price =
     (case (case dr_price d of Some p \<Rightarrow> Some p | None \<Rightarrow> last_price) of
        Some unit_price \<Rightarrow> Some (f64_mul unit_price (dr_qty d))
      | None \<Rightarrow> None)"

datatype order_button =
    OB_SideBuy | OB_SideSell | OB_TypeMarket | OB_TypeLimit | OB_QtyDec | OB_QtyInc | OB_PriceDec
  | OB_PriceInc | OB_Tif time_in_force | OB_Submit

record order_confirm =
  oc_pending :: "order_draft option"
  oc_last_error :: "str option"

definition order_form_press :: "order_button \<Rightarrow> order_form \<times> order_confirm \<Rightarrow> order_form \<times> order_confirm" where
  "order_form_press b s =
     (let (f, c) = s; clr = c\<lparr>oc_last_error := None\<rparr> in
      case b of
        OB_SideBuy \<Rightarrow> (f\<lparr>fm_side := SD_Buy\<rparr>, clr)
      | OB_SideSell \<Rightarrow> (f\<lparr>fm_side := SD_Sell\<rparr>, clr)
      | OB_TypeMarket \<Rightarrow> (f\<lparr>fm_order_type := OT_Market\<rparr>, clr)
      | OB_TypeLimit \<Rightarrow> (f\<lparr>fm_order_type := OT_Limit\<rparr>, clr)
      | OB_QtyDec \<Rightarrow> (f\<lparr>fm_qty := f64_max (f64_sub (fm_qty f) DEFAULT_LOT_SIZE) 0\<rparr>, clr)
      | OB_QtyInc \<Rightarrow> (f\<lparr>fm_qty := f64_add (fm_qty f) DEFAULT_LOT_SIZE\<rparr>, clr)
      | OB_PriceDec \<Rightarrow> (f\<lparr>fm_price := f64_max (f64_sub (fm_price f) DEFAULT_TICK_SIZE) 0\<rparr>, clr)
      | OB_PriceInc \<Rightarrow> (f\<lparr>fm_price := f64_add (fm_price f) DEFAULT_TICK_SIZE\<rparr>, clr)
      | OB_Tif t \<Rightarrow> (f\<lparr>fm_tif := t\<rparr>, clr)
      | OB_Submit \<Rightarrow> (f, c))"

definition order_form_button_system ::
  "order_button list \<Rightarrow> order_form \<times> order_confirm \<Rightarrow> order_form \<times> order_confirm" where
  "order_form_button_system bs s = fold order_form_press bs s"

definition order_submit_press ::
  "order_form \<Rightarrow> str option \<Rightarrow> str option \<Rightarrow> order_button \<Rightarrow> order_confirm \<Rightarrow> order_confirm" where
  "order_submit_press f selected venue_id b c =
     (if b \<noteq> OB_Submit then c
      else if oc_pending c \<noteq> None then c
      else (case validate_order f selected DEFAULT_LOT_SIZE DEFAULT_TICK_SIZE of
              Inr u \<Rightarrow> c\<lparr>oc_pending := Some (build_draft f (unwrap_or [] selected) (unwrap_or [] venue_id)),
                         oc_last_error := None\<rparr>
            | Inl e \<Rightarrow> c\<lparr>oc_last_error := Some (validation_message e)\<rparr>))"

definition order_submit_button_system ::
  "order_form \<Rightarrow> str option \<Rightarrow> str option \<Rightarrow> order_button list \<Rightarrow> order_confirm \<Rightarrow> order_confirm" where
  "order_submit_button_system f selected venue_id bs c = fold (order_submit_press f selected venue_id) bs c"

subsection \<open>The confirmation\<close>

datatype confirm_button = CB_Confirm | CB_Cancel

type_synonym confirm_sys = "order_confirm \<times> str option"

definition place_command :: "order_draft \<Rightarrow> transport_command" where
  "place_command d =
     TC_PlaceOrder (dr_venue d) (dr_symbol d) (side_wire (dr_side d)) (dr_qty d) (dr_price d)
       (order_type_wire (dr_order_type d)) (tif_wire (dr_tif d)) None"

definition confirm_press :: "link \<Rightarrow> confirm_button \<Rightarrow> confirm_sys \<Rightarrow> confirm_sys \<times> transport_command list" where
  "confirm_press l b s =
     (let (c, fb) = s in
      case b of
        CB_Cancel \<Rightarrow> ((c\<lparr>oc_pending := None\<rparr>, fb), [])
      | CB_Confirm \<Rightarrow>
          (case oc_pending c of
             None \<Rightarrow> (s, [])
           | Some d \<Rightarrow> ((c\<lparr>oc_pending := None\<rparr>, None), link_send l (place_command d))))"

fun confirm_presses :: "link \<Rightarrow> confirm_button list \<Rightarrow> confirm_sys \<Rightarrow> confirm_sys \<times> transport_command list" where
  "confirm_presses l [] s = (s, [])"
| "confirm_presses l (b # bs) s =
     (let (s1, out) = confirm_press l b s; (s2, outs) = confirm_presses l bs s1 in (s2, out @ outs))"

definition confirm_modal_button_system ::
  "link \<Rightarrow> confirm_button list \<Rightarrow> confirm_sys \<Rightarrow> confirm_sys \<times> transport_command list" where
  "confirm_modal_button_system l bs s =
     (if oc_pending (fst s) = None then (s, []) else confirm_presses l bs s)"

definition confirm_clear :: "order_confirm \<Rightarrow> order_confirm" where
  "confirm_clear c = c\<lparr>oc_pending := None\<rparr>"

interpretation confirm_modal: managed_modal "\<lambda>c. oc_pending c \<noteq> None" confirm_clear rt 280 for rt
  by unfold_locales (simp add: confirm_clear_def)

section \<open>Properties\<close>

subsection \<open>Validation\<close>

text \<open>A form that validation accepts has an instrument and a positive finite quantity, and
  when it is a limit order a positive finite price; and its draft carries the price exactly for a
  limit order.\<close>

theorem validated_draft:
  assumes "validate_order f sy lot tick = Inr u"
  shows "\<exists>s q. sy = Some s \<and> s \<noteq> [] \<and> fm_qty f = F64_Fin q \<and> 0 < q \<and>
    (if fm_order_type f = OT_Limit
     then \<exists>p. fm_price f = F64_Fin p \<and> 0 < p \<and> dr_price (build_draft f s venue) = Some (F64_Fin p)
     else dr_price (build_draft f s venue) = None)"
proof -
  have pos: "\<exists>q. x = F64_Fin q \<and> 0 < q" if "f64_is_finite x" "\<not> x \<le> 0" for x
    using that by (cases x) (auto simp: f64_is_finite_def zero_f64_def)
  from assms show ?thesis
    by (auto simp: validate_order_def build_draft_def dest!: pos split: if_splits option.splits order_type.splits)
qed

subsection \<open>The steps stay on the grid\<close>

definition form_on_grid :: "int \<Rightarrow> order_form \<Rightarrow> bool" where
  "form_on_grid n f \<longleftrightarrow>
     (\<exists>k j. 0 \<le> k \<and> k \<le> n \<and> 0 \<le> j \<and> j \<le> n \<and>
        fm_qty f = F64_Fin (of_int (100 * k)) \<and> fm_price f = F64_Fin (of_int j))"

lemma f64_max_zero_int:
  "f64_max (F64_Fin (of_int a)) 0 = F64_Fin (of_int (max a 0))"
  by (simp add: f64_max_def zero_f64_def max_def)

lemma f64_sub_ints:
  "\<bar>a - b\<bar> \<le> 2 ^ 53 \<Longrightarrow> f64_sub (F64_Fin (of_int a)) (F64_Fin (of_int b)) = F64_Fin (of_int (a - b))"
  using f64_add_ints [of a "- b"] by (simp add: f64_sub_def)

lemma form_on_grid_press:
  assumes "form_on_grid n (fst s)" and "100 * (n + 1) \<le> 2 ^ 53"
  shows "form_on_grid (n + 1) (fst (order_form_press b s))"
proof -
  obtain k j where kj: "0 \<le> k" "k \<le> n" "0 \<le> j" "j \<le> n"
    and q: "fm_qty (fst s) = F64_Fin (of_int (100 * k))" and p: "fm_price (fst s) = F64_Fin (of_int j)"
    using assms(1) by (auto simp: form_on_grid_def)
  have lot: "DEFAULT_LOT_SIZE = F64_Fin (of_int 100)" and tick: "DEFAULT_TICK_SIZE = F64_Fin (of_int 1)"
    by (simp_all add: DEFAULT_LOT_SIZE_def DEFAULT_TICK_SIZE_def)
  have qd: "f64_max (f64_sub (F64_Fin (of_int (100 * k))) (F64_Fin (of_int 100))) 0 =
      F64_Fin (of_int (100 * max (k - 1) 0))"
  proof -
    have "\<bar>100 * k - 100\<bar> \<le> 2 ^ 53" using kj assms(2) by simp
    then show ?thesis
      by (simp only: f64_sub_ints f64_max_zero_int) (simp add: max_def algebra_simps)
  qed
  have qi: "f64_add (F64_Fin (of_int (100 * k))) (F64_Fin (of_int 100)) = F64_Fin (of_int (100 * (k + 1)))"
    using f64_add_ints [of "100 * k" 100] kj assms(2) by (simp add: algebra_simps)
  have pd: "f64_max (f64_sub (F64_Fin (of_int j)) (F64_Fin (of_int 1))) 0 = F64_Fin (of_int (max (j - 1) 0))"
  proof -
    have "\<bar>j - 1\<bar> \<le> 2 ^ 53" using kj assms(2) by simp
    then show ?thesis by (simp only: f64_sub_ints f64_max_zero_int)
  qed
  have pi: "f64_add (F64_Fin (of_int j)) (F64_Fin (of_int 1)) = F64_Fin (of_int (j + 1))"
    using f64_add_ints [of j 1] kj assms(2) by simp
  have grid: "form_on_grid (n + 1) g"
    if "fm_qty g = F64_Fin (of_int (100 * k'))" "fm_price g = F64_Fin (of_int j')"
      "0 \<le> k'" "k' \<le> n + 1" "0 \<le> j'" "j' \<le> n + 1" for g k' j'
    using that unfolding form_on_grid_def by blast
  obtain f c where s: "s = (f, c)" by (cases s)
  show ?thesis
  proof (cases b)
    case OB_QtyDec
    show ?thesis by (rule grid [of _ "max (k - 1) 0" j])
      (use q p kj in \<open>simp_all only: s OB_QtyDec order_form_press_def lot qd fst_conv Let_def prod.case order_button.case\<close>, simp_all)
  next
    case OB_QtyInc
    show ?thesis by (rule grid [of _ "k + 1" j])
      (use q p kj in \<open>simp_all only: s OB_QtyInc order_form_press_def lot qi fst_conv Let_def prod.case order_button.case\<close>, simp_all)
  next
    case OB_PriceDec
    show ?thesis by (rule grid [of _ k "max (j - 1) 0"])
      (use q p kj in \<open>simp_all only: s OB_PriceDec order_form_press_def tick pd fst_conv Let_def prod.case order_button.case\<close>, simp_all)
  next
    case OB_PriceInc
    show ?thesis by (rule grid [of _ k "j + 1"])
      (use q p kj in \<open>simp_all only: s OB_PriceInc order_form_press_def tick pi fst_conv Let_def prod.case order_button.case\<close>, simp_all)
  qed (use q p kj in \<open>auto simp: s order_form_press_def intro: grid [of _ k j]\<close>)
qed

lemma form_on_grid_presses:
  "form_on_grid n (fst s) \<Longrightarrow> 100 * (n + int (length bs)) \<le> 2 ^ 53 \<Longrightarrow>
   form_on_grid (n + int (length bs)) (fst (order_form_button_system bs s))"
  unfolding order_form_button_system_def
proof (induction bs arbitrary: n s)
  case (Cons b bs)
  have "form_on_grid (n + 1) (fst (order_form_press b s))"
    by (rule form_on_grid_press) (use Cons.prems in auto)
  from Cons.IH [OF this] Cons.prems show ?case by (simp add: algebra_simps)
qed simp

lemma small_step_positive: "0 < f64_round (1 / 10 ^ 6)"
proof (rule f64_round_positive)
  have "pow2 (- 1022) \<le> pow2 (- 20)" by (rule pow2_mono) simp
  also have "pow2 (- 20) \<le> 1 / 10 ^ 6" by (simp add: pow2_def)
  finally show "pow2 (- 1022) \<le> 1 / 10 ^ 6" .
  have "1 / 10 ^ 6 < (1::rat)" by simp
  also have "1 \<le> pow2 1023" using pow2_mono [of 0 1023] by (simp add: pow2_def)
  finally show "1 / 10 ^ 6 < pow2 1023" .
qed

lemma multiple_of_lot:
  assumes "\<bar>k\<bar> \<le> 2 ^ 53" and "0 < m"
  shows "is_multiple_of (F64_Fin (of_int (m * k))) (F64_Fin (of_int m))"
proof -
  have "f64_div (F64_Fin (of_int (m * k))) (F64_Fin (of_int m)) = f64_round (of_int k)"
    using assms(2) by simp
  then have r: "f64_div (F64_Fin (of_int (m * k))) (F64_Fin (of_int m)) = F64_Fin (of_int k)"
    using f64_round_int [OF assms(1)] by simp
  have "f64_sub (F64_Fin (of_int k)) (F64_Fin (of_int k)) = F64_Fin 0"
    using f64_sub_ints [of k k] by simp
  moreover have "\<not> F64_Fin (of_int m) \<le> 0" using assms(2) by (simp add: zero_f64_def)
  ultimately show ?thesis
    using small_step_positive unfolding is_multiple_of_def Let_def r f64_round_to_int_of_int
    by (simp add: zero_f64_def)
qed

text \<open>From the form the program starts with, after any number of button presses below
  $9 \times 10^{13}$, the lot and tick checks never fail: every error validation can report is the
  missing instrument, a zero quantity or the zero price of a limit order, and otherwise the
  form is accepted. The floating-point steps are exact.\<close>

theorem buttons_stay_on_grid:
  assumes "length bs < 9 * 10 ^ 13" and "sy = Some s" and "s \<noteq> []"
  shows "let f = fst (order_form_button_system bs (order_form_default, c)) in
    validate_order f sy DEFAULT_LOT_SIZE DEFAULT_TICK_SIZE =
      (if fm_qty f = 0 then Inl OE_QtyNotPositive
       else if fm_order_type f = OT_Limit \<and> fm_price f = 0 then Inl OE_PriceRequiredForLimit
       else Inr ())"
proof -
  let ?f = "fst (order_form_button_system bs (order_form_default, c))"
  let ?n = "1 + int (length bs)"
  have len: "int (length bs) < 9 * 10 ^ 13"
    using assms(1) by (metis of_nat_less_iff of_nat_mult of_nat_numeral of_nat_power)
  have "form_on_grid 1 (fst (order_form_default, c))"
    unfolding form_on_grid_def
    by (rule exI [of _ 1], rule exI [of _ 0]) (simp add: order_form_default_def DEFAULT_LOT_SIZE_def zero_f64_def)
  from form_on_grid_presses [OF this, of bs] len have "form_on_grid ?n ?f" by simp
  then obtain k j where kj: "0 \<le> k" "k \<le> ?n" "0 \<le> j" "j \<le> ?n"
    and q: "fm_qty ?f = F64_Fin (of_int (100 * k))" and p: "fm_price ?f = F64_Fin (of_int j)"
    by (auto simp: form_on_grid_def)
  have mq: "is_multiple_of (F64_Fin (of_int (100 * k))) DEFAULT_LOT_SIZE"
    using multiple_of_lot [of k 100] kj len by (simp add: DEFAULT_LOT_SIZE_def)
  have mp: "is_multiple_of (F64_Fin (of_int j)) DEFAULT_TICK_SIZE"
    using multiple_of_lot [of j 1] kj len by (simp add: DEFAULT_TICK_SIZE_def)
  show ?thesis
    using assms(2,3) kj mq mp
    unfolding validate_order_def Let_def q p
    by (auto simp: f64_is_finite_def zero_f64_def)
qed

subsection \<open>Two steps to an order\<close>

definition draft_validated :: "order_draft \<Rightarrow> bool" where
  "draft_validated d \<longleftrightarrow>
     (\<exists>f s. validate_order f (Some s) DEFAULT_LOT_SIZE DEFAULT_TICK_SIZE = Inr () \<and>
        d = build_draft f s (dr_venue d))"

inductive panel_step :: "link \<Rightarrow> order_form \<times> confirm_sys \<Rightarrow> transport_command list \<Rightarrow> order_form \<times> confirm_sys \<Rightarrow> bool"
  for l where
  edit: "order_form_press b (f, c) = (f', c') \<Longrightarrow> panel_step l (f, c, fb) [] (f', c', fb)"
| submit: "panel_step l (f, c, fb) [] (f, order_submit_press f selected venue_id b c, fb)"
| confirm: "confirm_press l b (c, fb) = ((c', fb'), out) \<Longrightarrow> panel_step l (f, c, fb) out (f, c', fb')"
| escape: "panel_step l (f, c, fb) [] (f, confirm_clear c, fb)"

inductive panel_run :: "link \<Rightarrow> order_form \<times> confirm_sys \<Rightarrow> transport_command list \<Rightarrow> order_form \<times> confirm_sys \<Rightarrow> bool"
  for l where
  start: "panel_run l s [] s"
| step: "panel_run l s out t \<Longrightarrow> panel_step l t out' u \<Longrightarrow> panel_run l s (out @ out') u"

inductive_cases panel_stepE: "panel_step l s out t"

definition pending_ok :: "order_confirm \<Rightarrow> bool" where
  "pending_ok c \<longleftrightarrow> (case oc_pending c of Some d \<Rightarrow> draft_validated d | None \<Rightarrow> True)"

lemma build_draft_venue [simp]: "dr_venue (build_draft f s v) = v"
  by (simp add: build_draft_def)

lemma form_press_pending [simp]: "oc_pending (snd (order_form_press b s)) = oc_pending (snd s)"
  by (cases b; cases s) (simp_all add: order_form_press_def)

lemma submit_press_pending_ok: "pending_ok c \<Longrightarrow> pending_ok (order_submit_press f selected venue_id b c)"
proof -
  have "draft_validated (build_draft f (unwrap_or [] selected) v)"
    if valid: "validate_order f selected DEFAULT_LOT_SIZE DEFAULT_TICK_SIZE = Inr u" for u v
  proof -
    obtain s where s: "selected = Some s"
      using valid by (cases selected) (auto simp: validate_order_def)
    then show ?thesis using valid unfolding draft_validated_def by auto
  qed
  then show "pending_ok c \<Longrightarrow> ?thesis"
    by (auto simp: order_submit_press_def pending_ok_def split: sum.split)
qed

lemma panel_step_ok:
  assumes "panel_step l s out t" and "pending_ok (fst (snd s))"
  shows "pending_ok (fst (snd t)) \<and> (\<forall>c \<in> set out. \<exists>d. draft_validated d \<and> c = place_command d)"
  using assms(1)
proof cases
  case (edit b f c f' c' fb)
  then show ?thesis using assms(2) form_press_pending [of b "(f, c)"] by (simp add: pending_ok_def)
next
  case (submit f c fb selected venue_id b)
  then show ?thesis using assms(2) by (simp add: submit_press_pending_ok)
next
  case (confirm b c fb c' fb' f)
  then show ?thesis
    using assms(2)
    by (cases b) (auto simp: confirm_press_def pending_ok_def link_send_def split: option.splits if_splits)
next
  case (escape f c fb)
  then show ?thesis by (simp add: confirm_clear_def pending_ok_def)
qed

text \<open>C12: over any run of edits, submissions, confirmations, cancellations and escapes from an
  empty confirmation, every order that is sent is the order of a draft built from a form that
  validation accepted.\<close>

theorem only_validated_orders_sent:
  assumes "panel_run l s out t" and "oc_pending (fst (snd s)) = None"
  shows "\<forall>c \<in> set out. \<exists>d. draft_validated d \<and> c = place_command d"
proof -
  have "pending_ok (fst (snd t)) \<and> (\<forall>c \<in> set out. \<exists>d. draft_validated d \<and> c = place_command d)"
    using assms
  proof (induction rule: panel_run.induct)
    case (start s)
    then show ?case by (simp add: pending_ok_def)
  next
    case (step s out t out' u)
    then show ?case using panel_step_ok [OF step.hyps(2)] by auto
  qed
  then show ?thesis ..
qed

lemma confirm_presses_closed:
  "oc_pending (fst t) = None \<Longrightarrow>
   snd (confirm_presses l bs t) = [] \<and> oc_pending (fst (fst (confirm_presses l bs t))) = None"
proof (induction bs arbitrary: t)
  case (Cons b bs)
  obtain t1 where "confirm_press l b t = (t1, [])" and "oc_pending (fst t1) = None"
    using Cons.prems by (cases b; cases t) (simp_all add: confirm_press_def)
  with Cons.IH [of t1] show ?case by (simp add: split_beta)
qed simp

text \<open>Whatever buttons of the confirmation are pressed in a frame, at most one order is sent,
  and it is the pending one; after it nothing is pending.\<close>

theorem confirm_sends_at_most_once:
  "let (s', out) = confirm_modal_button_system OpenSender bs s in
   (out = [] \<or> (\<exists>d. oc_pending (fst s) = Some d \<and> out = [place_command d])) \<and>
   (bs \<noteq> [] \<longrightarrow> oc_pending (fst s') = None)"
proof -
  have "confirm_presses OpenSender bs s = (s', out) \<Longrightarrow>
      (out = [] \<or> (\<exists>d. oc_pending (fst s) = Some d \<and> out = [place_command d])) \<and>
      (bs \<noteq> [] \<longrightarrow> oc_pending (fst s') = None)" for s' out
  proof (cases bs)
    case (Cons b bs')
    assume run: "confirm_presses OpenSender bs s = (s', out)"
    obtain s1 out1 where p: "confirm_press OpenSender b s = (s1, out1)" by fastforce
    obtain s2 out2 where r: "confirm_presses OpenSender bs' s1 = (s2, out2)" by fastforce
    have "oc_pending (fst s1) = None" and
      "out1 = [] \<or> (\<exists>d. oc_pending (fst s) = Some d \<and> out1 = [place_command d])"
      using p by (auto simp: confirm_press_def split: confirm_button.splits prod.splits option.splits)
    with confirm_presses_closed [of s1 OpenSender bs'] run p r Cons show ?thesis by auto
  qed auto
  then show ?thesis
    by (auto simp: confirm_modal_button_system_def Let_def split: prod.split)
qed

subsection \<open>Witnesses\<close>

lemma default_form_valid:
  "validate_order order_form_default (Some ''1301.TSE'') DEFAULT_LOT_SIZE DEFAULT_TICK_SIZE = Inr ()"
  using multiple_of_lot [of 1 100]
  by (simp add: validate_order_def order_form_default_def DEFAULT_LOT_SIZE_def f64_is_finite_def zero_f64_def)

lemma validated_draft_witness:
  "dr_price (build_draft order_form_default ''1301.TSE'' ''KABU'') = None"
proof -
  have "fm_order_type order_form_default = OT_Market" by (simp add: order_form_default_def)
  with validated_draft [OF default_form_valid, where venue = "''KABU''"] show ?thesis by auto
qed

lemma buttons_stay_on_grid_witness:
  "validate_order (fst (order_form_button_system [] (order_form_default, \<lparr>oc_pending = None, oc_last_error = None\<rparr>)))
     (Some ''1301.TSE'') DEFAULT_LOT_SIZE DEFAULT_TICK_SIZE = Inr ()"
  using buttons_stay_on_grid [of "[]" "Some ''1301.TSE''" "''1301.TSE''" "\<lparr>oc_pending = None, oc_last_error = None\<rparr>"]
  by (simp add: order_form_button_system_def order_form_default_def DEFAULT_LOT_SIZE_def zero_f64_def)

lemma only_validated_orders_sent_witness:
  "draft_validated (build_draft order_form_default ''1301.TSE'' ''KABU'')"
proof -
  let ?c0 = "\<lparr>oc_pending = None, oc_last_error = None\<rparr>"
  let ?d = "build_draft order_form_default ''1301.TSE'' ''KABU''"
  have "order_submit_press order_form_default (Some ''1301.TSE'') (Some ''KABU'') OB_Submit ?c0 =
      \<lparr>oc_pending = Some ?d, oc_last_error = None\<rparr>"
    by (simp add: order_submit_press_def default_form_valid)
  then have a: "panel_step OpenSender (order_form_default, ?c0, None) []
      (order_form_default, \<lparr>oc_pending = Some ?d, oc_last_error = None\<rparr>, None)"
    by (metis panel_step.submit)
  have b: "panel_step OpenSender (order_form_default, \<lparr>oc_pending = Some ?d, oc_last_error = None\<rparr>, None)
      [place_command ?d] (order_form_default, ?c0, None)"
    by (rule panel_step.confirm [of _ CB_Confirm]) (simp add: confirm_press_def)
  have "panel_run OpenSender (order_form_default, ?c0, None) (([] @ []) @ [place_command ?d]) (order_form_default, ?c0, None)"
    by (rule panel_run.step [OF panel_run.step [OF panel_run.start a] b])
  from only_validated_orders_sent [OF this] obtain d where
    d: "draft_validated d" "place_command ?d = place_command d" by auto
  then show ?thesis
    unfolding draft_validated_def using default_form_valid by auto
qed

lemma confirm_sends_at_most_once_witness:
  "oc_pending (fst (fst (confirm_modal_button_system OpenSender [CB_Confirm, CB_Confirm]
     (\<lparr>oc_pending = Some (build_draft order_form_default ''1301.TSE'' ''KABU''), oc_last_error = None\<rparr>, None)))) = None"
  using confirm_sends_at_most_once [of "[CB_Confirm, CB_Confirm]"
      "(\<lparr>oc_pending = Some (build_draft order_form_default ''1301.TSE'' ''KABU''), oc_last_error = None\<rparr>, None)"]
  by (simp add: Let_def split_beta)

end
