(* ===== verification/Editor.thy ===== *)
theory Editor
  imports Trading
begin

text \<open>
  The strategy editor's documents (\<open>src/ui/strategy_editor.rs\<close>, with the buffer and the key
  allocator of \<open>src/ui/components.rs\<close>): the fragments of a strategy file, merged into one
  text with region markers and split again, the debounced save into the cache file, and the
  numbering of new fragments. A file system is a map from paths to contents; a write is asked of
  the environment, which says whether it fails and what the file then holds. Instants are
  nanoseconds. Log lines are left out.
\<close>

subsection \<open>Fragments and buffers\<close>

type_synonym fragments = "(str \<times> str) list"

record strategy_fragment =
  sf_source :: str
  sf_dirty :: bool

text \<open>The open editors in query order: the region key and the fragment of each window.\<close>

type_synonym editors = "(str \<times> strategy_fragment) list"

record strategy_buffer =
  sb_original_path :: "path option"
  sb_cache_path :: "path option"
  sb_last_merged_source :: "str option"

record auto_save_state =
  as_dirty :: bool
  as_last_change :: "nat option"

type_synonym files = "path \<Rightarrow> str option"

text \<open>The environment of a write: \<open>None\<close> when it succeeds, otherwise the error and what the
  file holds afterwards.\<close>

type_synonym io_fault = "path \<Rightarrow> str \<Rightarrow> (str \<times> str option) option"

definition fs_write :: "io_fault \<Rightarrow> path \<Rightarrow> str \<Rightarrow> files \<Rightarrow> str option \<times> files" where
  "fs_write fault p s fs =
     (case fault p s of
        None \<Rightarrow> (None, fs(p \<mapsto> s))
      | Some (e, torn) \<Rightarrow> (Some e, fs(p := torn)))"

declare fs_write_def [io_defs]

subsection \<open>Merging\<close>

definition region_line :: "str \<Rightarrow> str" where
  "region_line k = ''# region '' @ k"

definition endregion_line :: "str \<Rightarrow> str" where
  "endregion_line k = ''# endregion '' @ k"

definition merge_one :: "str \<times> str \<Rightarrow> str" where
  "merge_one kb =
     (let (k, b) = kb in
      region_line k @ [newline] @ (if b \<noteq> [] then b @ [newline] else []) @ endregion_line k @ [newline])"

fun merge_loop :: "str list \<Rightarrow> fragments \<Rightarrow> str" where
  "merge_loop seen [] = []"
| "merge_loop seen ((k, b) # items) =
     (if k \<in> set seen then merge_loop seen items
      else merge_one (k, b) @ merge_loop (k # seen) items)"

definition merge_fragments :: "fragments \<Rightarrow> str" where
  "merge_fragments items = merge_loop [] items"

subsection \<open>Splitting\<close>

record split_outcome =
  so_fragments :: fragments
  so_max_numeric_suffix :: nat
  so_warnings :: "str list"

definition numeric_suffix_of :: "str \<Rightarrow> nat option" where
  "numeric_suffix_of key =
     (case strip_prefix ''region_'' key of
        Some s \<Rightarrow> parse_unsigned (2 ^ 32) s
      | None \<Rightarrow> None)"

definition parse_region :: "str \<Rightarrow> str option" where
  "parse_region line =
     (case strip_prefix ''# region '' (trim_start line) of
        None \<Rightarrow> None
      | Some r \<Rightarrow> (let key = trim r in if key = [] then None else Some key))"

definition parse_endregion :: "str \<Rightarrow> str option option" where
  "parse_endregion line =
     (case strip_prefix ''# endregion'' (trim_start line) of
        None \<Rightarrow> None
      | Some r \<Rightarrow> (let key = trim r in Some (if key = [] then None else Some key)))"

text \<open>The running state: the fragments and warnings so far, how often each key was seen, the open
  region with its lines, the lines before the first marker, and whether a marker was seen.\<close>

record split_state =
  sx_fragments :: fragments
  sx_warnings :: "str list"
  sx_seen :: "str \<Rightarrow> nat"
  sx_open_key :: "str option"
  sx_open_body :: "str list"
  sx_preamble :: "str list"
  sx_any_marker :: bool

definition split_init :: split_state where
  "split_init =
     \<lparr>sx_fragments = [], sx_warnings = [], sx_seen = (\<lambda>_. 0), sx_open_key = None, sx_open_body = [],
      sx_preamble = [], sx_any_marker = False\<rparr>"

definition quoted :: "str \<Rightarrow> str" where
  "quoted k = [CHR 0x27] @ k @ [CHR 0x27]"

definition dup_key :: "str \<Rightarrow> nat \<Rightarrow> str" where
  "dup_key raw count = raw @ ''_dup'' @ show_nat count"

definition push_fragment_inner :: "str \<Rightarrow> str list \<Rightarrow> split_state \<Rightarrow> split_state" where
  "push_fragment_inner raw body s =
     (let count = sx_seen s raw in
      s\<lparr>sx_fragments := sx_fragments s @
           [(if count = 0 then raw else dup_key raw count, trim_newlines (join [newline] body))],
        sx_warnings := sx_warnings s @
           (if count = 0 then []
            else [''duplicate region_key '' @ quoted raw @ ''; renamed to '' @ quoted (dup_key raw count)]),
        sx_seen := (sx_seen s)(raw := count + 1)\<rparr>)"

definition preamble_key :: str where "preamble_key = ''region_001_preamble''"

definition split_preamble :: "split_state \<Rightarrow> split_state" where
  "split_preamble s =
     (if \<not> sx_any_marker s \<and> sx_preamble s \<noteq> []
      then s\<lparr>sx_seen := (sx_seen s)(preamble_key := sx_seen s preamble_key + 1),
             sx_fragments := sx_fragments s @ [(preamble_key, trim_newlines (join [newline] (sx_preamble s)))],
             sx_warnings := sx_warnings s @
               [''preamble lines before first # region wrapped into '' @ quoted preamble_key],
             sx_preamble := []\<rparr>
      else s)"

definition split_open :: "str \<Rightarrow> split_state \<Rightarrow> split_state" where
  "split_open key s =
     (let s1 = (split_preamble s)\<lparr>sx_any_marker := True\<rparr>;
          s2 = (case sx_open_key s1 of
                  None \<Rightarrow> s1
                | Some prev \<Rightarrow>
                    push_fragment_inner prev (sx_open_body s1)
                      (s1\<lparr>sx_open_key := None, sx_open_body := [],
                          sx_warnings := sx_warnings s1 @
                            [''# region '' @ quoted key @ '' opened while '' @ quoted prev @
                             '' was still open; implicitly closing '' @ quoted prev]\<rparr>)) in
      s2\<lparr>sx_open_key := Some key, sx_open_body := []\<rparr>)"

definition split_close :: "str option \<Rightarrow> split_state \<Rightarrow> split_state" where
  "split_close ek s =
     (let s1 = s\<lparr>sx_any_marker := True, sx_open_key := None\<rparr> in
      case sx_open_key s of
        None \<Rightarrow>
          s1\<lparr>sx_warnings := sx_warnings s1 @
             [''# endregion '' @ quoted (unwrap_or [] ek) @ '' without matching # region; ignored'']\<rparr>
      | Some cur \<Rightarrow>
          push_fragment_inner cur (sx_open_body s1)
            (s1\<lparr>sx_open_body := [],
                sx_warnings := sx_warnings s1 @
                  (case ek of
                     None \<Rightarrow> []
                   | Some k \<Rightarrow>
                       (if k \<noteq> cur
                        then [''# endregion key '' @ quoted k @ '' does not match open '' @ quoted cur @
                              ''; closing '' @ quoted cur @ '' anyway'']
                        else []))\<rparr>))"

definition split_line :: "str \<Rightarrow> split_state \<Rightarrow> split_state" where
  "split_line line s =
     (case parse_region line of
        Some key \<Rightarrow> split_open key s
      | None \<Rightarrow>
          (case parse_endregion line of
             Some ek \<Rightarrow> split_close ek s
           | None \<Rightarrow>
               (if sx_open_key s \<noteq> None then s\<lparr>sx_open_body := sx_open_body s @ [line]\<rparr>
                else if \<not> sx_any_marker s then s\<lparr>sx_preamble := sx_preamble s @ [line]\<rparr>
                else s)))"

text \<open>At the end of the text an open region is closed with a warning.\<close>

definition split_finish :: "split_state \<Rightarrow> split_state" where
  "split_finish s =
     (case sx_open_key s of
        None \<Rightarrow> s
      | Some cur \<Rightarrow>
          push_fragment_inner cur (sx_open_body s)
            (s\<lparr>sx_open_key := None, sx_open_body := [],
               sx_warnings := sx_warnings s @
                 [''# region '' @ quoted cur @ '' has no matching # endregion; closed at EOF'']\<rparr>))"

definition max_suffix :: "fragments \<Rightarrow> nat" where
  "max_suffix fs = fold max (List.map_filter (\<lambda>(k, b). numeric_suffix_of k) fs) 0"

definition split_py_into_fragments :: "str \<Rightarrow> split_outcome" where
  "split_py_into_fragments py =
     (let s = split_finish (fold split_line (lines py) split_init);
          fs = (if sx_fragments s = [] then [(''region_001'', trim_newlines py)] else sx_fragments s) in
      \<lparr>so_fragments = fs, so_max_numeric_suffix = max_suffix fs, so_warnings = sx_warnings s\<rparr>)"

subsection \<open>Keys of new fragments\<close>

type_synonym region_key_allocator = u32

definition region_key :: "u32 \<Rightarrow> str" where
  "region_key n = ''region_'' @ show_nat_pad3 (unat n)"

definition allocate :: "region_key_allocator \<Rightarrow> str \<times> region_key_allocator" where
  "allocate nxt = (region_key (nxt + 1), nxt + 1)"

definition bump_to_at_least :: "u32 \<Rightarrow> region_key_allocator \<Rightarrow> region_key_allocator" where
  "bump_to_at_least n nxt = max nxt n"

subsection \<open>Saving into the cache\<close>

definition flush_strategy_cache ::
  "io_fault \<Rightarrow> str \<Rightarrow> strategy_buffer \<times> auto_save_state \<times> files \<Rightarrow>
   (str + bool) \<times> strategy_buffer \<times> auto_save_state \<times> files" where
  "flush_strategy_cache fault merged t =
     (let (b, a, fs) = t in
      case sb_cache_path b of
        None \<Rightarrow> (Inr False, b, a, fs)
      | Some p \<Rightarrow>
          (case fs_write fault p merged fs of
             (Some e, fs1) \<Rightarrow> (Inl e, b, a, fs1)
           | (None, fs1) \<Rightarrow>
               (Inr True, b\<lparr>sb_last_merged_source := Some merged\<rparr>,
                a\<lparr>as_dirty := False, as_last_change := None\<rparr>, fs1)))"

declare flush_strategy_cache_def [io_defs]

definition should_flush :: "auto_save_state \<Rightarrow> nat \<Rightarrow> nat \<Rightarrow> bool" where
  "should_flush a now debounce \<longleftrightarrow>
     as_dirty a \<and> (case as_last_change a of None \<Rightarrow> False | Some t \<Rightarrow> debounce \<le> now - t)"

definition mark_fragment_dirty ::
  "nat \<Rightarrow> str \<Rightarrow> strategy_fragment \<times> auto_save_state \<Rightarrow> strategy_fragment \<times> auto_save_state" where
  "mark_fragment_dirty now src t =
     (let (f, a) = t in
      (f\<lparr>sf_source := src, sf_dirty := True\<rparr>, a\<lparr>as_dirty := True, as_last_change := Some now\<rparr>))"

text \<open>What every save and run collects: key and source of each editor, in key order, without the
  blank ones.\<close>

definition collect_items :: "editors \<Rightarrow> fragments" where
  "collect_items eds =
     filter (\<lambda>(k, b). trim b \<noteq> []) (sort_key fst (map (\<lambda>(k, f). (k, sf_source f)) eds))"

text \<open>\<open>dedup_by_key\<close>: an item is dropped when its key is that of the last one kept.\<close>

fun dedup_from :: "str option \<Rightarrow> fragments \<Rightarrow> fragments" where
  "dedup_from prev [] = []"
| "dedup_from prev ((k, b) # items) =
     (if prev = Some k then dedup_from prev items else (k, b) # dedup_from (Some k) items)"

definition dedup_by_key :: "fragments \<Rightarrow> fragments" where
  "dedup_by_key items = dedup_from None items"

definition DEBOUNCE :: nat where "DEBOUNCE = 10 ^ 9"

definition debounced_strategy_autosave_system ::
  "io_fault \<Rightarrow> nat \<Rightarrow> editors \<times> strategy_buffer \<times> auto_save_state \<times> files \<Rightarrow>
   editors \<times> strategy_buffer \<times> auto_save_state \<times> files" where
  "debounced_strategy_autosave_system fault now t =
     (let (eds, b, a, fs) = t in
      if \<not> should_flush a now DEBOUNCE then t
      else (let merged = merge_fragments (dedup_by_key (collect_items eds)) in
            case flush_strategy_cache fault merged (b, a, fs) of
              (Inr True, b1, a1, fs1) \<Rightarrow> (map (\<lambda>(k, f). (k, f\<lparr>sf_dirty := False\<rparr>)) eds, b1, a1, fs1)
            | (Inr False, b1, a1, fs1) \<Rightarrow> (eds, b1, a1\<lparr>as_dirty := False, as_last_change := None\<rparr>, fs1)
            | (Inl e, b1, a1, fs1) \<Rightarrow> (eds, b1, a1, fs1)))"

section \<open>Properties\<close>

subsection \<open>Trimming\<close>

definition starts_blank :: "str \<Rightarrow> bool" where
  "starts_blank s \<longleftrightarrow> list_ex (\<lambda>w. starts_with w s) ws_encodings"

lemma trim_start_id: "\<not> starts_blank s \<Longrightarrow> trim_start s = s"
  by (subst trim_start.simps) (simp add: starts_blank_def list_ex_find)

lemma trim_start_idem: "\<not> starts_blank (trim_start s)"
proof (induction s rule: trim_start.induct)
  case (1 s)
  show ?case
  proof (cases "List.find (\<lambda>w. starts_with w s) ws_encodings")
    case None
    then show ?thesis by (subst trim_start.simps) (simp add: starts_blank_def list_ex_find)
  next
    case (Some w)
    then show ?thesis using 1 [OF Some] by (subst trim_start.simps) simp
  qed
qed

lemma trim_start_space: "trim_start (CHR '' '' # s) = trim_start s"
  by (subst trim_start.simps) (simp add: ws_encodings_def starts_with_def)

lemma not_blank_hash: "\<not> starts_blank (CHR ''#'' # s)"
  by (simp add: starts_blank_def ws_encodings_def starts_with_def)

lemma parse_region_of_line:
  assumes "trim k = k" and "k \<noteq> []"
  shows "parse_region (region_line k) = Some k"
  using assms by (simp add: parse_region_def region_line_def trim_start_id not_blank_hash
      strip_prefix_def starts_with_def)

lemma parse_region_of_end: "parse_region (endregion_line k) = None"
  by (simp add: parse_region_def endregion_line_def trim_start_id not_blank_hash strip_prefix_def
      starts_with_def)

lemma parse_endregion_of_end:
  assumes "trim k = k" and "k \<noteq> []"
  shows "parse_endregion (endregion_line k) = Some (Some k)"
proof -
  have "trim (CHR '' '' # k) = k" using assms by (simp add: trim_def trim_start_space)
  then show ?thesis
    using assms by (simp add: parse_endregion_def endregion_line_def trim_start_id not_blank_hash
      strip_prefix_def starts_with_def)
qed

subsection \<open>The lines of a merged text\<close>

abbreviation pieces :: "str \<Rightarrow> str list" where
  "pieces \<equiv> split_on newline"

lemma split_at_newline: "newline \<in> set b \<Longrightarrow> \<exists>l r. b = l @ newline # r \<and> newline \<notin> set l"
  by (metis in_set_conv_decomp_first)

lemma strip_cr_id: "carriage \<notin> set l \<Longrightarrow> strip_cr l = l"
  unfolding strip_cr_def by (metis last_in_set)

lemma lines_body:
  assumes "carriage \<notin> set b"
  shows "lines (b @ newline # rest) = pieces b @ lines rest"
  using assms
proof (induction "length b" arbitrary: b rule: less_induct)
  case less
  show ?case
  proof (cases "newline \<in> set b")
    case False
    then show ?thesis using less.prems by (simp add: lines_Cons_line strip_cr_id split_on_none)
  next
    case True
    then obtain l r where b: "b = l @ newline # r" "newline \<notin> set l"
      using split_at_newline by blast
    then have "lines (r @ newline # rest) = pieces r @ lines rest"
      using less by (intro less.hyps) auto
    with b less.prems show ?thesis
      by (simp add: lines_Cons_line strip_cr_id split_on_append)
  qed
qed

definition good_key :: "str \<Rightarrow> bool" where
  "good_key k \<longleftrightarrow> k \<noteq> [] \<and> trim k = k \<and> newline \<notin> set k \<and> carriage \<notin> set k"

definition plain_line :: "str \<Rightarrow> bool" where
  "plain_line l \<longleftrightarrow> parse_region l = None \<and> parse_endregion l = None"

definition good_body :: "str \<Rightarrow> bool" where
  "good_body b \<longleftrightarrow> carriage \<notin> set b \<and> list_all plain_line (pieces b)"

definition body_lines :: "str \<Rightarrow> str list" where
  "body_lines b = (if b = [] then [] else pieces b)"

lemma join_body_lines: "join [newline] (body_lines b) = b"
  by (simp add: body_lines_def join_split_on)

lemma marker_chars [simp]:
  "newline \<notin> set (region_line k) \<longleftrightarrow> newline \<notin> set k"
  "carriage \<notin> set (region_line k) \<longleftrightarrow> carriage \<notin> set k"
  "newline \<notin> set (endregion_line k) \<longleftrightarrow> newline \<notin> set k"
  "carriage \<notin> set (endregion_line k) \<longleftrightarrow> carriage \<notin> set k"
  by (simp_all add: region_line_def endregion_line_def newline_def carriage_def)

lemma lines_merge_one:
  assumes "good_key k" and "good_body b"
  shows "lines (merge_one (k, b) @ rest) = region_line k # body_lines b @ endregion_line k # lines rest"
  using assms
  by (simp add: merge_one_def good_key_def good_body_def body_lines_def lines_Cons_line strip_cr_id
      lines_body)

subsection \<open>Splitting a merged text\<close>

definition closed :: "split_state \<Rightarrow> bool" where
  "closed s \<longleftrightarrow> sx_open_key s = None \<and> sx_open_body s = [] \<and> sx_preamble s = []"

lemma push_fields [simp]:
  "sx_open_key (push_fragment_inner k ls s) = sx_open_key s"
  "sx_open_body (push_fragment_inner k ls s) = sx_open_body s"
  "sx_preamble (push_fragment_inner k ls s) = sx_preamble s"
  "sx_any_marker (push_fragment_inner k ls s) = sx_any_marker s"
  by (simp_all add: push_fragment_inner_def Let_def)

lemma closed_push [simp]: "closed (push_fragment_inner k ls s) = closed s"
  by (simp add: closed_def)

lemma fold_body:
  "sx_open_key s = Some k \<Longrightarrow> list_all plain_line ls \<Longrightarrow>
   fold split_line ls s = s\<lparr>sx_open_body := sx_open_body s @ ls\<rparr>"
  by (induction ls arbitrary: s) (auto simp: split_line_def plain_line_def)

lemma fold_block:
  assumes "closed s" and "good_key k" and "good_body b"
  shows "fold split_line (region_line k # body_lines b @ [endregion_line k]) s =
    push_fragment_inner k (body_lines b) (s\<lparr>sx_any_marker := True\<rparr>)"
proof -
  let ?o = "s\<lparr>sx_any_marker := True, sx_open_key := Some k, sx_open_body := []\<rparr>"
  have "split_line (region_line k) s = ?o"
    using assms by (simp add: split_line_def parse_region_of_line good_key_def split_open_def
        split_preamble_def closed_def)
  moreover have "fold split_line (body_lines b) ?o = ?o\<lparr>sx_open_body := body_lines b\<rparr>"
    using assms(3) by (simp add: fold_body good_body_def body_lines_def)
  moreover have "split_line (endregion_line k) (?o\<lparr>sx_open_body := body_lines b\<rparr>) =
      push_fragment_inner k (body_lines b) (s\<lparr>sx_any_marker := True\<rparr>)"
  proof -
    have "s\<lparr>sx_any_marker := True, sx_open_key := None, sx_open_body := []\<rparr> = s\<lparr>sx_any_marker := True\<rparr>"
      using assms(1) by (cases s) (simp add: closed_def)
    then show ?thesis
      using assms by (simp add: split_line_def parse_region_of_end parse_endregion_of_end good_key_def
          split_close_def)
  qed
  ultimately show ?thesis by simp
qed

definition push_item :: "str \<times> str \<Rightarrow> split_state \<Rightarrow> split_state" where
  "push_item kb s = push_fragment_inner (fst kb) (body_lines (snd kb)) s"

definition good_item :: "str \<times> str \<Rightarrow> bool" where
  "good_item kb \<longleftrightarrow> good_key (fst kb) \<and> good_body (snd kb)"

lemma closed_push_item [simp]: "closed (push_item kb s) = closed s"
  by (simp add: push_item_def)

lemma closed_any_marker [simp]: "closed (s\<lparr>sx_any_marker := m\<rparr>) = closed s"
  by (simp add: closed_def)

lemma any_marker_push_item [simp]: "sx_any_marker (push_item kb s) = sx_any_marker s"
  by (simp add: push_item_def)

lemma fold_blocks:
  assumes "closed s" and "sx_any_marker s" and "list_all good_item items"
  shows "fold split_line (lines (concat (map merge_one items) @ rest)) s =
    fold split_line (lines rest) (fold push_item items s)"
  using assms
proof (induction items arbitrary: s)
  case (Cons kb items)
  obtain k b where kb: "kb = (k, b)" by (cases kb)
  from Cons.prems kb have g: "good_key k" "good_body b" by (auto simp: good_item_def)
  have s: "s\<lparr>sx_any_marker := True\<rparr> = s" using Cons.prems by simp
  have "lines (concat (map merge_one (kb # items)) @ rest) =
      (region_line k # body_lines b @ [endregion_line k]) @ lines (concat (map merge_one items) @ rest)"
    using lines_merge_one [OF g] kb by simp
  then have "fold split_line (lines (concat (map merge_one (kb # items)) @ rest)) s =
      fold split_line (lines (concat (map merge_one items) @ rest))
        (fold split_line (region_line k # body_lines b @ [endregion_line k]) s)"
    by (simp only: fold_append comp_apply)
  then have "fold split_line (lines (concat (map merge_one (kb # items)) @ rest)) s =
      fold split_line (lines (concat (map merge_one items) @ rest)) (push_item kb s)"
    unfolding fold_block [OF Cons.prems(1) g] s by (simp add: kb push_item_def)
  then show ?case using Cons by simp
qed simp

lemma fold_push_distinct:
  assumes "distinct (map fst items)" and "\<And>k. k \<in> fst ` set items \<Longrightarrow> sx_seen s k = 0"
  shows "sx_fragments (fold push_item items s) =
      sx_fragments s @ map (\<lambda>(k, b). (k, trim_newlines b)) items \<and>
    sx_warnings (fold push_item items s) = sx_warnings s \<and>
    sx_open_key (fold push_item items s) = sx_open_key s"
  using assms
proof (induction items arbitrary: s)
  case (Cons kb items)
  obtain k b where kb: "kb = (k, b)" by (cases kb)
  have "sx_seen (push_item kb s) k' = 0" if "k' \<in> fst ` set items" for k'
    using that Cons.prems kb by (auto simp: push_item_def push_fragment_inner_def)
  then show ?case
    using Cons.IH [of "push_item kb s"] Cons.prems kb
    by (simp add: push_item_def push_fragment_inner_def join_body_lines)
qed simp

lemma merge_loop_distinct:
  "distinct (map fst items) \<Longrightarrow> set seen \<inter> fst ` set items = {} \<Longrightarrow>
   merge_loop seen items = concat (map merge_one items)"
  by (induction items arbitrary: seen) auto

lemma merge_distinct: "distinct (map fst items) \<Longrightarrow> merge_fragments items = concat (map merge_one items)"
  by (simp add: merge_fragments_def merge_loop_distinct)

text \<open>Splitting the blocks of any items, keys repeated or not.\<close>

lemma split_blocks:
  assumes "list_all good_item items" and "items \<noteq> []"
  shows "fold split_line (lines (concat (map merge_one items) @ rest)) split_init =
    fold split_line (lines rest) (fold push_item items (split_init\<lparr>sx_any_marker := True\<rparr>))"
proof -
  obtain k b items' where items: "items = (k, b) # items'" using assms(2) by (cases items) auto
  with assms(1) have g: "good_key k" "good_body b" "list_all good_item items'"
    by (auto simp: good_item_def)
  have c: "closed split_init" by (simp add: closed_def split_init_def)
  let ?s = "split_init\<lparr>sx_any_marker := True\<rparr>"
  have cs: "closed (push_item (k, b) ?s)" "sx_any_marker (push_item (k, b) ?s)"
    using c by simp_all
  have "lines (concat (map merge_one items) @ rest) =
      (region_line k # body_lines b @ [endregion_line k]) @ lines (concat (map merge_one items') @ rest)"
    using lines_merge_one [OF g(1,2)] items by simp
  then have "fold split_line (lines (concat (map merge_one items) @ rest)) split_init =
      fold split_line (lines (concat (map merge_one items') @ rest)) (push_item (k, b) ?s)"
    by (simp only: fold_append comp_apply fold_block [OF c g(1,2)] push_item_def fst_conv snd_conv)
  with fold_blocks [OF cs g(3), of rest] items show ?thesis by simp
qed

lemma open_key_fold_push [simp]: "sx_open_key (fold push_item items s) = sx_open_key s"
  by (induction items arbitrary: s) (simp_all add: push_item_def)

lemma split_blocks_outcome:
  assumes "list_all good_item items" and "items \<noteq> []"
  shows "so_fragments (split_py_into_fragments (concat (map merge_one items))) =
      sx_fragments (fold push_item items (split_init\<lparr>sx_any_marker := True\<rparr>)) \<and>
    so_warnings (split_py_into_fragments (concat (map merge_one items))) =
      sx_warnings (fold push_item items (split_init\<lparr>sx_any_marker := True\<rparr>))"
proof -
  have "length (sx_fragments (fold push_item items s)) = length (sx_fragments s) + length items" for s
    by (induction items arbitrary: s) (simp_all add: push_item_def push_fragment_inner_def Let_def)
  then have "sx_fragments (fold push_item items s) \<noteq> []" for s
    using assms(2) by (metis add_eq_0_iff_both_eq_0 length_0_conv)
  then show ?thesis
    using split_blocks [OF assms, of "[]"]
    by (simp add: split_py_into_fragments_def split_finish_def split_init_def Let_def)
qed

subsection \<open>Round trips\<close>

text \<open>C8: opening the text of merged fragments gives the fragments back, in order and without a
  warning, up to the newlines at the end of a body: for a list of fragments that is not empty, with
  distinct keys without surrounding blanks, and bodies without carriage returns none of whose lines
  is a marker.\<close>

theorem split_merge_roundtrip:
  assumes "items \<noteq> []" and "distinct (map fst items)" and "list_all good_item items"
  shows "let out = split_py_into_fragments (merge_fragments items) in
    so_fragments out = map (\<lambda>(k, b). (k, trim_newlines b)) items \<and> so_warnings out = []"
  using split_blocks_outcome [OF assms(3,1)] merge_distinct [OF assms(2)]
    fold_push_distinct [OF assms(2), of "split_init\<lparr>sx_any_marker := True\<rparr>"]
  by (simp add: split_init_def)

lemma dedup_from_distinct:
  "distinct (map fst items) \<Longrightarrow> (\<And>k. prev = Some k \<Longrightarrow> k \<notin> fst ` set items) \<Longrightarrow>
   dedup_from prev items = items"
proof (induction items arbitrary: prev)
  case (Cons kb items)
  then have "dedup_from (Some (fst kb)) items = items" by (intro Cons.IH) auto
  with Cons.prems show ?case by (cases kb) auto
qed simp

lemma distinct_sorted_keys: "distinct (map fst xs) \<Longrightarrow> distinct (map fst (sort_key fst xs))"
  by (simp add: distinct_map)

lemma distinct_collect:
  assumes "distinct (map fst eds)"
  shows "distinct (map fst (collect_items eds))"
proof -
  let ?ys = "map (\<lambda>(k, f). (k, sf_source f)) eds"
  have "map fst ?ys = map fst eds" by (induction eds) auto
  with assms have "distinct (map fst ?ys)" by metis
  then have "distinct (map fst (sort_key fst ?ys))" by (rule distinct_sorted_keys)
  then show ?thesis unfolding collect_items_def by (rule distinct_map_filter)
qed

text \<open>A change that is older than a second is saved: the cache file then holds a text whose
  opening gives back, in key order, every editor that is not blank, each editor is clean and no
  further save is due.\<close>

theorem autosave_reopens:
  assumes "as_dirty a" and "as_last_change a = Some t0" and "t0 + 10 ^ 9 \<le> now"
    and "sb_cache_path b = Some p" and "fault p (merge_fragments (collect_items eds)) = None"
    and "distinct (map fst eds)" and "collect_items eds \<noteq> []" and "list_all good_item (collect_items eds)"
  shows "let (eds', b', a', fs') = debounced_strategy_autosave_system fault now (eds, b, a, fs) in
    (\<exists>txt. fs' p = Some txt \<and>
       so_fragments (split_py_into_fragments txt) = map (\<lambda>(k, s). (k, trim_newlines s)) (collect_items eds)) \<and>
    list_all (\<lambda>(k, f). \<not> sf_dirty f) eds' \<and> collect_items eds' = collect_items eds \<and> \<not> as_dirty a'"
proof -
  have d: "distinct (map fst (collect_items eds))" using assms(6) by (rule distinct_collect)
  have clean: "collect_items (map (\<lambda>(k, f). (k, f\<lparr>sf_dirty := False\<rparr>)) eds) = collect_items eds"
    by (simp add: collect_items_def comp_def case_prod_unfold)
  have rt: "so_fragments (split_py_into_fragments (merge_fragments (collect_items eds))) =
      map (\<lambda>(k, s). (k, trim_newlines s)) (collect_items eds)"
    using split_blocks_outcome [OF assms(8,7)] merge_distinct [OF d]
      fold_push_distinct [OF d, of "split_init\<lparr>sx_any_marker := True\<rparr>"]
    by (simp add: split_init_def)
  have due: "1000000000 \<le> now - t0" using assms(3) by simp
  have dd: "dedup_by_key (collect_items eds) = collect_items eds"
    using dedup_from_distinct [OF d, of None] by (simp add: dedup_by_key_def)
  have "debounced_strategy_autosave_system fault now (eds, b, a, fs) =
      (map (\<lambda>(k, f). (k, f\<lparr>sf_dirty := False\<rparr>)) eds,
       b\<lparr>sb_last_merged_source := Some (merge_fragments (collect_items eds))\<rparr>,
       a\<lparr>as_dirty := False, as_last_change := None\<rparr>, fs(p \<mapsto> merge_fragments (collect_items eds)))"
    using assms(1-5) due dd
    by (simp add: debounced_strategy_autosave_system_def should_flush_def DEBOUNCE_def Let_def
        io_defs)
  then show ?thesis using rt clean by (simp add: list_all_iff case_prod_unfold)
qed

text \<open>A save that fails leaves the editors and the pending change as they were, so that the
  next frame tries again; without a cache path the pending change is forgotten and the editors
  stay unsaved.\<close>

theorem autosave_without_success:
  assumes "should_flush a now DEBOUNCE"
  shows "(case sb_cache_path b of
      None \<Rightarrow> debounced_strategy_autosave_system fault now (eds, b, a, fs) =
        (eds, b, a\<lparr>as_dirty := False, as_last_change := None\<rparr>, fs)
    | Some p \<Rightarrow>
        (case fault p (merge_fragments (dedup_by_key (collect_items eds))) of
           Some (e, torn) \<Rightarrow>
             debounced_strategy_autosave_system fault now (eds, b, a, fs) = (eds, b, a, fs(p := torn))
         | None \<Rightarrow> True))"
  using assms
  by (auto simp: debounced_strategy_autosave_system_def io_defs Let_def
      split: option.splits)

subsection \<open>Text that opening and saving loses\<close>

text \<open>A line between two regions is dropped without a warning: opening the file gives the two
  fragments only, and the next save writes the file without the line.\<close>

theorem text_between_regions_lost:
  assumes "list_all good_item [(k1, b1), (k2, b2)]" and "k1 \<noteq> k2"
    and "plain_line l" and "newline \<notin> set l" and "carriage \<notin> set l"
  shows "let out = split_py_into_fragments (merge_one (k1, b1) @ l @ [newline] @ merge_one (k2, b2)) in
    so_fragments out = [(k1, trim_newlines b1), (k2, trim_newlines b2)] \<and> so_warnings out = []"
proof -
  let ?s = "push_item (k1, b1) (split_init\<lparr>sx_any_marker := True\<rparr>)"
  have c: "closed split_init" by (simp add: closed_def split_init_def)
  then have cs: "closed ?s" "sx_any_marker ?s" by simp_all
  have line: "split_line l ?s = ?s"
    using assms(3) cs by (simp add: split_line_def plain_line_def closed_def)
  have g: "list_all good_item [(k1, b1)]" "list_all good_item [(k2, b2)]"
    using assms(1) by simp_all
  have "lines (l @ newline # merge_one (k2, b2)) = l # lines (merge_one (k2, b2))"
    using assms(4,5) by (simp add: lines_Cons_line strip_cr_id)
  then have "fold split_line (lines (merge_one (k1, b1) @ l @ [newline] @ merge_one (k2, b2))) split_init =
      push_item (k2, b2) ?s"
    using split_blocks [OF g(1), of "l @ [newline] @ merge_one (k2, b2)"]
      fold_blocks [OF cs g(2), of "[]"] line
    by simp
  then show ?thesis
    using assms(2)
    by (simp add: split_py_into_fragments_def split_finish_def split_init_def Let_def push_item_def
        push_fragment_inner_def join_body_lines)
qed

text \<open>A repeated key is renamed without looking at the other keys of the file. When the new
  name is taken, opening yields two fragments with one key, and saving them keeps only the first:
  the third region of such a file is lost.\<close>

theorem duplicate_region_lost:
  assumes "list_all good_item [(k, b1), (k, b2), (dup_key k 1, b3)]"
  shows "let out = split_py_into_fragments (concat (map merge_one [(k, b1), (k, b2), (dup_key k 1, b3)])) in
    so_fragments out =
      [(k, trim_newlines b1), (dup_key k 1, trim_newlines b2), (dup_key k 1, trim_newlines b3)] \<and>
    merge_fragments (so_fragments out) =
      merge_fragments [(k, trim_newlines b1), (dup_key k 1, trim_newlines b2)]"
proof -
  have ne: "dup_key k 1 \<noteq> k" by (simp add: dup_key_def)
  have "so_fragments (split_py_into_fragments (concat (map merge_one [(k, b1), (k, b2), (dup_key k 1, b3)]))) =
      [(k, trim_newlines b1), (dup_key k 1, trim_newlines b2), (dup_key k 1, trim_newlines b3)]"
    using split_blocks_outcome [OF assms] ne
    by (simp add: split_init_def push_item_def push_fragment_inner_def join_body_lines)
  then show ?thesis using ne by (simp add: merge_fragments_def Let_def)
qed

subsection \<open>New keys\<close>

lemma digits_value_append: "digits_value acc (xs @ ys) = digits_value (digits_value acc xs) ys"
  by (induction xs arbitrary: acc) auto

lemma digit_char:
  assumes "d < 10"
  shows "is_digit (char_of (0x30 + d :: nat))" and "digit_val (char_of (0x30 + d :: nat)) = d"
  using assms by (simp_all add: is_digit_def digit_val_def byte_def)

lemma show_nat_props:
  "show_nat n \<noteq> [] \<and> list_all is_digit (show_nat n) \<and> digits_value 0 (show_nat n) = n"
proof (induction n rule: show_nat.induct)
  case (1 n)
  show ?case
  proof (cases "n < 10")
    case True
    then show ?thesis using digit_char [OF True] by (subst (1 2 3) show_nat.simps) simp
  next
    case False
    have "n mod 10 < 10" by simp
    note d = digit_char [OF this]
    show ?thesis
      using False 1 [OF False] d by (subst (1 2 3) show_nat.simps) (simp add: digits_value_append)
  qed
qed

lemma digits_value_zeros: "digits_value 0 (replicate k (CHR ''0'') @ s) = digits_value 0 s"
  by (induction k) (simp_all add: digit_val_def byte_def)

lemma parse_padded:
  assumes "n < bound"
  shows "parse_unsigned bound (show_nat_pad3 n) = Some n"
proof -
  let ?s = "replicate (3 - length (show_nat n)) (CHR ''0'') @ show_nat n"
  have digits: "list_all is_digit ?s" "?s \<noteq> []"
    using show_nat_props [of n] by (auto simp: list_all_iff is_digit_def byte_def)
  then obtain c cs where c: "?s = c # cs" "is_digit c" by (cases ?s) auto
  then have plus: "c \<noteq> CHR ''+''" by (auto simp: is_digit_def byte_def)
  have "digits_value 0 (c # cs) = n"
    using show_nat_props [of n] digits_value_zeros [of _ "show_nat n"] c(1) by metis
  moreover have "all_digits (c # cs)" using digits c(1) by (simp add: all_digits_def)
  ultimately show ?thesis
    using assms plus c(1) by (simp add: parse_unsigned_def show_nat_pad3_def)
qed

lemma suffix_of_region_key: "numeric_suffix_of (region_key n) = Some (unat n)"
proof -
  have "unat n < 2 ^ 32" using unsigned_less [of n] by simp
  then show ?thesis
    by (simp add: numeric_suffix_of_def region_key_def parse_padded del: strip_prefix_append
        flip: append_assoc) (simp add: strip_prefix_def starts_with_def parse_padded)
qed

lemma suffix_range: "numeric_suffix_of k = Some n \<Longrightarrow> n < 2 ^ 32"
  by (auto simp: numeric_suffix_of_def parse_unsigned_def Let_def split: option.splits if_splits)

lemma max_suffix_upper:
  assumes "(k, b) \<in> set fs" and "numeric_suffix_of k = Some n"
  shows "n \<le> max_suffix fs"
proof -
  have "n \<in> set (List.map_filter (\<lambda>(k, b). numeric_suffix_of k) fs)"
    using assms by (force simp: List.map_filter_def)
  then show ?thesis unfolding max_suffix_def Max.set_eq_fold [symmetric] by (intro Max_ge) auto
qed

lemma max_suffix_range: "max_suffix fs < 2 ^ 32"
proof -
  have "list_all (\<lambda>x. x < 2 ^ 32) xs \<Longrightarrow> a < 2 ^ 32 \<Longrightarrow> fold max xs a < (2 :: nat) ^ 32" for xs a
    by (induction xs arbitrary: a) auto
  moreover have "list_all (\<lambda>x. x < 2 ^ 32) (List.map_filter (\<lambda>(k, b). numeric_suffix_of k) fs)"
    using suffix_range by (fastforce simp: list_all_iff List.map_filter_def)
  ultimately show ?thesis by (simp add: max_suffix_def)
qed

text \<open>After a file was opened, the key given to a new fragment is the key of none of the
  file's fragments, as long as the counter has not reached its limit.\<close>

theorem allocated_key_fresh:
  assumes "bump_to_at_least (word_of_nat (so_max_numeric_suffix (split_py_into_fragments py))) nxt < - 1"
  shows "fst (allocate (bump_to_at_least (word_of_nat (so_max_numeric_suffix (split_py_into_fragments py))) nxt))
    \<notin> fst ` set (so_fragments (split_py_into_fragments py))"
proof
  let ?out = "split_py_into_fragments py"
  let ?n = "bump_to_at_least (word_of_nat (so_max_numeric_suffix ?out)) nxt"
  assume "fst (allocate ?n) \<in> fst ` set (so_fragments ?out)"
  then obtain b where "(region_key (?n + 1), b) \<in> set (so_fragments ?out)"
    by (auto simp: allocate_def)
  then have "unat (?n + 1) \<le> max_suffix (so_fragments ?out)"
    by (rule max_suffix_upper) (rule suffix_of_region_key)
  moreover have "so_max_numeric_suffix ?out = max_suffix (so_fragments ?out)"
    by (simp add: split_py_into_fragments_def Let_def)
  moreover have "unat (word_of_nat (max_suffix (so_fragments ?out)) :: u32) = max_suffix (so_fragments ?out)"
    using max_suffix_range [of "so_fragments ?out"] by (simp add: unat_of_nat)
  moreover have "unat (?n + 1) = unat ?n + 1"
  proof -
    have "?n \<noteq> - 1" using assms by (rule less_imp_neq)
    then have "1 + ?n \<noteq> 0" by (metis add.commute eq_neg_iff_add_eq_0)
    then show ?thesis using unatSuc [of ?n] by (simp add: add.commute)
  qed
  moreover have "unat (word_of_nat (so_max_numeric_suffix ?out) :: u32) \<le> unat ?n"
    by (simp add: bump_to_at_least_def flip: word_le_nat_alt)
  ultimately show False by simp
qed

subsection \<open>Witnesses\<close>

lemma not_blank_letter:
  assumes "0x21 \<le> byte c" and "byte c < 0x7F"
  shows "\<not> starts_blank (c # s)"
  using assms by (auto simp: starts_blank_def ws_encodings_def starts_with_def byte_def)

lemma good_key_samples: "good_key ''a''" "good_key ''b''" "good_key ''a_dup1''" "good_key ''region_001''"
  by (simp_all add: good_key_def trim_def trim_start_id not_blank_letter byte_def newline_def carriage_def
      trim_end.simps ws_encodings_def ends_with_def)

lemma good_body_samples: "good_body ''x = 1''" "good_body ''y''"
  by (simp_all add: good_body_def plain_line_def parse_region_def parse_endregion_def trim_start_id
      not_blank_letter byte_def newline_def carriage_def strip_prefix_def starts_with_def)

lemmas good_samples = good_item_def good_key_samples good_body_samples

lemma split_merge_roundtrip_witness:
  "let out = split_py_into_fragments (merge_fragments [(''b'', ''x = 1''), (''a'', ''y'')]) in
   so_fragments out = [(''b'', ''x = 1''), (''a'', ''y'')] \<and> so_warnings out = []"
  using split_merge_roundtrip [of "[(''b'', ''x = 1''), (''a'', ''y'')]"]
  by (simp add: good_samples trim_newlines_id newline_def)

definition sample_editors :: editors where
  "sample_editors = [(''b'', \<lparr>sf_source = ''y'', sf_dirty = True\<rparr>), (''a'', \<lparr>sf_source = ''x = 1'', sf_dirty = False\<rparr>)]"

lemma collect_sample: "collect_items sample_editors = [(''a'', ''x = 1''), (''b'', ''y'')]"
  by (simp add: collect_items_def sample_editors_def trim_def trim_start_id not_blank_letter byte_def
      trim_end.simps ws_encodings_def ends_with_def)

lemma autosave_reopens_witness:
  "let (eds', b', a', fs') = debounced_strategy_autosave_system (\<lambda>p s. None) (2 * 10 ^ 9)
      (sample_editors, \<lparr>sb_original_path = None, sb_cache_path = Some ''c.py'', sb_last_merged_source = None\<rparr>,
       \<lparr>as_dirty = True, as_last_change = Some 5\<rparr>, Map.empty) in
    (\<exists>txt. fs' ''c.py'' = Some txt \<and>
       so_fragments (split_py_into_fragments txt) =
         map (\<lambda>(k, s). (k, trim_newlines s)) (collect_items sample_editors)) \<and>
    list_all (\<lambda>(k, f). \<not> sf_dirty f) eds' \<and> collect_items eds' = collect_items sample_editors \<and>
    \<not> as_dirty a'"
proof -
  have "distinct (map fst sample_editors)" by (simp add: sample_editors_def)
  then show ?thesis
    by (intro autosave_reopens [where ?t0.0 = 5]) (simp_all add: collect_sample good_samples)
qed

lemma autosave_without_success_witness:
  "debounced_strategy_autosave_system (\<lambda>p s. Some (''disk full'', None)) (2 * 10 ^ 9)
      (sample_editors, \<lparr>sb_original_path = None, sb_cache_path = Some ''c.py'', sb_last_merged_source = None\<rparr>,
       \<lparr>as_dirty = True, as_last_change = Some 5\<rparr>, Map.empty) =
    (sample_editors, \<lparr>sb_original_path = None, sb_cache_path = Some ''c.py'', sb_last_merged_source = None\<rparr>,
       \<lparr>as_dirty = True, as_last_change = Some 5\<rparr>, Map.empty)"
  using autosave_without_success [where a = "\<lparr>as_dirty = True, as_last_change = Some 5\<rparr>" and now = "2 * 10 ^ 9"
      and b = "\<lparr>sb_original_path = None, sb_cache_path = Some ''c.py'', sb_last_merged_source = None\<rparr>"
      and fault = "\<lambda>p s. Some (''disk full'', None)" and eds = sample_editors and fs = Map.empty]
  by (simp add: should_flush_def DEBOUNCE_def)

lemma text_between_regions_lost_witness:
  "let out = split_py_into_fragments
      (merge_one (''a'', ''y'') @ ''import os'' @ [newline] @ merge_one (''b'', ''x = 1'')) in
    so_fragments out = [(''a'', trim_newlines ''y''), (''b'', trim_newlines ''x = 1'')] \<and> so_warnings out = []"
  by (rule text_between_regions_lost)
     (simp_all add: good_samples plain_line_def parse_region_def parse_endregion_def trim_start_id
      not_blank_letter byte_def newline_def carriage_def strip_prefix_def starts_with_def)

lemma dup_key_sample: "dup_key ''a'' 1 = ''a_dup1''"
  unfolding dup_key_def by code_simp

lemma duplicate_region_lost_witness:
  "let out = split_py_into_fragments
      (concat (map merge_one [(''a'', ''y''), (''a'', ''x = 1''), (dup_key ''a'' 1, ''y'')])) in
    so_fragments out =
      [(''a'', trim_newlines ''y''), (dup_key ''a'' 1, trim_newlines ''x = 1''), (dup_key ''a'' 1, trim_newlines ''y'')] \<and>
    merge_fragments (so_fragments out) =
      merge_fragments [(''a'', trim_newlines ''y''), (dup_key ''a'' 1, trim_newlines ''x = 1'')]"
  by (rule duplicate_region_lost) (simp add: good_samples dup_key_sample [simplified])

lemma max_suffix_empty_text: "so_max_numeric_suffix (split_py_into_fragments []) = 1"
  by (simp add: split_py_into_fragments_def split_finish_def split_init_def max_suffix_def
      List.map_filter_simps numeric_suffix_of_def strip_prefix_def starts_with_def parse_unsigned_def
      all_digits_def is_digit_def digit_val_def byte_def)

lemma allocated_key_fresh_witness:
  "fst (allocate (bump_to_at_least (word_of_nat (so_max_numeric_suffix (split_py_into_fragments []))) 7))
    \<notin> fst ` set (so_fragments (split_py_into_fragments []))"
  by (rule allocated_key_fresh) (simp add: max_suffix_empty_text bump_to_at_least_def)

end
