(* ===== verification/Scenario.thy ===== *)
theory Scenario
  imports Editor Json
begin

text \<open>
  The scenario of a run: its metadata and the instrument registry (\<open>src/ui/components.rs\<close>), the
  reading of the sidecar file (\<open>src/ui/scenario_parser.rs\<close>), and the writing back of the
  instruments. A path is a text with \<open>/\<close> between its parts, without a \<open>.\<close> part. The
  environment gives the modification time of a path, the parsers of the JSON crate (into a value,
  and into the typed sidecar), its printer, and the faults of writing and renaming. The flag of a
  registry says whether it was written since the dirty mark last looked, as the engine's change
  detection does: a write counts even when it changes nothing. Events are read in the frame that
  sends them. An I/O error is named by what failed; the wording of the standard library is left
  out.
\<close>

subsection \<open>Paths\<close>

definition strip_slashes :: "path \<Rightarrow> path" where
  "strip_slashes p = rev (dropWhile (\<lambda>c. c = CHR ''/'') (rev p))"

definition path_parent :: "path \<Rightarrow> path option" where
  "path_parent p =
     (let q = strip_slashes p in
      if q = [] then None
      else (let d = rev (dropWhile (\<lambda>c. c \<noteq> CHR ''/'') (rev q)) in
            if d = [] then Some []
            else if strip_slashes d = [] then Some ''/'' else Some (strip_slashes d)))"

definition path_file_name :: "path \<Rightarrow> str option" where
  "path_file_name p =
     (let n = rev (takeWhile (\<lambda>c. c \<noteq> CHR ''/'') (rev (strip_slashes p))) in
      if n = [] \<or> n = ''..'' then None else Some n)"

text \<open>The part before the last dot of a name, unless that dot is its first character.\<close>

definition name_stem :: "str \<Rightarrow> str" where
  "name_stem n =
     (let s = rev (drop 1 (dropWhile (\<lambda>c. c \<noteq> CHR ''.'') (rev n))) in if s = [] then n else s)"

definition with_extension :: "str \<Rightarrow> path \<Rightarrow> path" where
  "with_extension ext p =
     (case path_file_name p of
        None \<Rightarrow> p
      | Some n \<Rightarrow> take (length (strip_slashes p) - length n) p @ name_stem n @ ''.'' @ ext)"

text \<open>\<open>Path::join\<close>: an absolute second part replaces the first.\<close>

definition path_join_any :: "path \<Rightarrow> path \<Rightarrow> path" where
  "path_join_any base p = (if starts_with ''/'' p then p else path_join base p)"

fun bom_strip :: "str \<Rightarrow> str" where
  "bom_strip (a # b # c # s) =
     (if a = CHR 0xEF \<and> b = CHR 0xBB \<and> c = CHR 0xBF then bom_strip s else a # b # c # s)"
| "bom_strip s = s"

definition read_json_with_bom_strip :: "files \<Rightarrow> path \<Rightarrow> str option" where
  "read_json_with_bom_strip fs p = map_option bom_strip (fs p)"

subsection \<open>Metadata and registry\<close>

record scenario_metadata =
  sm_schema_version :: "u32 option"
  sm_instruments :: "str list"
  sm_start :: "str option"
  sm_end :: "str option"
  sm_granularity :: "str option"
  sm_initial_cash :: "int option"

definition scenario_default :: scenario_metadata where
  "scenario_default =
     \<lparr>sm_schema_version = None, sm_instruments = [], sm_start = None, sm_end = None,
      sm_granularity = None, sm_initial_cash = None\<rparr>"

record instrument_registry =
  ir_ids :: "str list"
  ir_editable :: bool
  ir_changed :: bool

definition registry_default :: instrument_registry where
  "registry_default = \<lparr>ir_ids = [], ir_editable = False, ir_changed = True\<rparr>"

definition registry_contains :: "str \<Rightarrow> instrument_registry \<Rightarrow> bool" where
  "registry_contains i r \<longleftrightarrow> list_ex (\<lambda>s. s = i) (ir_ids r)"

definition registry_add :: "str \<Rightarrow> instrument_registry \<Rightarrow> bool \<times> instrument_registry" where
  "registry_add i r =
     (if registry_contains i r then (False, r\<lparr>ir_changed := True\<rparr>)
      else (True, r\<lparr>ir_ids := ir_ids r @ [i], ir_changed := True\<rparr>))"

definition registry_remove :: "str \<Rightarrow> instrument_registry \<Rightarrow> bool \<times> instrument_registry" where
  "registry_remove i r =
     (if registry_contains i r then (True, r\<lparr>ir_ids := remove1 i (ir_ids r), ir_changed := True\<rparr>)
      else (False, r\<lparr>ir_changed := True\<rparr>))"

fun dedup_loop :: "str list \<Rightarrow> str list \<Rightarrow> str list" where
  "dedup_loop acc [] = acc"
| "dedup_loop acc (i # ids) = dedup_loop (if list_ex (\<lambda>s. s = i) acc then acc else acc @ [i]) ids"

definition registry_replace_all :: "str list \<Rightarrow> instrument_registry \<Rightarrow> bool \<times> instrument_registry" where
  "registry_replace_all ids r =
     (let d = dedup_loop [] ids in (d \<noteq> ir_ids r, r\<lparr>ir_ids := d, ir_changed := True\<rparr>))"

record watch_state =
  fw_last_path :: "path option"
  fw_last_mtime :: "nat option"

record writeback_state =
  wb_revision :: u64
  wb_flushed_revision :: u64
  wb_last_error :: "str option"

text \<open>What the reading of a sidecar announces.\<close>

datatype scenario_event =
    SE_Loaded path "str list" "str option" "str option"
  | SE_Cleared "path option"

subsection \<open>Reading the sidecar\<close>

datatype string_or_list = SL_One str | SL_Many "str list"

record scenario_file =
  sc_schema_version :: "u32 option"
  sc_instrument :: "string_or_list option"
  sc_instruments :: "str list option"
  sc_instruments_ref :: "str option"
  sc_start :: "str option"
  sc_end :: "str option"
  sc_granularity :: "str option"
  sc_initial_cash :: "int option"

text \<open>The typed parser of the JSON crate: \<open>None\<close> for a malformed text, otherwise the optional
  \<open>scenario\<close> part.\<close>

type_synonym sidecar_parser = "str \<Rightarrow> scenario_file option option"

text \<open>\<open>Value::get\<close> with a number and with a key.\<close>

definition json_get_index :: "nat \<Rightarrow> json \<Rightarrow> json option" where
  "json_get_index n v = (case v of JArr vs \<Rightarrow> if n < length vs then Some (vs ! n) else None | _ \<Rightarrow> None)"

fun walk_pointer :: "str list \<Rightarrow> json \<Rightarrow> json option" where
  "walk_pointer [] v = Some v"
| "walk_pointer (p # ps) v =
     (if p = [] then walk_pointer ps v
      else (case (case parse_unsigned (2 ^ 64) p of
                    Some n \<Rightarrow> json_get_index n v
                  | None \<Rightarrow> json_get p v) of
              None \<Rightarrow> None
            | Some w \<Rightarrow> walk_pointer ps w))"

definition string_items :: "json \<Rightarrow> str list option" where
  "string_items v = map_option (List.map_filter as_str) (as_array v)"

text \<open>The reference before and after the first \<open>#\<close>.\<close>

definition split_ref :: "str \<Rightarrow> str \<times> str option" where
  "split_ref r =
     (case dropWhile (\<lambda>c. c \<noteq> CHR ''#'') r of
        [] \<Rightarrow> (r, None)
      | c # ptr \<Rightarrow> (takeWhile (\<lambda>c. c \<noteq> CHR ''#'') r, Some ptr))"

definition resolve_instruments_ref ::
  "(str \<Rightarrow> json option) \<Rightarrow> files \<Rightarrow> str \<Rightarrow> path \<Rightarrow> str list option" where
  "resolve_instruments_ref parse fs ref sidecar =
     (let (path_part, pointer) = split_ref ref in
      case path_parent sidecar of
        None \<Rightarrow> None
      | Some dir \<Rightarrow>
          (case fs (path_join_any dir path_part) of
             None \<Rightarrow> None
           | Some txt \<Rightarrow>
               (case parse txt of
                  None \<Rightarrow> None
                | Some v \<Rightarrow>
                    (case (case pointer of
                             Some ptr \<Rightarrow>
                               Option.bind
                                 (walk_pointer (split_on (CHR ''/'') (dropWhile (\<lambda>c. c = CHR ''/'') ptr)) v)
                                 string_items
                           | None \<Rightarrow> string_items v) of
                       None \<Rightarrow> None
                     | Some ids \<Rightarrow> (if ids = [] then None else Some ids)))))"

text \<open>The instruments of a parsed file: the reference wins over the list, the list over the old
  single key; a reference that cannot be resolved gives nothing.\<close>

definition file_instruments :: "(str \<Rightarrow> json option) \<Rightarrow> files \<Rightarrow> path \<Rightarrow> scenario_file \<Rightarrow> str list option" where
  "file_instruments parse fs p sf =
     (case sc_instruments_ref sf of
        Some ref \<Rightarrow> resolve_instruments_ref parse fs ref p
      | None \<Rightarrow>
          (case sc_instruments sf of
             Some ids \<Rightarrow> Some ids
           | None \<Rightarrow>
               (case sc_instrument sf of
                  Some (SL_One s) \<Rightarrow> Some [s]
                | Some (SL_Many v) \<Rightarrow> Some v
                | None \<Rightarrow> Some [])))"

definition parse_scenario_system ::
  "(str \<Rightarrow> json option) \<Rightarrow> sidecar_parser \<Rightarrow> (path \<Rightarrow> nat option) \<Rightarrow> files \<Rightarrow> path option \<Rightarrow>
   scenario_metadata \<times> watch_state \<Rightarrow> scenario_metadata \<times> watch_state \<times> scenario_event list" where
  "parse_scenario_system parse parse_sidecar mtime fs target t =
     (let (scenario, watch) = t; current = Option.bind target mtime;
          watch' = \<lparr>fw_last_path = target, fw_last_mtime = current\<rparr> in
      if fw_last_path watch = target \<and> fw_last_mtime watch = current then (scenario, watch, [])
      else (case target of
              None \<Rightarrow> (scenario_default, watch', [SE_Cleared None])
            | Some p \<Rightarrow>
                (case Option.bind (read_json_with_bom_strip fs p) parse_sidecar of
                   None \<Rightarrow> (scenario_default, watch', [SE_Cleared (Some p)])
                 | Some None \<Rightarrow> (scenario_default, watch', [SE_Cleared (Some p)])
                 | Some (Some sf) \<Rightarrow>
                     (case file_instruments parse fs p sf of
                        None \<Rightarrow> (scenario, watch', [])
                      | Some ids \<Rightarrow>
                          (\<lparr>sm_schema_version = sc_schema_version sf, sm_instruments = ids,
                            sm_start = sc_start sf, sm_end = sc_end sf,
                            sm_granularity = sc_granularity sf, sm_initial_cash = sc_initial_cash sf\<rparr>,
                           watch', [SE_Loaded p ids (sc_end sf) (sc_instruments_ref sf)])))))"

subsection \<open>From the file into the registry\<close>

type_synonym registry_sys = "instrument_registry \<times> writeback_state"

definition registry_loaded_one :: "scenario_event \<Rightarrow> registry_sys \<Rightarrow> registry_sys" where
  "registry_loaded_one ev t =
     (let (r, w) = t in
      case ev of
        SE_Loaded p ids e ref \<Rightarrow>
          ((snd (registry_replace_all ids r))\<lparr>ir_editable := (ref = None)\<rparr>,
           w\<lparr>wb_revision := wb_flushed_revision w, wb_last_error := None\<rparr>)
      | SE_Cleared p \<Rightarrow> t)"

definition sync_registry_from_scenario_loaded_system ::
  "scenario_event list \<Rightarrow> registry_sys \<Rightarrow> registry_sys" where
  "sync_registry_from_scenario_loaded_system evs t = fold registry_loaded_one evs t"

definition registry_cleared_one :: "scenario_event \<Rightarrow> registry_sys \<Rightarrow> registry_sys" where
  "registry_cleared_one ev t =
     (let (r, w) = t in
      case ev of
        SE_Cleared p \<Rightarrow>
          ((snd (registry_replace_all [] r))\<lparr>ir_editable := True\<rparr>,
           w\<lparr>wb_revision := wb_flushed_revision w, wb_last_error := None\<rparr>)
      | SE_Loaded p ids e ref \<Rightarrow> t)"

definition sync_registry_from_scenario_cleared_system ::
  "scenario_event list \<Rightarrow> registry_sys \<Rightarrow> registry_sys" where
  "sync_registry_from_scenario_cleared_system evs t = fold registry_cleared_one evs t"

definition mark_registry_dirty_system :: "registry_sys \<Rightarrow> registry_sys" where
  "mark_registry_dirty_system t =
     (let (r, w) = t in
      if \<not> ir_changed r then t
      else (r\<lparr>ir_changed := False\<rparr>, w\<lparr>wb_revision := wb_revision w + 1\<rparr>))"

text \<open>Entering the replay mode with a locked registry forgets what was watched, so that the next
  frame reads the file again.\<close>

definition restore_fixed_registry_on_replay_entry_system ::
  "execution_mode \<Rightarrow> instrument_registry \<Rightarrow> path option \<Rightarrow> watch_state \<times> execution_mode option \<Rightarrow>
   watch_state \<times> execution_mode option" where
  "restore_fixed_registry_on_replay_entry_system m r target t =
     (let (watch, prev) = t in
      if prev \<noteq> Some EM_Replay \<and> m = EM_Replay \<and> \<not> ir_editable r \<and> target \<noteq> None
      then (\<lparr>fw_last_path = None, fw_last_mtime = None\<rparr>, Some m)
      else (watch, Some m))"

subsection \<open>From the registry into the file\<close>

text \<open>Entries of a JSON object; their order carries no meaning.\<close>

definition obj_insert :: "str \<Rightarrow> json \<Rightarrow> (str \<times> json) list \<Rightarrow> (str \<times> json) list" where
  "obj_insert k v es = filter (\<lambda>e. fst e \<noteq> k) es @ [(k, v)]"

definition obj_remove :: "str \<Rightarrow> (str \<times> json) list \<Rightarrow> (str \<times> json) list" where
  "obj_remove k es = filter (\<lambda>e. fst e \<noteq> k) es"

text \<open>The environment of an atomic replacement: the parser and printer, the name of the temporary
  file for a path, and the faults of the write and of the rename.\<close>

record json_disk =
  jd_parse :: "str \<Rightarrow> json option"
  jd_print :: "json \<Rightarrow> str"
  jd_tmp :: "path \<Rightarrow> path"
  jd_write_fault :: io_fault
  jd_rename_fault :: "path \<Rightarrow> str option"

definition atomic_mutate_scenario_object ::
  "json_disk \<Rightarrow> ((str \<times> json) list \<Rightarrow> (str \<times> json) list) \<Rightarrow> path \<Rightarrow> files \<Rightarrow> str option \<times> files" where
  "atomic_mutate_scenario_object d mutate p fs =
     (case read_json_with_bom_strip fs p of
        None \<Rightarrow> (Some ''read'', fs)
      | Some raw \<Rightarrow>
          (case jd_parse d raw of
             Some (JObj es) \<Rightarrow>
               (case map_of es ''scenario'' of
                  Some (JObj sc) \<Rightarrow>
                    (let s = jd_print d (JObj (obj_insert ''scenario'' (JObj (mutate sc)) es)) in
                     if path_parent p = None then (Some ''path has no parent'', fs)
                     else if path_file_name p = None then (Some ''path has no filename'', fs)
                     else (case fs_write (jd_write_fault d) (jd_tmp d p) s fs of
                             (Some e, fs1) \<Rightarrow> (Some e, fs1)
                           | (None, fs1) \<Rightarrow>
                               (case jd_rename_fault d p of
                                  Some e \<Rightarrow> (Some e, fs1)
                                | None \<Rightarrow> (None, fs1(p := fs1 (jd_tmp d p), jd_tmp d p := None)))))
                | _ \<Rightarrow> (Some ''missing scenario object'', fs))
           | Some _ \<Rightarrow> (Some ''missing scenario object'', fs)
           | None \<Rightarrow> (Some ''invalid data'', fs)))"

declare atomic_mutate_scenario_object_def [io_defs]

text \<open>The first version of the format is normalised on the way.\<close>

definition version_is_first :: "json option \<Rightarrow> bool" where
  "version_is_first v \<longleftrightarrow>
     (case v of Some (JInt n) \<Rightarrow> n = 1 \<or> \<not> (0 \<le> n \<and> n < 2 ^ 64) | _ \<Rightarrow> True)"

definition put_instruments :: "str list \<Rightarrow> (str \<times> json) list \<Rightarrow> (str \<times> json) list" where
  "put_instruments ids sc =
     (let sc1 = (if map_of sc ''instrument'' \<noteq> None \<and> version_is_first (map_of sc ''schema_version'')
                 then obj_insert ''schema_version'' (JInt 2) (obj_remove ''instrument'' sc) else sc) in
      obj_insert ''instruments'' (JArr (map JStr ids)) sc1)"

definition rewrite_scenario_instruments_atomic ::
  "json_disk \<Rightarrow> path \<Rightarrow> str list \<Rightarrow> files \<Rightarrow> str option \<times> files" where
  "rewrite_scenario_instruments_atomic d p ids fs = atomic_mutate_scenario_object d (put_instruments ids) p fs"

declare rewrite_scenario_instruments_atomic_def [io_defs]

text \<open>A path in a message stands in double quotes; characters that would be escaped do not occur in
  the paths here.\<close>

definition debug_path :: "path \<Rightarrow> str" where
  "debug_path p = [CHR 0x22] @ p @ [CHR 0x22]"

text \<open>The targets are the sidecar of the strategy file and the cache; the modification time of the
  former is returned.\<close>

fun flush_targets ::
  "json_disk \<Rightarrow> (path \<Rightarrow> nat option) \<Rightarrow> path option \<Rightarrow> str list \<Rightarrow> path list \<Rightarrow> nat option \<Rightarrow> files \<Rightarrow>
   (str + nat option) \<times> files" where
  "flush_targets d mtime original ids [] m fs = (Inr m, fs)"
| "flush_targets d mtime original ids (p # ps) m fs =
     (case rewrite_scenario_instruments_atomic d p ids fs of
        (Some e, fs1) \<Rightarrow> (Inl (''writeback '' @ debug_path p @ '': '' @ e), fs1)
      | (None, fs1) \<Rightarrow>
          flush_targets d mtime original ids ps
            (if original = Some p then (case mtime p of Some t \<Rightarrow> Some t | None \<Rightarrow> m) else m) fs1)"

definition flush_sidecars_now ::
  "json_disk \<Rightarrow> (path \<Rightarrow> nat option) \<Rightarrow> str list \<Rightarrow> path option \<Rightarrow> path option \<Rightarrow> files \<Rightarrow>
   (str + nat option) \<times> files" where
  "flush_sidecars_now d mtime ids original_py cache fs =
     (let original = map_option (with_extension ''json'') original_py;
          ts = (case original of Some p \<Rightarrow> [p] | None \<Rightarrow> []);
          targets = (case cache of
                       Some c \<Rightarrow> if c \<in> set ts then ts else ts @ [c]
                     | None \<Rightarrow> ts) in
      if targets = [] then (Inl ''no writeback target'', fs)
      else flush_targets d mtime original ids targets None fs)"

text \<open>One run of the writing back: only for an editable registry, in the replay mode, when the
  revision moved.\<close>

definition writeback_due :: "execution_mode \<Rightarrow> registry_sys \<Rightarrow> bool" where
  "writeback_due m t \<longleftrightarrow>
     ir_editable (fst t) \<and> m = EM_Replay \<and> wb_revision (snd t) \<noteq> wb_flushed_revision (snd t)"

definition writeback_scenario_instruments_system ::
  "json_disk \<Rightarrow> (path \<Rightarrow> nat option) \<Rightarrow> execution_mode \<Rightarrow> path option \<Rightarrow> path option \<Rightarrow>
   registry_sys \<times> watch_state \<times> files \<Rightarrow> registry_sys \<times> watch_state \<times> files" where
  "writeback_scenario_instruments_system d mtime m cache target t =
     (let ((r, w), watch, fs) = t in
      if \<not> writeback_due m (r, w) then t
      else (case flush_sidecars_now d mtime (ir_ids r) None cache fs of
              (Inr new_mtime, fs1) \<Rightarrow>
                ((r, w\<lparr>wb_flushed_revision := wb_revision w, wb_last_error := None\<rparr>),
                 (case new_mtime of
                    Some t \<Rightarrow> watch\<lparr>fw_last_mtime := Some t\<rparr>
                  | None \<Rightarrow>
                      (if target = cache \<and> target \<noteq> None
                       then (case Option.bind cache mtime of
                               Some t \<Rightarrow> watch\<lparr>fw_last_mtime := Some t\<rparr>
                             | None \<Rightarrow> watch)
                       else watch)), fs1)
            | (Inl msg, fs1) \<Rightarrow> ((r, w\<lparr>wb_last_error := Some msg\<rparr>), watch, fs1)))"

definition sync_scenario_metadata_from_registry_system ::
  "execution_mode \<Rightarrow> registry_sys \<Rightarrow> scenario_metadata \<Rightarrow> scenario_metadata" where
  "sync_scenario_metadata_from_registry_system m t scenario =
     (if \<not> writeback_due m t then scenario
      else if sm_instruments scenario = ir_ids (fst t) then scenario
      else scenario\<lparr>sm_instruments := ir_ids (fst t)\<rparr>)"

definition bump_writeback_for_save_as :: "writeback_state \<Rightarrow> writeback_state" where
  "bump_writeback_for_save_as w =
     w\<lparr>wb_revision := (if wb_revision w = - 1 then - 1 else wb_revision w + 1)\<rparr>"

text \<open>The end of the frame's chain: mark, take the registry over into the metadata, write back.\<close>

definition scenario_tail ::
  "json_disk \<Rightarrow> (path \<Rightarrow> nat option) \<Rightarrow> execution_mode \<Rightarrow> path option \<Rightarrow> path option \<Rightarrow>
   registry_sys \<times> watch_state \<times> scenario_metadata \<times> files \<Rightarrow>
   registry_sys \<times> watch_state \<times> scenario_metadata \<times> files" where
  "scenario_tail d mtime m cache target s =
     (let (t, watch, scenario, fs) = s;
          t1 = mark_registry_dirty_system t;
          scenario1 = sync_scenario_metadata_from_registry_system m t1 scenario;
          (t2, watch2, fs2) = writeback_scenario_instruments_system d mtime m cache target (t1, watch, fs) in
      (t2, watch2, scenario1, fs2))"

section \<open>Properties\<close>

subsection \<open>The registry has no duplicates\<close>

datatype registry_op = RO_Add str | RO_Remove str | RO_Replace "str list" | RO_Retain "str \<Rightarrow> bool"

fun apply_registry_op :: "registry_op \<Rightarrow> instrument_registry \<Rightarrow> instrument_registry" where
  "apply_registry_op (RO_Add i) r = snd (registry_add i r)"
| "apply_registry_op (RO_Remove i) r = snd (registry_remove i r)"
| "apply_registry_op (RO_Replace ids) r = snd (registry_replace_all ids r)"
| "apply_registry_op (RO_Retain p) r = r\<lparr>ir_ids := filter p (ir_ids r), ir_changed := True\<rparr>"

lemma contains_set: "registry_contains i r \<longleftrightarrow> i \<in> set (ir_ids r)"
  by (auto simp: registry_contains_def list_ex_iff)

lemma dedup_loop_props:
  "distinct acc \<Longrightarrow> distinct (dedup_loop acc ids) \<and> set (dedup_loop acc ids) = set acc \<union> set ids \<and>
   take (length acc) (dedup_loop acc ids) = acc"
proof (induction ids arbitrary: acc)
  case (Cons i ids)
  let ?acc = "if list_ex (\<lambda>s. s = i) acc then acc else acc @ [i]"
  from Cons.prems have "distinct ?acc" by (auto simp: list_ex_iff)
  note ih = Cons.IH [OF this]
  have "take (length acc) (dedup_loop ?acc ids) = acc"
  proof (cases "list_ex (\<lambda>s. s = i) acc")
    case False
    with ih have "take (length acc) (take (length (acc @ [i])) (dedup_loop ?acc ids)) = acc" by simp
    with False show ?thesis by (simp add: min_def)
  qed (use ih in simp)
  with ih show ?case by (auto simp: list_ex_iff)
qed simp

lemma dedup_loop_distinct: "distinct (acc @ ids) \<Longrightarrow> dedup_loop acc ids = acc @ ids"
  by (induction ids arbitrary: acc) (auto simp: list_ex_iff)

interpretation registry: invariant_system apply_registry_op "\<lambda>r :: instrument_registry. distinct (ir_ids r)"
proof
  fix r :: instrument_registry and e
  assume "distinct (ir_ids r)"
  then show "distinct (ir_ids (apply_registry_op e r))"
    using dedup_loop_props [of "[]"]
    by (cases e) (auto simp: registry_add_def registry_remove_def registry_replace_all_def contains_set Let_def)
qed

text \<open>Whatever is added, removed, replaced or retained, in whatever order, the registry never
  lists an instrument twice; a replacement keeps exactly the given instruments, and replacing by
  what is there reports no change.\<close>

theorem registry_invariant:
  "let r = fold apply_registry_op ops registry_default in
   distinct (ir_ids r) \<and>
   set (ir_ids (snd (registry_replace_all ids r))) = set ids \<and>
   \<not> fst (registry_replace_all (ir_ids r) r)"
proof -
  have "distinct (ir_ids (fold apply_registry_op ops registry_default))"
    by (rule registry.run_inv) (simp add: registry_default_def)
  then show ?thesis
    using dedup_loop_props [of "[]" ids] dedup_loop_distinct [of "[]"]
    by (simp add: registry_replace_all_def Let_def)
qed

subsection \<open>Reading\<close>

definition read_step ::
  "(str \<Rightarrow> json option) \<Rightarrow> sidecar_parser \<Rightarrow> (path \<Rightarrow> nat option) \<Rightarrow> files \<Rightarrow> path option \<Rightarrow>
   scenario_metadata \<times> watch_state \<Rightarrow> registry_sys \<Rightarrow> scenario_metadata \<times> watch_state \<times> registry_sys" where
  "read_step parse parse_sidecar mtime fs target s t =
     (let (scenario, watch, evs) = parse_scenario_system parse parse_sidecar mtime fs target s in
      (scenario, watch,
       sync_registry_from_scenario_cleared_system evs (sync_registry_from_scenario_loaded_system evs t)))"

text \<open>A sidecar that is read sets metadata and registry together: the instruments of the file,
  without duplicates in the registry, which is locked exactly when they come from a reference; a
  target without a readable scenario resets both; nothing happens while path and time are those
  already seen.\<close>

theorem reading_sets_both:
  "let (scenario', watch', (r', w')) =
       read_step parse parse_sidecar mtime fs target (scenario, watch) (r, w) in
   if fw_last_path watch = target \<and> fw_last_mtime watch = Option.bind target mtime
   then scenario' = scenario \<and> r' = r \<and> w' = w
   else (case Option.bind target (\<lambda>p. Option.bind (read_json_with_bom_strip fs p) parse_sidecar) of
           Some (Some sf) \<Rightarrow>
             (case file_instruments parse fs (the target) sf of
                Some ids \<Rightarrow>
                  sm_instruments scenario' = ids \<and> sm_start scenario' = sc_start sf \<and>
                  sm_end scenario' = sc_end sf \<and> sm_granularity scenario' = sc_granularity sf \<and>
                  ir_ids r' = dedup_loop [] ids \<and> (ir_editable r' \<longleftrightarrow> sc_instruments_ref sf = None) \<and>
                  wb_revision w' = wb_flushed_revision w
              | None \<Rightarrow> scenario' = scenario \<and> r' = r \<and> w' = w)
         | _ \<Rightarrow> scenario' = scenario_default \<and> ir_ids r' = [] \<and> ir_editable r' \<and>
               wb_revision w' = wb_flushed_revision w)"
  by (cases target)
     (auto simp: read_step_def parse_scenario_system_def sync_registry_from_scenario_loaded_system_def
       sync_registry_from_scenario_cleared_system_def registry_loaded_one_def registry_cleared_one_def
       registry_replace_all_def Let_def split: option.split)

text \<open>A reference to instruments that cannot be resolved leaves the scenario and the registry of
  the file read before in force, and the file is not looked at again until its time changes: a run
  then uses the new strategy with the old scenario.\<close>

theorem unresolved_reference_keeps_old_scenario:
  assumes "fw_last_path watch \<noteq> Some p"
    and "read_json_with_bom_strip fs p = Some txt" and "parse_sidecar txt = Some (Some sf)"
    and "sc_instruments_ref sf = Some ref" and "resolve_instruments_ref parse fs ref p = None"
  shows "let (scenario', watch', t') =
      read_step parse parse_sidecar mtime fs (Some p) (scenario, watch) t in
    scenario' = scenario \<and> t' = t \<and>
    (\<forall>fs'. read_step parse parse_sidecar mtime fs' (Some p) (scenario', watch') t' = (scenario', watch', t'))"
  using assms
  by (simp add: read_step_def parse_scenario_system_def file_instruments_def
      sync_registry_from_scenario_loaded_system_def sync_registry_from_scenario_cleared_system_def)

subsection \<open>Writing back\<close>

text \<open>Loading an editable scenario in the replay mode always makes the write-back due in the
  same frame, although the load sets the revision back: the mark that follows in the chain sees
  the registry written.\<close>

theorem loading_makes_writeback_due:
  "writeback_due EM_Replay
     (mark_registry_dirty_system
        (sync_registry_from_scenario_loaded_system [SE_Loaded p ids e None] (r, w)))"
  by (simp add: writeback_due_def mark_registry_dirty_system_def registry_loaded_one_def
      sync_registry_from_scenario_loaded_system_def registry_replace_all_def Let_def)

lemma map_of_obj_insert: "map_of (obj_insert k v es) = (map_of es)(k \<mapsto> v)"
proof -
  have "map_of (filter (\<lambda>e. fst e \<noteq> k) es) q = (if q = k then None else map_of es q)" for q
    by (induction es) auto
  then show ?thesis by (auto simp: obj_insert_def map_add_def fun_eq_iff split: option.splits)
qed

lemma map_of_obj_remove: "map_of (obj_remove k es) q = (if q = k then None else map_of es q)"
  by (induction es) (auto simp: obj_remove_def)

lemma map_of_put_instruments:
  "map_of (put_instruments ids sc) ''instruments'' = Some (JArr (map JStr ids))"
  "k \<notin> {''instruments'', ''instrument'', ''schema_version''} \<Longrightarrow>
   map_of (put_instruments ids sc) k = map_of sc k"
  by (auto simp: put_instruments_def Let_def map_of_obj_insert map_of_obj_remove)

text \<open>A rewriting that works: the file is there, holds a scenario object, and no fault occurs.\<close>

definition rewritable :: "json_disk \<Rightarrow> path \<Rightarrow> files \<Rightarrow> (str \<times> json) list \<Rightarrow> (str \<times> json) list \<Rightarrow> bool" where
  "rewritable d p fs es sc \<longleftrightarrow>
     Option.bind (read_json_with_bom_strip fs p) (jd_parse d) = Some (JObj es) \<and>
     map_of es ''scenario'' = Some (JObj sc) \<and> path_parent p \<noteq> None \<and> path_file_name p \<noteq> None \<and>
     (\<forall>q s. jd_write_fault d q s = None) \<and> jd_rename_fault d p = None \<and> jd_tmp d p \<noteq> p"

definition rewritten :: "str list \<Rightarrow> (str \<times> json) list \<Rightarrow> (str \<times> json) list \<Rightarrow> json" where
  "rewritten ids es sc = JObj (obj_insert ''scenario'' (JObj (put_instruments ids sc)) es)"

lemma atomic_result:
  assumes "rewritable d p fs es sc"
  shows "atomic_mutate_scenario_object d mutate p fs =
    (None, fs(p \<mapsto> jd_print d (JObj (obj_insert ''scenario'' (JObj (mutate sc)) es)), jd_tmp d p := None))"
  using assms
  by (auto simp: io_defs rewritable_def Let_def bind_eq_Some_conv fun_upd_twist split: option.splits)

lemma rewrite_result:
  assumes "rewritable d p fs es sc"
  shows "rewrite_scenario_instruments_atomic d p ids fs =
    (None, fs(p \<mapsto> jd_print d (rewritten ids es sc), jd_tmp d p := None))"
  by (simp add: rewrite_scenario_instruments_atomic_def atomic_result [OF assms] rewritten_def)

text \<open>A successful write-back changes the instruments of the scenario and, in a file of the
  first format, its version and old key; every other key of the scenario, every other part of the
  file and every other file except the temporary one stay.\<close>

theorem rewrite_keeps_everything_else:
  assumes "rewritable d p fs es sc"
    and "jd_parse d (bom_strip (jd_print d (rewritten ids es sc))) = Some (rewritten ids es sc)"
  shows "let (e, fs') = rewrite_scenario_instruments_atomic d p ids fs in
    e = None \<and>
    (\<exists>es' sc'. Option.bind (read_json_with_bom_strip fs' p) (jd_parse d) = Some (JObj es') \<and>
       map_of es' ''scenario'' = Some (JObj sc') \<and>
       map_of sc' ''instruments'' = Some (JArr (map JStr ids)) \<and>
       map_of es' |` (- {''scenario''}) = map_of es |` (- {''scenario''}) \<and>
       map_of sc' |` (- {''instruments'', ''instrument'', ''schema_version''}) =
         map_of sc |` (- {''instruments'', ''instrument'', ''schema_version''})) \<and>
    fs' |` (- {p, jd_tmp d p}) = fs |` (- {p, jd_tmp d p})"
proof -
  let ?es = "obj_insert ''scenario'' (JObj (put_instruments ids sc)) es"
  have tmp: "jd_tmp d p \<noteq> p" using assms(1) by (simp add: rewritable_def)
  have top: "map_of ?es ''scenario'' = Some (JObj (put_instruments ids sc))"
    "map_of ?es |` (- {''scenario''}) = map_of es |` (- {''scenario''})"
    by (auto simp: map_of_obj_insert restrict_map_def fun_eq_iff)
  have inner: "map_of (put_instruments ids sc) |` (- {''instruments'', ''instrument'', ''schema_version''}) =
      map_of sc |` (- {''instruments'', ''instrument'', ''schema_version''})"
    unfolding restrict_map_def using map_of_put_instruments(2) by (intro ext) auto
  show ?thesis
    using assms(2) tmp top inner map_of_put_instruments(1) [of ids sc]
    unfolding rewrite_result [OF assms(1)] rewritten_def
    by (auto simp: read_json_with_bom_strip_def restrict_map_def fun_eq_iff intro!: exI [of _ ?es])
qed

definition complete_text :: "json_disk \<Rightarrow> str list \<Rightarrow> str option \<Rightarrow> bool" where
  "complete_text d ids t \<longleftrightarrow> (\<exists>es sc. t = Some (jd_print d (rewritten ids es sc)))"

lemma complete_text_intro [simp]:
  "complete_text d ids
     (Some (jd_print d (JObj (obj_insert ''scenario'' (JObj (put_instruments ids sc)) es))))"
  unfolding complete_text_def rewritten_def by blast

text \<open>C20: the sidecar is replaced as a whole or not at all: whatever fails, at whatever point, the
  file holds its old text or the complete new one.\<close>

theorem flush_is_atomic:
  assumes "jd_tmp d c \<noteq> c" and "jd_tmp d (with_extension ''json'' py) \<noteq> c"
  shows "let (r, fs') = flush_sidecars_now d mtime ids (Some py) (Some c) fs in
    fs' c = fs c \<or> complete_text d ids (fs' c)"
proof -
  have step: "fs1 c = fs0 c \<or> complete_text d ids (fs1 c)"
    if "rewrite_scenario_instruments_atomic d p ids fs0 = (e, fs1)" and "jd_tmp d p \<noteq> c" for p e fs0 fs1
    using that
    by (auto simp: io_defs
        Let_def split: option.splits json.splits if_splits prod.splits)
  have run: "snd (flush_targets d mtime o0 ids ps m fs0) c = fs0 c \<or>
      complete_text d ids (snd (flush_targets d mtime o0 ids ps m fs0) c)"
    if "\<forall>p \<in> set ps. jd_tmp d p \<noteq> c" for o0 ps m fs0
    using that
  proof (induction ps arbitrary: m fs0)
    case (Cons p ps)
    obtain e fs1 where r: "rewrite_scenario_instruments_atomic d p ids fs0 = (e, fs1)"
      by (cases "rewrite_scenario_instruments_atomic d p ids fs0")
    with step Cons.prems have s: "fs1 c = fs0 c \<or> complete_text d ids (fs1 c)"
      by simp
    show ?case
    proof (cases e)
      case None
      then show ?thesis using Cons.IH [of _ fs1] Cons.prems r s by (simp, metis)
    next
      case (Some msg)
      then show ?thesis using r s by simp
    qed
  qed simp
  let ?w = "with_extension ''json'' py"
  let ?ps = "if c = ?w then [?w] else [?w, c]"
  have "flush_sidecars_now d mtime ids (Some py) (Some c) fs = flush_targets d mtime (Some ?w) ids ?ps None fs"
    by (simp add: flush_sidecars_now_def del: flush_targets.simps)
  moreover have "\<forall>p \<in> set ?ps. jd_tmp d p \<noteq> c" using assms by auto
  ultimately show ?thesis
    using run [of ?ps "Some ?w" None fs] by (simp only: Let_def case_prod_unfold)
qed

text \<open>C15: in the replay mode the end of the frame's chain brings the three views together: after a
  change of an editable registry, the metadata and the cached sidecar hold the registry's
  instruments, no error is left, nothing is due any more, and running the chain again changes
  nothing.\<close>

theorem writeback_converges:
  assumes "rewritable d c fs es sc"
    and "jd_parse d (bom_strip (jd_print d (rewritten (ir_ids r) es sc))) = Some (rewritten (ir_ids r) es sc)"
    and "ir_editable r" and "ir_changed r" and "wb_revision w + 1 \<noteq> wb_flushed_revision w"
  shows "let s = scenario_tail d mtime EM_Replay (Some c) target ((r, w), watch, scenario, fs);
             ((r', w'), watch', scenario', fs') = s in
    ir_ids r' = ir_ids r \<and> sm_instruments scenario' = ir_ids r \<and>
    Option.bind (read_json_with_bom_strip fs' c) (jd_parse d) = Some (rewritten (ir_ids r) es sc) \<and>
    wb_last_error w' = None \<and> \<not> writeback_due EM_Replay (r', w') \<and>
    scenario_tail d mtime EM_Replay (Some c) target s = s"
proof -
  have tmp: "jd_tmp d c \<noteq> c" using assms(1) by (simp add: rewritable_def)
  have flush: "flush_sidecars_now d mtime (ir_ids r) None (Some c) fs =
      (Inr None, fs(c \<mapsto> jd_print d (rewritten (ir_ids r) es sc), jd_tmp d c := None))"
    by (simp add: flush_sidecars_now_def rewrite_result [OF assms(1)])
  show ?thesis
    using assms(2-5) tmp
    by (simp add: scenario_tail_def writeback_scenario_instruments_system_def writeback_due_def
        sync_scenario_metadata_from_registry_system_def mark_registry_dirty_system_def flush
        read_json_with_bom_strip_def Let_def split: option.split)
qed

subsection \<open>Witnesses\<close>

text \<open>A disk whose parser knows the text before and the text after.\<close>

definition sample_disk :: json_disk where
  "sample_disk =
     \<lparr>jd_parse = (\<lambda>s. if s = ''old'' then Some (JObj [(''layout'', JInt 3), (''scenario'', JObj [(''start'', JStr ''2024-01-04'')])])
                      else if s = ''new''
                      then Some (rewritten [''7203''] [(''layout'', JInt 3), (''scenario'', JObj [(''start'', JStr ''2024-01-04'')])]
                                   [(''start'', JStr ''2024-01-04'')])
                      else None),
      jd_print = (\<lambda>v. ''new''), jd_tmp = (\<lambda>p. p @ ''.tmp''),
      jd_write_fault = (\<lambda>p s. None), jd_rename_fault = (\<lambda>p. None)\<rparr>"

definition sample_registry :: instrument_registry where
  "sample_registry = \<lparr>ir_ids = [''7203''], ir_editable = True, ir_changed = True\<rparr>"

definition sample_writeback :: writeback_state where
  "sample_writeback = \<lparr>wb_revision = 4, wb_flushed_revision = 4, wb_last_error = None\<rparr>"

definition sample_file :: scenario_file where
  "sample_file =
     \<lparr>sc_schema_version = Some 2, sc_instrument = None, sc_instruments = None,
      sc_instruments_ref = Some ''lists.json#jp'', sc_start = None, sc_end = None, sc_granularity = None,
      sc_initial_cash = None\<rparr>"

lemma sample_rewritable:
  "rewritable sample_disk ''c/s.json'' [''c/s.json'' \<mapsto> ''old'']
     [(''layout'', JInt 3), (''scenario'', JObj [(''start'', JStr ''2024-01-04'')])]
     [(''start'', JStr ''2024-01-04'')]"
  by (simp add: rewritable_def sample_disk_def read_json_with_bom_strip_def path_parent_def
      path_file_name_def strip_slashes_def Let_def)

lemma sample_parse:
  "jd_parse sample_disk (bom_strip (jd_print sample_disk
     (rewritten [''7203''] [(''layout'', JInt 3), (''scenario'', JObj [(''start'', JStr ''2024-01-04'')])]
       [(''start'', JStr ''2024-01-04'')]))) =
   Some (rewritten [''7203''] [(''layout'', JInt 3), (''scenario'', JObj [(''start'', JStr ''2024-01-04'')])]
     [(''start'', JStr ''2024-01-04'')])"
  by (simp add: sample_disk_def)

lemma rewrite_keeps_everything_else_witness:
  "snd (rewrite_scenario_instruments_atomic sample_disk ''c/s.json'' [''7203''] [''c/s.json'' \<mapsto> ''old''])
     |` (- {''c/s.json'', ''c/s.json.tmp''}) = Map.empty"
  using rewrite_keeps_everything_else [OF sample_rewritable sample_parse]
  by (auto simp: sample_disk_def split: prod.splits)

lemma writeback_converges_witness:
  "let s = scenario_tail sample_disk (\<lambda>p. Some 9) EM_Replay (Some ''c/s.json'') None
             ((sample_registry, sample_writeback), \<lparr>fw_last_path = None, fw_last_mtime = None\<rparr>,
              scenario_default, [''c/s.json'' \<mapsto> ''old'']) in
   sm_instruments (fst (snd (snd s))) = [''7203''] \<and> \<not> writeback_due EM_Replay (fst s)"
  using writeback_converges [of sample_disk "''c/s.json''" _ _ _ sample_registry sample_writeback
      "\<lambda>p. Some 9" None "\<lparr>fw_last_path = None, fw_last_mtime = None\<rparr>" scenario_default]
    sample_rewritable sample_parse
  by (force simp: sample_registry_def sample_writeback_def Let_def split: prod.splits)

lemma flush_is_atomic_witness:
  "let (r, fs') = flush_sidecars_now sample_disk (\<lambda>p. None) [''7203''] (Some ''w/s.py'') (Some ''c/s.json'')
                    [''c/s.json'' \<mapsto> ''old''] in
   fs' ''c/s.json'' = Some ''old'' \<or> complete_text sample_disk [''7203''] (fs' ''c/s.json'')"
proof -
  have w: "with_extension ''json'' ''w/s.py'' = ''w/s.json''"
    by (simp add: with_extension_def path_file_name_def strip_slashes_def name_stem_def Let_def)
  show ?thesis
    using flush_is_atomic [of sample_disk "''c/s.json''" "''w/s.py''" "\<lambda>p. None" "[''7203'']"
        "[''c/s.json'' \<mapsto> ''old'']"]
    by (simp add: w sample_disk_def)
qed

lemma unresolved_reference_keeps_old_scenario_witness:
  "let (scenario', watch', t') =
      read_step (\<lambda>s. None) (\<lambda>s. Some (Some sample_file)) (\<lambda>p. Some 1) [''b.json'' \<mapsto> ''text''] (Some ''b.json'')
        (scenario_default\<lparr>sm_instruments := [''7203'']\<rparr>, \<lparr>fw_last_path = Some ''a.json'', fw_last_mtime = Some 1\<rparr>)
        (sample_registry, sample_writeback) in
   sm_instruments scenario' = [''7203''] \<and> ir_ids (fst t') = [''7203'']"
proof -
  have ref: "resolve_instruments_ref (\<lambda>s. None) [''b.json'' \<mapsto> ''text''] ''lists.json#jp'' ''b.json'' = None"
    by (simp add: resolve_instruments_ref_def split_ref_def path_parent_def strip_slashes_def
        path_join_any_def path_join_def starts_with_def Let_def split: option.split)
  show ?thesis
    using unresolved_reference_keeps_old_scenario [of "\<lparr>fw_last_path = Some ''a.json'', fw_last_mtime = Some 1\<rparr>"
        "''b.json''" "[''b.json'' \<mapsto> ''text'']" "''text''" "\<lambda>s. Some (Some sample_file)" sample_file
        "''lists.json#jp''" "\<lambda>s. None" "\<lambda>p. Some 1" "scenario_default\<lparr>sm_instruments := [''7203'']\<rparr>"
        "(sample_registry, sample_writeback)", OF _ _ _ _ ref]
    by (auto simp: read_json_with_bom_strip_def sample_file_def sample_registry_def split: prod.splits)
qed

end
