(* ===== verification/Instruments.thy ===== *)
theory Instruments
  imports Scenario Modals
begin

text \<open>
  The instruments around the registry: pruning to the universe, the market data subscriptions and
  the freshness of the venue's list (\<open>src/ui/instruments_universe_prune.rs\<close>), and the picker
  with the fetches behind it (\<open>src/ui/instrument_picker.rs\<close>). The parser of dates and the
  lower-casing of the standard library are parameters; so is the order in which a hash set is run
  through, of which only \<open>hash_order\<close> is used. The change flags of the engine are inputs. An
  instant is a number of nanoseconds; the retry timer holds finite \<open>f32\<close> values, as
  rationals rounded to 24 bits.
\<close>

subsection \<open>Hash sets, texts and timers\<close>

definition hash_order :: "(str set \<Rightarrow> str list) \<Rightarrow> bool" where
  "hash_order it \<longleftrightarrow> (\<forall>S. finite S \<longrightarrow> distinct (it S) \<and> set (it S) = S)"

fun str_contains :: "str \<Rightarrow> str \<Rightarrow> bool" where
  "str_contains q [] = (q = [])"
| "str_contains q (c # s) = (starts_with q (c # s) \<or> str_contains q s)"

text \<open>Rounding to binary32, ties to even; the values here are far below its range.\<close>

definition f32_round :: "rat \<Rightarrow> rat" where
  "f32_round x =
     (if x = 0 then 0 else
      let q = max (ilog2 \<bar>x\<bar> - 23) (- 149) in of_int (round_half_even (x / pow2 q)) * pow2 q)"

subsection \<open>Pruning\<close>

definition parse_scenario_end :: "(str \<Rightarrow> date option) \<Rightarrow> scenario_metadata \<Rightarrow> date option" where
  "parse_scenario_end parse_date scenario = Option.bind (sm_end scenario) parse_date"

text \<open>The instruments allowed, unless they are not known.\<close>

definition prune_allowed ::
  "(str \<Rightarrow> date option) \<Rightarrow> execution_mode \<Rightarrow> tickers \<Rightarrow> available_instruments \<Rightarrow> scenario_metadata \<Rightarrow>
   venue_state \<Rightarrow> str list option" where
  "prune_allowed parse_date m tks av scenario venue =
     (case m of
        EM_Replay \<Rightarrow>
          (case parse_scenario_end parse_date scenario of
             None \<Rightarrow> None
           | Some e \<Rightarrow> (case ai_by_end_date av e of
                          Some v \<Rightarrow> if v \<noteq> [] then Some v else None
                        | None \<Rightarrow> None))
      | _ \<Rightarrow>
          (if tks_status tks = TK_Loaded \<and> tks_source tks \<in> {TS_LiveVenue, TS_LocalVenueSnapshot} \<and>
              is_venue_live venue
           then (if tks_list tks = [] then None else Some (map tk_id (tks_list tks)))
           else None))"

definition prune_instruments_outside_universe_system ::
  "(str \<Rightarrow> date option) \<Rightarrow> bool \<Rightarrow> execution_mode \<Rightarrow> tickers \<Rightarrow> available_instruments \<Rightarrow>
   scenario_metadata \<Rightarrow> venue_state \<Rightarrow> instrument_registry \<Rightarrow> instrument_registry" where
  "prune_instruments_outside_universe_system parse_date changed m tks av scenario venue r =
     (if \<not> changed then r
      else if ir_ids r = [] then r
      else (case prune_allowed parse_date m tks av scenario venue of
              None \<Rightarrow> r
            | Some allowed \<Rightarrow>
                r\<lparr>ir_ids := filter (\<lambda>i. list_ex (\<lambda>a. a = i) allowed) (ir_ids r), ir_changed := True\<rparr>))"

subsection \<open>Market data subscriptions\<close>

text \<open>The locals of a subscription system: the ids and the mode of the frame before.\<close>

type_synonym ids_local = "str set \<times> execution_mode option"

definition unsubscribe_removed_instruments_system ::
  "(str set \<Rightarrow> str list) \<Rightarrow> link \<Rightarrow> execution_mode \<Rightarrow> instrument_registry \<Rightarrow> ids_local \<Rightarrow>
   ids_local \<times> transport_command list" where
  "unsubscribe_removed_instruments_system it l m r loc =
     (let (prev_ids, prev_mode) = loc; mode_changed = (prev_mode \<noteq> Some m); current = set (ir_ids r) in
      if mode_changed \<or> \<not> is_live_mode m then ((current, Some m), [])
      else (let removed = it (prev_ids - current) in
            if removed = [] then ((current, Some m), [])
            else ((current, Some m), concat (map (\<lambda>i. link_send l (TC_UnsubscribeMarketData i)) removed))))"

definition BULK_SUBSCRIBE_CAP :: nat where "BULK_SUBSCRIBE_CAP = 50"

definition subscribe_added_instruments_system ::
  "(str set \<Rightarrow> str list) \<Rightarrow> link \<Rightarrow> execution_mode \<Rightarrow> instrument_registry \<Rightarrow> ids_local \<Rightarrow>
   ids_local \<times> transport_command list" where
  "subscribe_added_instruments_system it l m r loc =
     (let (prev_ids, prev_mode) = loc; mode_changed = (prev_mode \<noteq> Some m); current = set (ir_ids r);
          send = (\<lambda>ids. concat (map (\<lambda>i. link_send l (TC_SubscribeMarketData i)) ids)) in
      if \<not> is_live_mode m then ((current, Some m), [])
      else if l = NoSender then ((current, Some m), [])
      else if mode_changed
      then ((current, Some m), send (take BULK_SUBSCRIBE_CAP (it (prev_ids \<inter> current))))
      else ((current, Some m), send (it (current - prev_ids))))"

definition invalidate_tickers_on_venue_disconnect_system ::
  "venue_state \<Rightarrow> tickers \<times> venue_state option \<Rightarrow> tickers \<times> venue_state option" where
  "invalidate_tickers_on_venue_disconnect_system cur t =
     (let (tks, was) = t in
      if \<not> (case was of Some v \<Rightarrow> is_venue_live v | None \<Rightarrow> False) \<or> is_venue_live cur
      then (tks, Some cur)
      else (tks\<lparr>tks_source := TS_Unknown, tks_status := TK_NotFetched\<rparr>, Some cur))"

subsection \<open>The picker\<close>

record picker_state =
  pk_visible :: bool
  pk_end_date :: "date option"
  pk_query :: str
  pk_last_opened_at :: "nat option"
  pk_last_added :: "(str \<times> nat) option"

text \<open>What the button reads, and what it writes: the picker, the lists per date, and the instant
  of the last fetch.\<close>

record add_env =
  ae_parse_date :: "str \<Rightarrow> date option"
  ae_registry :: instrument_registry
  ae_scenario :: scenario_metadata
  ae_mode :: execution_mode
  ae_link :: link
  ae_backend :: "backend_status option"
  ae_tickers :: "tickers option"

type_synonym add_state = "picker_state \<times> available_instruments option \<times> nat option"

definition backend_offline :: "backend_status option \<Rightarrow> bool" where
  "backend_offline b \<longleftrightarrow> (case b of Some s \<Rightarrow> \<not> bs_connected s | None \<Rightarrow> True)"

definition open_picker_replay :: "add_env \<Rightarrow> nat \<Rightarrow> add_state \<Rightarrow> add_state \<times> transport_command list" where
  "open_picker_replay e now s =
     (let (pk0, av, last_dispatch) = s;
          end_date = parse_scenario_end (ae_parse_date e) (ae_scenario e);
          pk = pk0\<lparr>pk_end_date := end_date\<rparr>; quiet = ((pk, av, last_dispatch), []) in
      case end_date of
        None \<Rightarrow> quiet
      | Some d \<Rightarrow>
          (if \<not> (case last_dispatch of None \<Rightarrow> True | Some prev \<Rightarrow> 100 * 10 ^ 6 \<le> now - prev) then quiet
           else (case av of
                   None \<Rightarrow> quiet
                 | Some a \<Rightarrow>
                     (if ai_by_end_date a d \<noteq> None \<or> d \<in> set (ai_in_flight a) then quiet
                      else if backend_offline (ae_backend e)
                      then ((pk, Some (a\<lparr>ai_last_error := Some (d, ''backend not connected'')\<rparr>), last_dispatch), [])
                      else if ae_link e = NoSender
                      then ((pk, Some (a\<lparr>ai_last_error := Some (d, ''backend transport unavailable'')\<rparr>), last_dispatch), [])
                      else ((pk, Some (a\<lparr>ai_in_flight := d # ai_in_flight a, ai_last_error := None\<rparr>), Some now),
                            link_send (ae_link e) (TC_FetchAvailableInstruments d))))))"

definition open_picker_live :: "add_env \<Rightarrow> add_state \<Rightarrow> add_state \<times> transport_command list" where
  "open_picker_live e s =
     (let (pk, av, last_dispatch) = s;
          should_fetch = (case ae_tickers e of
                            None \<Rightarrow> True
                          | Some t \<Rightarrow> (case tks_status t of TK_NotFetched \<Rightarrow> True | TK_Failed msg \<Rightarrow> True | _ \<Rightarrow> False)) in
      ((pk\<lparr>pk_end_date := None\<rparr>, av, last_dispatch),
       if should_fetch then link_send (ae_link e) (TC_ListInstruments TS_LiveVenue) else []))"

definition press_add_button :: "add_env \<Rightarrow> nat \<Rightarrow> add_state \<Rightarrow> add_state \<times> transport_command list" where
  "press_add_button e now s =
     (let (pk, av, last_dispatch) = s in
      if pk_visible pk then ((pk\<lparr>pk_visible := False\<rparr>, av, last_dispatch), [])
      else (let s1 = (pk\<lparr>pk_visible := True, pk_query := [], pk_last_opened_at := Some now\<rparr>, av, last_dispatch) in
            if ae_mode e = EM_Replay then open_picker_replay e now s1 else open_picker_live e s1))"

text \<open>The presses of a frame, each with its instant.\<close>

fun press_add_buttons :: "add_env \<Rightarrow> nat list \<Rightarrow> add_state \<Rightarrow> add_state \<times> transport_command list" where
  "press_add_buttons e [] s = (s, [])"
| "press_add_buttons e (now # nows) s =
     (let (s1, out) = press_add_button e now s; (s2, outs) = press_add_buttons e nows s1 in (s2, out @ outs))"

definition add_instrument_button_system ::
  "add_env \<Rightarrow> nat list \<Rightarrow> add_state \<Rightarrow> add_state \<times> transport_command list" where
  "add_instrument_button_system e nows s =
     (if \<not> ir_editable (ae_registry e) then (s, []) else press_add_buttons e nows s)"

text \<open>A click on a row; the pressed button already counts as a write of the registry.\<close>

definition handle_picker_row_click ::
  "str \<Rightarrow> nat \<Rightarrow> instrument_registry \<times> picker_state \<Rightarrow> instrument_registry \<times> picker_state" where
  "handle_picker_row_click i now t =
     (let (r, pk) = t in
      if \<not> ir_editable r then t
      else if (case pk_last_added pk of
                 Some (prev_id, prev_t) \<Rightarrow> prev_id = i \<and> now - prev_t < 100 * 10 ^ 6
               | None \<Rightarrow> False) then t
      else (snd (registry_add i r), pk\<lparr>pk_last_added := Some (i, now)\<rparr>))"

definition picker_row_click_system ::
  "(str \<times> nat) list \<Rightarrow> instrument_registry \<times> picker_state \<Rightarrow> instrument_registry \<times> picker_state" where
  "picker_row_click_system clicks t =
     fold (\<lambda>(i, now) (r, pk). handle_picker_row_click i now (r\<lparr>ir_changed := True\<rparr>, pk)) clicks t"

definition force_close_picker_on_lock_system ::
  "instrument_registry \<Rightarrow> picker_state \<times> available_instruments option \<Rightarrow>
   picker_state \<times> available_instruments option" where
  "force_close_picker_on_lock_system r t =
     (let (pk, av) = t in
      if ir_editable r then t
      else if \<not> pk_visible pk then t
      else (pk\<lparr>pk_visible := False, pk_query := []\<rparr>, map_option (\<lambda>a. a\<lparr>ai_last_error := None\<rparr>) av))"

text \<open>The search box: characters first, then the deletions, then the escape; the shown text is
  brought up to date when something changed. The events are consumed.\<close>

definition pop_query :: "picker_state \<times> bool \<Rightarrow> picker_state \<times> bool" where
  "pop_query t =
     (let (pk, changed) = t in
      if pk_query pk \<noteq> [] then (pk\<lparr>pk_query := pop_char (pk_query pk)\<rparr>, True) else t)"

definition picker_searchbox_input_system ::
  "key_event list \<Rightarrow> picker_state \<times> str option \<Rightarrow> picker_state \<times> str option" where
  "picker_searchbox_input_system evs t =
     (let (pk, shown) = t in
      if \<not> pk_visible pk then t
      else (let (res, cs) = drain_keyboard (\<lambda>w. \<not> is_control_char w) evs;
                pk1 = pk\<lparr>pk_query := pk_query pk @ concat cs\<rparr>;
                (pk2, changed2) = (pop_query ^^ kd_backspace_count res) (pk1, cs \<noteq> []);
                (pk3, changed3) = (if kd_escape res then (pk2\<lparr>pk_visible := False, pk_query := []\<rparr>, True)
                                   else (pk2, changed2)) in
            (pk3, if changed3 then map_option (\<lambda>_. pk_query pk3) shown else shown)))"

subsection \<open>The rows of the picker\<close>

datatype picker_row = PR_Message str | PR_Instrument str bool

text \<open>The candidates, or the message shown instead.\<close>

definition picker_ids ::
  "picker_state \<Rightarrow> available_instruments \<Rightarrow> execution_mode \<Rightarrow> tickers option \<Rightarrow> str + str list" where
  "picker_ids pk av m tks =
     (case m of
        EM_Replay \<Rightarrow>
          (case pk_end_date pk of
             None \<Rightarrow> Inl ''Set scenario.end first''
           | Some e \<Rightarrow>
               (case ai_last_error av of
                  Some (d, msg) \<Rightarrow>
                    if d = e then Inl (''Error: '' @ msg)
                    else if e \<in> set (ai_in_flight av) then Inl ''Loading...''
                    else (case ai_by_end_date av e of None \<Rightarrow> Inl ''Loading...'' | Some ids \<Rightarrow> Inr ids)
                | None \<Rightarrow>
                    if e \<in> set (ai_in_flight av) then Inl ''Loading...''
                    else (case ai_by_end_date av e of None \<Rightarrow> Inl ''Loading...'' | Some ids \<Rightarrow> Inr ids)))
      | _ \<Rightarrow>
          (case tks of
             None \<Rightarrow> Inl ''Venue not connected''
           | Some t \<Rightarrow>
               (case tks_status t of
                  TK_NotFetched \<Rightarrow> Inl ''Venue not connected''
                | TK_InFlight \<Rightarrow> Inl ''Loading...''
                | TK_PendingLiveUniverse \<Rightarrow> Inl ''Loading...''
                | TK_Failed msg \<Rightarrow> Inl (''Error: '' @ msg)
                | TK_Loaded \<Rightarrow> Inr (map tk_id (tks_list t)))))"

definition picker_matches :: "(str \<Rightarrow> str) \<Rightarrow> str \<Rightarrow> str list \<Rightarrow> str list" where
  "picker_matches lower query ids =
     (let q = lower query in sort (filter (\<lambda>i. q = [] \<or> str_contains q (lower i)) ids))"

definition picker_rows ::
  "(str \<Rightarrow> str) \<Rightarrow> picker_state \<Rightarrow> available_instruments \<Rightarrow> instrument_registry \<Rightarrow> execution_mode \<Rightarrow>
   tickers option \<Rightarrow> picker_row list" where
  "picker_rows lower pk av r m tks =
     (case picker_ids pk av m tks of
        Inl msg \<Rightarrow> [PR_Message msg]
      | Inr ids \<Rightarrow>
          (if ids = []
           then [PR_Message (if m = EM_Replay then ''No instruments for this date'' else ''No instruments in venue'')]
           else (let found = picker_matches lower (pk_query pk) ids in
                 if found = [] then [PR_Message ''No matches'']
                 else map (\<lambda>i. PR_Instrument i (registry_contains i r)) (take 15 found))))"

text \<open>Nothing is rebuilt while the picker is hidden, nothing changed, or there is no container.\<close>

definition picker_list_rebuild_system ::
  "(str \<Rightarrow> str) \<Rightarrow> bool \<Rightarrow> bool \<Rightarrow> picker_state \<Rightarrow> available_instruments \<Rightarrow> instrument_registry \<Rightarrow>
   execution_mode \<Rightarrow> tickers option \<Rightarrow> picker_row list \<Rightarrow> picker_row list" where
  "picker_list_rebuild_system lower changed container pk av r m tks old =
     (if \<not> pk_visible pk \<or> \<not> changed \<or> \<not> container then old else picker_rows lower pk av r m tks)"

subsection \<open>Fetching without a click\<close>

text \<open>The locals are empty together, in the first frame only.\<close>

definition auto_fetch_live_universe_on_connect_system ::
  "link \<Rightarrow> venue_state \<times> execution_mode \<times> tickers_status \<Rightarrow> (venue_state \<times> execution_mode) option \<Rightarrow>
   (venue_state \<times> execution_mode) option \<times> transport_command list" where
  "auto_fetch_live_universe_on_connect_system l cur prev =
     (let (cur_venue, cur_mode, status) = cur;
          became_connected = (is_venue_live cur_venue \<and>
            \<not> (case prev of Some (v, m) \<Rightarrow> is_venue_live v | None \<Rightarrow> False));
          became_live = (is_live_mode cur_mode \<and>
            \<not> (case prev of Some (v, m) \<Rightarrow> is_live_mode m | None \<Rightarrow> False));
          trigger_by_venue = (became_connected \<and> is_live_mode cur_mode);
          trigger_by_mode = (became_live \<and> is_venue_live cur_venue);
          prev' = Some (cur_venue, cur_mode) in
      if \<not> (trigger_by_venue \<or> trigger_by_mode) then (prev', [])
      else if status \<in> {TK_Loaded, TK_InFlight, TK_PendingLiveUniverse} then (prev', [])
      else (prev', link_send l (TC_ListInstruments TS_LiveVenue)))"

definition LIVE_UNIVERSE_RETRY_INTERVAL_S :: rat where "LIVE_UNIVERSE_RETRY_INTERVAL_S = 2"

definition retry_pending_live_universe_system ::
  "link \<Rightarrow> execution_mode \<Rightarrow> tickers \<Rightarrow> rat \<Rightarrow> bool \<times> rat \<Rightarrow> (bool \<times> rat) \<times> transport_command list" where
  "retry_pending_live_universe_system l m tks delta loc =
     (let (prev_pending, cooldown) = loc;
          pending = (is_live_mode m \<and> tks_source tks = TS_LiveVenue \<and> tks_status tks = TK_PendingLiveUniverse) in
      if \<not> pending then ((False, 0), [])
      else if \<not> prev_pending then ((True, LIVE_UNIVERSE_RETRY_INTERVAL_S), [])
      else (let c = f32_round (cooldown - delta) in
            if 0 < c then ((True, c), [])
            else ((True, LIVE_UNIVERSE_RETRY_INTERVAL_S), link_send l (TC_ListInstruments TS_LiveVenue))))"

record fetch_local =
  fl_prev_mode :: "execution_mode option"
  fl_prev_end :: "str option"
  fl_prev_connected :: "bool option"

definition auto_fetch_available_on_replay_entry_system ::
  "(str \<Rightarrow> date option) \<Rightarrow> link \<Rightarrow> execution_mode \<Rightarrow> scenario_metadata \<Rightarrow> backend_status option \<Rightarrow>
   available_instruments \<times> fetch_local \<Rightarrow>
   (available_instruments \<times> fetch_local) \<times> transport_command list" where
  "auto_fetch_available_on_replay_entry_system parse_date l m scenario backend t =
     (let (a, loc) = t;
          connected = (case backend of Some s \<Rightarrow> bs_connected s | None \<Rightarrow> False);
          entered = (fl_prev_mode loc \<noteq> Some EM_Replay \<and> m = EM_Replay);
          end_changed = (fl_prev_end loc \<noteq> sm_end scenario);
          reconnected = (fl_prev_connected loc = Some False \<and> connected);
          loc' = \<lparr>fl_prev_mode = Some m, fl_prev_end = sm_end scenario, fl_prev_connected = Some connected\<rparr> in
      if \<not> entered \<and> \<not> end_changed \<and> \<not> reconnected then ((a, loc'), [])
      else if m \<noteq> EM_Replay then ((a, loc'), [])
      else (case parse_scenario_end parse_date scenario of
              None \<Rightarrow> ((a, loc'), [])
            | Some d \<Rightarrow>
                (if ai_by_end_date a d \<noteq> None then ((a, loc'), [])
                 else if d \<in> set (ai_in_flight a) \<and> \<not> reconnected then ((a, loc'), [])
                 else (let a1 = (if reconnected then a\<lparr>ai_in_flight := removeAll d (ai_in_flight a)\<rparr> else a) in
                       if backend_offline backend
                       then ((a1\<lparr>ai_last_error := Some (d, ''backend not connected'')\<rparr>, loc'), [])
                       else if l = NoSender then ((a1, loc'), [])
                       else ((a1\<lparr>ai_in_flight := d # ai_in_flight a1, ai_last_error := None\<rparr>, loc'),
                             link_send l (TC_FetchAvailableInstruments d))))))"

section \<open>Properties\<close>

subsection \<open>Subscriptions follow the registry\<close>

text \<open>What the venue is subscribed to, after a command; and the two systems over the frames of a
  mode, in the order of the frame's chain.\<close>

fun market_step :: "transport_command \<Rightarrow> str set \<Rightarrow> str set" where
  "market_step (TC_SubscribeMarketData i) S = insert i S"
| "market_step (TC_UnsubscribeMarketData i) S = S - {i}"
| "market_step c S = S"

fun market_frames ::
  "(str set \<Rightarrow> str list) \<Rightarrow> link \<Rightarrow> execution_mode \<Rightarrow> instrument_registry list \<Rightarrow> ids_local \<times> ids_local \<Rightarrow>
   (ids_local \<times> ids_local) \<times> transport_command list" where
  "market_frames it l m [] loc = (loc, [])"
| "market_frames it l m (r # rs) loc =
     (let (u, out1) = unsubscribe_removed_instruments_system it l m r (fst loc);
          (s, out2) = subscribe_added_instruments_system it l m r (snd loc);
          (loc', outs) = market_frames it l m rs (u, s) in (loc', out1 @ out2 @ outs))"

lemma hash_order_set [simp]: "hash_order it \<Longrightarrow> finite S \<Longrightarrow> set (it S) = S"
  by (simp add: hash_order_def)

lemma hash_order_sorted: "hash_order sorted_list_of_set"
  by (simp add: hash_order_def)

lemma market_subscribe_all:
  "fold market_step (map TC_SubscribeMarketData is) S = S \<union> set is"
  by (induction "is" arbitrary: S) auto

lemma market_unsubscribe_all:
  "fold market_step (map TC_UnsubscribeMarketData is) S = S - set is"
  by (induction "is" arbitrary: S) auto

lemma unsubscribe_steady:
  "is_live_mode m \<Longrightarrow>
   unsubscribe_removed_instruments_system it OpenSender m r (P, Some m) =
     ((set (ir_ids r), Some m),
      map TC_UnsubscribeMarketData (it (P - set (ir_ids r))))"
  by (simp add: unsubscribe_removed_instruments_system_def Let_def)

lemma subscribe_steady:
  "is_live_mode m \<Longrightarrow>
   subscribe_added_instruments_system it OpenSender m r (P, Some m) =
     ((set (ir_ids r), Some m),
      map TC_SubscribeMarketData (it (set (ir_ids r) - P)))"
  by (simp add: subscribe_added_instruments_system_def Let_def)

text \<open>C16: while a live mode lasts, the commands of the two subscription systems bring the venue
  from the registry of one frame to that of the next, for any sequence of registries: what is
  subscribed is exactly what is listed.\<close>

theorem subscriptions_follow_registry:
  assumes "hash_order it" and "is_live_mode m" and "finite P"
  shows "fold market_step (snd (market_frames it OpenSender m rs ((P, Some m), (P, Some m)))) P =
    last (P # map (\<lambda>r. set (ir_ids r)) rs)"
  using assms(3)
proof (induction rs arbitrary: P)
  case (Cons r rs)
  let ?R = "set (ir_ids r)"
  have "fold market_step (snd (market_frames it OpenSender m rs ((?R, Some m), (?R, Some m)))) ?R =
      last (?R # map (\<lambda>r. set (ir_ids r)) rs)"
    by (rule Cons.IH) simp
  moreover have "P - (P - ?R) \<union> (?R - P) = ?R" by blast
  ultimately show ?case
    using assms(1,2) Cons.prems
    by (simp add: unsubscribe_steady subscribe_steady market_subscribe_all market_unsubscribe_all
        case_prod_unfold Let_def)
qed simp

lemma subscriptions_follow_registry_witness:
  "fold market_step
     (snd (market_frames sorted_list_of_set OpenSender EM_LiveAuto [sample_registry] (({}, Some EM_LiveAuto), ({}, Some EM_LiveAuto)))) {} =
   {''7203''}"
  using subscriptions_follow_registry [OF hash_order_sorted, of EM_LiveAuto "{}" "[sample_registry]"]
  by (simp add: sample_registry_def)

lemma subscribe_entry:
  "prev \<noteq> Some m \<Longrightarrow> is_live_mode m \<Longrightarrow>
   subscribe_added_instruments_system it OpenSender m r (P, prev) =
     ((set (ir_ids r), Some m),
      map TC_SubscribeMarketData (take 50 (it (P \<inter> set (ir_ids r)))))"
  by (simp add: subscribe_added_instruments_system_def BULK_SUBSCRIBE_CAP_def Let_def)

lemma unsubscribe_never_subscribes:
  "TC_SubscribeMarketData i \<notin> set (snd (unsubscribe_removed_instruments_system it l m r loc))"
  by (auto simp: unsubscribe_removed_instruments_system_def link_send_def Let_def split: prod.split if_splits)

lemma kept_never_subscribed:
  assumes "hash_order it" and "is_live_mode m"
  shows "i \<in> P \<Longrightarrow> list_all (\<lambda>r. i \<in> set (ir_ids r)) rs \<Longrightarrow>
    TC_SubscribeMarketData i \<notin> set (snd (market_frames it OpenSender m rs (u, (P, Some m))))"
proof (induction rs arbitrary: P u)
  case (Cons r rs)
  then show ?case
    using assms unsubscribe_never_subscribes [of i it OpenSender m r u] Cons.IH [of "set (ir_ids r)"]
    by (auto simp: subscribe_steady case_prod_unfold Let_def)
qed simp

text \<open>Entering a live mode subscribes only what was listed in the frame before, and at most
  fifty of it: an instrument that comes into the registry in the frame of the mode change is not
  subscribed then, nor in any later frame while it stays listed.\<close>

theorem listed_at_mode_change_never_subscribed:
  assumes "hash_order it" and "is_live_mode m" and "prev \<noteq> Some m" and "i \<notin> P" and "finite P"
    and "list_all (\<lambda>r. i \<in> set (ir_ids r)) rs"
  shows "TC_SubscribeMarketData i \<notin> set (snd (market_frames it OpenSender m rs (u, (P, prev))))"
proof (cases rs)
  case (Cons r rs')
  have "TC_SubscribeMarketData i \<notin>
      set (snd (market_frames it OpenSender m rs'
             (fst (unsubscribe_removed_instruments_system it OpenSender m r u), (set (ir_ids r), Some m))))"
    using assms(6) Cons by (intro kept_never_subscribed [OF assms(1,2)]) auto
  then show ?thesis
    using assms Cons unsubscribe_never_subscribes [of i it OpenSender m r u]
    by (auto simp: subscribe_entry case_prod_unfold Let_def dest!: in_set_takeD)
qed simp

lemma listed_at_mode_change_never_subscribed_witness:
  "TC_SubscribeMarketData ''7203'' \<notin>
     set (snd (market_frames sorted_list_of_set OpenSender EM_LiveAuto [sample_registry, sample_registry]
       (({}, Some EM_Replay), ({}, Some EM_Replay))))"
  by (rule listed_at_mode_change_never_subscribed [OF hash_order_sorted]) (simp_all add: sample_registry_def)

subsection \<open>Pruning\<close>

text \<open>Pruning never adds, repeats or reorders: when the universe is known the registry becomes
  its listed part, otherwise, or when nothing changed, it stays; what is pruned stays pruned.\<close>

theorem prune_keeps_the_listed_part:
  "let sys = prune_instruments_outside_universe_system parse_date changed m tks av scenario venue; r' = sys r in
   ir_ids r' = (case prune_allowed parse_date m tks av scenario venue of
                  Some allowed \<Rightarrow> if changed then filter (\<lambda>i. i \<in> set allowed) (ir_ids r) else ir_ids r
                | None \<Rightarrow> ir_ids r) \<and>
   prune_allowed parse_date m tks av scenario venue \<noteq> Some [] \<and>
   ir_editable r' = ir_editable r \<and> ir_ids (sys r') = ir_ids r'"
proof -
  have [simp]: "list_ex (\<lambda>a. a = i) xs \<longleftrightarrow> i \<in> set xs" for i :: str and xs
    by (auto simp: list_ex_iff)
  have "prune_allowed parse_date m tks av scenario venue \<noteq> Some []"
    by (auto simp: prune_allowed_def split: execution_mode.split option.splits if_splits)
  then show ?thesis
    by (auto simp: prune_instruments_outside_universe_system_def Let_def split: option.split)
qed

subsection \<open>The picker's list\<close>

text \<open>The picker shows at most fifteen rows, in order, each an instrument of the universe that
  matches the query, marked as added exactly when the registry has it; an instrument that matches is
  missing only when fifteen others come before it or equal it.\<close>

theorem picker_rows_sound:
  assumes "picker_ids pk av m tks = Inr ids" and "picker_matches lower (pk_query pk) ids \<noteq> []"
  shows "\<exists>shown. picker_rows lower pk av r m tks = map (\<lambda>i. PR_Instrument i (registry_contains i r)) shown \<and>
    length shown \<le> 15 \<and> sorted shown \<and>
    set shown \<subseteq> {i \<in> set ids. lower (pk_query pk) = [] \<or> str_contains (lower (pk_query pk)) (lower i)} \<and>
    (\<forall>i \<in> set (picker_matches lower (pk_query pk) ids) - set shown.
       length shown = 15 \<and> (\<forall>j \<in> set shown. j \<le> i))"
proof -
  let ?ms = "picker_matches lower (pk_query pk) ids"
  have s: "sorted ?ms" by (simp add: picker_matches_def Let_def)
  have ids: "ids \<noteq> []" using assms(2) by (auto simp: picker_matches_def)
  have late: "length (take 15 ?ms) = 15 \<and> (\<forall>j \<in> set (take 15 ?ms). j \<le> i)"
    if "i \<in> set ?ms - set (take 15 ?ms)" for i
  proof -
    have i: "i \<in> set (drop 15 ?ms)"
      using that by (metis DiffE Un_iff append_take_drop_id set_append)
    moreover have "sorted (take 15 ?ms @ drop 15 ?ms)" using s by simp
    ultimately show ?thesis
      unfolding sorted_append by (cases "length ?ms \<le> 15") auto
  qed
  have "picker_rows lower pk av r m tks =
      map (\<lambda>i. PR_Instrument i (registry_contains i r)) (take 15 ?ms)"
    using assms ids by (simp add: picker_rows_def Let_def)
  moreover have "set (take 15 ?ms) \<subseteq> {i \<in> set ids. lower (pk_query pk) = [] \<or> str_contains (lower (pk_query pk)) (lower i)}"
    using set_take_subset [of 15 ?ms] by (auto simp: picker_matches_def Let_def)
  ultimately show ?thesis
    using s late by (intro exI [of _ "take 15 ?ms"]) (auto simp: sorted_wrt_take)
qed

definition sample_picker :: picker_state where
  "sample_picker =
     \<lparr>pk_visible = True, pk_end_date = None, pk_query = ''72'', pk_last_opened_at = None, pk_last_added = None\<rparr>"

definition sample_tickers :: tickers where
  "sample_tickers =
     \<lparr>tks_list = [\<lparr>tk_id = ''7203'', tk_name = [], tk_market = []\<rparr>, \<lparr>tk_id = ''1301'', tk_name = [], tk_market = []\<rparr>],
      tks_source = TS_LiveVenue, tks_status = TK_Loaded\<rparr>"

definition sample_available :: available_instruments where
  "sample_available = \<lparr>ai_by_end_date = (\<lambda>_. None), ai_in_flight = [], ai_last_error = None\<rparr>"

lemma picker_rows_sound_witness:
  "\<exists>shown. picker_rows (\<lambda>s. s) sample_picker sample_available sample_registry EM_LiveManual (Some sample_tickers) =
     map (\<lambda>i. PR_Instrument i (registry_contains i sample_registry)) shown \<and> length shown \<le> 15"
proof -
  have ids: "picker_ids sample_picker sample_available EM_LiveManual (Some sample_tickers) = Inr [''7203'', ''1301'']"
    by (simp add: picker_ids_def sample_tickers_def)
  have m: "picker_matches (\<lambda>s. s) (pk_query sample_picker) [''7203'', ''1301''] \<noteq> []"
    by (simp add: picker_matches_def sample_picker_def starts_with_def)
  show ?thesis using picker_rows_sound [OF ids m] by blast
qed

subsection \<open>Clicks and fetches\<close>

text \<open>The dates whose list is asked for.\<close>

definition fetched_dates :: "transport_command list \<Rightarrow> date list" where
  "fetched_dates cs = List.map_filter (\<lambda>c. case c of TC_FetchAvailableInstruments d \<Rightarrow> Some d | _ \<Rightarrow> None) cs"

lemma fetched_dates_append [simp]: "fetched_dates (a @ b) = fetched_dates a @ fetched_dates b"
  by (simp add: fetched_dates_def map_filter_def)

text \<open>Whether a date is known, being fetched, or failed for a reason that is shown.\<close>

definition fetch_accounted :: "available_instruments \<Rightarrow> date \<Rightarrow> bool" where
  "fetch_accounted a d \<longleftrightarrow>
     ai_by_end_date a d \<noteq> None \<or> d \<in> set (ai_in_flight a) \<or> (\<exists>msg. ai_last_error a = Some (d, msg))"

text \<open>Opening the picker in the replay mode asks at most once for the date of the scenario, only
  when its list is neither known nor on its way; and the date is then known, on its way or failed
  with a message, unless the button was pressed again within the tenth of a second.\<close>

theorem opening_accounts_for_the_date:
  assumes "ae_mode e = EM_Replay" and "\<not> pk_visible pk"
    and "parse_scenario_end (ae_parse_date e) (ae_scenario e) = Some d"
  shows "let ((pk', av', last'), cmds) = press_add_button e now (pk, Some a, last_dispatch) in
    pk_visible pk' \<and> pk_query pk' = [] \<and> pk_end_date pk' = Some d \<and>
    cmds \<in> {[], [TC_FetchAvailableInstruments d]} \<and>
    (cmds = [] \<or> (ai_by_end_date a d = None \<and> d \<notin> set (ai_in_flight a) \<and> last' = Some now)) \<and>
    (if last_dispatch = None then fetch_accounted (the av') d else True)"
  using assms
  by (auto simp: press_add_button_def open_picker_replay_def fetch_accounted_def link_send_def Let_def
      split: option.split)

definition sample_add_env :: add_env where
  "sample_add_env =
     \<lparr>ae_parse_date = (\<lambda>s. Some 20000), ae_registry = sample_registry,
      ae_scenario = scenario_default\<lparr>sm_end := Some ''2024-10-04''\<rparr>, ae_mode = EM_Replay, ae_link = OpenSender,
      ae_backend = Some \<lparr>bs_connected = True, bs_running = True, bs_last_error = None\<rparr>, ae_tickers = None\<rparr>"

lemma opening_accounts_for_the_date_witness:
  "pk_end_date (fst (fst (press_add_button sample_add_env 5
     (sample_picker\<lparr>pk_visible := False\<rparr>, Some sample_available, None)))) = Some 20000"
  using opening_accounts_for_the_date [of sample_add_env "sample_picker\<lparr>pk_visible := False\<rparr>" 20000 5 sample_available None]
  by (auto simp: sample_add_env_def parse_scenario_end_def Let_def split: prod.splits)

text \<open>A fetch that was lost is asked again on a reconnection only in the replay mode. When the
  connection comes back in a live mode, the date stays marked as on its way: entering the replay mode
  afterwards asks nothing, and the picker shows that it is loading for as long as nothing else
  happens.\<close>

theorem lost_fetch_is_stuck:
  assumes "is_live_mode m" and "parse_scenario_end parse_date scenario = Some d"
    and "d \<in> set (ai_in_flight a)" and "ai_by_end_date a d = None"
    and "bs_connected st" and "ai_last_error a = None"
  shows "let ((a1, loc1), out1) =
           auto_fetch_available_on_replay_entry_system parse_date l m scenario (Some st)
             (a, \<lparr>fl_prev_mode = Some m, fl_prev_end = sm_end scenario, fl_prev_connected = Some False\<rparr>);
         ((a2, loc2), out2) =
           auto_fetch_available_on_replay_entry_system parse_date l EM_Replay scenario (Some st) (a1, loc1);
         ((a3, loc3), out3) =
           auto_fetch_available_on_replay_entry_system parse_date l EM_Replay scenario (Some st) (a2, loc2) in
    out1 = [] \<and> out2 = [] \<and> out3 = [] \<and> a3 = a \<and> loc3 = loc2 \<and>
    picker_rows lower (pk\<lparr>pk_end_date := Some d\<rparr>) a r EM_Replay tks = [PR_Message ''Loading...'']"
proof -
  have m: "m \<noteq> EM_Replay" using assms(1) by auto
  show ?thesis
    using assms m
    by (simp add: auto_fetch_available_on_replay_entry_system_def picker_rows_def picker_ids_def Let_def)
qed

lemma lost_fetch_is_stuck_witness:
  "picker_rows (\<lambda>s. s) (sample_picker\<lparr>pk_end_date := Some 20000\<rparr>) (sample_available\<lparr>ai_in_flight := [20000]\<rparr>)
     sample_registry EM_Replay None = [PR_Message ''Loading...'']"
  using lost_fetch_is_stuck [of EM_LiveManual "\<lambda>s. Some 20000" "scenario_default\<lparr>sm_end := Some ''2024-10-04''\<rparr>" 20000
      "sample_available\<lparr>ai_in_flight := [20000]\<rparr>" "\<lparr>bs_connected = True, bs_running = True, bs_last_error = None\<rparr>"
      OpenSender "\<lambda>s. s" sample_picker sample_registry None]
  by (simp add: parse_scenario_end_def sample_available_def Let_def split: prod.splits)

text \<open>The venue's list is asked for when the venue is live in a live mode and was not so before.\<close>

definition live_universe_step ::
  "link \<Rightarrow> (venue_state \<times> execution_mode \<times> tickers_status) option \<Rightarrow> venue_state \<times> execution_mode \<times> tickers_status \<Rightarrow>
   (venue_state \<times> execution_mode \<times> tickers_status) option \<times> transport_command list" where
  "live_universe_step l prev v =
     (Some v, snd (auto_fetch_live_universe_on_connect_system l v (map_option (\<lambda>(a, b, c). (a, b)) prev)))"

interpretation live_universe: edge_trigger "\<lambda>(v, m, s). is_venue_live v \<and> is_live_mode m"
  "\<lambda>(v, m, s). if s \<in> {TK_Loaded, TK_InFlight, TK_PendingLiveUniverse} then []
               else link_send l (TC_ListInstruments TS_LiveVenue)"
  "live_universe_step l" for l
  by unfold_locales
    (auto simp: live_universe_step_def auto_fetch_live_universe_on_connect_system_def rising_def Let_def
      split: option.split if_splits)

text \<open>The list of the venue is asked for exactly in the frames in which the venue is live in a
  live mode and was not so in the frame before, unless it is already there or on its way; so at most
  once while the two last.\<close>

theorem universe_fetched_on_the_edge:
  "run_frames (live_universe_step l) prev vs =
     concat (map (\<lambda>(v, m, s). if s \<in> {TK_Loaded, TK_InFlight, TK_PendingLiveUniverse} then []
                             else link_send l (TC_ListInstruments TS_LiveVenue))
       (edges (\<lambda>(v, m, s). is_venue_live v \<and> is_live_mode m) prev vs))"
  by (rule live_universe.run_eq_edges)

end
