(* ===== verification/Run_Control.thy ===== *)
theory Run_Control
  imports Scenario Backend_Sync
begin

text \<open>
  The buttons that start, stop and steer a run (\<open>src/ui/footer.rs\<close>), the menus
  (\<open>src/ui/menu_bar.rs\<close>) and what happens when a strategy file is opened or a run is asked for
  (the handlers of \<open>src/ui/menu_bar.rs\<close>). A system's input is the list of what was pressed in
  the frame, in the order of the query; its output is the list of what it sent and announced, in
  order. The channel of the footer is always there, open or closed. Change flags of the engine are
  inputs. Texts are modelled, colours and the layout of nodes are not; the formatting of instants
  is a parameter.
\<close>

subsection \<open>Presses of a frame\<close>

fun each_press :: "('b \<Rightarrow> 's \<Rightarrow> 's \<times> 'o list) \<Rightarrow> 'b list \<Rightarrow> 's \<Rightarrow> 's \<times> 'o list" where
  "each_press f [] s = (s, [])"
| "each_press f (b # bs) s =
     (let (s1, out) = f b s; (s2, outs) = each_press f bs s1 in (s2, out @ outs))"

datatype run_output = OUT_Command transport_command | OUT_RunRequested path | OUT_StepRequested path

definition send :: "link \<Rightarrow> transport_command \<Rightarrow> run_output list" where
  "send l c = map OUT_Command (link_send l c)"

subsection \<open>The footer's transport buttons\<close>

datatype transport_button = TB_JumpToStart | TB_PauseResume | TB_StepForward | TB_ForceStop

record footer_env =
  fe_mode :: execution_mode
  fe_replay_state :: "str option"
  fe_link :: link
  fe_editors :: editors
  fe_selected :: "str option"
  fe_scenario :: scenario_metadata
  fe_registry :: instrument_registry
  fe_venue :: venue_status
  fe_fault :: io_fault

record run_sys =
  ry_buffer :: strategy_buffer
  ry_auto_save :: auto_save_state
  ry_files :: files
  ry_run :: current_run

text \<open>Every way to a run first writes the merged editors into the cache.\<close>

definition flush_editors :: "footer_env \<Rightarrow> run_sys \<Rightarrow> (str + bool) \<times> run_sys" where
  "flush_editors e s =
     (let merged = merge_fragments (collect_items (fe_editors e));
          (r, b, a, fs) = flush_strategy_cache (fe_fault e) merged (ry_buffer s, ry_auto_save s, ry_files s) in
      (r, s\<lparr>ry_buffer := b, ry_auto_save := a, ry_files := fs\<rparr>))"

definition registry_or_scenario :: "instrument_registry \<Rightarrow> scenario_metadata \<Rightarrow> str list" where
  "registry_or_scenario r scenario = (if ir_ids r \<noteq> [] then ir_ids r else sm_instruments scenario)"

definition press_step_forward :: "footer_env \<Rightarrow> run_sys \<Rightarrow> run_sys \<times> run_output list" where
  "press_step_forward e s =
     (let replay = unwrap_or ''IDLE'' (fe_replay_state e) in
      if replay = ''PAUSED'' \<or> replay = ''LOADED'' then (s, send (fe_link e) TC_StepForward)
      else if replay = ''IDLE'' then
        (case flush_editors e s of
           (Inr True, s1) \<Rightarrow>
             (s1, (case sb_cache_path (ry_buffer s1) of Some p \<Rightarrow> [OUT_StepRequested p] | None \<Rightarrow> []))
         | (Inr False, s1) \<Rightarrow> (s1, [])
         | (Inl err, s1) \<Rightarrow> (s1, []))
      else (s, []))"

definition press_jump_to_start :: "footer_env \<Rightarrow> run_output list" where
  "press_jump_to_start e =
     (let sc = fe_scenario e; instruments = registry_or_scenario (fe_registry e) sc in
      case (instruments = [], sm_start sc, sm_end sc, sm_granularity sc) of
        (False, Some st, Some en, Some g) \<Rightarrow>
          send (fe_link e)
            (TC_RestartReplay
               \<lparr>rc_instruments = instruments, rc_start = st, rc_end = en, rc_granularity = g,
                rc_initial_cash = sm_initial_cash sc\<rparr>)
      | _ \<Rightarrow> [])"

definition press_force_stop :: "footer_env \<Rightarrow> run_output list" where
  "press_force_stop e =
     (let replay = unwrap_or ''IDLE'' (fe_replay_state e) in
      if replay = ''RUNNING'' \<or> replay = ''PAUSED'' \<or> replay = ''LOADED''
      then send (fe_link e) TC_ForceStop else [])"

definition press_transport :: "footer_env \<Rightarrow> transport_button \<Rightarrow> run_sys \<Rightarrow> run_sys \<times> run_output list" where
  "press_transport e b s =
     (case b of
        TB_PauseResume \<Rightarrow> (s, [])
      | TB_StepForward \<Rightarrow> press_step_forward e s
      | TB_JumpToStart \<Rightarrow> (s, press_jump_to_start e)
      | TB_ForceStop \<Rightarrow> (s, press_force_stop e))"

definition transport_button_system ::
  "footer_env \<Rightarrow> transport_button list \<Rightarrow> run_sys \<Rightarrow> run_sys \<times> run_output list" where
  "transport_button_system e bs s =
     (if fe_mode e \<noteq> EM_Replay then (s, []) else each_press (press_transport e) bs s)"

text \<open>The selected speed, with the command for each press.\<close>

definition speed_button_system ::
  "execution_mode \<Rightarrow> link \<Rightarrow> u32 list \<Rightarrow> u32 \<Rightarrow> u32 \<times> run_output list" where
  "speed_button_system m l bs speed =
     (if m \<noteq> EM_Replay then (speed, [])
      else each_press (\<lambda>mult s. (mult, send l (TC_SetSpeed mult))) bs speed)"

text \<open>Whether a speed button, and a segment of the mode switch, is the selected one.\<close>

definition update_speed_buttons_system :: "bool \<Rightarrow> u32 \<Rightarrow> (u32 \<times> bool) list \<Rightarrow> (u32 \<times> bool) list" where
  "update_speed_buttons_system changed speed bs =
     (if \<not> changed then bs else map (\<lambda>(mult, sel). (mult, mult = speed)) bs)"

definition sync_execution_mode_selected_system ::
  "bool \<Rightarrow> execution_mode \<Rightarrow> (execution_mode \<times> bool) list \<Rightarrow> (execution_mode \<times> bool) list" where
  "sync_execution_mode_selected_system changed m segs =
     (if \<not> changed then segs else map (\<lambda>(seg, sel). (seg, seg = m)) segs)"

subsection \<open>The run button\<close>

definition run_failed :: "str \<Rightarrow> run_sys \<Rightarrow> run_sys" where
  "run_failed err s = s\<lparr>ry_run := (ry_run s)\<lparr>cr_state := RS_Failed err\<rparr>\<rparr>"

definition press_run_replay :: "footer_env \<Rightarrow> run_sys \<Rightarrow> run_sys \<times> run_output list" where
  "press_run_replay e s =
     (if fe_replay_state e = Some ''RUNNING'' then (s, send (fe_link e) TC_Pause)
      else if fe_replay_state e = Some ''PAUSED'' then (s, send (fe_link e) TC_Resume)
      else (let backend_not_running = (fe_replay_state e \<in> {Some ''LOADED'', Some ''IDLE''}) in
            if cr_state (ry_run s) = RS_Running \<and> \<not> backend_not_running then (s, [])
            else if collect_items (fe_editors e) = [] \<and> sb_cache_path (ry_buffer s) = None
            then (run_failed ''No strategy loaded'' s, [])
            else (case flush_editors e s of
                    (Inr True, s1) \<Rightarrow>
                      (case sb_cache_path (ry_buffer s1) of
                         Some p \<Rightarrow> (s1, [OUT_RunRequested p])
                       | None \<Rightarrow> (run_failed ''No cache path set'' s1, []))
                  | (Inr False, s1) \<Rightarrow> (run_failed ''No cache path set'' s1, [])
                  | (Inl err, s1) \<Rightarrow> (s1, []))))"

text \<open>The instrument of a live run: the only one, the selected one if it is listed, or the first.\<close>

definition live_instrument :: "str list \<Rightarrow> str option \<Rightarrow> str option" where
  "live_instrument is sel =
     (case is of
        [] \<Rightarrow> None
      | [only] \<Rightarrow> Some only
      | i # rest \<Rightarrow> (case sel of Some x \<Rightarrow> if list_ex (\<lambda>j. j = x) is then Some x else Some i | None \<Rightarrow> Some i))"

definition start_live :: "footer_env \<Rightarrow> run_sys \<Rightarrow> run_sys \<times> run_output list" where
  "start_live e s =
     (case live_instrument (sm_instruments (fe_scenario e)) (fe_selected e) of
        None \<Rightarrow> (run_failed ''No instrument selected'' s, [])
      | Some instrument \<Rightarrow>
          (if \<not> is_venue_live (vst_state (fe_venue e)) then (run_failed ''Venue not connected'' s, [])
           else (case (case vst_venue_id (fe_venue e) of
                         Some v \<Rightarrow> Some v | None \<Rightarrow> vst_configured_venue (fe_venue e)) of
                   None \<Rightarrow> (run_failed ''Venue not configured (launch with --live-venue)'' s, [])
                 | Some venue \<Rightarrow>
                     (case flush_editors e s of
                        (Inl err, s1) \<Rightarrow> (s1, [])
                      | (Inr False, s1) \<Rightarrow> (run_failed ''No strategy loaded (open a strategy file)'' s1, [])
                      | (Inr True, s1) \<Rightarrow>
                          (case sb_cache_path (ry_buffer s1) of
                             None \<Rightarrow> (run_failed ''No strategy loaded (open a strategy file)'' s1, [])
                           | Some p \<Rightarrow>
                               (if fe_link e = OpenSender
                                then (s1\<lparr>ry_run := (ry_run s1)\<lparr>cr_state := RS_Running\<rparr>\<rparr>,
                                      [OUT_Command (TC_StartLiveAuto instrument venue p)])
                                else (s1, [])))))))"

definition press_run_live :: "footer_env \<Rightarrow> run_sys \<Rightarrow> run_sys \<times> run_output list" where
  "press_run_live e s =
     (case cr_run_id (ry_run s) of
        None \<Rightarrow> (if cr_state (ry_run s) = RS_Running then (s, []) else start_live e s)
      | Some run_id \<Rightarrow>
          (case cr_state (ry_run s) of
             RS_Running \<Rightarrow> (s, send (fe_link e) (TC_PauseLiveStrategy run_id))
           | RS_Paused \<Rightarrow> (s, send (fe_link e) (TC_ResumeLiveStrategy run_id))
           | _ \<Rightarrow> start_live e s))"

definition footer_pause_resume_system ::
  "footer_env \<Rightarrow> unit list \<Rightarrow> run_sys \<Rightarrow> run_sys \<times> run_output list" where
  "footer_pause_resume_system e presses s =
     (case fe_mode e of
        EM_LiveManual \<Rightarrow> (s, [])
      | EM_Replay \<Rightarrow> each_press (\<lambda>_. press_run_replay e) presses s
      | EM_LiveAuto \<Rightarrow> each_press (\<lambda>_. press_run_live e) presses s)"

subsection \<open>The execution mode\<close>

definition press_mode_segment ::
  "execution_mode \<Rightarrow> venue_state \<Rightarrow> link \<Rightarrow> execution_mode \<Rightarrow> run_output list" where
  "press_mode_segment m venue l target =
     (if m = target then []
      else if is_live_mode target \<and> venue \<in> {VS_Disconnected, VS_Error} then []
      else send l (TC_SetExecutionMode target))"

definition execution_mode_toggle_system ::
  "execution_mode \<Rightarrow> venue_state \<Rightarrow> link \<Rightarrow> execution_mode list \<Rightarrow> run_output list" where
  "execution_mode_toggle_system m venue l targets = concat (map (press_mode_segment m venue l) targets)"

definition auto_replay_on_venue_disconnect_system ::
  "bool \<Rightarrow> venue_state \<Rightarrow> link \<Rightarrow> execution_mode \<Rightarrow> execution_mode \<times> run_output list" where
  "auto_replay_on_venue_disconnect_system changed venue l m =
     (if \<not> changed then (m, [])
      else if \<not> is_venue_live venue \<and> is_live_mode m
      then (EM_Replay, send l (TC_SetExecutionMode EM_Replay))
      else (m, []))"

text \<open>Which buttons are shown: the live segments, the run button, the replay-only buttons.\<close>

definition apply_venue_live_button_visibility_system ::
  "bool \<Rightarrow> venue_state \<Rightarrow> (execution_mode \<times> bool) list \<Rightarrow> (execution_mode \<times> bool) list" where
  "apply_venue_live_button_visibility_system changed venue segs =
     (if \<not> changed then segs
      else map (\<lambda>(seg, shown). (seg, if is_live_mode seg then is_venue_live venue else shown)) segs)"

definition apply_execution_mode_visibility_system ::
  "bool \<Rightarrow> execution_mode \<Rightarrow> bool \<times> bool \<times> bool \<Rightarrow> bool \<times> bool \<times> bool" where
  "apply_execution_mode_visibility_system changed m shown =
     (if \<not> changed then shown else (m = EM_Replay \<or> m = EM_LiveAuto, m = EM_Replay, m = EM_Replay))"

subsection \<open>The footer's texts\<close>

definition play_sign :: str where "play_sign = utf8 [0xE2, 0x96, 0xB6]"

text \<open>The clock: the formatter of an instant in Japan's zone may fail.\<close>

definition time_text :: "(int \<Rightarrow> str option) \<Rightarrow> (int \<Rightarrow> str) \<Rightarrow> str \<Rightarrow> execution_mode \<Rightarrow> int \<Rightarrow> str" where
  "time_text format_jst show_ms now m ts =
     (if m = EM_Replay
      then (if 0 < ts
            then (case format_jst ts of
                    Some t \<Rightarrow> ''time: '' @ t @ '' JST (replay)''
                  | None \<Rightarrow> ''time: '' @ show_ms ts @ '' ms (replay)'')
            else ''time: -- (replay)'')
      else ''time: '' @ now @ '' (live)'')"

definition venue_state_str :: "venue_state \<Rightarrow> str" where
  "venue_state_str v =
     (case v of VS_Disconnected \<Rightarrow> ''DISCONNECTED'' | VS_Authenticating \<Rightarrow> ''AUTHENTICATING''
      | VS_Connected \<Rightarrow> ''CONNECTED'' | VS_Subscribed \<Rightarrow> ''SUBSCRIBED''
      | VS_Reconnecting \<Rightarrow> ''RECONNECTING'' | VS_Error \<Rightarrow> ''ERROR'')"

definition venue_text :: "venue_status \<Rightarrow> str" where
  "venue_text v =
     (case vst_venue_id v of
        Some i \<Rightarrow> ''Venue: '' @ venue_state_str (vst_state v) @ '' ('' @ i @ '')''
      | None \<Rightarrow> ''Venue: '' @ venue_state_str (vst_state v))"

definition backend_text :: "bool \<Rightarrow> backend_status \<Rightarrow> str" where
  "backend_text enabled s =
     (if \<not> enabled then ''backend: DISABLED''
      else if bs_connected s then ''backend: OK''
      else if bs_last_error s \<noteq> None then ''backend: ERR''
      else ''backend: ...'')"

definition pause_label :: "execution_mode \<Rightarrow> str \<Rightarrow> run_state \<Rightarrow> str" where
  "pause_label m replay st =
     (case m of
        EM_Replay \<Rightarrow> if replay = ''RUNNING'' then ''||'' else play_sign
      | EM_LiveAuto \<Rightarrow> if st = RS_Running then ''||'' else play_sign
      | EM_LiveManual \<Rightarrow> play_sign)"

definition run_disabled :: "str \<Rightarrow> strategy_buffer \<Rightarrow> bool" where
  "run_disabled replay b \<longleftrightarrow> (replay = ''IDLE'' \<or> replay = ''LOADED'') \<and> sb_cache_path b = None"

record footer_texts =
  ft_time :: str
  ft_venue :: str
  ft_state :: str
  ft_backend :: str
  ft_pause :: str
  ft_pause_dimmed :: bool

definition update_footer_system ::
  "(int \<Rightarrow> str option) \<Rightarrow> (int \<Rightarrow> str) \<Rightarrow> str \<Rightarrow> bool \<Rightarrow> bool \<Rightarrow> trading_session \<Rightarrow> backend_status \<Rightarrow>
   strategy_buffer \<Rightarrow> venue_status \<Rightarrow> execution_mode \<Rightarrow> current_run \<Rightarrow> footer_texts \<Rightarrow> footer_texts" where
  "update_footer_system format_jst show_ms now changed enabled sess st b v m run old =
     (if m = EM_Replay \<and> \<not> changed then old
      else (let replay = unwrap_or ''IDLE'' (ts_replay_state sess) in
            \<lparr>ft_time = time_text format_jst show_ms now m (ts_timestamp_ms sess),
             ft_venue = venue_text v, ft_state = ''state: '' @ replay,
             ft_backend = backend_text enabled st, ft_pause = pause_label m replay (cr_state run),
             ft_pause_dimmed = run_disabled replay b\<rparr>))"

subsection \<open>The menus\<close>

datatype menu_top_level = MT_File | MT_Edit | MT_Venue | MT_Help

datatype menu_item =
    MI_SaveLayout | MI_SaveLayoutAs | MI_LoadLayout | MI_Undo | MI_Redo | MI_FileNew
  | MI_VenueConnectTachibanaDemo | MI_VenueConnectTachibanaProd
  | MI_VenueConnectKabuVerify | MI_VenueConnectKabuProd
  | MI_VenueDisconnect | MI_HelpSettings

datatype menu_output =
    MO_Command transport_command
  | MO_SaveLayout | MO_SaveLayoutAs | MO_LoadDialog | MO_Undo | MO_Redo | MO_SpawnSettings

definition toggle_menu :: "menu_top_level \<Rightarrow> menu_top_level option \<Rightarrow> menu_top_level option" where
  "toggle_menu m opened = (if opened = Some m then None else Some m)"

definition menu_top_level_system ::
  "menu_top_level list \<Rightarrow> menu_top_level option \<Rightarrow> menu_top_level option" where
  "menu_top_level_system tops opened = fold toggle_menu tops opened"

definition sync_menu_popup_visibility_system ::
  "bool \<Rightarrow> menu_top_level option \<Rightarrow> (menu_top_level \<times> bool) list \<Rightarrow> (menu_top_level \<times> bool) list" where
  "sync_menu_popup_visibility_system changed opened popups =
     (if \<not> changed then popups else map (\<lambda>(p, shown). (p, opened = Some p)) popups)"

text \<open>The keys held and just pressed; the second result says that the typed text is consumed.\<close>

definition menu_keyboard_system ::
  "bool \<Rightarrow> (char \<Rightarrow> bool) \<Rightarrow> menu_top_level option \<Rightarrow> menu_top_level option \<times> bool" where
  "menu_keyboard_system alt just_pressed opened =
     (if \<not> alt then (opened, False)
      else if just_pressed (CHR ''F'') then (toggle_menu MT_File opened, True)
      else if just_pressed (CHR ''E'') then (toggle_menu MT_Edit opened, True)
      else if just_pressed (CHR ''V'') then (toggle_menu MT_Venue opened, True)
      else if just_pressed (CHR ''H'') then (toggle_menu MT_Help opened, True)
      else (opened, False))"

definition menu_send :: "link \<Rightarrow> transport_command \<Rightarrow> menu_output list" where
  "menu_send l c = map MO_Command (link_send l c)"

definition send_venue_login :: "link \<Rightarrow> str \<Rightarrow> str \<Rightarrow> menu_output list" where
  "send_venue_login l venue env = menu_send l (TC_VenueLogin venue ''prompt'' env)"

definition venue_connect_is_tachibana :: "menu_item \<Rightarrow> bool" where
  "venue_connect_is_tachibana i \<longleftrightarrow> i \<in> {MI_VenueConnectTachibanaDemo, MI_VenueConnectTachibanaProd}"

definition venue_connect_is_kabu :: "menu_item \<Rightarrow> bool" where
  "venue_connect_is_kabu i \<longleftrightarrow> i \<in> {MI_VenueConnectKabuVerify, MI_VenueConnectKabuProd}"

definition gate_venue_menu_items_system ::
  "bool \<Rightarrow> venue_state \<Rightarrow> (menu_item \<times> bool) list \<Rightarrow> (menu_item \<times> bool) list" where
  "gate_venue_menu_items_system changed venue bs =
     (if \<not> changed then bs
      else map (\<lambda>(i, disabled).
        (i, if venue_connect_is_tachibana i \<or> venue_connect_is_kabu i then is_venue_busy_for_menu venue
            else disabled)) bs)"

definition hide_unconfigured_venue_items_system ::
  "bool \<Rightarrow> str option \<Rightarrow> (menu_item \<times> bool) list \<Rightarrow> (menu_item \<times> bool) list" where
  "hide_unconfigured_venue_items_system changed configured bs =
     (if \<not> changed then bs
      else map (\<lambda>(i, shown).
        (i, if \<not> venue_connect_is_tachibana i \<and> \<not> venue_connect_is_kabu i then shown
            else (case map_option to_ascii_uppercase configured of
                    Some v \<Rightarrow> \<not> (v = ''TACHIBANA'' \<and> venue_connect_is_kabu i) \<and>
                              \<not> (v = ''KABU'' \<and> venue_connect_is_tachibana i)
                  | None \<Rightarrow> True))) bs)"

text \<open>An item: the open menu closes in any case.\<close>

definition press_menu_item ::
  "link \<Rightarrow> execution_mode \<Rightarrow> venue_state \<Rightarrow> bool \<Rightarrow> menu_item \<Rightarrow> menu_output list" where
  "press_menu_item l m venue settings_open i =
     (case i of
        MI_SaveLayout \<Rightarrow> [MO_SaveLayout]
      | MI_SaveLayoutAs \<Rightarrow> [MO_SaveLayoutAs]
      | MI_LoadLayout \<Rightarrow>
          (if is_live_mode m then menu_send l (TC_SetExecutionMode EM_LiveAuto) else []) @ [MO_LoadDialog]
      | MI_Undo \<Rightarrow> [MO_Undo]
      | MI_Redo \<Rightarrow> [MO_Redo]
      | MI_FileNew \<Rightarrow> menu_send l TC_ForceStop @ menu_send l (TC_SetExecutionMode EM_LiveManual)
      | MI_VenueDisconnect \<Rightarrow> menu_send l TC_VenueLogout
      | MI_HelpSettings \<Rightarrow> if settings_open then [] else [MO_SpawnSettings]
      | _ \<Rightarrow>
          (if is_venue_busy_for_menu venue then []
           else (let (v, env) = (case i of
                        MI_VenueConnectTachibanaDemo \<Rightarrow> (''tachibana'', ''demo'')
                      | MI_VenueConnectTachibanaProd \<Rightarrow> (''tachibana'', ''prod'')
                      | MI_VenueConnectKabuVerify \<Rightarrow> (''kabu'', ''verify'')
                      | _ \<Rightarrow> (''kabu'', ''prod'')) in
                 send_venue_login l v env)))"

definition menu_item_system ::
  "link \<Rightarrow> execution_mode \<Rightarrow> venue_state \<Rightarrow> bool \<Rightarrow> menu_item list \<Rightarrow> menu_top_level option \<Rightarrow>
   menu_top_level option \<times> menu_output list" where
  "menu_item_system l m venue settings_open items opened =
     (if items = [] then opened else None, concat (map (press_menu_item l m venue settings_open) items))"

section \<open>Properties\<close>

subsection \<open>Starting a live run\<close>

lemma send_not_start [simp]:
  "OUT_Command (TC_StartLiveAuto i v p) \<notin> set (send l (TC_PauseLiveStrategy r))"
  "OUT_Command (TC_StartLiveAuto i v p) \<notin> set (send l (TC_ResumeLiveStrategy r))"
  by (auto simp: send_def link_send_def)

lemma flush_editors_cases:
  assumes "flush_editors e s = (r, s')"
  shows "ry_run s' = ry_run s \<and> sb_cache_path (ry_buffer s') = sb_cache_path (ry_buffer s) \<and>
    (case r of
       Inr True \<Rightarrow> \<exists>p. sb_cache_path (ry_buffer s) = Some p \<and>
         ry_files s' p = Some (merge_fragments (collect_items (fe_editors e))) \<and>
         \<not> as_dirty (ry_auto_save s')
     | Inr False \<Rightarrow> sb_cache_path (ry_buffer s) = None \<and> s' = s
     | Inl err \<Rightarrow> ry_buffer s' = ry_buffer s \<and> ry_auto_save s' = ry_auto_save s)"
  using assms
  by (auto simp: flush_editors_def io_defs Let_def split: option.splits)

text \<open>What holds when a live run has been started.\<close>

definition live_started :: "footer_env \<Rightarrow> run_sys \<Rightarrow> str \<Rightarrow> str \<Rightarrow> path \<Rightarrow> run_sys \<Rightarrow> bool" where
  "live_started e s i v p s' \<longleftrightarrow>
     is_venue_live (vst_state (fe_venue e)) \<and> i \<in> set (sm_instruments (fe_scenario e)) \<and>
     (vst_venue_id (fe_venue e) = Some v \<or> (vst_venue_id (fe_venue e) = None \<and> vst_configured_venue (fe_venue e) = Some v)) \<and>
     sb_cache_path (ry_buffer s) = Some p \<and>
     ry_files s' p = Some (merge_fragments (collect_items (fe_editors e))) \<and>
     cr_state (ry_run s') = RS_Running"

lemma live_instrument_listed: "live_instrument is sel = Some i \<Longrightarrow> i \<in> set is"
  by (auto simp: live_instrument_def list_ex_iff split: list.splits option.splits if_splits)

lemma start_live_cases:
  assumes "start_live e s = (s', outs)"
  shows "sb_cache_path (ry_buffer s') = sb_cache_path (ry_buffer s) \<and>
    (outs = [] \<or> (\<exists>i v p. outs = [OUT_Command (TC_StartLiveAuto i v p)] \<and> live_started e s i v p s'))"
proof -
  obtain r s1 where f: "flush_editors e s = (r, s1)" by (cases "flush_editors e s")
  show ?thesis
    using assms flush_editors_cases [OF f] live_instrument_listed [of "sm_instruments (fe_scenario e)" "fe_selected e"]
    by (auto simp: start_live_def f live_started_def run_failed_def split: option.splits if_splits sum.splits bool.splits)
qed

lemma press_run_live_cases:
  assumes "press_run_live e s = (s', outs)"
  shows "sb_cache_path (ry_buffer s') = sb_cache_path (ry_buffer s)"
    and "cr_state (ry_run s) = RS_Running \<Longrightarrow> s' = s \<and> (\<forall>i v p. OUT_Command (TC_StartLiveAuto i v p) \<notin> set outs)"
    and "OUT_Command (TC_StartLiveAuto i v p) \<in> set outs \<Longrightarrow>
      outs = [OUT_Command (TC_StartLiveAuto i v p)] \<and> live_started e s i v p s'"
  using assms start_live_cases [of e s s' outs]
  by (auto simp: press_run_live_def split: option.splits if_splits run_state.splits)

lemma running_presses:
  "cr_state (ry_run s) = RS_Running \<Longrightarrow> each_press (\<lambda>_. press_run_live e) ps s = (s', outs) \<Longrightarrow>
   s' = s \<and> (\<forall>i v p. OUT_Command (TC_StartLiveAuto i v p) \<notin> set outs)"
proof (induction ps arbitrary: outs)
  case (Cons u ps)
  obtain s1 out1 where one: "press_run_live e s = (s1, out1)" by (cases "press_run_live e s")
  obtain outs2 where rest: "each_press (\<lambda>_. press_run_live e) ps s1 = (s', outs2)" and outs: "outs = out1 @ outs2"
    using Cons.prems one by (auto split: prod.splits)
  from press_run_live_cases(2) [OF one Cons.prems(1)] Cons.IH [OF Cons.prems(1)] rest show ?case
    by (auto simp: outs)
qed simp

lemma press_run_live_out_other:
  "press_run_live e s = (s', outs) \<Longrightarrow> (\<forall>i v p. OUT_Command (TC_StartLiveAuto i v p) \<notin> set outs) \<or> length outs = 1"
  using start_live_cases [of e s s' outs]
  by (auto simp: press_run_live_def split: option.splits if_splits run_state.splits)

lemma live_presses:
  "each_press (\<lambda>_. press_run_live e) ps s = (s', outs) \<Longrightarrow>
   length (filter (\<lambda>o'. \<exists>i v p. o' = OUT_Command (TC_StartLiveAuto i v p)) outs) \<le> 1 \<and>
   (OUT_Command (TC_StartLiveAuto i v p) \<in> set outs \<longrightarrow> live_started e s i v p s')"
proof (induction ps arbitrary: s outs)
  case (Cons u ps)
  let ?st = "\<lambda>o'. \<exists>i v p. o' = OUT_Command (TC_StartLiveAuto i v p)"
  obtain s1 out1 where one: "press_run_live e s = (s1, out1)" by (cases "press_run_live e s")
  obtain outs2 where rest: "each_press (\<lambda>_. press_run_live e) ps s1 = (s', outs2)" and outs: "outs = out1 @ outs2"
    using Cons.prems one by (auto split: prod.splits)
  show ?case
  proof (cases "filter ?st out1 = []")
    case True
    then have no: "\<forall>i v p. OUT_Command (TC_StartLiveAuto i v p) \<notin> set out1"
      by (auto simp: filter_empty_conv)
    have "live_started e s1 i v p s' \<Longrightarrow> live_started e s i v p s'"
      using press_run_live_cases(1) [OF one] by (simp add: live_started_def)
    with Cons.IH [OF rest] True no show ?thesis by (auto simp: outs)
  next
    case False
    then obtain i' v' p' where m: "OUT_Command (TC_StartLiveAuto i' v' p') \<in> set out1"
      by (auto simp: filter_empty_conv)
    note started = press_run_live_cases(3) [OF one m]
    then have run: "cr_state (ry_run s1) = RS_Running" by (simp add: live_started_def)
    note quiet = running_presses [OF run rest]
    then have "filter ?st outs2 = []" by (auto simp: filter_empty_conv)
    with started quiet show ?thesis by (auto simp: outs)
  qed
qed simp

text \<open>C6: however often the run button is pressed in a frame of the automatic live mode, at most one
  live run is started; when one is, the venue is live, the instrument is one of the scenario, the
  venue is the one reported or else configured, the file handed over holds exactly the merged
  editors, and the run counts as running.\<close>

theorem live_start_is_guarded:
  assumes "footer_pause_resume_system e presses s = (s', outs)" and "fe_mode e = EM_LiveAuto"
  shows "length (filter (\<lambda>out. case out of OUT_Command (TC_StartLiveAuto i v p) \<Rightarrow> True | _ \<Rightarrow> False) outs) \<le> 1 \<and>
    list_all (\<lambda>out. case out of OUT_Command (TC_StartLiveAuto i v p) \<Rightarrow> live_started e s i v p s' | _ \<Rightarrow> True) outs"
proof -
  have run: "each_press (\<lambda>_. press_run_live e) presses s = (s', outs)"
    using assms by (simp add: footer_pause_resume_system_def)
  have "(case out of OUT_Command (TC_StartLiveAuto i v p) \<Rightarrow> True | _ \<Rightarrow> False) \<longleftrightarrow>
      (\<exists>i v p. out = OUT_Command (TC_StartLiveAuto i v p))" for out
    by (auto split: run_output.split transport_command.split)
  moreover have "case out of OUT_Command (TC_StartLiveAuto i v p) \<Rightarrow> live_started e s i v p s' | _ \<Rightarrow> True"
    if "out \<in> set outs" for out
    using that live_presses [OF run] by (auto split: run_output.split transport_command.split)
  ultimately show ?thesis
    using live_presses [OF run] by (simp add: list_all_iff)
qed

subsection \<open>The second live run\<close>

text \<open>What can happen after a start: a press of the button, or an event of the backend. The rest of
  the interface may be in any state when the event is reduced.\<close>

datatype live_input = LI_Press | LI_Event backend_event

inductive live_step :: "footer_env \<Rightarrow> live_input \<Rightarrow> run_sys \<Rightarrow> run_output list \<Rightarrow> run_sys \<Rightarrow> bool"
  for e where
  press: "press_run_live e s = (s', outs) \<Longrightarrow> live_step e LI_Press s outs s'"
| event: "w_run w = ry_run s \<Longrightarrow>
    live_step e (LI_Event ev) s [] (s\<lparr>ry_run := w_run (apply_backend_event ev w)\<rparr>)"

inductive live_path :: "footer_env \<Rightarrow> live_input list \<Rightarrow> run_sys \<Rightarrow> run_output list \<Rightarrow> run_sys \<Rightarrow> bool"
  for e where
  stop: "live_path e [] s [] s"
| go: "live_step e x s outs s1 \<Longrightarrow> live_path e xs s1 outs' s2 \<Longrightarrow> live_path e (x # xs) s (outs @ outs') s2"

inductive_simps live_press [simp]: "live_step e LI_Press s outs s'"

inductive_cases live_event: "live_step e (LI_Event ev) s outs s'"

fun input_run_id :: "live_input \<Rightarrow> str option" where
  "input_run_id LI_Press = None"
| "input_run_id (LI_Event ev) = event_run_id ev"

lemma stuck_step:
  assumes "live_step e x s outs s'" and "input_run_id x \<noteq> Some old"
    and "cr_state (ry_run s) = RS_Running" and "cr_run_id (ry_run s) = Some old"
  shows "s' = s \<and> set outs \<subseteq> set (send (fe_link e) (TC_PauseLiveStrategy old))"
  using assms(1)
proof (cases rule: live_step.cases)
  case press
  then show ?thesis using assms(3,4) by (simp add: press_run_live_def)
next
  case (event w ev)
  have "w_run (apply_backend_event ev w) = w_run w"
    by (rule foreign_event_run [of w old]) (use assms event in \<open>auto simp: run_is_over_def\<close>)
  with event show ?thesis by simp
qed

lemma stuck_path:
  "live_path e xs s outs s' \<Longrightarrow> list_all (\<lambda>x. input_run_id x \<noteq> Some old) xs \<Longrightarrow>
   cr_state (ry_run s) = RS_Running \<Longrightarrow> cr_run_id (ry_run s) = Some old \<Longrightarrow>
   s' = s \<and> set outs \<subseteq> set (send (fe_link e) (TC_PauseLiveStrategy old))"
proof (induction rule: live_path.induct)
  case (go x s outs s1 xs outs' s2)
  then have "s1 = s \<and> set outs \<subseteq> set (send (fe_link e) (TC_PauseLiveStrategy old))"
    by (intro stuck_step) auto
  with go show ?case by auto
qed simp

text \<open>C26: the id of a finished run stays, and the button that starts the next live run marks it
  running; so every event of the new run is taken for a foreign one. Whatever is pressed and whatever
  arrives from then on, as long as it is not about the old run, nothing of the new run is ever shown,
  and every press only asks to pause the old one.\<close>

theorem second_live_run_never_shown:
  assumes "start_live e s = (s', [OUT_Command (TC_StartLiveAuto i v p)])"
    and "cr_run_id (ry_run s) = Some old"
    and "live_path e xs s' outs s''" and "list_all (\<lambda>x. input_run_id x \<noteq> Some old) xs"
  shows "s'' = s' \<and> cr_run_id (ry_run s'') = Some old \<and> cr_state (ry_run s'') = RS_Running \<and>
    set outs \<subseteq> set (send (fe_link e) (TC_PauseLiveStrategy old))"
proof -
  have run: "cr_state (ry_run s') = RS_Running"
    using start_live_cases [OF assms(1)] by (auto simp: live_started_def)
  obtain r s1 where f: "flush_editors e s = (r, s1)" by (cases "flush_editors e s")
  have "cr_run_id (ry_run s') = Some old"
    using assms(1,2) flush_editors_cases [OF f]
    by (auto simp: start_live_def f run_failed_def split: option.splits if_splits sum.splits bool.splits)
  with run stuck_path [OF assms(3,4)] show ?thesis by simp
qed

subsection \<open>Every run runs what the editors show\<close>

lemma press_run_replay_ready:
  assumes "OUT_RunRequested p \<in> set (snd (press_run_replay e s))"
  shows "let s' = fst (press_run_replay e s) in
    sb_cache_path (ry_buffer s) = Some p \<and>
    ry_files s' p = Some (merge_fragments (collect_items (fe_editors e))) \<and> \<not> as_dirty (ry_auto_save s')"
proof -
  obtain r s1 where f: "flush_editors e s = (r, s1)" by (cases "flush_editors e s")
  show ?thesis
    using assms flush_editors_cases [OF f]
    by (auto simp: press_run_replay_def f send_def Let_def split: option.splits if_splits sum.splits bool.splits)
qed

text \<open>A replay run is asked for only when the backend does not report one running or paused, and
  then the cached file already holds exactly the merged editors and nothing is left to save; the same
  holds for a single step from the idle state.\<close>

theorem run_request_has_the_editors:
  assumes "press_run_replay e s = (s1, outs1)" and "press_step_forward e s = (s2, outs2)"
  shows "list_all (\<lambda>out. case out of
      OUT_RunRequested p \<Rightarrow>
        fe_replay_state e \<notin> {Some ''RUNNING'', Some ''PAUSED''} \<and> sb_cache_path (ry_buffer s) = Some p \<and>
        ry_files s1 p = Some (merge_fragments (collect_items (fe_editors e))) \<and> \<not> as_dirty (ry_auto_save s1)
    | _ \<Rightarrow> True) outs1 \<and>
    list_all (\<lambda>out. case out of
      OUT_StepRequested p \<Rightarrow>
        fe_replay_state e \<in> {None, Some ''IDLE''} \<and> sb_cache_path (ry_buffer s) = Some p \<and>
        ry_files s2 p = Some (merge_fragments (collect_items (fe_editors e))) \<and> \<not> as_dirty (ry_auto_save s2)
    | _ \<Rightarrow> True) outs2"
proof -
  obtain r s3 where f: "flush_editors e s = (r, s3)" by (cases "flush_editors e s")
  note fc = flush_editors_cases [OF f]
  have a: "list_all (\<lambda>out. case out of
      OUT_RunRequested p \<Rightarrow>
        fe_replay_state e \<notin> {Some ''RUNNING'', Some ''PAUSED''} \<and> sb_cache_path (ry_buffer s) = Some p \<and>
        ry_files s1 p = Some (merge_fragments (collect_items (fe_editors e))) \<and> \<not> as_dirty (ry_auto_save s1)
    | _ \<Rightarrow> True) outs1"
    using assms(1) fc
    by (auto simp: press_run_replay_def f send_def link_send_def Let_def split: option.splits if_splits sum.splits bool.splits)
  have b: "list_all (\<lambda>out. case out of
      OUT_StepRequested p \<Rightarrow>
        fe_replay_state e \<in> {None, Some ''IDLE''} \<and> sb_cache_path (ry_buffer s) = Some p \<and>
        ry_files s2 p = Some (merge_fragments (collect_items (fe_editors e))) \<and> \<not> as_dirty (ry_auto_save s2)
    | _ \<Rightarrow> True) outs2"
    using assms(2) fc
    by (cases "fe_replay_state e")
      (auto simp: press_step_forward_def f send_def link_send_def unwrap_or_def Let_def
        split: option.splits if_splits sum.splits bool.splits)
  from a b show ?thesis ..
qed

text \<open>C27: with no editor window open, or only blank ones, a press of the run button replaces the
  strategy in the cache by an empty file, and asks to run that: the check that a strategy is loaded
  only looks at the path.\<close>

theorem run_without_editors_empties_cache:
  assumes "collect_items (fe_editors e) = []" and "sb_cache_path (ry_buffer s) = Some p"
    and "fe_replay_state e \<in> {Some ''IDLE'', Some ''LOADED''}" and "fe_fault e p [] = None"
  shows "let (s', outs) = press_run_replay e s in outs = [OUT_RunRequested p] \<and> ry_files s' p = Some []"
  using assms
  by (auto simp: press_run_replay_def flush_editors_def io_defs
      merge_fragments_def Let_def)

subsection \<open>Modes and menus\<close>

text \<open>No live mode is asked for while the venue is disconnected or in error, the current mode is
  not asked for again, and when the venue turns out not to be live the mode falls back to the replay
  in the same frame, with the backend told.\<close>

theorem live_mode_needs_the_venue:
  "execution_mode_toggle_system m venue l [target] \<in>
     (if m = target \<or> (is_live_mode target \<and> venue \<in> {VS_Disconnected, VS_Error}) then {[]}
      else {send l (TC_SetExecutionMode target)}) \<and>
   (let (m', outs) = auto_replay_on_venue_disconnect_system True venue l m in
      (\<not> is_live_mode m' \<or> is_venue_live venue) \<and>
      outs = (if m' = m then [] else send l (TC_SetExecutionMode m')))"
  by (auto simp: execution_mode_toggle_system_def press_mode_segment_def
      auto_replay_on_venue_disconnect_system_def)

text \<open>The commands of the menus, over all items: a login is asked for only when the venue is
  disconnected; a new file stops the run before it switches the mode; opening in a live mode asks for
  the automatic one before the dialog. Every press closes the menu, and the titles toggle.\<close>

theorem menu_items_guarded:
  "list_all (\<lambda>i. list_all (\<lambda>out. case out of MO_Command (TC_VenueLogin v src env) \<Rightarrow>
        venue = VS_Disconnected \<and> src = ''prompt'' | _ \<Rightarrow> True) (press_menu_item l m venue open' i)) items \<and>
   press_menu_item OpenSender m venue open' MI_FileNew =
     [MO_Command TC_ForceStop, MO_Command (TC_SetExecutionMode EM_LiveManual)] \<and>
   press_menu_item OpenSender m venue open' MI_LoadLayout =
     (if is_live_mode m then [MO_Command (TC_SetExecutionMode EM_LiveAuto), MO_LoadDialog] else [MO_LoadDialog]) \<and>
   fst (menu_item_system l m venue open' (i # items) opened) = None \<and>
   toggle_menu t (toggle_menu t None) = None"
proof -
  have one: "list_all (\<lambda>out. case out of MO_Command (TC_VenueLogin v src env) \<Rightarrow>
        venue = VS_Disconnected \<and> src = ''prompt'' | _ \<Rightarrow> True) (press_menu_item l m venue open' i)" for i
    by (cases i; cases venue)
      (auto simp: press_menu_item_def menu_send_def send_venue_login_def link_send_def is_venue_busy_for_menu_def)
  show ?thesis
    using one
    by (auto simp: list_all_iff press_menu_item_def menu_send_def menu_item_system_def toggle_menu_def)
qed

subsection \<open>Witnesses\<close>

definition sample_footer :: footer_env where
  "sample_footer =
     \<lparr>fe_mode = EM_LiveAuto, fe_replay_state = Some ''IDLE'', fe_link = OpenSender, fe_editors = [],
      fe_selected = None, fe_scenario = scenario_default\<lparr>sm_instruments := [''7203'']\<rparr>,
      fe_registry = registry_default,
      fe_venue = \<lparr>vst_state = VS_Connected, vst_venue_id = Some ''tachibana'', vst_instruments_loaded = 0,
                  vst_configured_venue = None\<rparr>,
      fe_fault = (\<lambda>p s. None)\<rparr>"

definition sample_run_sys :: run_sys where
  "sample_run_sys =
     \<lparr>ry_buffer = \<lparr>sb_original_path = None, sb_cache_path = Some ''c/app_state.py'', sb_last_merged_source = None\<rparr>,
      ry_auto_save = \<lparr>as_dirty = True, as_last_change = None\<rparr>, ry_files = Map.empty,
      ry_run = (w_run world_default)\<lparr>cr_run_id := Some ''run-1'', cr_state := RS_Stopped\<rparr>\<rparr>"

lemma sample_collect [simp]: "collect_items (fe_editors sample_footer) = []"
  by (simp add: sample_footer_def collect_items_def)

lemma sample_start:
  "start_live sample_footer sample_run_sys =
     (sample_run_sys\<lparr>ry_buffer := (ry_buffer sample_run_sys)\<lparr>sb_last_merged_source := Some []\<rparr>,
        ry_auto_save := \<lparr>as_dirty = False, as_last_change = None\<rparr>,
        ry_files := [''c/app_state.py'' \<mapsto> []], ry_run := (ry_run sample_run_sys)\<lparr>cr_state := RS_Running\<rparr>\<rparr>,
      [OUT_Command (TC_StartLiveAuto ''7203'' ''tachibana'' ''c/app_state.py'')])"
  by (simp add: start_live_def flush_editors_def io_defs merge_fragments_def
      live_instrument_def collect_items_def sample_footer_def sample_run_sys_def)

lemma sample_run_id: "cr_run_id (ry_run sample_run_sys) = Some ''run-1''"
  by (simp add: sample_run_sys_def)

lemma live_start_is_guarded_witness:
  "length (filter (\<lambda>out. case out of OUT_Command (TC_StartLiveAuto i v p) \<Rightarrow> True | _ \<Rightarrow> False)
     (snd (footer_pause_resume_system sample_footer [(), ()] sample_run_sys))) \<le> 1"
  using live_start_is_guarded [of sample_footer "[(), ()]" sample_run_sys] prod.collapse
  by (metis (no_types, lifting) footer_env.select_convs(1) sample_footer_def)

lemma sample_event:
  "live_path sample_footer [LI_Event (BE_LiveStrategyEvent ''run-2'' ''s'' ''RUNNING'' 5)] s1 []
     (s1\<lparr>ry_run := reduce_live_strategy_event ''run-2'' ''s'' ''RUNNING'' 5 (ry_run s1)\<rparr>)"
  using live_path.go [OF live_step.event [where ev = "BE_LiveStrategyEvent ''run-2'' ''s'' ''RUNNING'' 5"] live_path.stop,
      of "world_default\<lparr>w_run := ry_run s1\<rparr>" s1 sample_footer]
  by simp

lemma second_live_run_never_shown_witness:
  "reduce_live_strategy_event ''run-2'' ''s'' ''RUNNING'' 5 (ry_run (fst (start_live sample_footer sample_run_sys))) =
   ry_run (fst (start_live sample_footer sample_run_sys))"
proof -
  let ?s = "fst (start_live sample_footer sample_run_sys)"
  have "?s\<lparr>ry_run := reduce_live_strategy_event ''run-2'' ''s'' ''RUNNING'' 5 (ry_run ?s)\<rparr> = ?s"
    using second_live_run_never_shown [OF sample_start sample_run_id sample_event] by (simp add: sample_start)
  then have "ry_run (?s\<lparr>ry_run := reduce_live_strategy_event ''run-2'' ''s'' ''RUNNING'' 5 (ry_run ?s)\<rparr>) = ry_run ?s"
    by (rule arg_cong)
  then show ?thesis by simp
qed

lemma run_request_has_the_editors_witness:
  "list_all (\<lambda>out. case out of OUT_RunRequested p \<Rightarrow> p = ''c/app_state.py'' | _ \<Rightarrow> True)
     (snd (press_run_replay sample_footer sample_run_sys))"
  using run_request_has_the_editors [of sample_footer sample_run_sys, OF prod.collapse [symmetric] prod.collapse [symmetric]]
  by (auto simp: list_all_iff sample_run_sys_def split: run_output.splits)

lemma run_without_editors_empties_cache_witness:
  "snd (press_run_replay sample_footer sample_run_sys) = [OUT_RunRequested ''c/app_state.py'']"
  using run_without_editors_empties_cache [of sample_footer sample_run_sys "''c/app_state.py''"]
  by (auto simp: sample_footer_def sample_run_sys_def collect_items_def split: prod.splits)

end
