(* ===== verification/Strategy_Run.thy ===== *)
theory Strategy_Run
  imports Run_Control
begin

text \<open>
  Opening a strategy file, keeping the cache beside it, and turning a request to run or to step into
  a command (the handlers of \<open>src/ui/menu_bar.rs\<close>). The environment gives the cache
  directory, the faults of creating, writing and removing, and the typed parsers of the JSON crate.
  A copy reads the source and writes the target. Windows are entity numbers with their kind.
\<close>

subsection \<open>The cache\<close>

record cache_env =
  ce_env_dir :: "path option"
  ce_os_cache_dir :: "path option"
  ce_mkdir_fault :: "path \<Rightarrow> str option"
  ce_write_fault :: io_fault
  ce_remove_fault :: "path \<Rightarrow> bool"

text \<open>The state file and the strategy file of the cache.\<close>

definition cache_state_paths :: "cache_env \<Rightarrow> (path \<times> path) option" where
  "cache_state_paths ce =
     (case (case ce_env_dir ce of
              Some d \<Rightarrow> Some d
            | None \<Rightarrow> map_option (\<lambda>d. path_join d ''the-trader-was-replaced'') (ce_os_cache_dir ce)) of
        None \<Rightarrow> None
      | Some dir \<Rightarrow> Some (path_join dir ''app_state.json'', path_join dir ''app_state.py''))"

definition fs_copy :: "io_fault \<Rightarrow> path \<Rightarrow> path \<Rightarrow> files \<Rightarrow> str option \<times> files" where
  "fs_copy fault src dst fs =
     (case fs src of None \<Rightarrow> (Some ''not found'', fs) | Some s \<Rightarrow> fs_write fault dst s fs)"

declare fs_copy_def [io_defs]

definition path_extension :: "path \<Rightarrow> str option" where
  "path_extension p =
     (case path_file_name p of
        None \<Rightarrow> None
      | Some n \<Rightarrow>
          (if rev (drop 1 (dropWhile (\<lambda>c. c \<noteq> CHR ''.'') (rev n))) = [] then None
           else Some (rev (takeWhile (\<lambda>c. c \<noteq> CHR ''.'') (rev n)))))"

text \<open>The stale copy goes first, so that a sidecar that no longer exists leaves none behind; a
  failed removal or copy is only logged.\<close>

definition copy_sidecar_to_cache :: "cache_env \<Rightarrow> path \<Rightarrow> path \<Rightarrow> files \<Rightarrow> files" where
  "copy_sidecar_to_cache ce original cache fs =
     (let fs1 = (if fs cache \<noteq> None \<and> \<not> ce_remove_fault ce cache then fs(cache := None) else fs) in
      if fs1 original \<noteq> None then snd (fs_copy (ce_write_fault ce) original cache fs1) else fs1)"

definition sync_to_cache :: "cache_env \<Rightarrow> path \<Rightarrow> files \<Rightarrow> str option \<times> files" where
  "sync_to_cache ce original_py fs =
     (if path_extension original_py \<noteq> Some ''py'' then (None, fs)
      else (case cache_state_paths ce of
              None \<Rightarrow> (Some ''cache_dir not found'', fs)
            | Some (cache_json, cache_py) \<Rightarrow>
                (case Option.bind (path_parent cache_py) (ce_mkdir_fault ce) of
                   Some err \<Rightarrow> (Some err, fs)
                 | None \<Rightarrow>
                     (case fs_copy (ce_write_fault ce) original_py cache_py fs of
                        (Some err, fs1) \<Rightarrow> (Some err, fs1)
                      | (None, fs1) \<Rightarrow>
                          (None, copy_sidecar_to_cache ce (with_extension ''json'' original_py) cache_json fs1)))))"

text \<open>At the start of the program: the layout read from the cache, when there is one.\<close>

definition restore_last_strategy_system :: "cache_env \<Rightarrow> (str \<Rightarrow> 'l option) \<Rightarrow> files \<Rightarrow> 'l list" where
  "restore_last_strategy_system ce parse_layout fs =
     (case cache_state_paths ce of
        None \<Rightarrow> []
      | Some (cache_json, cache_py) \<Rightarrow>
          (if fs cache_json = None then []
           else (case read_json_with_bom_strip fs cache_json of
                   None \<Rightarrow> []
                 | Some txt \<Rightarrow> (case parse_layout txt of None \<Rightarrow> [] | Some l \<Rightarrow> [l]))))"

definition sidecar_has_windows :: "(str \<Rightarrow> json option) \<Rightarrow> files \<Rightarrow> path \<Rightarrow> bool" where
  "sidecar_has_windows parse fs p \<longleftrightarrow>
     (case Option.bind (read_json_with_bom_strip fs p) parse of
        None \<Rightarrow> False
      | Some v \<Rightarrow> (case json_get ''windows'' v of None \<Rightarrow> False | Some w \<Rightarrow> w \<noteq> JNull))"

subsection \<open>Opening a strategy file\<close>

datatype panel_kind =
    PK_Chart | PK_StrategyEditor | PK_BuyingPower | PK_RunResult | PK_Positions | PK_Orders | PK_Order
  | PK_Startup

datatype strategy_load_mode = SLM_UserOpen | SLM_LayoutRestore

datatype load_output = LO_Despawn nat | LO_SpawnEditor str str | LO_LoadLayout path

record pending_fragments =
  pf_by_region_key :: "str \<Rightarrow> str option"
  pf_loaded_for_path :: "path option"

record load_sys =
  ls_buffer :: strategy_buffer
  ls_allocator :: region_key_allocator
  ls_pending :: pending_fragments
  ls_target :: "path option"
  ls_files :: files

definition cache_path_for_load :: "cache_env \<Rightarrow> path option" where
  "cache_path_for_load ce =
     (case cache_state_paths ce of
        None \<Rightarrow> None
      | Some (cache_json, cache_py) \<Rightarrow>
          (case path_parent cache_py of
             None \<Rightarrow> None
           | Some dir \<Rightarrow> (if ce_mkdir_fault ce dir = None then Some cache_py else None)))"

definition load_one ::
  "cache_env \<Rightarrow> (str \<Rightarrow> json option) \<Rightarrow> (nat \<times> panel_kind) list \<Rightarrow> path \<times> strategy_load_mode \<Rightarrow> load_sys \<Rightarrow>
   load_sys \<times> load_output list" where
  "load_one ce parse roots ev s =
     (let (p, mode) = ev in
      case ls_files s p of
        None \<Rightarrow> (s, [])
      | Some source \<Rightarrow>
          (let outcome = split_py_into_fragments source; frags = so_fragments outcome;
               sidecar = with_extension ''json'' p;
               b1 = (ls_buffer s)\<lparr>sb_original_path := Some p, sb_last_merged_source := None,
                                  sb_cache_path := cache_path_for_load ce\<rparr>;
               s1 = s\<lparr>ls_buffer := b1, ls_target := Some sidecar,
                      ls_allocator := bump_to_at_least (of_nat (so_max_numeric_suffix outcome)) (ls_allocator s),
                      ls_pending := \<lparr>pf_by_region_key = fold (\<lambda>(k, b) m. m(k \<mapsto> b)) frags Map.empty,
                                     pf_loaded_for_path = Some p\<rparr>\<rparr>;
               despawn = (if mode \<noteq> SLM_LayoutRestore
                          then map (\<lambda>(en, k). LO_Despawn en) (filter (\<lambda>(en, k). k = PK_StrategyEditor) roots)
                          else []);
               spawns = map (\<lambda>(k, b). LO_SpawnEditor k b) frags;
               exists = (ls_files s sidecar \<noteq> None);
               windows = sidecar_has_windows parse (ls_files s) sidecar;
               opened = (if mode = SLM_LayoutRestore then []
                       else if exists \<and> windows then [LO_LoadLayout sidecar]
                       else if exists then spawns @ [LO_LoadLayout sidecar]
                       else spawns) in
           (s1\<lparr>ls_files := snd (sync_to_cache ce p (ls_files s1))\<rparr>, despawn @ opened)))"

definition handle_strategy_file_load_system ::
  "cache_env \<Rightarrow> (str \<Rightarrow> json option) \<Rightarrow> (nat \<times> panel_kind) list \<Rightarrow> (path \<times> strategy_load_mode) list \<Rightarrow>
   load_sys \<Rightarrow> load_sys \<times> load_output list" where
  "handle_strategy_file_load_system ce parse roots evs s = each_press (load_one ce parse roots) evs s"

subsection \<open>The label of the strategy\<close>

definition source_lines :: "str \<Rightarrow> nat" where
  "source_lines src = (if src = [] then 0 else length (filter (\<lambda>c. c = newline) src) + 1)"

definition plural :: "nat \<Rightarrow> str" where "plural n = (if n = 1 then [] else ''s'')"

definition strategy_label :: "strategy_buffer \<Rightarrow> strategy_fragment list \<Rightarrow> str" where
  "strategy_label b frags =
     (let n = length frags; dirty = length (filter sf_dirty frags);
          total = sum_list (map (\<lambda>f. source_lines (sf_source f)) frags);
          mark = (if 0 < dirty then '' *'' else []);
          counts = '' ['' @ show_nat n @ '' region'' @ plural n @ '', '' @ show_nat total @ '' line'' @ plural total in
      case sb_original_path b of
        Some p \<Rightarrow>
          ''strategy: '' @ (case path_file_name p of Some f \<Rightarrow> f | None \<Rightarrow> ''<unnamed>'') @
          (if sb_cache_path b \<noteq> None then '' cached'' else []) @ mark @ counts @
          (if 0 < dirty then '', '' @ show_nat dirty @ '' dirty'' else []) @ '']''
      | None \<Rightarrow> (if 0 < n then ''strategy: untitled'' @ mark @ counts @ '']'' else ''strategy: none''))"

subsection \<open>From the request to the command\<close>

record run_env =
  re_param_errors :: bool
  re_scenario :: scenario_metadata
  re_link :: link
  re_registry :: instrument_registry
  re_cache_sidecar :: "path option"
  re_disk :: json_disk
  re_mtime :: "path \<Rightarrow> nat option"
  re_session_ms :: int
  re_elapsed :: nat

type_synonym startup_sys = "replay_startup_progress \<times> current_run \<times> files"

text \<open>The checks before a run: start, end and granularity when all pass; an editable registry is
  written into the cached sidecar as the last of them.\<close>

definition start_checks :: "run_env \<Rightarrow> files \<Rightarrow> (str \<times> str \<times> str) option \<times> files" where
  "start_checks e fs =
     (let sc = re_scenario e in
      if re_param_errors e then (None, fs)
      else if sm_instruments sc = [] then (None, fs)
      else (case (sm_start sc, sm_end sc, sm_granularity sc) of
              (Some st, Some en, Some g) \<Rightarrow>
                (if ir_editable (re_registry e)
                 then (case flush_sidecars_now (re_disk e) (re_mtime e) (ir_ids (re_registry e)) None
                              (re_cache_sidecar e) fs of
                         (Inl err, fs1) \<Rightarrow> (None, fs1)
                       | (Inr m, fs1) \<Rightarrow> (Some (st, en, g), fs1))
                 else (Some (st, en, g), fs))
            | _ \<Rightarrow> (None, fs)))"

definition begin_startup :: "run_env \<Rightarrow> path \<Rightarrow> replay_startup_progress \<Rightarrow> replay_startup_progress" where
  "begin_startup e p pr =
     pr\<lparr>rsp_next_startup_id := rsp_next_startup_id pr + 1, rsp_startup_id := rsp_next_startup_id pr,
        rsp_visible := True, rsp_phase := RP_CommandAccepted, rsp_detail := path_file_name p,
        rsp_error := None, rsp_started_at_elapsed := Some (re_elapsed e),
        rsp_baseline_timestamp_ms := Some (re_session_ms e), rsp_start_engine_accepted := False\<rparr>"

definition run_config :: "run_env \<Rightarrow> str list \<Rightarrow> str \<times> str \<times> str \<Rightarrow> strategy_run_config" where
  "run_config e instruments ps =
     (let (st, en, g) = ps in
      \<lparr>rc_instruments = instruments, rc_start = st, rc_end = en, rc_granularity = g,
       rc_initial_cash = sm_initial_cash (re_scenario e)\<rparr>)"

definition handle_run_request :: "run_env \<Rightarrow> path \<Rightarrow> startup_sys \<Rightarrow> startup_sys \<times> transport_command list" where
  "handle_run_request e p s =
     (let (pr, run, fs) = s in
      case start_checks e fs of
        (None, fs1) \<Rightarrow> ((pr, run, fs1), [])
      | (Some ps, fs1) \<Rightarrow>
          (if re_link e \<noteq> OpenSender then ((pr, run, fs1), [])
           else ((begin_startup e p pr, run\<lparr>cr_state := RS_Running\<rparr>, fs1),
                 [TC_RunStrategy p (run_config e (registry_or_scenario (re_registry e) (re_scenario e)) ps)
                    (rsp_next_startup_id pr)])))"

definition handle_step_request :: "run_env \<Rightarrow> path \<Rightarrow> startup_sys \<Rightarrow> startup_sys \<times> transport_command list" where
  "handle_step_request e p s =
     (let (pr, run, fs) = s in
      case start_checks e fs of
        (None, fs1) \<Rightarrow> ((pr, run, fs1), [])
      | (Some ps, fs1) \<Rightarrow>
          (if re_link e \<noteq> OpenSender then ((pr, run, fs1), [])
           else ((begin_startup e p pr, run, fs1),
                 [TC_LoadAndStep (run_config e (sm_instruments (re_scenario e)) ps) (rsp_next_startup_id pr)])))"

definition handle_strategy_run_system ::
  "run_env \<Rightarrow> path list \<Rightarrow> path list \<Rightarrow> startup_sys \<Rightarrow> startup_sys \<times> transport_command list" where
  "handle_strategy_run_system e runs steps s =
     (let (s1, out1) = each_press (handle_run_request e) runs s;
          (s2, out2) = each_press (handle_step_request e) steps s1 in (s2, out1 @ out2))"

section \<open>Properties\<close>

subsection \<open>Requests become commands\<close>

fun startup_id :: "transport_command \<Rightarrow> u64 option" where
  "startup_id (TC_RunStrategy p c i) = Some i"
| "startup_id (TC_LoadAndStep c i) = Some i"
| "startup_id c = None"

text \<open>What one request does: it sends one command numbered with the next id, or nothing.\<close>

definition one_id :: "replay_startup_progress \<Rightarrow> replay_startup_progress \<Rightarrow> transport_command list \<Rightarrow> bool" where
  "one_id pr pr' out \<longleftrightarrow>
     (out = [] \<and> pr' = pr) \<or>
     (\<exists>c. out = [c] \<and> startup_id c = Some (rsp_next_startup_id pr) \<and>
          rsp_next_startup_id pr' = rsp_next_startup_id pr + 1 \<and>
          rsp_startup_id pr' = rsp_next_startup_id pr)"

lemma begin_startup_ids [simp]:
  "rsp_next_startup_id (begin_startup e p pr) = rsp_next_startup_id pr + 1"
  "rsp_startup_id (begin_startup e p pr) = rsp_next_startup_id pr"
  by (simp_all add: begin_startup_def)

lemma run_request_one_id:
  "handle_run_request e p (pr, run, fs) = ((pr', run', fs'), out) \<Longrightarrow> one_id pr pr' out"
  by (auto simp: handle_run_request_def one_id_def split: prod.splits option.splits if_splits)

lemma step_request_one_id:
  "handle_step_request e p (pr, run, fs) = ((pr', run', fs'), out) \<Longrightarrow> one_id pr pr' out"
  by (auto simp: handle_step_request_def one_id_def split: prod.splits option.splits if_splits)

text \<open>The same for a run of requests: the ids count up from the next one.\<close>

definition ids_from :: "u64 \<Rightarrow> u64 \<Rightarrow> transport_command list \<Rightarrow> bool" where
  "ids_from n n' out \<longleftrightarrow>
     map startup_id out = map (\<lambda>k. Some (n + of_nat k)) [0..<length out] \<and> n' = n + of_nat (length out)"

lemma ids_from_Nil [simp]: "ids_from n n' [] \<longleftrightarrow> n' = n"
  by (auto simp: ids_from_def)

lemma ids_from_append:
  assumes "ids_from n n1 a" and "ids_from n1 n2 b"
  shows "ids_from n n2 (a @ b)"
proof -
  have "map (\<lambda>k. Some (n1 + of_nat k)) [0..<length b] =
      map (\<lambda>k. Some (n + of_nat k)) [length a..<length a + length b]"
    using assms(1) by (intro nth_equalityI) (simp_all add: ids_from_def add.assoc)
  then show ?thesis
    using assms by (simp add: ids_from_def upt_add_eq_append [of 0] add.assoc)
qed

lemma one_id_ids_from:
  "one_id pr pr' out \<Longrightarrow> ids_from (rsp_next_startup_id pr) (rsp_next_startup_id pr') out"
  by (auto simp: one_id_def ids_from_def)

lemma each_press_ids:
  assumes "\<And>p pr run fs pr' run' fs' out.
      f p (pr, run, fs) = ((pr', run', fs'), out) \<Longrightarrow> one_id pr pr' out"
    and "each_press f ps (pr, run, fs) = ((pr', run', fs'), out)"
  shows "ids_from (rsp_next_startup_id pr) (rsp_next_startup_id pr') out"
  using assms(2)
proof (induction ps arbitrary: pr run fs out)
  case (Cons p ps)
  obtain pr1 run1 fs1 out1 where one: "f p (pr, run, fs) = ((pr1, run1, fs1), out1)"
    by (metis prod.collapse)
  obtain out2 where rest: "each_press f ps (pr1, run1, fs1) = ((pr', run', fs'), out2)"
    and out: "out = out1 @ out2"
    using Cons.prems one by (auto split: prod.splits)
  show ?case
    unfolding out using one_id_ids_from [OF assms(1) [OF one]] Cons.IH [OF rest] by (rule ids_from_append)
qed simp

text \<open>Whatever runs and steps are asked for in a frame, the commands sent carry the startup ids
  that follow each other from the next one on, counted modulo the width of the word; no id is used
  twice unless the word wraps, and the next id is the one after the last.\<close>

theorem startup_ids_follow_each_other:
  "let ((pr', run', fs'), out) = handle_strategy_run_system e runs steps (pr, run, fs);
       n = rsp_next_startup_id pr in
   map startup_id out = map (\<lambda>k. Some (n + of_nat k)) [0..<length out] \<and>
   rsp_next_startup_id pr' = n + of_nat (length out) \<and>
   (if length out < 2 ^ 64 then distinct (map startup_id out) else True)"
proof -
  obtain pr1 run1 fs1 out1 where a:
      "each_press (handle_run_request e) runs (pr, run, fs) = ((pr1, run1, fs1), out1)"
    by (metis prod.collapse)
  obtain pr2 run2 fs2 out2 where b:
      "each_press (handle_step_request e) steps (pr1, run1, fs1) = ((pr2, run2, fs2), out2)"
    by (metis prod.collapse)
  let ?n = "rsp_next_startup_id pr" and ?out = "out1 @ out2"
  have ids: "ids_from ?n (rsp_next_startup_id pr2) ?out"
    using each_press_ids [OF run_request_one_id a] each_press_ids [OF step_request_one_id b]
    by (rule ids_from_append)
  have "distinct (map startup_id ?out)" if "length ?out < 2 ^ 64"
  proof -
    have "inj_on (\<lambda>k. Some (?n + of_nat k)) {0..<length ?out}"
      using that by (auto simp: inj_on_def word_of_nat_eq_iff take_bit_nat_eq_self)
    then show ?thesis
      using ids by (simp add: ids_from_def distinct_map)
  qed
  with ids show ?thesis
    by (simp add: handle_strategy_run_system_def a b ids_from_def Let_def)
qed

text \<open>The result of a rewriting that reports no error.\<close>

lemma rewrite_success_complete:
  assumes "rewrite_scenario_instruments_atomic d c ids fs = (None, fs')" and "jd_tmp d c \<noteq> c"
  shows "complete_text d ids (fs' c)"
  using assms
  by (auto simp: io_defs
      Let_def split: option.splits json.splits if_splits prod.splits)

lemma flush_success_complete:
  assumes "flush_sidecars_now d mtime ids None (Some c) fs = (Inr m, fs')" and "jd_tmp d c \<noteq> c"
  shows "complete_text d ids (fs' c)"
  using assms rewrite_success_complete [of d c ids fs fs']
  by (auto simp: flush_sidecars_now_def split: option.splits prod.splits)

lemma start_checks_cases:
  assumes "start_checks e fs = (Some (st, en, g), fs')"
  shows "\<not> re_param_errors e" and "sm_instruments (re_scenario e) \<noteq> []"
    and "sm_start (re_scenario e) = Some st" and "sm_end (re_scenario e) = Some en"
    and "sm_granularity (re_scenario e) = Some g"
    and "if ir_editable (re_registry e)
         then \<exists>m. flush_sidecars_now (re_disk e) (re_mtime e) (ir_ids (re_registry e)) None (re_cache_sidecar e) fs = (Inr m, fs')
         else fs' = fs"
  using assms
  by (auto simp: start_checks_def Let_def split: if_splits option.splits prod.splits sum.splits)

text \<open>C18: a run is asked of the backend only with a scenario that has instruments, both dates and a
  granularity and no error in its parameters, over an open channel; the cached sidecar then already
  holds the instruments of an editable registry. A request that is refused leaves the progress and
  the state of the run as they were.\<close>

theorem run_request_is_checked:
  assumes "handle_run_request e p (pr, run, fs) = ((pr', run', fs'), out)"
    and "re_cache_sidecar e = Some c" and "jd_tmp (re_disk e) c \<noteq> c"
  shows "if out = [] then pr' = pr \<and> run' = run
    else \<not> re_param_errors e \<and> sm_instruments (re_scenario e) \<noteq> [] \<and> re_link e = OpenSender \<and>
         cr_state run' = RS_Running \<and> rsp_visible pr' \<and>
         (\<exists>st en g. sm_start (re_scenario e) = Some st \<and> sm_end (re_scenario e) = Some en \<and>
            sm_granularity (re_scenario e) = Some g \<and>
            out = [TC_RunStrategy p (run_config e (registry_or_scenario (re_registry e) (re_scenario e)) (st, en, g))
                     (rsp_next_startup_id pr)]) \<and>
         (if ir_editable (re_registry e) then complete_text (re_disk e) (ir_ids (re_registry e)) (fs' c)
          else fs' = fs)"
proof (cases "start_checks e fs")
  case (Pair ps fs1)
  show ?thesis
  proof (cases ps)
    case None
    with Pair assms(1) show ?thesis by (simp add: handle_run_request_def)
  next
    case (Some q)
    obtain st en g where q: "q = (st, en, g)" by (cases q)
    note pre = start_checks_cases [OF Pair [unfolded Some q]]
    show ?thesis
    proof (cases "re_link e = OpenSender")
      case False
      with Pair Some assms(1) show ?thesis by (simp add: handle_run_request_def)
    next
      case True
      have "complete_text (re_disk e) (ir_ids (re_registry e)) (fs1 c)" if "ir_editable (re_registry e)"
        using that pre(6) assms(2,3) flush_success_complete by auto
      with True Pair Some q pre assms(1) show ?thesis
        by (auto simp: handle_run_request_def begin_startup_def)
    qed
  qed
qed

text \<open>A run and a single step from the idle state disagree on the instruments when the registry
  was narrowed without the scenario, as pruning does with a locked one: the run takes the registry's,
  the step the scenario's.\<close>

theorem run_and_step_disagree:
  assumes "start_checks e fs = (Some ps, fs1)" and "re_link e = OpenSender"
    and "ir_ids (re_registry e) \<noteq> []" and "ir_ids (re_registry e) \<noteq> sm_instruments (re_scenario e)"
  shows "case (snd (handle_run_request e p (pr, run, fs)), snd (handle_step_request e p (pr, run, fs))) of
      ([TC_RunStrategy q1 c1 i1], [TC_LoadAndStep c2 i2]) \<Rightarrow>
        rc_instruments c1 = ir_ids (re_registry e) \<and> rc_instruments c2 = sm_instruments (re_scenario e) \<and>
        rc_instruments c1 \<noteq> rc_instruments c2
    | _ \<Rightarrow> False"
  using assms
  by (cases ps) (simp add: handle_run_request_def handle_step_request_def run_config_def registry_or_scenario_def)

subsection \<open>Opening and caching\<close>

text \<open>No fault of the environment for these paths.\<close>

definition cache_works :: "cache_env \<Rightarrow> path \<Rightarrow> path \<Rightarrow> bool" where
  "cache_works ce cache_json cache_py \<longleftrightarrow>
     cache_state_paths ce = Some (cache_json, cache_py) \<and>
     (\<forall>d. ce_mkdir_fault ce d = None) \<and> (\<forall>p s. ce_write_fault ce p s = None) \<and> (\<forall>p. \<not> ce_remove_fault ce p)"

lemma cache_paths_differ: "cache_state_paths ce = Some (j, p) \<Longrightarrow> j \<noteq> p"
  by (auto simp: cache_state_paths_def path_join_def split: option.splits if_splits)

text \<open>After a strategy file is synchronised, the cache holds that file and that file's sidecar, or
  no sidecar when it has none: nothing of an earlier strategy stays. A file that is not a strategy
  leaves the cache alone.\<close>

theorem sync_replaces_both:
  assumes "cache_works ce cache_json cache_py" and "path_extension p = Some ''py''"
    and "fs p = Some source" and "with_extension ''json'' p \<notin> {cache_json, cache_py}"
  shows "sync_to_cache ce p fs =
      (None, fs(cache_py \<mapsto> source, cache_json := fs (with_extension ''json'' p))) \<and>
    (if path_extension q \<noteq> Some ''py'' then sync_to_cache ce q fs = (None, fs) else True)"
  using assms cache_paths_differ [of ce cache_json cache_py]
  by (auto simp: sync_to_cache_def cache_works_def io_defs copy_sidecar_to_cache_def
      bind_eq_Some_conv fun_eq_iff Let_def split: option.split)

text \<open>Opening a file gives the next frame everything the file holds: the scenario is read from
  the file beside it, every fragment is pending under its key, and each is either spawned or left to
  the layout that is loaded from the file's own sidecar; a file that cannot be read changes
  nothing.\<close>

theorem opening_provides_every_fragment:
  "let (s', outs) = load_one ce parse roots (p, SLM_UserOpen) s in
   case ls_files s p of
     None \<Rightarrow> s' = s \<and> outs = []
   | Some source \<Rightarrow>
       (let frags = so_fragments (split_py_into_fragments source); sidecar = with_extension ''json'' p in
        ls_target s' = Some sidecar \<and> sb_original_path (ls_buffer s') = Some p \<and>
        pf_by_region_key (ls_pending s') = map_of (rev frags) \<and>
        (LO_LoadLayout sidecar \<in> set outs \<longleftrightarrow> ls_files s sidecar \<noteq> None) \<and>
        (if sidecar_has_windows parse (ls_files s) sidecar then {(k, b). LO_SpawnEditor k b \<in> set outs} = {}
         else {(k, b). LO_SpawnEditor k b \<in> set outs} = set frags) \<and>
        {en. LO_Despawn en \<in> set outs} = {en. (en, PK_StrategyEditor) \<in> set roots})"
proof -
  have pend: "fold (\<lambda>(k, b) m. m(k \<mapsto> b)) frags m = m ++ map_of (rev frags)"
    for frags :: "(str \<times> str) list" and m
    by (induction frags arbitrary: m) (auto simp: map_add_def fun_eq_iff split: option.split)
  have win: "sidecar_has_windows parse fs q \<Longrightarrow> fs q \<noteq> None" for fs q
    by (auto simp: sidecar_has_windows_def read_json_with_bom_strip_def split: option.splits bind_splits)
  show ?thesis
    using win [of "ls_files s" "with_extension ''json'' p"]
    by (auto simp: load_one_def pend Let_def image_iff split: option.split intro: rev_bexI)
qed

subsection \<open>Witnesses\<close>

definition sample_run_env :: run_env where
  "sample_run_env =
     \<lparr>re_param_errors = False,
      re_scenario = scenario_default\<lparr>sm_instruments := [''7203'', ''1301''], sm_start := Some ''2024-01-04'',
                      sm_end := Some ''2024-02-01'', sm_granularity := Some ''Daily''\<rparr>,
      re_link = OpenSender, re_registry = \<lparr>ir_ids = [''7203''], ir_editable = False, ir_changed = False\<rparr>,
      re_cache_sidecar = Some ''c/s.json'', re_disk = sample_disk, re_mtime = (\<lambda>p. None), re_session_ms = 0,
      re_elapsed = 0\<rparr>"

lemma sample_preflight:
  "start_checks sample_run_env fs = (Some (''2024-01-04'', ''2024-02-01'', ''Daily''), fs)"
  by (simp add: start_checks_def sample_run_env_def)

lemma run_and_step_disagree_witness:
  "case (snd (handle_run_request sample_run_env ''c/app_state.py'' (progress_default, w_run world_default, Map.empty)),
         snd (handle_step_request sample_run_env ''c/app_state.py'' (progress_default, w_run world_default, Map.empty))) of
      ([TC_RunStrategy q1 c1 i1], [TC_LoadAndStep c2 i2]) \<Rightarrow>
        rc_instruments c1 = ir_ids (re_registry sample_run_env) \<and>
        rc_instruments c2 = sm_instruments (re_scenario sample_run_env) \<and> rc_instruments c1 \<noteq> rc_instruments c2
    | _ \<Rightarrow> False"
  by (rule run_and_step_disagree [OF sample_preflight]) (simp_all add: sample_run_env_def)

lemma run_request_is_checked_witness:
  "\<not> re_param_errors sample_run_env \<and>
   cr_state (fst (snd (fst (handle_run_request sample_run_env ''c/app_state.py''
     (progress_default, w_run world_default, Map.empty))))) = RS_Running"
proof -
  obtain pr' run' fs' out where r: "handle_run_request sample_run_env ''c/app_state.py''
      (progress_default, w_run world_default, Map.empty) = ((pr', run', fs'), out)"
    by (metis prod.collapse)
  have "out \<noteq> []"
    using r by (simp add: handle_run_request_def sample_preflight) (auto simp: sample_run_env_def split: if_splits)
  then show ?thesis
    using run_request_is_checked [OF r, of "''c/s.json''"] r by (simp add: sample_run_env_def sample_disk_def)
qed

definition sample_cache :: cache_env where
  "sample_cache =
     \<lparr>ce_env_dir = Some ''c'', ce_os_cache_dir = None, ce_mkdir_fault = (\<lambda>_. None), ce_write_fault = (\<lambda>p s. None),
      ce_remove_fault = (\<lambda>_. False)\<rparr>"

lemma sync_replaces_both_witness:
  "snd (sync_to_cache sample_cache ''w/s.py'' [''w/s.py'' \<mapsto> ''x'', ''c/app_state.json'' \<mapsto> ''old'']) ''c/app_state.json'' = None"
proof -
  have w: "cache_works sample_cache ''c/app_state.json'' ''c/app_state.py''"
    by (simp add: cache_works_def sample_cache_def cache_state_paths_def path_join_def ends_with_def)
  have e: "path_extension ''w/s.py'' = Some ''py''"
    by (simp add: path_extension_def path_file_name_def strip_slashes_def)
  have x: "with_extension ''json'' ''w/s.py'' = ''w/s.json''"
    by (simp add: with_extension_def path_file_name_def strip_slashes_def name_stem_def Let_def)
  show ?thesis
    using sync_replaces_both [OF w e, of "[''w/s.py'' \<mapsto> ''x'', ''c/app_state.json'' \<mapsto> ''old'']" "''x''" "''w/s.json''"]
    by (simp add: x)
qed

end
