(* ===== verification/Startup_Panel.thy ===== *)
theory Startup_Panel
  imports Strategy_Run Modals
begin

text \<open>
  The panel that edits the start, the end, the granularity and the cash of a scenario
  (\<open>src/ui/scenario_startup_panel.rs\<close>, with its state in \<open>src/ui/components.rs\<close>): the keys of its
  fields, the validation of what is entered, the synchronisation with the scenario in both
  directions and the writing into the cached sidecar. The calendar crate is a parameter: its parser
  and printer of dates and the day three months before another.
\<close>

subsection \<open>State\<close>

datatype granularity_choice = GC_Daily | GC_Minute

definition as_canonical_str :: "granularity_choice \<Rightarrow> str" where
  "as_canonical_str g = (case g of GC_Daily \<Rightarrow> ''Daily'' | GC_Minute \<Rightarrow> ''Minute'')"

definition parse_canonical :: "str \<Rightarrow> granularity_choice option" where
  "parse_canonical s = (if s = ''Daily'' then Some GC_Daily else if s = ''Minute'' then Some GC_Minute else None)"

record param_errors =
  pe_start :: "str option"
  pe_end :: "str option"
  pe_granularity :: "str option"
  pe_initial_cash :: "str option"
  pe_cross_field :: "str option"

definition errors_any :: "param_errors \<Rightarrow> bool" where
  "errors_any e \<longleftrightarrow>
     pe_start e \<noteq> None \<or> pe_end e \<noteq> None \<or> pe_granularity e \<noteq> None \<or> pe_initial_cash e \<noteq> None \<or>
     pe_cross_field e \<noteq> None"

record startup_params =
  stp_start :: str
  stp_end :: str
  stp_granularity :: granularity_choice
  stp_initial_cash :: str
  stp_dirty :: bool
  stp_writeback_pending :: bool
  stp_errors :: param_errors

definition startup_params_default :: startup_params where
  "startup_params_default =
     \<lparr>stp_start = [], stp_end = [], stp_granularity = GC_Daily, stp_initial_cash = [], stp_dirty = False,
      stp_writeback_pending = False,
      stp_errors = \<lparr>pe_start = None, pe_end = None, pe_granularity = None, pe_initial_cash = None,
                    pe_cross_field = None\<rparr>\<rparr>"

datatype startup_field = SF_Start | SF_End | SF_Granularity | SF_InitialCash | SF_CrossField

datatype param_commit =
    PC_Start str
  | PC_End str
  | PC_Granularity granularity_choice
  | PC_InitialCash str

text \<open>The calendar: parser, printer, and three months earlier.\<close>

record calendar =
  cal_parse :: "str \<Rightarrow> date option"
  cal_print :: "date \<Rightarrow> str"
  cal_back3 :: "date \<Rightarrow> date option"

definition is_panel_disabled :: "replay_startup_progress \<Rightarrow> path option \<Rightarrow> bool" where
  "is_panel_disabled pr cache_sidecar \<longleftrightarrow> rsp_visible pr \<or> cache_sidecar = None"

definition default_date_range :: "calendar \<Rightarrow> date \<Rightarrow> str \<times> str" where
  "default_date_range cal today =
     (cal_print cal (case cal_back3 cal today of Some d \<Rightarrow> d | None \<Rightarrow> today), cal_print cal today)"

definition validate_date_field :: "calendar \<Rightarrow> str \<Rightarrow> str \<Rightarrow> str + date" where
  "validate_date_field cal field s =
     (if s = [] then Inl (field @ '' must not be empty'')
      else (case cal_parse cal s of
              Some d \<Rightarrow> Inr d
            | None \<Rightarrow> Inl (''invalid date '' @ quoted s @ ''; use YYYY-MM-DD'')))"

definition show_int :: "int \<Rightarrow> str" where
  "show_int n = (if n < 0 then ''-'' @ show_nat (nat (- n)) else show_nat (nat n))"

subsection \<open>From the scenario into the panel\<close>

definition sync_startup_params_from_scenario_system ::
  "calendar \<Rightarrow> date \<Rightarrow> bool \<Rightarrow> scenario_metadata \<Rightarrow> replay_startup_progress \<Rightarrow> startup_params \<Rightarrow> startup_params" where
  "sync_startup_params_from_scenario_system cal today changed meta pr p =
     (if rsp_visible pr \<or> stp_dirty p then p
      else if \<not> changed then p
      else (let (default_start, default_end) = default_date_range cal today;
                (g, g_error) = (case sm_granularity meta of
                     Some s \<Rightarrow>
                       (case parse_canonical s of
                          Some choice \<Rightarrow> (choice, None)
                        | None \<Rightarrow>
                            (GC_Daily, Some (''unknown granularity '' @ quoted s @ ''; please select Daily or Minute to enable Run'')))
                   | None \<Rightarrow> (GC_Daily, Some ''Please select a granularity to enable Run'')) in
            p\<lparr>stp_start := unwrap_or default_start (sm_start meta),
              stp_end := unwrap_or default_end (sm_end meta),
              stp_granularity := g, stp_errors := (stp_errors p)\<lparr>pe_granularity := g_error\<rparr>,
              stp_initial_cash := (case sm_initial_cash meta of Some n \<Rightarrow> show_int n | None \<Rightarrow> ''1000000'')\<rparr>))"

subsection \<open>From the panel into the scenario\<close>

type_synonym commit_sys = "startup_params \<times> scenario_metadata"

text \<open>One commit; the flag says that it was accepted.\<close>

definition commit_one :: "calendar \<Rightarrow> param_commit \<Rightarrow> commit_sys \<Rightarrow> commit_sys \<times> bool" where
  "commit_one cal ev t =
     (let (p, meta) = t; er = stp_errors p in
      case ev of
        PC_Start s \<Rightarrow>
          (case validate_date_field cal ''start'' s of
             Inl msg \<Rightarrow> ((p\<lparr>stp_errors := er\<lparr>pe_start := Some msg\<rparr>\<rparr>, meta), False)
           | Inr d \<Rightarrow> ((p\<lparr>stp_start := s, stp_errors := er\<lparr>pe_start := None\<rparr>\<rparr>, meta\<lparr>sm_start := Some s\<rparr>), True))
      | PC_End s \<Rightarrow>
          (case validate_date_field cal ''end'' s of
             Inl msg \<Rightarrow> ((p\<lparr>stp_errors := er\<lparr>pe_end := Some msg\<rparr>\<rparr>, meta), False)
           | Inr d \<Rightarrow> ((p\<lparr>stp_end := s, stp_errors := er\<lparr>pe_end := None\<rparr>\<rparr>, meta\<lparr>sm_end := Some s\<rparr>), True))
      | PC_Granularity g \<Rightarrow>
          ((p\<lparr>stp_granularity := g, stp_errors := er\<lparr>pe_granularity := None\<rparr>\<rparr>,
            meta\<lparr>sm_granularity := Some (as_canonical_str g)\<rparr>), True)
      | PC_InitialCash s \<Rightarrow>
          (if s = []
           then ((p\<lparr>stp_errors := er\<lparr>pe_initial_cash := Some ''initial cash must not be empty''\<rparr>\<rparr>, meta), False)
           else (case parse_i64 s of
                   None \<Rightarrow> ((p\<lparr>stp_errors := er\<lparr>pe_initial_cash := Some ''invalid integer''\<rparr>\<rparr>, meta), False)
                 | Some n \<Rightarrow>
                     (if n \<le> 0
                      then ((p\<lparr>stp_errors := er\<lparr>pe_initial_cash := Some ''initial cash must be positive''\<rparr>\<rparr>, meta), False)
                      else ((p\<lparr>stp_initial_cash := s, stp_errors := er\<lparr>pe_initial_cash := None\<rparr>\<rparr>,
                             meta\<lparr>sm_initial_cash := Some n\<rparr>), True)))))"

fun commit_loop :: "calendar \<Rightarrow> param_commit list \<Rightarrow> commit_sys \<Rightarrow> commit_sys \<times> bool" where
  "commit_loop cal [] t = (t, False)"
| "commit_loop cal (ev # evs) t =
     (let (t1, a) = commit_one cal ev t; (t2, b) = commit_loop cal evs t1 in (t2, a \<or> b))"

definition cross_check :: "calendar \<Rightarrow> startup_params \<Rightarrow> str option" where
  "cross_check cal p =
     (if pe_start (stp_errors p) = None \<and> pe_end (stp_errors p) = None
      then (case (cal_parse cal (stp_start p), cal_parse cal (stp_end p)) of
              (Some sd, Some ed) \<Rightarrow> if ed < sd then Some ''start must be on or before end'' else None
            | _ \<Rightarrow> None)
      else None)"

definition commit_startup_params_to_scenario_system ::
  "calendar \<Rightarrow> replay_startup_progress \<Rightarrow> path option \<Rightarrow> param_commit list \<Rightarrow> commit_sys \<Rightarrow> commit_sys" where
  "commit_startup_params_to_scenario_system cal pr cache evs t =
     (if is_panel_disabled pr cache then t
      else (let ((p, meta), any_committed) = commit_loop cal evs t;
                p1 = (if evs \<noteq> [] then p\<lparr>stp_errors := (stp_errors p)\<lparr>pe_cross_field := cross_check cal p\<rparr>\<rparr> else p) in
            (if any_committed \<and> \<not> errors_any (stp_errors p1)
             then p1\<lparr>stp_dirty := False, stp_writeback_pending := True\<rparr> else p1, meta)))"

subsection \<open>Into the cached sidecar\<close>

definition put_params :: "str \<Rightarrow> str \<Rightarrow> str \<Rightarrow> str \<Rightarrow> (str \<times> json) list \<Rightarrow> (str \<times> json) list" where
  "put_params st en g cash sc =
     (let text = (\<lambda>s. if s = [] then JNull else JStr s);
          cash_v = (case parse_i64 cash of Some n \<Rightarrow> JInt n | None \<Rightarrow> JNull) in
      obj_insert ''initial_cash'' cash_v
        (obj_insert ''granularity'' (JStr g)
          (obj_insert ''end'' (text en) (obj_insert ''start'' (text st) sc))))"

definition rewrite_scenario_startup_params_atomic ::
  "json_disk \<Rightarrow> path \<Rightarrow> str \<Rightarrow> str \<Rightarrow> str \<Rightarrow> str \<Rightarrow> files \<Rightarrow> str option \<times> files" where
  "rewrite_scenario_startup_params_atomic d p st en g cash fs =
     atomic_mutate_scenario_object d (put_params st en g cash) p fs"

declare rewrite_scenario_startup_params_atomic_def [io_defs]

definition write_startup_params_to_cache_sidecar_system ::
  "json_disk \<Rightarrow> replay_startup_progress \<Rightarrow> path option \<Rightarrow> startup_params \<times> files \<Rightarrow> startup_params \<times> files" where
  "write_startup_params_to_cache_sidecar_system d pr cache t =
     (let (p, fs) = t in
      if rsp_visible pr \<or> \<not> stp_writeback_pending p then t
      else (case cache of
              None \<Rightarrow> t
            | Some c \<Rightarrow>
                (case rewrite_scenario_startup_params_atomic d c (stp_start p) (stp_end p)
                        (as_canonical_str (stp_granularity p)) (stp_initial_cash p) fs of
                   (None, fs1) \<Rightarrow> (p\<lparr>stp_writeback_pending := False\<rparr>, fs1)
                 | (Some e, fs1) \<Rightarrow> (p, fs1))))"

subsection \<open>The fields\<close>

type_synonym field_texts = "(startup_field \<times> str) list"

definition expected_text :: "startup_params \<Rightarrow> startup_field \<Rightarrow> str option" where
  "expected_text p f =
     (case f of SF_Start \<Rightarrow> Some (stp_start p) | SF_End \<Rightarrow> Some (stp_end p)
      | SF_InitialCash \<Rightarrow> Some (stp_initial_cash p) | SF_Granularity \<Rightarrow> None | SF_CrossField \<Rightarrow> None)"

definition sync_startup_param_editors_text_system ::
  "bool \<Rightarrow> startup_params \<Rightarrow> field_texts \<Rightarrow> field_texts" where
  "sync_startup_param_editors_text_system changed p texts =
     (if \<not> changed then texts else map (\<lambda>(f, s). (f, unwrap_or s (expected_text p f))) texts)"

text \<open>What was typed, by field; the keys run in the order they came, all of them for the field that
  had the focus when the frame began.\<close>

record field_sys =
  fs_focus :: "startup_field option"
  fs_texts :: field_texts
  fs_dirty :: bool
  fs_commits :: "param_commit list"




definition enter_commit :: "startup_field \<Rightarrow> str \<Rightarrow> param_commit option" where
  "enter_commit f v =
     (case f of SF_Start \<Rightarrow> Some (PC_Start v) | SF_End \<Rightarrow> Some (PC_End v)
      | SF_InitialCash \<Rightarrow> Some (PC_InitialCash v) | SF_Granularity \<Rightarrow> None | SF_CrossField \<Rightarrow> None)"

definition press_enter :: "startup_field \<Rightarrow> field_sys \<Rightarrow> field_sys" where
  "press_enter f s =
     (case List.find (\<lambda>e. fst e = f) (fs_texts s) of
        None \<Rightarrow> s
      | Some (k, v) \<Rightarrow>
          (case enter_commit f v of
             None \<Rightarrow> s
           | Some c \<Rightarrow> s\<lparr>fs_commits := fs_commits s @ [c], fs_dirty := True\<rparr>))"



text \<open>A click on a granularity button, and on a field.\<close>

definition click_granularity ::
  "replay_startup_progress \<Rightarrow> path option \<Rightarrow> granularity_choice \<Rightarrow> field_sys \<Rightarrow> field_sys" where
  "click_granularity pr cache g s =
     (if is_panel_disabled pr cache then s
      else s\<lparr>fs_commits := fs_commits s @ [PC_Granularity g], fs_dirty := True\<rparr>)"

definition click_field :: "startup_field \<Rightarrow> field_sys \<Rightarrow> field_sys" where
  "click_field f s = s\<lparr>fs_focus := Some f\<rparr>"

text \<open>The labels of the errors, and whether the panel is shown.\<close>

definition error_text :: "param_errors \<Rightarrow> startup_field \<Rightarrow> str" where
  "error_text e f =
     unwrap_or []
       (case f of SF_Start \<Rightarrow> pe_start e | SF_End \<Rightarrow> pe_end e | SF_Granularity \<Rightarrow> pe_granularity e
        | SF_InitialCash \<Rightarrow> pe_initial_cash e | SF_CrossField \<Rightarrow> pe_cross_field e)"

definition apply_startup_panel_visibility_system :: "bool \<Rightarrow> execution_mode \<Rightarrow> bool \<Rightarrow> bool" where
  "apply_startup_panel_visibility_system changed m shown = (if \<not> changed then shown else m = EM_Replay)"

section \<open>Properties\<close>

subsection \<open>What is typed\<close>







lemma press_enter_texts [simp]: "fs_texts (press_enter f s) = fs_texts s"
  by (simp add: press_enter_def split: option.split)



subsection \<open>What is accepted\<close>

text \<open>A field of the scenario that is unchanged or holds an accepted value.\<close>

definition kept_or_valid :: "calendar \<Rightarrow> scenario_metadata \<Rightarrow> scenario_metadata \<Rightarrow> bool" where
  "kept_or_valid cal meta meta' \<longleftrightarrow>
     (sm_start meta' = sm_start meta \<or> (\<exists>s d. sm_start meta' = Some s \<and> cal_parse cal s = Some d)) \<and>
     (sm_end meta' = sm_end meta \<or> (\<exists>s d. sm_end meta' = Some s \<and> cal_parse cal s = Some d)) \<and>
     (sm_granularity meta' = sm_granularity meta \<or> (\<exists>g. sm_granularity meta' = Some (as_canonical_str g))) \<and>
     (sm_initial_cash meta' = sm_initial_cash meta \<or> (\<exists>n. sm_initial_cash meta' = Some n \<and> 0 < n \<and> n < 2 ^ 63)) \<and>
     sm_instruments meta' = sm_instruments meta"

lemma kept_or_valid_refl: "kept_or_valid cal m m"
  by (simp add: kept_or_valid_def)

lemma kept_or_valid_trans: "kept_or_valid cal a b \<Longrightarrow> kept_or_valid cal b c \<Longrightarrow> kept_or_valid cal a c"
  unfolding kept_or_valid_def
proof (elim conjE, intro conjI, goal_cases)
  case 1 then show ?case by (elim disjE) simp_all
next
  case 2 then show ?case by metis
next
  case 3 then show ?case by metis
next
  case 4 then show ?case by metis
next
  case 5 then show ?case by simp
qed

lemma commit_one_valid: "kept_or_valid cal meta (snd (fst (commit_one cal ev (p, meta))))"
  by (cases ev)
    (auto simp: commit_one_def validate_date_field_def kept_or_valid_def Let_def dest: parse_i64_range
      split: option.splits sum.splits if_splits)

lemma commit_loop_valid: "kept_or_valid cal meta (snd (fst (commit_loop cal evs (p, meta))))"
proof (induction evs arbitrary: p meta)
  case (Cons ev evs)
  obtain p1 meta1 a where one: "commit_one cal ev (p, meta) = ((p1, meta1), a)"
    by (metis prod.collapse)
  have "kept_or_valid cal meta meta1" using commit_one_valid [of cal meta ev p] one by simp
  from kept_or_valid_trans [OF this Cons.IH] show ?case
    by (simp add: one case_prod_unfold Let_def)
qed (simp add: kept_or_valid_refl)

lemma commit_one_pending:
  "stp_writeback_pending (fst (fst (commit_one cal ev (p, meta)))) = stp_writeback_pending p"
proof (cases ev)
  case (PC_InitialCash s)
  show ?thesis
  proof (cases "parse_i64 s")
    case (Some n)
    then show ?thesis by (cases "n \<le> 0") (simp_all add: PC_InitialCash commit_one_def Let_def)
  qed (simp add: PC_InitialCash commit_one_def Let_def)
qed (auto simp: commit_one_def Let_def split: sum.split)

lemma commit_loop_pending:
  "stp_writeback_pending (fst (fst (commit_loop cal evs (p, meta)))) = stp_writeback_pending p"
proof (induction evs arbitrary: p meta)
  case (Cons ev evs)
  obtain p1 meta1 a where one: "commit_one cal ev (p, meta) = ((p1, meta1), a)"
    by (metis prod.collapse)
  with Cons.IH [of p1 meta1] commit_one_pending [of cal ev p meta] show ?case
    by (simp add: case_prod_unfold Let_def)
qed simp

text \<open>Whatever is entered, the scenario only ever takes dates that parse, one of the two
  granularities and a positive amount that fits its type; it never takes anything while a run is
  starting or there is no file to write to; and a write of the file is asked for only when no error
  is left.\<close>

theorem only_valid_values_committed:
  "let (p', meta') = commit_startup_params_to_scenario_system cal pr cache evs (p, meta) in
   kept_or_valid cal meta meta' \<and>
   (if is_panel_disabled pr cache then p' = p \<and> meta' = meta else True) \<and>
   (if errors_any (stp_errors p') then stp_writeback_pending p' = stp_writeback_pending p else True)"
proof -
  obtain p1 meta1 a where l: "commit_loop cal evs (p, meta) = ((p1, meta1), a)"
    by (metis prod.collapse)
  have "kept_or_valid cal meta meta1" "stp_writeback_pending p1 = stp_writeback_pending p"
    using commit_loop_valid [of cal meta evs p] commit_loop_pending [of cal evs p meta] l by simp_all
  then show ?thesis
    by (auto simp: commit_startup_params_to_scenario_system_def l kept_or_valid_refl Let_def)
qed

text \<open>An inverted range of dates cannot be run: after any entry that leaves the start after the
  end, a request to run or to step is refused, whatever else the scenario holds.\<close>

theorem inverted_range_blocks_run:
  assumes "\<not> is_panel_disabled pr cache" and "evs \<noteq> []"
    and "commit_startup_params_to_scenario_system cal pr cache evs (p, meta) = (p', meta')"
    and "cal_parse cal (stp_start p') = Some sd" and "cal_parse cal (stp_end p') = Some ed" and "ed < sd"
    and "re_param_errors e = errors_any (stp_errors p')"
  shows "snd (handle_strategy_run_system e runs steps s) = []"
proof -
  obtain p1 meta1 a where l: "commit_loop cal evs (p, meta) = ((p1, meta1), a)"
    by (metis prod.collapse)
  have p': "stp_start p' = stp_start p1" "stp_end p' = stp_end p1"
    "stp_errors p' = (stp_errors p1)\<lparr>pe_cross_field := cross_check cal p1\<rparr>"
    using assms(1-3) by (auto simp: commit_startup_params_to_scenario_system_def l Let_def split: if_splits)
  have "errors_any (stp_errors p')"
    using assms(4-6) by (auto simp: p' errors_any_def cross_check_def)
  then have "start_checks e fs = (None, fs)" for fs
    using assms(7) by (simp add: start_checks_def)
  then have "handle_run_request e q t = (t, [])" "handle_step_request e q t = (t, [])" for q t
    by (cases t, simp add: handle_run_request_def handle_step_request_def)+
  then have "each_press (handle_run_request e) qs t = (t, [])" "each_press (handle_step_request e) qs t = (t, [])" for qs t
    by (induction qs) simp_all
  then show ?thesis by (simp add: handle_strategy_run_system_def)
qed

subsection \<open>What is written\<close>

text \<open>A write that works stores exactly the four values of the panel, and keeps every other key of
  the scenario and every other part of the file.\<close>

lemma write_params_result:
  assumes "rewritable d c fs es sc" and "\<not> rsp_visible pr" and "stp_writeback_pending p"
    and "stp_start p \<noteq> []" and "stp_end p \<noteq> []" and "parse_i64 (stp_initial_cash p) = Some n"
  shows "\<exists>sc'. write_startup_params_to_cache_sidecar_system d pr (Some c) (p, fs) =
      (p\<lparr>stp_writeback_pending := False\<rparr>,
       fs(c \<mapsto> jd_print d (JObj (obj_insert ''scenario'' (JObj sc') es)), jd_tmp d c := None)) \<and>
    map_of sc' = (map_of sc)(''start'' \<mapsto> JStr (stp_start p), ''end'' \<mapsto> JStr (stp_end p),
      ''granularity'' \<mapsto> JStr (as_canonical_str (stp_granularity p)), ''initial_cash'' \<mapsto> JInt n)"
  using assms(2-6)
  by (auto simp: write_startup_params_to_cache_sidecar_system_def rewrite_scenario_startup_params_atomic_def
      atomic_result [OF assms(1)] put_params_def map_of_obj_insert Let_def)

text \<open>C28: a failed entry keeps the panel from following the scenario until everything is valid again.
  When another strategy is opened meanwhile, correcting the one field writes the other three values
  of the old strategy into the cached sidecar of the new one, while its scenario keeps the new
  ones.\<close>

theorem stale_panel_overwrites_new_scenario:
  assumes "rewritable d c fs es sc" and "\<not> rsp_visible pr"
    and "stp_dirty p" and "stp_errors p = \<lparr>pe_start = Some err, pe_end = None, pe_granularity = None,
      pe_initial_cash = None, pe_cross_field = None\<rparr>"
    and "s \<noteq> []" and "cal_parse cal s = Some sd" and "cal_parse cal (stp_end p) = Some ed" and "sd \<le> ed"
    and "stp_end p \<noteq> []" and "parse_i64 (stp_initial_cash p) = Some n" and "sm_end meta = Some en" and "en \<noteq> stp_end p"
  shows "\<exists>p' meta' fs' sc'.
    commit_startup_params_to_scenario_system cal pr (Some c) [PC_Start s]
      (sync_startup_params_from_scenario_system cal today True meta pr p, meta) = (p', meta') \<and>
    write_startup_params_to_cache_sidecar_system d pr (Some c) (p', fs) = (p'\<lparr>stp_writeback_pending := False\<rparr>, fs') \<and>
    fs' c = Some (jd_print d (JObj (obj_insert ''scenario'' (JObj sc') es))) \<and>
    sm_end meta' = Some en \<and> map_of sc' ''end'' = Some (JStr (stp_end p)) \<and>
    map_of sc' ''initial_cash'' = Some (JInt n)"
proof -
  let ?er = "\<lparr>pe_start = None, pe_end = None, pe_granularity = None, pe_initial_cash = None, pe_cross_field = None\<rparr>"
  let ?p = "p\<lparr>stp_start := s, stp_errors := ?er, stp_dirty := False, stp_writeback_pending := True\<rparr>"
  have tmp: "jd_tmp d c \<noteq> c" using assms(1) by (simp add: rewritable_def)
  have sync: "sync_startup_params_from_scenario_system cal today True meta pr p = p"
    using assms(3) by (simp add: sync_startup_params_from_scenario_system_def)
  have commit: "commit_startup_params_to_scenario_system cal pr (Some c) [PC_Start s] (p, meta) =
      (?p, meta\<lparr>sm_start := Some s\<rparr>)"
    using assms
    by (simp add: commit_startup_params_to_scenario_system_def is_panel_disabled_def commit_one_def
        validate_date_field_def cross_check_def errors_any_def Let_def)
  obtain sc' where w: "write_startup_params_to_cache_sidecar_system d pr (Some c) (?p, fs) =
      (?p\<lparr>stp_writeback_pending := False\<rparr>,
       fs(c \<mapsto> jd_print d (JObj (obj_insert ''scenario'' (JObj sc') es)), jd_tmp d c := None))"
    and m: "map_of sc' = (map_of sc)(''start'' \<mapsto> JStr s, ''end'' \<mapsto> JStr (stp_end p),
      ''granularity'' \<mapsto> JStr (as_canonical_str (stp_granularity p)), ''initial_cash'' \<mapsto> JInt n)"
    using write_params_result [OF assms(1,2), of ?p n] assms(5,9,10) by auto
  show ?thesis
    unfolding sync commit using w m assms(11) tmp
    by (intro exI [of _ ?p] exI [of _ "meta\<lparr>sm_start := Some s\<rparr>"] exI [of _ sc']
        exI [of _ "fs(c \<mapsto> jd_print d (JObj (obj_insert ''scenario'' (JObj sc') es)), jd_tmp d c := None)"]) simp
qed

subsection \<open>Witnesses\<close>

text \<open>A calendar of two days.\<close>

definition sample_calendar :: calendar where
  "sample_calendar =
     \<lparr>cal_parse = (\<lambda>s. if s = ''2024-01-04'' then Some 1 else if s = ''2024-02-01'' then Some 2 else None),
      cal_print = (\<lambda>d. ''2024-01-04''), cal_back3 = (\<lambda>d. None)\<rparr>"

definition sample_params :: startup_params where
  "sample_params = startup_params_default\<lparr>stp_start := ''2024-01-04'', stp_end := ''2024-02-01'', stp_initial_cash := ''500''\<rparr>"

lemma sample_cash: "parse_i64 (stp_initial_cash sample_params) = Some 500"
  by (simp add: sample_params_def parse_i64_def all_digits_def is_digit_def byte_def digit_val_def)

lemma inverted_range_blocks_run_witness:
  "snd (handle_strategy_run_system (sample_run_env\<lparr>re_param_errors := True\<rparr>) [''c/app_state.py''] []
     (progress_default, w_run world_default, Map.empty)) = []"
proof -
  obtain p' meta' where c: "commit_startup_params_to_scenario_system sample_calendar progress_default (Some ''c/s.json'')
      [PC_Start ''2024-02-01'', PC_End ''2024-01-04''] (sample_params, scenario_default) = (p', meta')"
    by (metis prod.collapse)
  have d: "\<not> is_panel_disabled progress_default (Some ''c/s.json'')"
    by (simp add: is_panel_disabled_def progress_default_def)
  have h: "stp_start p' = ''2024-02-01''" "stp_end p' = ''2024-01-04''" "errors_any (stp_errors p')"
    using c d
    by (auto simp: commit_startup_params_to_scenario_system_def commit_one_def validate_date_field_def cross_check_def
        sample_calendar_def sample_params_def startup_params_default_def errors_any_def Let_def)
  show ?thesis
    by (rule inverted_range_blocks_run [OF d _ c, of 2 1]) (simp_all add: h sample_calendar_def)
qed

lemma stale_panel_overwrites_new_scenario_witness:
  "\<exists>p' meta'. commit_startup_params_to_scenario_system sample_calendar progress_default (Some ''c/s.json'') [PC_Start ''2024-01-04'']
      (sample_params\<lparr>stp_dirty := True, stp_errors := (stp_errors sample_params)\<lparr>pe_start := Some ''bad''\<rparr>\<rparr>,
       scenario_default\<lparr>sm_end := Some ''2030-01-01''\<rparr>) = (p', meta') \<and>
     stp_end p' \<noteq> the (sm_end meta')"
proof -
  let ?p = "sample_params\<lparr>stp_dirty := True, stp_errors := (stp_errors sample_params)\<lparr>pe_start := Some ''bad''\<rparr>\<rparr>"
  let ?meta = "scenario_default\<lparr>sm_end := Some ''2030-01-01''\<rparr>"
  have r: "\<not> rsp_visible progress_default" by (simp add: progress_default_def)
  have sync: "sync_startup_params_from_scenario_system sample_calendar 1 True ?meta progress_default ?p = ?p"
    by (simp add: sync_startup_params_from_scenario_system_def)
  have "\<exists>p' meta' fs' sc'.
    commit_startup_params_to_scenario_system sample_calendar progress_default (Some ''c/s.json'') [PC_Start ''2024-01-04'']
      (sync_startup_params_from_scenario_system sample_calendar 1 True ?meta progress_default ?p, ?meta) = (p', meta') \<and>
    write_startup_params_to_cache_sidecar_system sample_disk progress_default (Some ''c/s.json'') (p', [''c/s.json'' \<mapsto> ''old'']) =
      (p'\<lparr>stp_writeback_pending := False\<rparr>, fs') \<and>
    fs' ''c/s.json'' = Some (jd_print sample_disk (JObj (obj_insert ''scenario'' (JObj sc')
      [(''layout'', JInt 3), (''scenario'', JObj [(''start'', JStr ''2024-01-04'')])]))) \<and>
    sm_end meta' = Some ''2030-01-01'' \<and> map_of sc' ''end'' = Some (JStr (stp_end ?p)) \<and>
    map_of sc' ''initial_cash'' = Some (JInt 500)"
    by (rule stale_panel_overwrites_new_scenario [OF sample_rewritable r, where sd = 1 and ed = 2])
      (use sample_cash in \<open>simp_all add: sample_params_def startup_params_default_def sample_calendar_def\<close>)
  then obtain p' meta' where c: "commit_startup_params_to_scenario_system sample_calendar progress_default
      (Some ''c/s.json'') [PC_Start ''2024-01-04''] (?p, ?meta) = (p', meta')" and m: "sm_end meta' = Some ''2030-01-01''"
    unfolding sync by blast
  moreover have "stp_end p' = ''2024-02-01''"
    using c r by (auto simp: commit_startup_params_to_scenario_system_def is_panel_disabled_def commit_one_def
        validate_date_field_def sample_calendar_def sample_params_def startup_params_default_def Let_def split: if_splits)
  ultimately show ?thesis by auto
qed

end
