(* ===== verification/F32.thy ===== *)
theory F32
  imports F64_Text
begin

text \<open>
  IEEE 754 binary32, the numbers of the charts and windows. A single-precision number is one of the
  values of \<open>f64\<close>; every operation rounds its exact result to nearest, ties to even, with gradual
  underflow at \<open>2 ^ -149\<close> and overflow at \<open>2 ^ 128\<close>. Rounding is monotone, so the operations are,
  which is what the geometry of the charts rests on.
\<close>

type_synonym f32 = f64
type_synonym vec2 = "f32 \<times> f32"

section \<open>Rounding\<close>

definition quantum :: "rat \<Rightarrow> int" where
  "quantum x = max (ilog2 \<bar>x\<bar> - 23) (- 149)"

definition round_at :: "int \<Rightarrow> rat \<Rightarrow> rat" where
  "round_at q x = of_int (round_half_even (x / pow2 q)) * pow2 q"

definition f32_of :: "rat \<Rightarrow> f32" where
  "f32_of x =
     (if x = 0 then F64_Fin 0
      else (let y = round_at (quantum x) x in
            if pow2 128 \<le> y then F64_PosInf else if y \<le> - pow2 128 then F64_NegInf else F64_Fin y))"

section \<open>Operations\<close>

text \<open>The special values are those of \<open>f64\<close>.\<close>

definition f32_add :: "f32 \<Rightarrow> f32 \<Rightarrow> f32" where
  "f32_add x y = (case (x, y) of (F64_Fin a, F64_Fin b) \<Rightarrow> f32_of (a + b) | _ \<Rightarrow> f64_add x y)"

definition f32_sub :: "f32 \<Rightarrow> f32 \<Rightarrow> f32" where
  "f32_sub x y = f32_add x (f64_neg y)"

definition f32_mul :: "f32 \<Rightarrow> f32 \<Rightarrow> f32" where
  "f32_mul x y = (case (x, y) of (F64_Fin a, F64_Fin b) \<Rightarrow> f32_of (a * b) | _ \<Rightarrow> f64_mul x y)"

definition f32_div :: "f32 \<Rightarrow> f32 \<Rightarrow> f32" where
  "f32_div x y =
     (case (x, y) of
        (F64_Fin a, F64_Fin b) \<Rightarrow> if b = 0 then f64_div x y else f32_of (a / b)
      | _ \<Rightarrow> f64_div x y)"

definition f32_of_int :: "int \<Rightarrow> f32" where "f32_of_int n = f32_of (of_int n)"

definition f32_max :: "f32 \<Rightarrow> f32 \<Rightarrow> f32" where
  "f32_max = f64_max"

definition f32_min :: "f32 \<Rightarrow> f32 \<Rightarrow> f32" where
  "f32_min x y = (if x = F64_NaN then y else if y = F64_NaN then x else if y < x then y else x)"

text \<open>\<open>f32::clamp\<close>: None is the panic on bounds that are not ordered; a NaN stays.\<close>

definition f32_clamp :: "f32 \<Rightarrow> f32 \<Rightarrow> f32 \<Rightarrow> f32 option" where
  "f32_clamp lo hi x =
     (if \<not> lo \<le> hi then None else Some (if x < lo then lo else if hi < x then hi else x))"

text \<open>\<open>f32 as i64\<close>: towards zero, saturating, and zero for a NaN.\<close>

fun f32_to_int :: "int \<Rightarrow> int \<Rightarrow> f32 \<Rightarrow> int" where
  "f32_to_int lo hi F64_NaN = 0"
| "f32_to_int lo hi F64_NegInf = lo"
| "f32_to_int lo hi F64_PosInf = hi"
| "f32_to_int lo hi (F64_Fin r) = max lo (min hi (if 0 \<le> r then \<lfloor>r\<rfloor> else \<lceil>r\<rceil>))"

definition f32_to_i64 :: "f32 \<Rightarrow> int" where
  "f32_to_i64 = f32_to_int (- (2 ^ 63)) (2 ^ 63 - 1)"

definition f32_to_i32 :: "f32 \<Rightarrow> int" where
  "f32_to_i32 = f32_to_int (- (2 ^ 31)) (2 ^ 31 - 1)"

text \<open>\<open>f64 as f32\<close>.\<close>

fun f64_as_f32 :: "f64 \<Rightarrow> f32" where
  "f64_as_f32 (F64_Fin r) = f32_of r"
| "f64_as_f32 x = x"

definition F32_MAX :: f32 where "F32_MAX = F64_Fin (pow2 128 - pow2 104)"
definition F32_EPSILON :: f32 where "F32_EPSILON = F64_Fin (pow2 (- 23))"

fun f32_ceil :: "f32 \<Rightarrow> f32" where
  "f32_ceil (F64_Fin r) = F64_Fin (of_int \<lceil>r\<rceil>)"
| "f32_ceil x = x"

fun f32_floor :: "f32 \<Rightarrow> f32" where
  "f32_floor (F64_Fin r) = F64_Fin (of_int \<lfloor>r\<rfloor>)"
| "f32_floor x = x"

section \<open>Rounding is monotone\<close>

lemma round_half_even_near: "\<bar>of_int (round_half_even x) - x\<bar> \<le> 1 / 2"
proof -
  have "of_int \<lfloor>x\<rfloor> \<le> x" "x < of_int \<lfloor>x\<rfloor> + 1" by linarith+
  then show ?thesis by (auto simp: round_half_even_def Let_def)
qed

lemma round_half_even_mono: "x \<le> y \<Longrightarrow> round_half_even x \<le> round_half_even y"
proof (rule ccontr)
  assume le: "x \<le> y" and "\<not> round_half_even x \<le> round_half_even y"
  then have "round_half_even y + 1 \<le> round_half_even x" by simp
  then have "of_int (round_half_even y) + 1 \<le> (of_int (round_half_even x) :: rat)"
    by (simp flip: of_int_add add: of_int_le_iff)
  with le round_half_even_near [of x] round_half_even_near [of y] have "x = y" by linarith
  with \<open>\<not> round_half_even x \<le> round_half_even y\<close> show False by simp
qed

lemma round_half_even_minus: "round_half_even (- x) = - round_half_even x"
proof -
  have f: "\<lfloor>- x\<rfloor> = - \<lceil>x\<rceil>" by (simp add: ceiling_def)
  show ?thesis
  proof (cases "of_int \<lfloor>x\<rfloor> = x")
    case True
    then show ?thesis by (metis of_int_minus round_half_even_int)
  next
    case False
    then have "\<lceil>x\<rceil> = \<lfloor>x\<rfloor> + 1" by (simp add: ceiling_altdef)
    with f show ?thesis by (auto simp: round_half_even_def Let_def)
  qed
qed

lemma ilog2_upper:
  assumes "0 < x"
  shows "x < pow2 (ilog2 x + 1)"
proof -
  obtain a b where ab: "quotient_of x = (a, b)" by (cases "quotient_of x")
  then have b: "0 < b" by (rule quotient_of_denom_pos)
  have x: "x = of_int a / of_int b" using ab by (rule quotient_of_div)
  with assms b have a: "0 < a" by (simp add: zero_less_divide_iff)
  let ?e = "bitlen a - bitlen b"
  have pow_bitlen: "(of_int n :: rat) < pow2 (bitlen n)" "pow2 (bitlen n - 1) \<le> (of_int n :: rat)" if "0 < n" for n
  proof -
    have "n < 2 ^ nat (bitlen n)" "2 ^ nat (bitlen n - 1) \<le> n" using bitlen_bounds [of n] that by simp_all
    then have "(of_int n :: rat) < of_int (2 ^ nat (bitlen n))" "(of_int (2 ^ nat (bitlen n - 1)) :: rat) \<le> of_int n"
      by (simp_all only: of_int_less_iff of_int_le_iff)
    moreover have "1 \<le> bitlen n" using that bitlen_le_iff_power [of n 0] by auto
    ultimately show "(of_int n :: rat) < pow2 (bitlen n)" "pow2 (bitlen n - 1) \<le> (of_int n :: rat)"
      by (simp_all add: pow2_def)
  qed
  have "pow2 (bitlen a) = pow2 (?e + 1) * pow2 (bitlen b - 1)"
    using pow2_add [of "?e + 1" "bitlen b - 1"] by simp
  also have "\<dots> \<le> pow2 (?e + 1) * of_int b"
    using pow_bitlen(2) [OF b] by (intro mult_left_mono) simp_all
  finally have "of_int a < pow2 (?e + 1) * of_int b"
    using pow_bitlen(1) [OF a] by simp
  then have "x < pow2 (?e + 1)" using b by (simp add: x divide_less_eq)
  then show ?thesis by (simp add: ilog2_def ab Let_def)
qed

lemma ilog2_mono: "0 < x \<Longrightarrow> x \<le> y \<Longrightarrow> ilog2 x \<le> ilog2 y"
proof -
  assume "0 < x" "x \<le> y"
  then have "pow2 (ilog2 x) < pow2 (ilog2 y + 1)"
    using ilog2_lower [of x] ilog2_upper [of y] by linarith
  then show "ilog2 x \<le> ilog2 y"
    using pow2_mono [of "ilog2 y + 1" "ilog2 x"] by (meson leI not_less zle_add1_eq_le order.trans)
qed

lemma round_at_mono: "x \<le> y \<Longrightarrow> round_at q x \<le> round_at q y"
  by (simp add: round_at_def mult_right_mono round_half_even_mono divide_right_mono)

lemma round_at_pow2: "q \<le> e \<Longrightarrow> round_at q (pow2 e) = pow2 e"
proof -
  assume "q \<le> e"
  then have "pow2 e = of_int (2 ^ nat (e - q)) * pow2 q"
    using pow2_add [of "e - q" q] by (simp add: pow2_def)
  moreover have "pow2 q \<noteq> 0" using pow2_pos [of q] by linarith
  ultimately have "pow2 e / pow2 q = of_int (2 ^ nat (e - q))" by (simp add: divide_eq_eq)
  then show ?thesis using \<open>pow2 e = of_int (2 ^ nat (e - q)) * pow2 q\<close>
    by (simp only: round_at_def round_half_even_int)
qed

lemma round_at_minus: "round_at q (- x) = - round_at q x"
  by (simp add: round_at_def round_half_even_minus)

lemma quantum_minus [simp]: "quantum (- x) = quantum x"
  by (simp add: quantum_def)

definition fit :: "rat \<Rightarrow> rat" where "fit x = (if x = 0 then 0 else round_at (quantum x) x)"

lemma fit_minus: "fit (- x) = - fit x"
  by (simp add: fit_def round_at_minus)

lemma fit_nonneg: "0 \<le> x \<Longrightarrow> 0 \<le> fit x"
  using round_at_mono [of 0 x "quantum x"] round_half_even_int [of 0]
  by (simp add: fit_def round_at_def)

lemma fit_mono_pos:
  assumes "0 < x" and "x \<le> y"
  shows "fit x \<le> fit y"
proof -
  have q: "quantum x \<le> quantum y" using ilog2_mono [OF assms] assms by (simp add: quantum_def)
  show ?thesis
  proof (cases "quantum x = quantum y")
    case True
    then show ?thesis using assms round_at_mono [OF assms(2)] by (simp add: fit_def)
  next
    case False
    with q have lt: "quantum x < quantum y" by simp
    then have e: "ilog2 x < ilog2 y" "quantum y = ilog2 y - 23"
      using assms by (auto simp: quantum_def)
    have "x \<le> pow2 (ilog2 y)"
      using ilog2_upper [of x] pow2_mono [of "ilog2 x + 1" "ilog2 y"] assms e by linarith
    then have "round_at (quantum x) x \<le> pow2 (ilog2 y)"
      using round_at_mono [of x "pow2 (ilog2 y)" "quantum x"] round_at_pow2 [of "quantum x" "ilog2 y"] lt e by simp
    moreover have "pow2 (ilog2 y) \<le> round_at (quantum y) y"
      using round_at_mono [of "pow2 (ilog2 y)" y "quantum y"] round_at_pow2 [of "quantum y" "ilog2 y"]
        ilog2_lower [of y] assms e by simp
    ultimately show ?thesis using assms by (simp add: fit_def)
  qed
qed

lemma fit_mono: "x \<le> y \<Longrightarrow> fit x \<le> fit y"
proof -
  assume le: "x \<le> y"
  consider "0 < x" | "x \<le> 0" "0 \<le> y" | "y < 0" by linarith
  then show ?thesis
  proof cases
    case 1 then show ?thesis using le by (rule fit_mono_pos)
  next
    case 2
    then have "0 \<le> fit (- x)" "0 \<le> fit y" by (simp_all add: fit_nonneg)
    then show ?thesis by (simp add: fit_minus)
  next
    case 3
    then show ?thesis using fit_mono_pos [of "- y" "- x"] le by (simp add: fit_minus)
  qed
qed

lemma f32_of_fit:
  "f32_of x = (if pow2 128 \<le> fit x then F64_PosInf else if fit x \<le> - pow2 128 then F64_NegInf else F64_Fin (fit x))"
proof (cases "x = 0")
  case True
  moreover have "\<not> pow2 128 \<le> 0" using pow2_pos [of 128] by linarith
  ultimately show ?thesis by (simp add: f32_of_def fit_def)
qed (simp add: f32_of_def fit_def Let_def)

lemma f32_of_mono: "x \<le> y \<Longrightarrow> f32_of x \<le> f32_of y"
proof -
  assume "x \<le> y"
  then have "fit x \<le> fit y" by (rule fit_mono)
  moreover have "0 < pow2 128" by simp
  ultimately show ?thesis
    by (auto simp: f32_of_fit less_eq_f64_def less_f64_def f64_eq_def)
qed

lemma f32_of_not_nan [simp]: "f32_of x \<noteq> F64_NaN"
  by (simp add: f32_of_fit)

lemma f32_of_0 [simp]: "f32_of 0 = F64_Fin 0"
  by (simp add: f32_of_def)

section \<open>Rounding is idempotent and near\<close>

lemma fit_pow2: "fit (pow2 e) = pow2 e" if "- 149 \<le> e"
proof -
  have "pow2 (ilog2 (pow2 e)) \<le> pow2 e" by (rule ilog2_lower) simp
  then have "ilog2 (pow2 e) \<le> e" by (rule pow2_less_cancel)
  with that have "quantum (pow2 e) \<le> e" by (simp add: quantum_def)
  then have "round_at (quantum (pow2 e)) (pow2 e) = pow2 e" by (rule round_at_pow2)
  moreover have "pow2 e \<noteq> 0" using pow2_pos [of e] by linarith
  ultimately show ?thesis by (simp add: fit_def)
qed

lemma fit_near: "\<bar>x\<bar> < pow2 22 \<Longrightarrow> \<bar>fit x - x\<bar> \<le> 1 / 4"
proof (cases "x = 0")
  case False
  assume x: "\<bar>x\<bar> < pow2 22"
  have "pow2 (ilog2 \<bar>x\<bar>) < pow2 22" using ilog2_lower [of "\<bar>x\<bar>"] False x by simp
  then have "ilog2 \<bar>x\<bar> < 22" using pow2_mono [of 22 "ilog2 \<bar>x\<bar>"] by linarith
  then have "quantum x \<le> - 2" by (simp add: quantum_def)
  then have q: "pow2 (quantum x) \<le> 1 / 4" using pow2_mono [of "quantum x" "- 2"] by (simp add: pow2_def)
  let ?p = "pow2 (quantum x)"
  have "fit x - x = (of_int (round_half_even (x / ?p)) - x / ?p) * ?p"
    using False pow2_pos [of "quantum x"] by (simp add: fit_def round_at_def left_diff_distrib less_imp_neq [symmetric])
  then have "\<bar>fit x - x\<bar> = \<bar>of_int (round_half_even (x / ?p)) - x / ?p\<bar> * ?p" by (simp add: abs_mult)
  also have "\<dots> \<le> 1 / 2 * ?p" using round_half_even_near by (rule mult_right_mono) simp
  finally show ?thesis using q by simp
qed (simp add: fit_def)

lemma round_at_multiple:
  assumes "q \<le> e"
  shows "round_at q (of_int n * pow2 e) = of_int n * pow2 e"
proof -
  have e: "pow2 e = of_int (2 ^ nat (e - q)) * pow2 q"
    using assms pow2_add [of "e - q" q] by (simp add: pow2_def)
  have "pow2 q \<noteq> 0" using pow2_pos [of q] by linarith
  then have "of_int n * pow2 e / pow2 q = of_int (n * 2 ^ nat (e - q))" by (simp add: e)
  then show ?thesis by (simp only: round_at_def round_half_even_int) (simp add: e)
qed

lemma fit_fit_pos:
  assumes "0 < x"
  shows "fit (fit x) = fit x"
proof (cases "fit x = 0")
  case False
  let ?q = "quantum x" and ?y = "fit x"
  have y: "?y = of_int (round_half_even (x / pow2 ?q)) * pow2 ?q" using assms by (simp add: fit_def round_at_def)
  have pos: "0 < ?y" using fit_nonneg [of x] assms False by (simp add: less_le)
  show ?thesis
  proof (cases "quantum ?y \<le> ?q")
    case True
    then have "round_at (quantum ?y) ?y = ?y" by (subst (2 3) y) (rule round_at_multiple)
    then show ?thesis using False by (simp add: fit_def)
  next
    case above: False
    have "x < pow2 (ilog2 x + 1)" using assms by (rule ilog2_upper)
    also have "\<dots> \<le> pow2 (?q + 24)" using assms by (intro pow2_mono) (simp add: quantum_def)
    finally have "?y \<le> pow2 (?q + 24)"
      using round_at_mono [of x "pow2 (?q + 24)" ?q] round_at_pow2 [of ?q "?q + 24"] assms by (simp add: fit_def)
    moreover have "?q + 24 \<le> ilog2 ?y" using above pos by (simp add: quantum_def)
    then have "pow2 (?q + 24) \<le> ?y" using pow2_mono [of "?q + 24" "ilog2 ?y"] ilog2_lower [OF pos] by linarith
    ultimately have "?y = pow2 (?q + 24)" by linarith
    moreover have "- 149 \<le> ?q + 24" by (simp add: quantum_def)
    ultimately show ?thesis using fit_pow2 by simp
  qed
qed (simp add: fit_def)

lemma fit_fit: "fit (fit x) = fit x"
proof -
  consider "0 < x" | "x = 0" | "0 < - x" by linarith
  then show ?thesis
  proof cases
    case 3
    then have "fit (fit (- x)) = fit (- x)" by (rule fit_fit_pos)
    then show ?thesis by (simp add: fit_minus)
  qed (simp_all add: fit_fit_pos, simp add: fit_def)
qed

lemma f32_of_near:
  assumes "\<bar>x\<bar> \<le> pow2 21"
  shows "\<exists>y. f32_of x = F64_Fin y \<and> \<bar>y - x\<bar> \<le> 1 / 4"
proof -
  have "pow2 21 < pow2 22" "pow2 21 + 1 < pow2 128" by (simp_all add: pow2_def)
  with assms fit_near [of x] show ?thesis by (auto simp: f32_of_fit)
qed

text \<open>The numbers that are single-precision ones.\<close>

definition is_f32 :: "f32 \<Rightarrow> bool" where
  "is_f32 x \<longleftrightarrow> (\<exists>r. x = f32_of r)"

section \<open>The operations are monotone\<close>

lemma f64_le_not_nan: "x \<le> y \<Longrightarrow> x \<noteq> F64_NaN \<and> y \<noteq> F64_NaN"
  by (cases x; cases y) simp_all

lemma f64_inf_le [simp]: "F64_NegInf \<le> x \<longleftrightarrow> x \<noteq> F64_NaN" "x \<le> F64_PosInf \<longleftrightarrow> x \<noteq> F64_NaN"
  by (cases x; simp add: less_eq_f64_def less_f64_def f64_eq_def)+

lemma f64_not_le_inf [simp]:
  "\<not> F64_Fin a \<le> F64_NegInf" "\<not> F64_PosInf \<le> F64_Fin a" "\<not> F64_PosInf \<le> F64_NegInf"
  by (simp_all add: less_eq_f64_def less_f64_def f64_eq_def)

lemma f64_le_less_trans: "x \<le> y \<Longrightarrow> y < z \<Longrightarrow> x < (z :: f64)"
  by (cases x; cases y; cases z) (auto simp: less_eq_f64_def less_f64_def f64_eq_def)

lemma f64_mono_lift:
  assumes "x \<le> y" and "\<And>a b. a \<le> b \<Longrightarrow> f (F64_Fin a) \<le> f (F64_Fin b)"
    and "f F64_NegInf = F64_NegInf" and "f F64_PosInf = F64_PosInf"
  shows "f x \<le> (f y :: f64)"
proof -
  have fin: "f (F64_Fin a) \<noteq> F64_NaN" for a using assms(2) [of a a] f64_le_not_nan by auto
  show ?thesis using assms fin by (cases x; cases y) simp_all
qed

lemma f32_add_mono: "x \<le> y \<Longrightarrow> f32_add x (F64_Fin a) \<le> f32_add y (F64_Fin a)"
  by (rule f64_mono_lift) (simp_all add: f32_add_def f32_of_mono)

lemma f32_add_mono_left: "x \<le> y \<Longrightarrow> f32_add (F64_Fin a) x \<le> f32_add (F64_Fin a) y"
  by (rule f64_mono_lift) (simp_all add: f32_add_def f32_of_mono)

lemma f32_above: "is_f32 z \<Longrightarrow> z \<le> f32_add (F64_Fin 10) z"
proof (cases z)
  case (F64_Fin r)
  assume "is_f32 z"
  with F64_Fin obtain x where "r = fit x" "fit x < pow2 128" "- pow2 128 < fit x"
    by (auto simp: is_f32_def f32_of_fit split: if_splits)
  then have "f32_of r = F64_Fin r" by (simp add: f32_of_fit fit_fit)
  then show ?thesis using f32_of_mono [of r "10 + r"] F64_Fin by (simp add: f32_add_def)
qed (auto simp: is_f32_def f32_add_def f32_of_not_nan [THEN not_sym])

lemma f32_higher: "is_f32 z \<Longrightarrow> is_f32 (f32_add z (F64_Fin 2))" "is_f32 z \<Longrightarrow> z \<le> f32_add z (F64_Fin 2)"
proof -
  assume z: "is_f32 z"
  show "is_f32 (f32_add z (F64_Fin 2))"
    using z by (cases z) (auto simp: is_f32_def f32_add_def)
  show "z \<le> f32_add z (F64_Fin 2)"
  proof (cases z)
    case (F64_Fin r)
    with z obtain x where "r = fit x" "fit x < pow2 128" "- pow2 128 < fit x"
      by (auto simp: is_f32_def f32_of_fit split: if_splits)
    then have "f32_of r = F64_Fin r" by (simp add: f32_of_fit fit_fit)
    then show ?thesis using f32_of_mono [of r "r + 2"] F64_Fin by (simp add: f32_add_def)
  qed (use z in \<open>auto simp: is_f32_def f32_add_def f32_of_not_nan [THEN not_sym]\<close>)
qed

lemma f32_mul_mono: "x \<le> y \<Longrightarrow> 0 < c \<Longrightarrow> f32_mul x (F64_Fin c) \<le> f32_mul y (F64_Fin c)"
  by (rule f64_mono_lift) (simp_all add: f32_mul_def f32_of_mono mult_right_mono zero_f64_def)

lemma f32_div_mono: "x \<le> y \<Longrightarrow> 0 < c \<Longrightarrow> f32_div x (F64_Fin c) \<le> f32_div y (F64_Fin c)"
  by (rule f64_mono_lift) (simp_all add: f32_div_def f32_of_mono divide_right_mono)

lemma f32_of_int_mono: "m \<le> n \<Longrightarrow> f32_of_int m \<le> f32_of_int n"
  by (simp add: f32_of_int_def f32_of_mono)

lemmas f32_mono = f32_add_mono f32_add_mono_left f32_mul_mono f32_div_mono f32_of_int_mono

text \<open>A difference with itself is zero or not a number, never large.\<close>

lemma f32_sub_self: "\<not> 0 < f64_abs (f32_sub x x)"
  by (cases x) (simp_all add: f32_sub_def f32_add_def zero_f64_def)

lemma f32_eps_sub_self: "\<not> F32_EPSILON < f64_abs (f32_sub x x)"
  by (cases x) (simp_all add: f32_sub_def f32_add_def F32_EPSILON_def less_imp_le not_less)

lemma f32_clamp_within:
  assumes "f32_clamp lo hi x = Some y" and "x \<noteq> F64_NaN"
  shows "lo \<le> y \<and> y \<le> hi"
proof -
  from assms(1) have o: "lo \<le> hi" and y: "y = (if x < lo then lo else if hi < x then hi else x)"
    by (auto simp: f32_clamp_def split: if_splits)
  from o have n: "lo \<noteq> F64_NaN" "hi \<noteq> F64_NaN" using f64_le_not_nan by auto
  then show ?thesis using o y assms(2) f64_not_less [of x lo] f64_not_less [of hi x]
    by (auto simp: f64_le_refl)
qed

end
