(* ===== verification/Windows.thy ===== *)
theory Windows
  imports Strategy_Run F32
begin

text \<open>
  The floating windows: their kinds, what a sidecar stores of each, restoring stored windows that are
  not yet there, and hiding the strategy editors while orders are placed by hand
  (\<open>src/ui/components.rs\<close>, the window part of \<open>src/ui/layout_persistence.rs\<close>, the spawning in
  \<open>src/ui/floating_window.rs\<close> and the mode visibility of \<open>src/ui/strategy_editor.rs\<close>). A window is a
  record of the components its root entity carries; the list is the query order. A single-precision
  number is one of the values of \<open>f64\<close>: the code modelled here stores, copies and compares them.
\<close>

section \<open>Model\<close>

subsection \<open>Kinds\<close>

datatype panel_restore_driver = RD_WindowLayout | RD_ScenarioInstruments

definition panel_label :: "panel_kind \<Rightarrow> str" where
  "panel_label k =
     (case k of PK_Chart \<Rightarrow> ''Chart'' | PK_StrategyEditor \<Rightarrow> ''Strategy Editor'' | PK_BuyingPower \<Rightarrow> ''Buying Power''
      | PK_RunResult \<Rightarrow> ''Run Result'' | PK_Positions \<Rightarrow> ''Positions'' | PK_Orders \<Rightarrow> ''Orders'' | PK_Order \<Rightarrow> ''Order''
      | PK_Startup \<Rightarrow> ''Startup'')"

definition restore_driver :: "panel_kind \<Rightarrow> panel_restore_driver" where
  "restore_driver k = (if k = PK_Chart \<or> k = PK_Order then RD_ScenarioInstruments else RD_WindowLayout)"

definition is_boot_spawned_mode_owned :: "panel_kind \<Rightarrow> bool" where
  "is_boot_spawned_mode_owned k \<longleftrightarrow> k = PK_Startup \<or> k = PK_RunResult"

subsection \<open>Windows and what is stored of them\<close>

datatype visibility = Vis_Inherited | Vis_Hidden | Vis_Visible

record window =
  wi_entity :: nat
  wi_kind :: panel_kind
  wi_editor :: "str option"
  wi_fragment :: "strategy_fragment option"
  wi_chart :: "str option"
  wi_position :: vec2
  wi_size :: "vec2 option"
  wi_z :: f32
  wi_visibility :: visibility
  wi_mode_hidden :: "visibility option"
  wi_excluded :: bool

record window_layout =
  wl_kind :: panel_kind
  wl_visible :: bool
  wl_position :: vec2
  wl_size :: vec2
  wl_z :: f32
  wl_region_key :: "str option"

datatype panel_spawn_source = PSS_User | PSS_LayoutLoad | PSS_UndoRedo

record spawn_spec =
  ses_region_key :: "str option"
  ses_source :: "str option"
  ses_layout_source :: panel_spawn_source

record panel_spawn_requested =
  psr_kind :: panel_kind
  psr_source :: panel_spawn_source
  psr_spec :: "spawn_spec option"

record pending_layout =
  pl_windows :: "window_layout list"
  pl_waiting :: bool
  pl_spawn_requested :: "(panel_kind \<times> str option) set"

definition is_non_persisted_layout_entry :: "window_layout \<Rightarrow> bool" where
  "is_non_persisted_layout_entry wl \<longleftrightarrow> restore_driver (wl_kind wl) = RD_ScenarioInstruments"

text \<open>What is stored of a window; the visibility kept aside in the manual mode goes first.\<close>

definition window_layout_of :: "window \<Rightarrow> window_layout" where
  "window_layout_of w =
     \<lparr>wl_kind = wi_kind w, wl_visible = (unwrap_or (wi_visibility w) (wi_mode_hidden w) \<noteq> Vis_Hidden),
      wl_position = wi_position w, wl_size = unwrap_or (0, 0) (wi_size w), wl_z = wi_z w,
      wl_region_key = wi_editor w\<rparr>"

definition stored_windows :: "window list \<Rightarrow> window_layout list" where
  "stored_windows ws =
     map window_layout_of
       (filter (\<lambda>w. \<not> wi_excluded w \<and> restore_driver (wi_kind w) \<noteq> RD_ScenarioInstruments) ws)"

subsection \<open>Matching a stored window\<close>

text \<open>Old files have no key for an editor.\<close>

definition want_key :: "window_layout \<Rightarrow> str option" where
  "want_key wl =
     (if wl_kind wl = PK_StrategyEditor then Some (unwrap_or ''region_001'' (wl_region_key wl)) else None)"

definition wants_window :: "window_layout \<Rightarrow> window \<Rightarrow> bool" where
  "wants_window wl w \<longleftrightarrow>
     \<not> wi_excluded w \<and> wi_kind w = wl_kind wl \<and>
     (wl_kind wl = PK_StrategyEditor \<longrightarrow> wi_editor w = want_key wl)"

definition set_visibility :: "visibility \<Rightarrow> window \<Rightarrow> window" where
  "set_visibility v w =
     (if wi_mode_hidden w = None then w\<lparr>wi_visibility := v\<rparr> else w\<lparr>wi_mode_hidden := Some v\<rparr>)"

text \<open>The panels that the application starts keep their size and are shown by the mode.\<close>

definition restore_window :: "window_layout \<Rightarrow> window \<Rightarrow> window" where
  "restore_window wl w =
     (let w1 = w\<lparr>wi_position := wl_position wl, wi_z := wl_z wl\<rparr> in
      if is_boot_spawned_mode_owned (wi_kind w) then w1
      else set_visibility (if wl_visible wl then Vis_Inherited else Vis_Hidden)
             (w1\<lparr>wi_size := Some (wl_size wl)\<rparr>))"

definition max_z_of :: "window_layout \<Rightarrow> f32 \<Rightarrow> f32" where
  "max_z_of wl z = (if z < wl_z wl then wl_z wl else z)"

text \<open>A spawn is asked for once per kind and key.\<close>

definition request_spawn :: "window_layout \<Rightarrow> pending_layout \<Rightarrow> pending_layout \<times> panel_spawn_requested list" where
  "request_spawn wl pl =
     (let key = (wl_kind wl, want_key wl) in
      if key \<in> pl_spawn_requested pl then (pl, [])
      else (pl\<lparr>pl_spawn_requested := insert key (pl_spawn_requested pl)\<rparr>,
            [\<lparr>psr_kind = wl_kind wl, psr_source = PSS_LayoutLoad,
              psr_spec = (if wl_kind wl = PK_StrategyEditor
                then Some \<lparr>ses_region_key = want_key wl, ses_source = None, ses_layout_source = PSS_LayoutLoad\<rparr>
                else None)\<rparr>]))"

subsection \<open>Restoring the windows that are still to come\<close>

text \<open>The peers are the text widgets of the editors, each with the key of its editor; the input focus
  and the search may point to one.\<close>

record layout_world =
  lw_windows :: "window list"
  lw_max_z :: f32
  lw_pending :: pending_layout
  lw_fragments :: pending_fragments
  lw_peers :: "(nat \<times> str) list"
  lw_focus :: "nat option"
  lw_find_target :: "nat option"
  lw_find_open :: bool

definition drop_orphan_peers :: "str \<Rightarrow> layout_world \<Rightarrow> layout_world" where
  "drop_orphan_peers k w =
     (let gone = map fst (filter (\<lambda>(e, key). key = k) (lw_peers w)) in
      w\<lparr>lw_peers := filter (\<lambda>(e, key). key \<noteq> k) (lw_peers w),
        lw_focus := (case lw_focus w of Some e \<Rightarrow> if e \<in> set gone then None else Some e | None \<Rightarrow> None),
        lw_find_target := (case lw_find_target w of Some e \<Rightarrow> if e \<in> set gone then None else Some e | None \<Rightarrow> None),
        lw_find_open := (lw_find_open w \<and>
          (case lw_find_target w of Some e \<Rightarrow> e \<notin> set gone | None \<Rightarrow> True))\<rparr>)"

text \<open>The pending text of an editor that is open already is written into it.\<close>

definition take_fragment :: "window \<Rightarrow> pending_fragments \<Rightarrow> window \<times> pending_fragments" where
  "take_fragment w pf =
     (case (wi_editor w, wi_fragment w) of
        (Some k, Some f) \<Rightarrow>
          (case pf_by_region_key pf k of
             Some src \<Rightarrow>
               (w\<lparr>wi_fragment := Some (f\<lparr>sf_source := src, sf_dirty := False\<rparr>)\<rparr>,
                pf\<lparr>pf_by_region_key := (pf_by_region_key pf)(k := None)\<rparr>)
           | None \<Rightarrow> (w, pf))
      | _ \<Rightarrow> (w, pf))"

text \<open>One stored window: what stays pending, and what is asked for.\<close>

definition pending_step ::
  "window_layout \<Rightarrow> layout_world \<times> window_layout list \<times> panel_spawn_requested list \<Rightarrow>
   layout_world \<times> window_layout list \<times> panel_spawn_requested list" where
  "pending_step wl t =
     (let (w, still, out) = t in
      if is_non_persisted_layout_entry wl then t
      else (case List.find (wants_window wl) (lw_windows w) of
              None \<Rightarrow>
                (let w1 = (case want_key wl of None \<Rightarrow> w | Some k \<Rightarrow> drop_orphan_peers k w) in
                 if is_boot_spawned_mode_owned (wl_kind wl) then (w1, still, out)
                 else (let (pl, reqs) = request_spawn wl (lw_pending w1) in
                       (w1\<lparr>lw_pending := pl\<rparr>, still @ [wl], out @ reqs)))
            | Some found \<Rightarrow>
                (let (x, pf) = take_fragment (restore_window wl found) (lw_fragments w) in
                 (w\<lparr>lw_windows := upd_first (wants_window wl) (\<lambda>_. x) (lw_windows w),
                    lw_max_z := max_z_of wl (lw_max_z w), lw_fragments := pf\<rparr>, still, out))))"

definition no_fragments :: "pending_fragments \<Rightarrow> bool" where
  "no_fragments pf \<longleftrightarrow> dom (pf_by_region_key pf) = {}"

definition apply_pending_layout_system :: "layout_world \<Rightarrow> layout_world \<times> panel_spawn_requested list" where
  "apply_pending_layout_system w =
     (let pl = lw_pending w in
      if pl_windows pl = [] then (w, [])
      else if pl_waiting pl \<and> no_fragments (lw_fragments w) then (w, [])
      else (let (w1, still, out) =
                  fold pending_step (pl_windows pl)
                    (w\<lparr>lw_pending := pl\<lparr>pl_waiting := False, pl_windows := []\<rparr>\<rparr>, [], []);
                pl1 = (lw_pending w1)\<lparr>pl_windows := still\<rparr> in
            (w1\<lparr>lw_pending := (if still = [] then pl1\<lparr>pl_spawn_requested := {}\<rparr> else pl1)\<rparr>, out)))"

subsection \<open>Hiding the editors in the manual mode\<close>

definition hide_in_mode :: "bool \<Rightarrow> window \<Rightarrow> window" where
  "hide_in_mode manual w =
     (if wi_kind w \<noteq> PK_StrategyEditor then w
      else if manual
      then (if wi_mode_hidden w = None then w\<lparr>wi_mode_hidden := Some (wi_visibility w), wi_visibility := Vis_Hidden\<rparr>
            else w\<lparr>wi_visibility := Vis_Hidden\<rparr>)
      else (case wi_mode_hidden w of
              Some v \<Rightarrow> w\<lparr>wi_visibility := v, wi_mode_hidden := None\<rparr>
            | None \<Rightarrow> w))"

text \<open>The windows, and for each panel button whether it is displayed.\<close>

definition apply_strategy_editor_mode_visibility_system ::
  "execution_mode \<Rightarrow> window list \<times> (panel_kind \<times> bool) list \<Rightarrow> window list \<times> (panel_kind \<times> bool) list" where
  "apply_strategy_editor_mode_visibility_system m t =
     (let (ws, buttons) = t; manual = (m = EM_LiveManual) in
      (map (hide_in_mode manual) ws,
       map (\<lambda>(k, shown). (k, if k = PK_StrategyEditor then \<not> manual else shown)) buttons))"

subsection \<open>Spawning\<close>

text \<open>The size and the place at which each panel is created; the first are those of
  \<open>PANEL_SIZE\<close> and \<open>PANEL_POSITION\<close> in its file.\<close>

definition new_window :: "nat \<Rightarrow> panel_kind \<Rightarrow> (f32 \<times> f32) \<Rightarrow> vec2 \<Rightarrow> window" where
  "new_window e k sz pos =
     \<lparr>wi_entity = e, wi_kind = k, wi_editor = None, wi_fragment = None, wi_chart = None,
      wi_position = pos, wi_size = Some sz, wi_z = F64_Fin 10, wi_visibility = Vis_Inherited,
      wi_mode_hidden = None, wi_excluded = False\<rparr>"

abbreviation num :: "rat \<Rightarrow> f32" where "num \<equiv> F64_Fin"

definition spawn_strategy_editor_panel ::
  "nat \<Rightarrow> spawn_spec \<Rightarrow> region_key_allocator \<Rightarrow> window \<times> region_key_allocator" where
  "spawn_strategy_editor_panel e spec al =
     (let (key, al1) =
            (case ses_region_key spec of
               Some k \<Rightarrow> (k, (case numeric_suffix_of k of Some n \<Rightarrow> bump_to_at_least (of_nat n) al | None \<Rightarrow> al))
             | None \<Rightarrow> allocate al) in
      ((new_window e PK_StrategyEditor (num 500, num 400) (num (-300), num 50))
         \<lparr>wi_editor := Some key,
          wi_fragment := Some \<lparr>sf_source = unwrap_or [] (ses_source spec), sf_dirty = False\<rparr>\<rparr>, al1))"

section \<open>Properties\<close>

subsection \<open>The manual mode\<close>

lemma hide_keeps_layout: "window_layout_of (hide_in_mode manual w) = window_layout_of w"
  by (cases "wi_mode_hidden w") (auto simp: hide_in_mode_def window_layout_of_def)

lemma hide_keeps_filter:
  "wi_excluded (hide_in_mode manual w) = wi_excluded w" "wi_kind (hide_in_mode manual w) = wi_kind w"
  by (cases "wi_mode_hidden w"; auto simp: hide_in_mode_def)+

lemma stored_windows_hide: "stored_windows (map (hide_in_mode manual) ws) = stored_windows ws"
  by (induction ws) (simp_all add: stored_windows_def hide_keeps_layout hide_keeps_filter)

lemma hide_twice: "hide_in_mode True (hide_in_mode True w) = hide_in_mode True w"
  by (simp add: hide_in_mode_def)

lemma hide_and_show: "wi_mode_hidden w = None \<Longrightarrow> hide_in_mode False (hide_in_mode True w) = w"
  by (simp add: hide_in_mode_def)

lemma visibility_step:
  "fst (apply_strategy_editor_mode_visibility_system m t) = map (hide_in_mode (m = EM_LiveManual)) (fst t)"
  by (cases t) (simp add: apply_strategy_editor_mode_visibility_system_def Let_def)

lemma manual_frames:
  "fst ((apply_strategy_editor_mode_visibility_system EM_LiveManual ^^ Suc n) (ws, bs)) = map (hide_in_mode True) ws"
proof (induction n)
  case (Suc n)
  have "fst ((apply_strategy_editor_mode_visibility_system EM_LiveManual ^^ Suc (Suc n)) (ws, bs)) =
      map (hide_in_mode True) (fst ((apply_strategy_editor_mode_visibility_system EM_LiveManual ^^ Suc n) (ws, bs)))"
    by (subst funpow.simps(2)) (simp add: visibility_step del: funpow.simps)
  also have "\<dots> = map (hide_in_mode True) ws" by (simp only: Suc.IH map_map comp_def hide_twice)
  finally show ?case .
qed (simp add: visibility_step)

text \<open>While orders are placed by hand every editor is hidden, what a save would store does not change,
  and the first frame of another mode shows the windows exactly as they were.\<close>

theorem manual_mode_leaves_the_layout_alone:
  assumes "list_all (\<lambda>w. wi_mode_hidden w = None) ws" and "m \<noteq> EM_LiveManual"
  shows "let manual = (apply_strategy_editor_mode_visibility_system EM_LiveManual ^^ Suc n) (ws, bs) in
    list_all (\<lambda>w. wi_kind w = PK_StrategyEditor \<longrightarrow> wi_visibility w = Vis_Hidden) (fst manual) \<and>
    stored_windows (fst manual) = stored_windows ws \<and>
    fst (apply_strategy_editor_mode_visibility_system m manual) = ws"
proof -
  let ?manual = "(apply_strategy_editor_mode_visibility_system EM_LiveManual ^^ Suc n) (ws, bs)"
  note f = manual_frames [of n ws bs]
  have h: "list_all (\<lambda>w. wi_kind w = PK_StrategyEditor \<longrightarrow> wi_visibility w = Vis_Hidden) (fst ?manual)"
    unfolding f by (auto simp: list_all_iff hide_in_mode_def)
  have "map (hide_in_mode False) (map (hide_in_mode True) ws) = ws"
    unfolding map_map using assms(1) by (intro map_idI) (auto simp: list_all_iff hide_and_show)
  then have "fst (apply_strategy_editor_mode_visibility_system m ?manual) = ws"
    using assms(2) f by (simp add: visibility_step)
  with h show ?thesis by (simp add: f stored_windows_hide Let_def del: funpow.simps)
qed

lemma manual_mode_leaves_the_layout_alone_witness:
  "fst (apply_strategy_editor_mode_visibility_system EM_Replay
     ((apply_strategy_editor_mode_visibility_system EM_LiveManual ^^ Suc 2)
       ([new_window 1 PK_StrategyEditor (0, 0) (0, 0)], [(PK_StrategyEditor, True)]))) =
   [new_window 1 PK_StrategyEditor (0, 0) (0, 0)]"
  using manual_mode_leaves_the_layout_alone [of "[new_window 1 PK_StrategyEditor (0, 0) (0, 0)]" EM_Replay 2
      "[(PK_StrategyEditor, True)]"]
  by (simp add: new_window_def Let_def del: funpow.simps)

end
