(* ===== verification/History.thy ===== *)
theory History
  imports Windows
begin

text \<open>
  The single time line of undo and redo (\<open>src/ui/editor_history.rs\<close>, the systems of
  \<open>src/ui/strategy_editor.rs\<close> that drive it, and the dispatcher, the close button and the title bar of
  \<open>src/ui/floating_window.rs\<close> that feed it). The stack itself is the \<open>Record\<close> of the crate
  \<open>undo\<close>: a parameter, given by its four operations, whose documented behaviour is the premise
  \<open>record_documented\<close>. Instants are nanoseconds.
\<close>

section \<open>Model\<close>

subsection \<open>Edits and actions\<close>

record text_edit =
  te_region_key :: str
  te_before :: str
  te_after :: str
  te_timestamp :: nat

record window_move_edit =
  wm_kind :: panel_kind
  wm_region_key :: "str option"
  wm_before :: vec2
  wm_after :: vec2

record window_spawn_edit =
  wse_kind :: panel_kind
  wse_layout :: window_layout

record window_despawn_edit =
  wd_layout :: window_layout
  wd_snapshot :: "(str \<times> str) option"

datatype app_edit =
    AE_Text text_edit
  | AE_WindowMove window_move_edit
  | AE_WindowSpawn window_spawn_edit
  | AE_WindowDespawn window_despawn_edit

datatype app_edit_action =
    AA_SetStrategySource str str
  | AA_MoveWindow panel_kind "str option" vec2
  | AA_SpawnWindow window_layout "(str \<times> str) option"
  | AA_DespawnWindow panel_kind "str option"

definition edit_action :: "app_edit \<Rightarrow> app_edit_action" where
  "edit_action e =
     (case e of
        AE_Text t \<Rightarrow> AA_SetStrategySource (te_region_key t) (te_after t)
      | AE_WindowMove m \<Rightarrow> AA_MoveWindow (wm_kind m) (wm_region_key m) (wm_after m)
      | AE_WindowSpawn s \<Rightarrow> AA_SpawnWindow (wse_layout s) None
      | AE_WindowDespawn d \<Rightarrow> AA_DespawnWindow (wl_kind (wd_layout d)) (wl_region_key (wd_layout d)))"

definition undo_action :: "app_edit \<Rightarrow> app_edit_action" where
  "undo_action e =
     (case e of
        AE_Text t \<Rightarrow> AA_SetStrategySource (te_region_key t) (te_before t)
      | AE_WindowMove m \<Rightarrow> AA_MoveWindow (wm_kind m) (wm_region_key m) (wm_before m)
      | AE_WindowSpawn s \<Rightarrow> AA_DespawnWindow (wse_kind s) (wl_region_key (wse_layout s))
      | AE_WindowDespawn d \<Rightarrow> AA_SpawnWindow (wd_layout d) (wd_snapshot d))"

definition TEXT_MERGE_WINDOW_MS :: nat where "TEXT_MERGE_WINDOW_MS = 500"
definition TEXT_MERGE_MAX_DIFF :: nat where "TEXT_MERGE_MAX_DIFF = 50"

definition abs_diff :: "nat \<Rightarrow> nat \<Rightarrow> nat" where
  "abs_diff a b = (if a < b then b - a else a - b)"

text \<open>Whether a new edit is taken into the last one, and the merged edit.\<close>

definition merge_edit :: "app_edit \<Rightarrow> app_edit \<Rightarrow> app_edit option" where
  "merge_edit self other =
     (case (self, other) of
        (AE_Text s, AE_Text n) \<Rightarrow>
          (let elapsed = (te_timestamp n - te_timestamp s) div 1000000;
               diff_len = abs_diff (length (te_after n)) (length (te_after s));
               added_newline = (newline \<in> set (te_after n) \<and> newline \<notin> set (te_after s)) in
           if elapsed \<le> TEXT_MERGE_WINDOW_MS \<and> diff_len \<le> TEXT_MERGE_MAX_DIFF \<and> \<not> added_newline
           then Some (AE_Text (s\<lparr>te_after := te_after n\<rparr>)) else None)
      | _ \<Rightarrow> None)"

subsection \<open>The record of the crate\<close>

text \<open>Pushing takes the merge policy; undoing and redoing give the edit they concern.\<close>

record 'r record_lib =
  rl_edit :: "(app_edit \<Rightarrow> app_edit \<Rightarrow> app_edit option) \<Rightarrow> 'r \<Rightarrow> app_edit \<Rightarrow> 'r"
  rl_undo :: "'r \<Rightarrow> (app_edit \<times> 'r) option"
  rl_redo :: "'r \<Rightarrow> (app_edit \<times> 'r) option"
  rl_limited :: "nat \<Rightarrow> 'r"

text \<open>What its documentation says, for a limit and a view of a record as the edits that are done,
  the last one first, and those that can be redone, the next one first: pushing drops what could be
  redone, then merges with the last edit or goes on top of the stack, whose oldest edits give way at
  the limit; undoing and redoing move one edit.\<close>

definition push_done :: "(app_edit \<Rightarrow> app_edit \<Rightarrow> app_edit option) \<Rightarrow> nat \<Rightarrow> app_edit list \<Rightarrow> app_edit \<Rightarrow> app_edit list" where
  "push_done mrg n es e =
     (case es of
        [] \<Rightarrow> take n [e]
      | x # xs \<Rightarrow> (case mrg x e of Some y \<Rightarrow> y # xs | None \<Rightarrow> take n (e # x # xs)))"

definition record_documented :: "nat \<Rightarrow> 'r record_lib \<Rightarrow> ('r \<Rightarrow> app_edit list \<times> app_edit list) \<Rightarrow> bool" where
  "record_documented n rl view \<longleftrightarrow>
     view (rl_limited rl n) = ([], []) \<and>
     (\<forall>mrg r e. view (rl_edit rl mrg r e) = (push_done mrg n (fst (view r)) e, [])) \<and>
     (\<forall>r. case view r of
        ([], redo) \<Rightarrow> rl_undo rl r = None
      | (e # past, redo) \<Rightarrow> (case rl_undo rl r of Some (x, r') \<Rightarrow> x = e \<and> view r' = (past, e # redo) | None \<Rightarrow> False)) \<and>
     (\<forall>r. case view r of
        (past, []) \<Rightarrow> rl_redo rl r = None
      | (past, e # redo) \<Rightarrow> (case rl_redo rl r of Some (x, r') \<Rightarrow> x = e \<and> view r' = (e # past, redo) | None \<Rightarrow> False))"

subsection \<open>The history\<close>

record 'r app_history =
  ah_record :: 'r
  ah_pending :: "app_edit_action list"
  ah_replaying_depth :: nat
  ah_suppress_echo_target :: "(str \<times> str) option"

definition HISTORY_LIMIT :: nat where "HISTORY_LIMIT = 200"

definition app_history_default :: "'r record_lib \<Rightarrow> 'r app_history" where
  "app_history_default rl =
     \<lparr>ah_record = rl_limited rl HISTORY_LIMIT, ah_pending = [], ah_replaying_depth = 0,
      ah_suppress_echo_target = None\<rparr>"

definition is_replaying :: "'r app_history \<Rightarrow> bool" where
  "is_replaying h \<longleftrightarrow> 0 < ah_replaying_depth h"

definition suppress_echo :: "str \<Rightarrow> str \<Rightarrow> 'r app_history \<Rightarrow> 'r app_history" where
  "suppress_echo k s h = h\<lparr>ah_suppress_echo_target := Some (k, s)\<rparr>"

text \<open>What was done already is not done again: the action of a pushed edit is dropped.\<close>

definition push_edit :: "'r record_lib \<Rightarrow> app_edit \<Rightarrow> 'r app_history \<Rightarrow> 'r app_history" where
  "push_edit rl e h =
     (if is_replaying h then h
      else h\<lparr>ah_record := rl_edit rl merge_edit (ah_record h) e, ah_pending := []\<rparr>)"

definition push_text :: "'r record_lib \<Rightarrow> nat \<Rightarrow> str \<Rightarrow> str \<Rightarrow> str \<Rightarrow> 'r app_history \<Rightarrow> 'r app_history" where
  "push_text rl now k before after h =
     push_edit rl (AE_Text \<lparr>te_region_key = k, te_before = before, te_after = after, te_timestamp = now\<rparr>) h"

text \<open>The vector arithmetic is a parameter: whether two points are less than one apart.\<close>

definition push_window_move ::
  "'r record_lib \<Rightarrow> (vec2 \<Rightarrow> vec2 \<Rightarrow> bool) \<Rightarrow> panel_kind \<Rightarrow> str option \<Rightarrow> vec2 \<Rightarrow> vec2 \<Rightarrow> 'r app_history \<Rightarrow> 'r app_history" where
  "push_window_move rl near k key before after h =
     (if is_replaying h \<or> near before after then h
      else push_edit rl (AE_WindowMove \<lparr>wm_kind = k, wm_region_key = key, wm_before = before, wm_after = after\<rparr>) h)"

definition push_window_spawn :: "'r record_lib \<Rightarrow> panel_kind \<Rightarrow> window_layout \<Rightarrow> 'r app_history \<Rightarrow> 'r app_history" where
  "push_window_spawn rl k wl h = push_edit rl (AE_WindowSpawn \<lparr>wse_kind = k, wse_layout = wl\<rparr>) h"

definition push_window_despawn ::
  "'r record_lib \<Rightarrow> window_layout \<Rightarrow> (str \<times> str) option \<Rightarrow> 'r app_history \<Rightarrow> 'r app_history" where
  "push_window_despawn rl wl snap h = push_edit rl (AE_WindowDespawn \<lparr>wd_layout = wl, wd_snapshot = snap\<rparr>) h"

subsection \<open>The keys and menus of undo and redo\<close>

record undo_input =
  ui_menu_undo :: bool
  ui_menu_redo :: bool
  ui_ctrl :: bool
  ui_shift :: bool
  ui_just_z :: bool
  ui_just_y :: bool

text \<open>One step of the record under a raised depth; when there is nothing to do it falls back.\<close>

definition replay ::
  "('r \<Rightarrow> (app_edit \<times> 'r) option) \<Rightarrow> (app_edit \<Rightarrow> app_edit_action) \<Rightarrow> 'r app_history \<Rightarrow> 'r app_history" where
  "replay move action h =
     (case move (ah_record h) of
        None \<Rightarrow> h
      | Some (e, r) \<Rightarrow>
          h\<lparr>ah_record := r, ah_pending := ah_pending h @ [action e],
            ah_replaying_depth := ah_replaying_depth h + 1\<rparr>)"

text \<open>The cooldown is over or not: the subtraction of the frame time is a parameter.\<close>

definition undo_redo_system :: "'r record_lib \<Rightarrow> bool \<Rightarrow> undo_input \<Rightarrow> 'r app_history \<Rightarrow> 'r app_history" where
  "undo_redo_system rl cooling u h =
     (if cooling \<and> \<not> ui_menu_undo u \<and> \<not> ui_menu_redo u then h
      else if ui_menu_undo u \<or> (ui_ctrl u \<and> ui_just_z u \<and> \<not> ui_shift u) then replay (rl_undo rl) undo_action h
      else if ui_menu_redo u \<or> (ui_ctrl u \<and> (ui_just_y u \<or> (ui_just_z u \<and> ui_shift u))) then replay (rl_redo rl) edit_action h
      else h)"

subsection \<open>Carrying out the actions\<close>

record layout_save_state =
  las_dirty :: bool
  las_last_change :: "nat option"

definition mark_layout_changed :: "nat \<Rightarrow> layout_save_state \<Rightarrow> layout_save_state" where
  "mark_layout_changed now a = a\<lparr>las_dirty := True, las_last_change := Some now\<rparr>"

text \<open>The resources and the windows; \<open>hw_out\<close> are the spawns asked for in the frame and
  \<open>hw_applied\<close> says that the editors have to be refreshed.\<close>

record 'r history_world =
  hw_history :: "'r app_history"
  hw_windows :: "window list"
  hw_pending_layout :: pending_layout
  hw_restore :: "(str \<times> str) option"
  hw_auto_save :: auto_save_state
  hw_layout_save :: layout_save_state
  hw_out :: "panel_spawn_requested list"
  hw_applied :: bool

definition has_key :: "str \<Rightarrow> window \<Rightarrow> bool" where
  "has_key k w \<longleftrightarrow> wi_editor w = Some k"

definition has_fragment :: "str \<Rightarrow> window \<Rightarrow> bool" where
  "has_fragment k w \<longleftrightarrow> wi_editor w = Some k \<and> wi_fragment w \<noteq> None"

definition target :: "panel_kind \<Rightarrow> str option \<Rightarrow> window \<Rightarrow> bool" where
  "target k key w \<longleftrightarrow> (case key of Some rk \<Rightarrow> has_key rk w | None \<Rightarrow> wi_kind w = k)"

definition dirty_fragment :: "str \<Rightarrow> window \<Rightarrow> window" where
  "dirty_fragment src w = w\<lparr>wi_fragment := map_option (\<lambda>f. f\<lparr>sf_source := src, sf_dirty := True\<rparr>) (wi_fragment w)\<rparr>"

definition touch_auto_save :: "nat \<Rightarrow> auto_save_state \<Rightarrow> auto_save_state" where
  "touch_auto_save now a = a\<lparr>as_dirty := True, as_last_change := Some now\<rparr>"

definition apply_action :: "nat \<Rightarrow> app_edit_action \<Rightarrow> 'r history_world \<times> bool \<Rightarrow> 'r history_world \<times> bool" where
  "apply_action now a t =
     (let (w, any_text) = t in
      case a of
        AA_SetStrategySource k s \<Rightarrow>
          (let w1 = w\<lparr>hw_history := suppress_echo k s (hw_history w)\<rparr> in
           if list_ex (has_fragment k) (hw_windows w)
           then (w1\<lparr>hw_windows := upd_first (has_fragment k) (dirty_fragment s) (hw_windows w),
                    hw_auto_save := touch_auto_save now (hw_auto_save w)\<rparr>, True)
           else (w1, any_text))
      | AA_MoveWindow k key p \<Rightarrow>
          (w\<lparr>hw_windows := upd_first (target k key) (\<lambda>x. x\<lparr>wi_position := p\<rparr>) (hw_windows w),
             hw_layout_save := (hw_layout_save w)\<lparr>las_dirty := True\<rparr>\<rparr>, any_text)
      | AA_SpawnWindow wl snap \<Rightarrow>
          (w\<lparr>hw_out := hw_out w @
               [\<lparr>psr_kind = wl_kind wl, psr_source = PSS_UndoRedo,
                 psr_spec = (if wl_kind wl = PK_StrategyEditor
                   then Some \<lparr>ses_region_key = wl_region_key wl, ses_source = None, ses_layout_source = PSS_UndoRedo\<rparr>
                   else None)\<rparr>],
             hw_pending_layout := (hw_pending_layout w)\<lparr>pl_windows := pl_windows (hw_pending_layout w) @ [wl]\<rparr>,
             hw_restore := (if wl_kind wl = PK_StrategyEditor \<and> snap \<noteq> None then snap else hw_restore w),
             hw_layout_save := (hw_layout_save w)\<lparr>las_dirty := True\<rparr>\<rparr>, any_text)
      | AA_DespawnWindow k key \<Rightarrow>
          (case List.find (target k key) (hw_windows w) of
             Some x \<Rightarrow>
               (w\<lparr>hw_windows := filter (\<lambda>y. wi_entity y \<noteq> wi_entity x) (hw_windows w),
                  hw_layout_save := (hw_layout_save w)\<lparr>las_dirty := True\<rparr>\<rparr>, any_text)
           | None \<Rightarrow> (w, any_text)))"

definition apply_pending_app_edits_system :: "nat \<Rightarrow> 'r history_world \<Rightarrow> 'r history_world" where
  "apply_pending_app_edits_system now w =
     (let h = hw_history w in
      if ah_pending h = [] then w
      else (let (w1, any_text) = fold (apply_action now) (ah_pending h) (w\<lparr>hw_history := h\<lparr>ah_pending := []\<rparr>\<rparr>, False);
                h1 = hw_history w1 in
            w1\<lparr>hw_applied := (hw_applied w1 \<or> (any_text \<and> is_replaying h1)),
               hw_history := h1\<lparr>ah_replaying_depth := ah_replaying_depth h1 - 1\<rparr>\<rparr>))"

text \<open>The text of a window that was closed and comes back, once its window is there.\<close>

definition apply_strategy_snapshot_restore_system :: "nat \<Rightarrow> bool \<Rightarrow> 'r history_world \<Rightarrow> 'r history_world" where
  "apply_strategy_snapshot_restore_system now any_editor w =
     (case hw_restore w of
        None \<Rightarrow> w
      | Some (k, s) \<Rightarrow>
          (if \<not> any_editor then w
           else (let w1 = w\<lparr>hw_history := suppress_echo k s (hw_history w)\<rparr> in
                 if list_ex (has_fragment k) (hw_windows w)
                 then w1\<lparr>hw_restore := None, hw_windows := upd_first (has_fragment k) (dirty_fragment s) (hw_windows w),
                         hw_auto_save := touch_auto_save now (hw_auto_save w), hw_applied := True\<rparr>
                 else w1)))"

subsection \<open>The text widgets of the editors\<close>

text \<open>The text of a widget changed: a text that was just written into it is its echo and is not an
  edit.\<close>

type_synonym 'r sync_sys = "window list \<times> 'r app_history \<times> auto_save_state"

definition source_of :: "window \<Rightarrow> str" where
  "source_of w = (case wi_fragment w of Some f \<Rightarrow> sf_source f | None \<Rightarrow> [])"

definition set_source :: "str \<Rightarrow> window \<Rightarrow> window" where
  "set_source src w = w\<lparr>wi_fragment := map_option (\<lambda>f. f\<lparr>sf_source := src\<rparr>) (wi_fragment w)\<rparr>"

definition sync_one :: "'r record_lib \<Rightarrow> nat \<times> str \<times> str \<Rightarrow> 'r sync_sys \<Rightarrow> 'r sync_sys" where
  "sync_one rl ev t =
     (let (now, k, new_text) = ev; (ws, h, a) = t in
      case List.find (has_fragment k) ws of
        None \<Rightarrow> t
      | Some w \<Rightarrow>
          (let h1 = h\<lparr>ah_suppress_echo_target := None\<rparr> in
           if ah_suppress_echo_target h = Some (k, new_text)
           then (upd_first (has_fragment k) (set_source new_text) ws, h1, a)
           else if source_of w = new_text then (ws, h1, a)
           else (upd_first (has_fragment k) (dirty_fragment new_text) ws,
                 push_text rl now k (source_of w) new_text h1, touch_auto_save now a)))"

definition sync_bevscode_to_strategy_fragment_system ::
  "'r record_lib \<Rightarrow> (nat \<times> str \<times> str) list \<Rightarrow> 'r sync_sys \<Rightarrow> 'r sync_sys" where
  "sync_bevscode_to_strategy_fragment_system rl evs t = fold (sync_one rl) evs t"

text \<open>The widgets, each with its window, the key, its text, the text it still has to be given and
  whether its language has to be set again.\<close>

record editor_peer =
  ep_entity :: nat
  ep_root :: nat
  ep_region_key :: str
  ep_text :: str
  ep_seed :: "str option"
  ep_relang :: bool

datatype editor_request = ER_SetText nat str | ER_SetLanguage nat

definition peer_for :: "editor_peer list \<Rightarrow> str \<Rightarrow> editor_peer option" where
  "peer_for ps k = List.find (\<lambda>p. ep_region_key p = k) (rev ps)"

definition sync_fragment_one ::
  "str \<times> str \<Rightarrow> editor_peer list \<times> editor_request list \<Rightarrow> editor_peer list \<times> editor_request list" where
  "sync_fragment_one f t =
     (let (k, src) = f; (ps, out) = t in
      case peer_for ps k of
        None \<Rightarrow> t
      | Some p \<Rightarrow>
          (if ep_text p = src then t
           else (map (\<lambda>q. if ep_entity q = ep_entity p then q\<lparr>ep_relang := True\<rparr> else q) ps,
                 out @ [ER_SetText (ep_entity p) src])))"

definition sync_strategy_fragment_to_bevscode_system ::
  "(str \<times> str) list \<Rightarrow> editor_peer list \<Rightarrow> editor_peer list \<times> editor_request list" where
  "sync_strategy_fragment_to_bevscode_system changed ps = fold sync_fragment_one changed (ps, [])"

definition flush_pending_language_request_system :: "editor_peer list \<Rightarrow> editor_peer list \<times> editor_request list" where
  "flush_pending_language_request_system ps =
     (map (\<lambda>p. p\<lparr>ep_relang := False\<rparr>) ps, map (\<lambda>p. ER_SetLanguage (ep_entity p)) (filter ep_relang ps))"

definition spawn_peers :: "nat \<Rightarrow> (nat \<times> str \<times> str) list \<Rightarrow> editor_peer list \<Rightarrow> editor_peer list" where
  "spawn_peers first added ps =
     ps @ map (\<lambda>(i, root, k, src). \<lparr>ep_entity = first + i, ep_root = root, ep_region_key = k, ep_text = [],
                                    ep_seed = Some src, ep_relang = False\<rparr>) (enumerate 0 added)"

text \<open>The seeds are sent once; the last one takes the input focus.\<close>

definition apply_pending_strategy_seed_system ::
  "editor_peer list \<times> nat option \<Rightarrow> (editor_peer list \<times> nat option) \<times> editor_request list" where
  "apply_pending_strategy_seed_system t =
     (let (ps, focus) = t; seeded = filter (\<lambda>p. ep_seed p \<noteq> None) ps in
      ((map (\<lambda>p. p\<lparr>ep_seed := None\<rparr>) ps, if seeded = [] then focus else Some (ep_entity (last seeded))),
       concat (map (\<lambda>p. [ER_SetText (ep_entity p) (the (ep_seed p)), ER_SetLanguage (ep_entity p)]) seeded)))"

text \<open>The widgets of windows that are gone go too, with the focus and the search that pointed to
  them.\<close>

definition cleanup_strategy_editor_node_on_root_despawn ::
  "nat list \<Rightarrow> editor_peer list \<times> nat option \<times> nat option \<times> bool \<Rightarrow> editor_peer list \<times> nat option \<times> nat option \<times> bool" where
  "cleanup_strategy_editor_node_on_root_despawn removed t =
     (let (ps, focus, find_target, find_open) = t;
          gone = map ep_entity (filter (\<lambda>p. ep_root p \<in> set removed) ps);
          hit = (\<lambda>x. case x of Some e \<Rightarrow> e \<in> set gone | None \<Rightarrow> False) in
      (filter (\<lambda>p. ep_root p \<notin> set removed) ps,
       (if hit focus then None else focus),
       (if hit find_target then None else find_target), find_open \<and> \<not> hit find_target))"

subsection \<open>Opening panels\<close>

record 'r spawn_sys =
  sp_windows :: "window list"
  sp_next :: nat
  sp_allocator :: region_key_allocator
  sp_history :: "'r app_history"
  sp_fragments :: pending_fragments
  sp_buffer :: strategy_buffer

text \<open>The plain panels with the size and place of their files.\<close>

definition plain_panel :: "nat \<Rightarrow> panel_kind \<Rightarrow> window option" where
  "plain_panel e k =
     (case k of
        PK_BuyingPower \<Rightarrow> Some (new_window e k (num 270, num 130) (num (-450), num 100))
      | PK_RunResult \<Rightarrow> Some (new_window e k (num 280, num 160) (num (-450), num (-70)))
      | PK_Positions \<Rightarrow> Some (new_window e k (num 280, num 200) (num (-150), num (-270)))
      | PK_Orders \<Rightarrow> Some (new_window e k (num 360, num 220) (num 300, num (-270)))
      | PK_Startup \<Rightarrow> Some (new_window e k (num 320, num 200) (num (-450), num (-120)))
      | PK_Order \<Rightarrow> Some ((new_window e k (num 320, num 360) (0, 0))\<lparr>wi_excluded := True\<rparr>)
      | PK_Chart \<Rightarrow> None
      | PK_StrategyEditor \<Rightarrow> None)"

text \<open>An editor that is opened without further data gets a fresh key, and a place in the cache when
  no strategy is loaded.\<close>

definition blank_editor :: "cache_env \<Rightarrow> panel_spawn_source \<Rightarrow> 'r spawn_sys \<Rightarrow> spawn_spec \<times> 'r spawn_sys" where
  "blank_editor ce source s =
     (let (k, al) = allocate (sp_allocator s); b = sp_buffer s in
      (\<lparr>ses_region_key = Some k, ses_source = Some [], ses_layout_source = source\<rparr>,
       s\<lparr>sp_allocator := al,
         sp_buffer := (if sb_original_path b = None \<and> sb_cache_path b = None
                       then b\<lparr>sb_cache_path := cache_path_for_load ce\<rparr> else b)\<rparr>))"

definition fill_source :: "spawn_spec \<Rightarrow> 'r spawn_sys \<Rightarrow> spawn_spec \<times> 'r spawn_sys" where
  "fill_source spec s =
     (if ses_source spec \<noteq> None then (spec, s)
      else (case ses_region_key spec of
              None \<Rightarrow> (spec\<lparr>ses_source := Some []\<rparr>, s)
            | Some k \<Rightarrow>
                (let pf = sp_fragments s in
                 (spec\<lparr>ses_source := Some (unwrap_or [] (pf_by_region_key pf k))\<rparr>,
                  s\<lparr>sp_fragments := pf\<lparr>pf_by_region_key := (pf_by_region_key pf)(k := None)\<rparr>\<rparr>))))"

definition open_editor :: "cache_env \<Rightarrow> panel_spawn_requested \<Rightarrow> 'r spawn_sys \<Rightarrow> str option \<times> 'r spawn_sys" where
  "open_editor ce ev s =
     (let (spec, s1) = (case psr_spec ev of Some spec \<Rightarrow> (spec, s) | None \<Rightarrow> blank_editor ce (psr_source ev) s);
          (spec2, s2) = fill_source spec s1;
          (w, al) = spawn_strategy_editor_panel (sp_next s2) spec2 (sp_allocator s2) in
      (ses_region_key spec2,
       s2\<lparr>sp_windows := sp_windows s2 @ [w], sp_next := sp_next s2 + 1, sp_allocator := al\<rparr>))"

definition open_panel :: "cache_env \<Rightarrow> panel_spawn_requested \<Rightarrow> 'r spawn_sys \<Rightarrow> str option \<times> 'r spawn_sys" where
  "open_panel ce ev s =
     (if psr_kind ev = PK_StrategyEditor then open_editor ce ev s
      else (case plain_panel (sp_next s) (psr_kind ev) of
              Some w \<Rightarrow> (None, s\<lparr>sp_windows := sp_windows s @ [w], sp_next := sp_next s + 1\<rparr>)
            | None \<Rightarrow> (None, s)))"

definition default_layout :: "panel_kind \<Rightarrow> str option \<Rightarrow> window_layout" where
  "default_layout k key =
     \<lparr>wl_kind = k, wl_visible = True, wl_position = (0, 0), wl_size = (num 400, num 300), wl_z = num 10,
      wl_region_key = key\<rparr>"

text \<open>One request; which kinds exist is what the query saw when the frame began.\<close>

definition dispatch_spawn ::
  "'r record_lib \<Rightarrow> cache_env \<Rightarrow> panel_kind list \<Rightarrow> panel_spawn_requested \<Rightarrow> 'r spawn_sys \<Rightarrow> 'r spawn_sys" where
  "dispatch_spawn rl ce existing ev s =
     (if psr_kind ev \<in> set existing \<and> psr_kind ev \<noteq> PK_StrategyEditor then s
      else (let (key, s1) = open_panel ce ev s in
            if psr_source ev = PSS_User \<and> \<not> is_replaying (sp_history s1)
            then s1\<lparr>sp_history := push_window_spawn rl (psr_kind ev) (default_layout (psr_kind ev) key) (sp_history s1)\<rparr>
            else s1))"

definition panel_spawn_dispatcher_system ::
  "'r record_lib \<Rightarrow> cache_env \<Rightarrow> panel_spawn_requested list \<Rightarrow> 'r spawn_sys \<Rightarrow> 'r spawn_sys" where
  "panel_spawn_dispatcher_system rl ce evs s =
     fold (dispatch_spawn rl ce (map wi_kind (sp_windows s))) evs s"

text \<open>The buttons of the side bar.\<close>

definition panel_button_system :: "panel_kind list \<Rightarrow> panel_kind list \<Rightarrow> panel_spawn_requested list" where
  "panel_button_system existing pressed =
     map (\<lambda>k. \<lparr>psr_kind = k, psr_source = PSS_User, psr_spec = None\<rparr>)
       (filter (\<lambda>k. k = PK_StrategyEditor \<or> k \<notin> set existing) pressed)"

subsection \<open>Closing and moving windows\<close>

record 'r close_sys =
  cl_windows :: "window list"
  cl_history :: "'r app_history"
  cl_layout_save :: layout_save_state
  cl_registry :: instrument_registry
  cl_data :: "str set"

definition snapshot_of :: "window \<Rightarrow> (str \<times> str) option" where
  "snapshot_of w =
     (case (wi_editor w, wi_fragment w) of (Some k, Some f) \<Rightarrow> Some (k, sf_source f) | _ \<Rightarrow> None)"

text \<open>The layout a closed window leaves: unlike a stored one it always says visible.\<close>

definition closed_layout :: "window \<Rightarrow> window_layout" where
  "closed_layout w =
     \<lparr>wl_kind = wi_kind w, wl_visible = True, wl_position = wi_position w,
      wl_size = unwrap_or (0, 0) (wi_size w), wl_z = wi_z w, wl_region_key = wi_editor w\<rparr>"

definition close_window :: "'r record_lib \<Rightarrow> nat \<Rightarrow> window \<Rightarrow> 'r close_sys \<Rightarrow> 'r close_sys" where
  "close_window rl now w s =
     (let rest = filter (\<lambda>x. wi_entity x \<noteq> wi_entity w) (cl_windows s) in
      case wi_chart w of
        Some i \<Rightarrow>
          (if \<not> ir_editable (cl_registry s) then s
           else s\<lparr>cl_registry := snd (registry_remove i (cl_registry s)), cl_data := cl_data s - {i},
                  cl_windows := rest\<rparr>)
      | None \<Rightarrow>
          (if is_replaying (cl_history s) then s\<lparr>cl_windows := rest\<rparr>
           else s\<lparr>cl_windows := rest,
                  cl_history := push_window_despawn rl (closed_layout w) (snapshot_of w) (cl_history s),
                  cl_layout_save := mark_layout_changed now (cl_layout_save s)\<rparr>))"

text \<open>Where each drag began, by window.\<close>

type_synonym active_drag = "nat \<Rightarrow> vec2 option"

definition drag_start :: "window \<Rightarrow> active_drag \<Rightarrow> active_drag" where
  "drag_start w d = d(wi_entity w \<mapsto> wi_position w)"

definition drag_end ::
  "'r record_lib \<Rightarrow> (vec2 \<Rightarrow> vec2 \<Rightarrow> bool) \<Rightarrow> nat \<Rightarrow> window \<Rightarrow> active_drag \<times> 'r app_history \<times> layout_save_state \<Rightarrow>
   active_drag \<times> 'r app_history \<times> layout_save_state" where
  "drag_end rl near now w t =
     (let (d, h, a) = t in
      case d (wi_entity w) of
        None \<Rightarrow> t
      | Some before \<Rightarrow>
          (let d1 = d(wi_entity w := None) in
           if wi_chart w \<noteq> None then (d1, h, a)
           else (d1, push_window_move rl near (wi_kind w) (wi_editor w) before (wi_position w) h,
                 mark_layout_changed now a)))"

text \<open>The end of a resize keeps the size of a chart under its instrument.\<close>

definition resize_end ::
  "nat \<Rightarrow> window \<Rightarrow> (str \<Rightarrow> vec2 option) \<times> layout_save_state \<Rightarrow> (str \<Rightarrow> vec2 option) \<times> layout_save_state" where
  "resize_end now w t =
     (let (sizes, a) = t in
      ((case (wi_chart w, wi_size w) of (Some i, Some sz) \<Rightarrow> sizes(i \<mapsto> sz) | _ \<Rightarrow> sizes),
       mark_layout_changed now a))"

section \<open>Properties\<close>

subsection \<open>A frame of undo or redo\<close>

text \<open>The two systems run in this order in every frame; then the widget of the editor, if it has one
  to show, echoes the text it was given.\<close>

definition history_frame :: "'r record_lib \<Rightarrow> nat \<Rightarrow> bool \<Rightarrow> undo_input \<Rightarrow> 'r history_world \<Rightarrow> 'r history_world" where
  "history_frame rl now cooling u w =
     apply_pending_app_edits_system now (w\<lparr>hw_history := undo_redo_system rl cooling u (hw_history w)\<rparr>)"

definition typed :: "'r record_lib \<Rightarrow> nat \<times> str \<times> str \<Rightarrow> 'r history_world \<Rightarrow> 'r history_world" where
  "typed rl ev w =
     (let (ws, h, a) = sync_one rl ev (hw_windows w, hw_history w, hw_auto_save w) in
      w\<lparr>hw_windows := ws, hw_history := h, hw_auto_save := a\<rparr>)"

definition quiet :: "'r history_world \<Rightarrow> bool" where
  "quiet w \<longleftrightarrow> ah_pending (hw_history w) = [] \<and> ah_replaying_depth (hw_history w) = 0"

lemma push_edit_quiet:
  "ah_pending h = [] \<Longrightarrow> ah_replaying_depth h = 0 \<Longrightarrow>
   ah_pending (push_edit rl e h) = [] \<and> ah_replaying_depth (push_edit rl e h) = 0"
  by (simp add: push_edit_def is_replaying_def)

lemma typed_quiet: "quiet w \<Longrightarrow> quiet (typed rl ev w)"
  by (auto simp: quiet_def typed_def sync_one_def push_text_def push_edit_quiet Let_def
      split: prod.split option.split)

lemma apply_action_depth:
  "ah_replaying_depth (hw_history (fst (apply_action now a t))) = ah_replaying_depth (hw_history (fst t))"
  "ah_pending (hw_history (fst (apply_action now a t))) = ah_pending (hw_history (fst t))"
  "ah_record (hw_history (fst (apply_action now a t))) = ah_record (hw_history (fst t))"
  by (cases t; auto simp: apply_action_def suppress_echo_def Let_def split: app_edit_action.split option.split)+

lemma replay_cases:
  "replay move action h = h \<or>
   (\<exists>e r. move (ah_record h) = Some (e, r) \<and>
      replay move action h =
        h\<lparr>ah_record := r, ah_pending := ah_pending h @ [action e], ah_replaying_depth := ah_replaying_depth h + 1\<rparr>)"
  by (auto simp: replay_def split: option.split)

lemma apply_one_action:
  assumes "ah_pending (hw_history w) = [a]" and "ah_replaying_depth (hw_history w) = 1"
  shows "quiet (apply_pending_app_edits_system now w)"
  using assms by (auto simp: quiet_def apply_pending_app_edits_system_def Let_def apply_action_depth case_prod_unfold)

lemma history_frame_quiet:
  assumes "quiet w"
  shows "quiet (history_frame rl now cooling u w)"
proof -
  let ?h = "undo_redo_system rl cooling u (hw_history w)"
  have "?h = hw_history w \<or> (\<exists>a. ah_pending ?h = [a] \<and> ah_replaying_depth ?h = 1)"
    using assms replay_cases [of "rl_undo rl" undo_action "hw_history w"]
      replay_cases [of "rl_redo rl" edit_action "hw_history w"]
    by (auto simp: undo_redo_system_def quiet_def)
  then show ?thesis
  proof
    assume "?h = hw_history w"
    with assms show ?thesis by (simp add: history_frame_def apply_pending_app_edits_system_def quiet_def)
  next
    assume "\<exists>a. ah_pending ?h = [a] \<and> ah_replaying_depth ?h = 1"
    then show ?thesis unfolding history_frame_def by (auto intro: apply_one_action)
  qed
qed

datatype history_event = HE_Typed "nat \<times> str \<times> str" | HE_Frame nat bool undo_input

definition history_step :: "'r record_lib \<Rightarrow> history_event \<Rightarrow> 'r history_world \<Rightarrow> 'r history_world" where
  "history_step rl e w =
     (case e of HE_Typed ev \<Rightarrow> typed rl ev w | HE_Frame now cooling u \<Rightarrow> history_frame rl now cooling u w)"

interpretation hist: invariant_system "history_step rl" quiet
  by unfold_locales (auto simp: history_step_def typed_quiet history_frame_quiet split: history_event.split)

text \<open>C23: After every frame nothing is left to be carried out and the history takes edits again,
  whatever was typed, undone or redone before: no sequence of keys leaves it switched off.\<close>

theorem history_never_stuck:
  assumes "quiet w"
  shows "quiet (fold (history_step rl) es w)"
  by (rule hist.run_inv [OF assms])

subsection \<open>One editor\<close>

text \<open>The edits that lead from the current text back to the first one, and on to the last one.\<close>

fun undoes_to :: "str \<Rightarrow> str \<Rightarrow> str \<Rightarrow> app_edit list \<Rightarrow> bool" where
  "undoes_to k s0 cur [] = (cur = s0)"
| "undoes_to k s0 cur (e # es) =
     (case e of
        AE_Text t \<Rightarrow> te_region_key t = k \<and> te_after t = cur \<and> undoes_to k s0 (te_before t) es
      | _ \<Rightarrow> False)"

fun redoes_to :: "str \<Rightarrow> str \<Rightarrow> str \<Rightarrow> app_edit list \<Rightarrow> bool" where
  "redoes_to k s1 cur [] = (cur = s1)"
| "redoes_to k s1 cur (e # es) =
     (case e of
        AE_Text t \<Rightarrow> te_region_key t = k \<and> te_before t = cur \<and> redoes_to k s1 (te_after t) es
      | _ \<Rightarrow> False)"

definition text_of :: "str \<Rightarrow> 'r history_world \<Rightarrow> str option" where
  "text_of k w = map_option source_of (List.find (has_fragment k) (hw_windows w))"

lemma has_fragment_updates [simp]:
  "has_fragment k (dirty_fragment s w) = has_fragment k w" "has_fragment k (set_source s w) = has_fragment k w"
  by (auto simp: has_fragment_def dirty_fragment_def set_source_def)

lemma source_of_updates [simp]:
  "has_fragment k w \<Longrightarrow> source_of (dirty_fragment s w) = s"
  "has_fragment k w \<Longrightarrow> source_of (set_source s w) = s"
  by (auto simp: has_fragment_def dirty_fragment_def set_source_def source_of_def split: option.split)

lemma find_dirty:
  assumes "List.find (has_fragment k) ws = Some w"
  shows "map_option source_of (List.find (has_fragment k) (upd_first (has_fragment k) (dirty_fragment s) ws)) = Some s"
    and "map_option source_of (List.find (has_fragment k) (upd_first (has_fragment k) (set_source s) ws)) = Some s"
proof -
  have f: "has_fragment k w" using find_some_in [OF assms] by simp
  show "map_option source_of (List.find (has_fragment k) (upd_first (has_fragment k) (dirty_fragment s) ws)) = Some s"
    by (subst find_upd_first_same) (use assms f in auto)
  show "map_option source_of (List.find (has_fragment k) (upd_first (has_fragment k) (set_source s) ws)) = Some s"
    by (subst find_upd_first_same) (use assms f in auto)
qed

lemma text_of_some: "text_of k w = Some s \<Longrightarrow> \<exists>x. List.find (has_fragment k) (hw_windows w) = Some x \<and> source_of x = s"
  by (auto simp: text_of_def)

text \<open>What the current text of the editor and the record have to do with each other.\<close>

definition timeline ::
  "('r \<Rightarrow> app_edit list \<times> app_edit list) \<Rightarrow> str \<Rightarrow> str \<Rightarrow> str \<Rightarrow> str \<Rightarrow> nat \<Rightarrow> nat \<Rightarrow> 'r history_world \<Rightarrow> bool" where
  "timeline view k s0 s1 cur n m w \<longleftrightarrow>
     quiet w \<and> text_of k w = Some cur \<and>
     undoes_to k s0 cur (fst (view (ah_record (hw_history w)))) \<and> length (fst (view (ah_record (hw_history w)))) = n \<and>
     redoes_to k s1 cur (snd (view (ah_record (hw_history w)))) \<and> length (snd (view (ah_record (hw_history w)))) = m"

definition press_undo :: undo_input where
  "press_undo = \<lparr>ui_menu_undo = True, ui_menu_redo = False, ui_ctrl = False, ui_shift = False, ui_just_z = False,
                 ui_just_y = False\<rparr>"

definition press_redo :: undo_input where
  "press_redo = \<lparr>ui_menu_undo = False, ui_menu_redo = True, ui_ctrl = False, ui_shift = False, ui_just_z = False,
                 ui_just_y = False\<rparr>"

text \<open>A frame with the menu entry pressed, and the echo of the editor's widget after it.\<close>

definition press_and_echo :: "'r record_lib \<Rightarrow> str \<Rightarrow> undo_input \<Rightarrow> 'r history_world \<Rightarrow> 'r history_world" where
  "press_and_echo rl k u w =
     (let w1 = history_frame rl 0 False u w in
      case text_of k w1 of Some s \<Rightarrow> typed rl (0, k, s) w1 | None \<Rightarrow> w1)"

lemma echo_changes_nothing:
  assumes "text_of k w = Some s"
  shows "text_of k (typed rl (now, k, s) w) = Some s"
    and "ah_record (hw_history (typed rl (now, k, s) w)) = ah_record (hw_history w)"
proof -
  obtain x where x: "List.find (has_fragment k) (hw_windows w) = Some x" "source_of x = s"
    using text_of_some [OF assms] by auto
  show "text_of k (typed rl (now, k, s) w) = Some s"
    using x find_dirty(2) [OF x(1), of s] by (simp add: typed_def sync_one_def text_of_def Let_def)
  show "ah_record (hw_history (typed rl (now, k, s) w)) = ah_record (hw_history w)"
    using x by (simp add: typed_def sync_one_def Let_def)
qed

lemma set_text_action:
  assumes "text_of k w = Some c" and "ah_pending (hw_history w) = [AA_SetStrategySource k s]"
  shows "text_of k (apply_pending_app_edits_system now w) = Some s"
    and "ah_record (hw_history (apply_pending_app_edits_system now w)) = ah_record (hw_history w)"
proof -
  obtain x where x: "List.find (has_fragment k) (hw_windows w) = Some x"
    using text_of_some [OF assms(1)] by auto
  then have "list_ex (has_fragment k) (hw_windows w)" by (simp add: list_ex_find)
  then show "text_of k (apply_pending_app_edits_system now w) = Some s"
    using find_dirty(1) [OF x, of s] assms(2)
    by (simp add: apply_pending_app_edits_system_def apply_action_def text_of_def suppress_echo_def Let_def)
  show "ah_record (hw_history (apply_pending_app_edits_system now w)) = ah_record (hw_history w)"
    using assms(2) by (auto simp: apply_pending_app_edits_system_def Let_def case_prod_unfold apply_action_depth)
qed

lemma documented_undo:
  assumes "record_documented n rl view" and "view r = (e # past, redo)"
  obtains r' where "rl_undo rl r = Some (e, r')" and "view r' = (past, e # redo)"
proof -
  have "\<forall>r. case view r of
        ([], redo) \<Rightarrow> rl_undo rl r = None
      | (e # past, redo) \<Rightarrow> (case rl_undo rl r of Some (x, r') \<Rightarrow> x = e \<and> view r' = (past, e # redo) | None \<Rightarrow> False)"
    using assms(1) by (simp add: record_documented_def)
  note law = this [THEN spec, of r]
  from law assms(2) show thesis using that by (auto split: option.splits)
qed

lemma documented_undo_none:
  assumes "record_documented n rl view" and "view r = ([], redo)"
  shows "rl_undo rl r = None"
proof -
  have "\<forall>r. case view r of
        ([], redo) \<Rightarrow> rl_undo rl r = None
      | (e # past, redo) \<Rightarrow> (case rl_undo rl r of Some (x, r') \<Rightarrow> x = e \<and> view r' = (past, e # redo) | None \<Rightarrow> False)"
    using assms(1) by (simp add: record_documented_def)
  from this [THEN spec, of r] assms(2) show ?thesis by simp
qed

lemma documented_redo:
  assumes "record_documented n rl view" and "view r = (past, e # redo)"
  obtains r' where "rl_redo rl r = Some (e, r')" and "view r' = (e # past, redo)"
proof -
  have "\<forall>r. case view r of
        (past, []) \<Rightarrow> rl_redo rl r = None
      | (past, e # redo) \<Rightarrow> (case rl_redo rl r of Some (x, r') \<Rightarrow> x = e \<and> view r' = (e # past, redo) | None \<Rightarrow> False)"
    using assms(1) by (simp add: record_documented_def)
  note law = this [THEN spec, of r]
  from law assms(2) show thesis using that by (auto split: option.splits)
qed

lemma documented_edit:
  "record_documented n rl view \<Longrightarrow> view (rl_edit rl mrg r e) = (push_done mrg n (fst (view r)) e, [])"
  by (simp add: record_documented_def)

lemma replayed_text:
  assumes "quiet w" and "text_of k w = Some cur"
    and "undo_redo_system rl False u (hw_history w) = replay move action (hw_history w)"
    and "move (ah_record (hw_history w)) = Some (e, r')" and "action e = AA_SetStrategySource k s"
  shows "quiet (press_and_echo rl k u w)" and "text_of k (press_and_echo rl k u w) = Some s"
    and "ah_record (hw_history (press_and_echo rl k u w)) = r'"
proof -
  let ?w = "w\<lparr>hw_history := undo_redo_system rl False u (hw_history w)\<rparr>"
  let ?w1 = "history_frame rl 0 False u w"
  have p: "ah_pending (hw_history ?w) = [AA_SetStrategySource k s]" "ah_record (hw_history ?w) = r'"
    using assms(1,3,4,5) by (simp_all add: replay_def quiet_def)
  have t: "text_of k ?w = Some cur" using assms(2) by (simp add: text_of_def)
  have t1: "text_of k ?w1 = Some s" "ah_record (hw_history ?w1) = r'"
    unfolding history_frame_def by (simp_all only: set_text_action [OF t p(1)] p(2))
  have e: "press_and_echo rl k u w = typed rl (0, k, s) ?w1"
    by (simp add: press_and_echo_def t1(1) Let_def)
  show "quiet (press_and_echo rl k u w)"
    unfolding e by (intro typed_quiet history_frame_quiet assms(1))
  show "text_of k (press_and_echo rl k u w) = Some s" "ah_record (hw_history (press_and_echo rl k u w)) = r'"
    unfolding e by (simp_all only: echo_changes_nothing [OF t1(1)] t1(2))
qed

lemma undo_moves_back:
  assumes "record_documented mx rl view" and "timeline view k s0 s1 cur (Suc n) m w"
  obtains c where "timeline view k s0 s1 c n (Suc m) (press_and_echo rl k press_undo w)"
proof -
  obtain t past redo where v: "view (ah_record (hw_history w)) = (AE_Text t # past, redo)"
    and t: "te_region_key t = k" "te_after t = cur" "undoes_to k s0 (te_before t) past"
    and r: "redoes_to k s1 cur redo" "length redo = m" "length past = n"
    using assms(2)
    by (cases "view (ah_record (hw_history w))"; cases "fst (view (ah_record (hw_history w)))")
      (auto simp: timeline_def split: app_edit.splits)
  obtain r' where u: "rl_undo rl (ah_record (hw_history w)) = Some (AE_Text t, r')"
    and v': "view r' = (past, AE_Text t # redo)"
    by (rule documented_undo [OF assms(1) v])
  have q: "quiet w" "text_of k w = Some cur" using assms(2) by (simp_all add: timeline_def)
  have s: "undo_redo_system rl False press_undo (hw_history w) = replay (rl_undo rl) undo_action (hw_history w)"
    by (simp add: undo_redo_system_def press_undo_def)
  have a: "undo_action (AE_Text t) = AA_SetStrategySource k (te_before t)"
    using t(1) by (simp add: undo_action_def)
  note x = replayed_text [OF q s u a]
  show thesis
    by (rule that [of "te_before t"]) (use x v' t r in \<open>simp add: timeline_def\<close>)
qed

lemma redo_moves_on:
  assumes "record_documented mx rl view" and "timeline view k s0 s1 cur n (Suc m) w"
  obtains c where "timeline view k s0 s1 c (Suc n) m (press_and_echo rl k press_redo w)"
proof -
  obtain t past redo where v: "view (ah_record (hw_history w)) = (past, AE_Text t # redo)"
    and t: "te_region_key t = k" "te_before t = cur" "redoes_to k s1 (te_after t) redo"
    and r: "undoes_to k s0 cur past" "length redo = m" "length past = n"
    using assms(2)
    by (cases "view (ah_record (hw_history w))"; cases "snd (view (ah_record (hw_history w)))")
      (auto simp: timeline_def split: app_edit.splits)
  obtain r' where u: "rl_redo rl (ah_record (hw_history w)) = Some (AE_Text t, r')"
    and v': "view r' = (AE_Text t # past, redo)"
    by (rule documented_redo [OF assms(1) v])
  have q: "quiet w" "text_of k w = Some cur" using assms(2) by (simp_all add: timeline_def)
  have s: "undo_redo_system rl False press_redo (hw_history w) = replay (rl_redo rl) edit_action (hw_history w)"
    by (simp add: undo_redo_system_def press_redo_def)
  have a: "edit_action (AE_Text t) = AA_SetStrategySource k (te_after t)"
    using t(1) by (simp add: edit_action_def)
  note x = replayed_text [OF q s u a]
  show thesis
    by (rule that [of "te_after t"]) (use x v' t r in \<open>simp add: timeline_def\<close>)
qed

lemma undo_all:
  assumes "record_documented mx rl view" and "timeline view k s0 s1 cur n m w"
  shows "timeline view k s0 s1 s0 0 (n + m) ((press_and_echo rl k press_undo ^^ n) w)"
  using assms(2)
proof (induction n arbitrary: cur m w)
  case 0
  then show ?case by (auto simp: timeline_def)
next
  case (Suc n)
  obtain c where "timeline view k s0 s1 c n (Suc m) (press_and_echo rl k press_undo w)"
    by (rule undo_moves_back [OF assms(1) Suc.prems])
  from Suc.IH [OF this] show ?case by (simp add: funpow_swap1)
qed

lemma redo_all:
  assumes "record_documented mx rl view" and "timeline view k s0 s1 cur n m w"
  shows "timeline view k s0 s1 s1 (m + n) 0 ((press_and_echo rl k press_redo ^^ m) w)"
  using assms(2)
proof (induction m arbitrary: cur n w)
  case 0
  then show ?case by (auto simp: timeline_def)
next
  case (Suc m)
  obtain c where "timeline view k s0 s1 c (Suc n) m (press_and_echo rl k press_redo w)"
    by (rule redo_moves_on [OF assms(1) Suc.prems])
  from Suc.IH [OF this] show ?case by (simp add: funpow_swap1)
qed

text \<open>Typing extends the time line as long as the stack is not full.\<close>

lemma push_done_undoes:
  assumes "undoes_to k s0 cur es" and "length es < n"
  shows "undoes_to k s0 new
      (push_done merge_edit n es (AE_Text \<lparr>te_region_key = k, te_before = cur, te_after = new, te_timestamp = now\<rparr>))"
    and "length (push_done merge_edit n es (AE_Text \<lparr>te_region_key = k, te_before = cur, te_after = new, te_timestamp = now\<rparr>))
      \<le> Suc (length es)"
  using assms
  by (cases es; auto simp: push_done_def merge_edit_def Let_def take_Cons' split: app_edit.splits option.splits)+

lemma typing_step:
  assumes "record_documented mx rl view" and "timeline view k s0 cur cur n 0 w" and "n < mx"
    and "ah_suppress_echo_target (hw_history w) = None"
  shows "\<exists>n'. n' \<le> Suc n \<and> timeline view k s0 new new n' 0 (typed rl (now, k, new) w)"
    and "ah_suppress_echo_target (hw_history (typed rl (now, k, new) w)) = None"
proof -
  let ?e = "AE_Text \<lparr>te_region_key = k, te_before = cur, te_after = new, te_timestamp = now\<rparr>"
  let ?r = "ah_record (hw_history w)" and ?w = "typed rl (now, k, new) w"
  obtain x where x: "List.find (has_fragment k) (hw_windows w) = Some x" "source_of x = cur"
    using assms(2) text_of_some [of k w cur] by (auto simp: timeline_def)
  have q: "quiet ?w" and qw: "quiet w" using assms(2) by (simp_all add: timeline_def typed_quiet)
  have u: "undoes_to k s0 cur (fst (view ?r))" and l: "length (fst (view ?r)) = n"
    using assms(2) by (simp_all add: timeline_def)
  show "ah_suppress_echo_target (hw_history ?w) = None"
    using assms(4) x by (simp add: typed_def sync_one_def push_text_def push_edit_def Let_def)
  show "\<exists>n'. n' \<le> Suc n \<and> timeline view k s0 new new n' 0 ?w"
  proof (cases "new = cur")
    case True
    have "text_of k ?w = Some new" "ah_record (hw_history ?w) = ?r"
      using assms(2) True echo_changes_nothing [of k w cur rl now] by (simp_all add: timeline_def)
    with assms(2) True q show ?thesis by (intro exI [of _ n]) (simp add: timeline_def)
  next
    case False
    have t: "text_of k ?w = Some new"
      using assms(4) x False find_dirty(1) [OF x(1), of new]
      by (simp add: typed_def sync_one_def text_of_def Let_def)
    have r: "ah_record (hw_history ?w) = rl_edit rl merge_edit ?r ?e"
      using assms(4) x False qw
      by (simp add: typed_def sync_one_def push_text_def push_edit_def is_replaying_def quiet_def Let_def)
    show ?thesis
      using push_done_undoes [OF u, of mx new now] l assms(3) q t
      by (intro exI [of _ "length (push_done merge_edit mx (fst (view ?r)) ?e)"])
        (simp add: timeline_def r documented_edit [OF assms(1)])
  qed
qed

lemma typing_timeline:
  assumes "record_documented mx rl view" and "timeline view k s0 cur cur n 0 w" and "n + length texts \<le> mx"
    and "ah_suppress_echo_target (hw_history w) = None"
  shows "\<exists>n' s1. n' \<le> n + length texts \<and> s1 = last (cur # map snd texts) \<and>
    timeline view k s0 s1 s1 n' 0 (fold (\<lambda>(now, s). typed rl (now, k, s)) texts w)"
  using assms(2-4)
proof (induction texts arbitrary: cur n w)
  case Nil
  then show ?case by auto
next
  case (Cons ev texts)
  obtain now new where ev: "ev = (now, new)" by (cases ev)
  have "n < mx" using Cons.prems(2) by simp
  note step = typing_step [OF assms(1) Cons.prems(1) this Cons.prems(3), where new = new and now = now]
  obtain n' where n': "n' \<le> Suc n" "timeline view k s0 new new n' 0 (typed rl (now, k, new) w)"
    using step(1) by auto
  have "n' + length texts \<le> mx" using n'(1) Cons.prems(2) by simp
  from Cons.IH [OF n'(2) this step(2)] obtain m where
    "m \<le> n' + length texts" "timeline view k s0 (last (new # map snd texts)) (last (new # map snd texts)) m 0
      (fold (\<lambda>(now, s). typed rl (now, k, s)) texts (typed rl (now, k, new) w))"
    by auto
  with n'(1) show ?case by (intro exI [of _ m]) (simp add: ev)
qed

text \<open>C9: When the history is empty and at most two hundred changes are typed into one editor, and into no
  other one, at any times, some number of undo steps (at most one for each change, as those in quick succession are merged)
  leads back to the text it began with, and as many redo steps to the text it ended with; the echoes of its
  widget change nothing. The stack behaves as its crate documents. (Typing into two editors in turn
  is another matter; see \<open>merge_across_editors\<close>.)\<close>

theorem typing_undone_and_redone:
  assumes "record_documented HISTORY_LIMIT rl view" and "view (ah_record (hw_history w)) = ([], [])" and "quiet w"
    and "ah_suppress_echo_target (hw_history w) = None" and "text_of k w = Some s0" and "length texts \<le> HISTORY_LIMIT"
  shows "\<exists>n \<le> length texts.
    let w1 = fold (\<lambda>(now, s). typed rl (now, k, s)) texts w;
        w2 = (press_and_echo rl k press_undo ^^ n) w1;
        w3 = (press_and_echo rl k press_redo ^^ n) w2 in
    text_of k w2 = Some s0 \<and> text_of k w3 = Some (last (s0 # map snd texts))"
proof -
  have "timeline view k s0 s0 s0 0 0 w" using assms(2,3,5) by (simp add: timeline_def)
  from typing_timeline [OF assms(1) this _ assms(4), of texts] assms(6) obtain n where
    n: "n \<le> length texts" and t: "timeline view k s0 (last (s0 # map snd texts)) (last (s0 # map snd texts)) n 0
      (fold (\<lambda>(now, s). typed rl (now, k, s)) texts w)"
    by auto
  note undone = undo_all [OF assms(1) t]
  note redone = redo_all [OF assms(1) undone]
  show ?thesis
    using n undone redone by (intro exI [of _ n]) (simp add: timeline_def Let_def)
qed

subsection \<open>Two editors\<close>

lemma find_other:
  "a \<noteq> k \<Longrightarrow> List.find (has_fragment a) (upd_first (has_fragment k) (dirty_fragment s) ws) = List.find (has_fragment a) ws"
  "a \<noteq> k \<Longrightarrow> List.find (has_fragment a) (upd_first (has_fragment k) (set_source s) ws) = List.find (has_fragment a) ws"
  by (rule find_upd_first_other; auto simp: has_fragment_def dirty_fragment_def set_source_def)+

lemma typed_other: "a \<noteq> k \<Longrightarrow> text_of a (typed rl (now, k, s) w) = text_of a w"
  by (auto simp: text_of_def typed_def sync_one_def find_other Let_def split: prod.split option.split)

lemma typed_new:
  assumes "quiet w" and "text_of k w = Some cur" and "new \<noteq> cur" and "ah_suppress_echo_target (hw_history w) = None"
  shows "text_of k (typed rl (now, k, new) w) = Some new"
    and "ah_record (hw_history (typed rl (now, k, new) w)) = rl_edit rl merge_edit (ah_record (hw_history w))
      (AE_Text \<lparr>te_region_key = k, te_before = cur, te_after = new, te_timestamp = now\<rparr>)"
    and "ah_suppress_echo_target (hw_history (typed rl (now, k, new) w)) = None"
proof -
  obtain x where x: "List.find (has_fragment k) (hw_windows w) = Some x" "source_of x = cur"
    using assms(2) text_of_some by blast
  note d = typed_def sync_one_def push_text_def push_edit_def is_replaying_def quiet_def text_of_def Let_def
  show "text_of k (typed rl (now, k, new) w) = Some new"
    using assms x find_dirty(1) [OF x(1), of new] by (simp add: d)
  show "ah_record (hw_history (typed rl (now, k, new) w)) = rl_edit rl merge_edit (ah_record (hw_history w))
      (AE_Text \<lparr>te_region_key = k, te_before = cur, te_after = new, te_timestamp = now\<rparr>)"
    and "ah_suppress_echo_target (hw_history (typed rl (now, k, new) w)) = None"
    using assms x by (simp_all add: d)
qed

lemma replayed_other:
  assumes "quiet w" and "text_of k w = Some cur"
    and "undo_redo_system rl False u (hw_history w) = replay move action (hw_history w)"
    and "move (ah_record (hw_history w)) = Some (e, r')" and "action e = AA_SetStrategySource k s" and "a \<noteq> k"
  shows "text_of a (press_and_echo rl k u w) = text_of a w"
proof -
  let ?w1 = "history_frame rl 0 False u w"
  have p: "ah_pending (hw_history (w\<lparr>hw_history := undo_redo_system rl False u (hw_history w)\<rparr>)) = [AA_SetStrategySource k s]"
    using assms(1,3,4,5) by (simp add: replay_def quiet_def)
  have "text_of a ?w1 = text_of a w"
    using p assms(6)
    by (simp add: history_frame_def apply_pending_app_edits_system_def apply_action_def text_of_def suppress_echo_def
        find_other Let_def)
  then show ?thesis
    using assms(6) by (auto simp: press_and_echo_def typed_other Let_def split: option.split)
qed

text \<open>Typing into a second editor within half a second is merged into the edit of the first: one
  undo then takes back the first text and leaves the second, and a redo writes the text of the second
  editor into the first. The merge policy does not look at the editor an edit belongs to.\<close>

theorem merge_across_editors:
  assumes "record_documented HISTORY_LIMIT rl view" and "view (ah_record (hw_history w)) = ([], [])" and "quiet w"
    and "ah_suppress_echo_target (hw_history w) = None" and "text_of a w = Some a0" and "text_of b w = Some b0"
    and "a \<noteq> b" and "a1 \<noteq> a0" and "b1 \<noteq> b0" and "(t2 - t1) div 1000000 \<le> 500"
    and "abs_diff (length b1) (length a1) \<le> 50" and "newline \<notin> set b1"
  shows "let w1 = typed rl (t2, b, b1) (typed rl (t1, a, a1) w);
             w2 = press_and_echo rl a press_undo w1; w3 = press_and_echo rl a press_redo w2 in
    text_of a w2 = Some a0 \<and> text_of b w2 = Some b1 \<and> rl_undo rl (ah_record (hw_history w2)) = None \<and>
    text_of a w3 = Some b1"
proof -
  let ?wa = "typed rl (t1, a, a1) w" and ?w1 = "typed rl (t2, b, b1) (typed rl (t1, a, a1) w)"
  let ?ea = "AE_Text \<lparr>te_region_key = a, te_before = a0, te_after = a1, te_timestamp = t1\<rparr>"
  let ?e = "AE_Text \<lparr>te_region_key = a, te_before = a0, te_after = b1, te_timestamp = t1\<rparr>"
  note ta = typed_new [OF assms(3,5,8,4), of rl t1]
  have qa: "quiet ?wa" and q1: "quiet ?w1" by (intro typed_quiet assms(3))+
  have "text_of b ?wa = Some b0" using assms(6,7) by (simp add: typed_other)
  note tb = typed_new [OF qa this assms(9) ta(3), of rl t2]
  have va: "view (ah_record (hw_history ?wa)) = ([?ea], [])"
    using assms(2) by (simp add: ta(2) documented_edit [OF assms(1)] push_done_def HISTORY_LIMIT_def)
  have v1: "view (ah_record (hw_history ?w1)) = ([?e], [])"
    using assms(10-12) by (simp add: tb(2) documented_edit [OF assms(1)] va push_done_def merge_edit_def
        TEXT_MERGE_WINDOW_MS_def TEXT_MERGE_MAX_DIFF_def Let_def)
  have t1: "text_of a ?w1 = Some a1" using assms(7) ta(1) by (simp add: typed_other)
  obtain r2 where u: "rl_undo rl (ah_record (hw_history ?w1)) = Some (?e, r2)" and v2: "view r2 = ([], [?e])"
    by (rule documented_undo [OF assms(1) v1])
  have su: "undo_redo_system rl False press_undo (hw_history ?w1) = replay (rl_undo rl) undo_action (hw_history ?w1)"
    by (simp add: undo_redo_system_def press_undo_def)
  have au: "undo_action ?e = AA_SetStrategySource a a0" by (simp add: undo_action_def)
  let ?w2 = "press_and_echo rl a press_undo ?w1"
  note w2 = replayed_text [OF q1 t1 su u au]
  have b2: "text_of b ?w2 = Some b1"
    using replayed_other [OF q1 t1 su u au, of b] assms(7) tb(1) by auto
  have none: "rl_undo rl r2 = None" by (rule documented_undo_none [OF assms(1) v2])
  have v2': "view (ah_record (hw_history ?w2)) = ([], [?e])" using v2 w2(3) by simp
  obtain r3 where re: "rl_redo rl (ah_record (hw_history ?w2)) = Some (?e, r3)" and "view r3 = ([?e], [])"
    by (rule documented_redo [OF assms(1) v2'])
  have sr: "undo_redo_system rl False press_redo (hw_history ?w2) = replay (rl_redo rl) edit_action (hw_history ?w2)"
    by (simp add: undo_redo_system_def press_redo_def)
  have ar: "edit_action ?e = AA_SetStrategySource a b1" by (simp add: edit_action_def)
  have "text_of a (press_and_echo rl a press_redo ?w2) = Some b1"
    by (rule replayed_text(2) [OF w2(1,2) sr re ar])
  then show ?thesis using w2(2,3) b2 none by (simp add: Let_def)
qed

subsection \<open>Closing an editor and taking it back\<close>

text \<open>What the dispatcher and the layout keep besides the history.\<close>

record desk_rest =
  dr_next :: nat
  dr_allocator :: region_key_allocator
  dr_fragments :: pending_fragments
  dr_buffer :: strategy_buffer
  dr_max_z :: f32
  dr_peers :: "(nat \<times> str) list"
  dr_focus :: "nat option"
  dr_find_target :: "nat option"
  dr_find_open :: bool

type_synonym 'r desk = "'r history_world \<times> desk_rest"

definition desk_dispatch :: "'r record_lib \<Rightarrow> cache_env \<Rightarrow> 'r desk \<Rightarrow> 'r desk" where
  "desk_dispatch rl ce t =
     (let (w, d) = t;
          s = panel_spawn_dispatcher_system rl ce (hw_out w)
                \<lparr>sp_windows = hw_windows w, sp_next = dr_next d, sp_allocator = dr_allocator d,
                 sp_history = hw_history w, sp_fragments = dr_fragments d, sp_buffer = dr_buffer d\<rparr> in
      (w\<lparr>hw_windows := sp_windows s, hw_history := sp_history s, hw_out := []\<rparr>,
       d\<lparr>dr_next := sp_next s, dr_allocator := sp_allocator s, dr_fragments := sp_fragments s,
         dr_buffer := sp_buffer s\<rparr>))"

definition desk_layout :: "'r desk \<Rightarrow> 'r desk" where
  "desk_layout t =
     (let (w, d) = t;
          (l, reqs) = apply_pending_layout_system
            \<lparr>lw_windows = hw_windows w, lw_max_z = dr_max_z d, lw_pending = hw_pending_layout w,
             lw_fragments = dr_fragments d, lw_peers = dr_peers d, lw_focus = dr_focus d,
             lw_find_target = dr_find_target d, lw_find_open = dr_find_open d\<rparr> in
      (w\<lparr>hw_windows := lw_windows l, hw_pending_layout := lw_pending l, hw_out := hw_out w @ reqs\<rparr>,
       d\<lparr>dr_max_z := lw_max_z l, dr_fragments := lw_fragments l, dr_peers := lw_peers l, dr_focus := lw_focus l,
         dr_find_target := lw_find_target l, dr_find_open := lw_find_open l\<rparr>))"

definition desk_undo :: "'r record_lib \<Rightarrow> 'r desk \<Rightarrow> 'r desk" where
  "desk_undo rl t = (history_frame rl 0 False press_undo (fst t), snd t)"

definition desk_restore :: "'r desk \<Rightarrow> 'r desk" where
  "desk_restore t =
     (apply_strategy_snapshot_restore_system 0 (list_ex (\<lambda>x. wi_kind x = PK_StrategyEditor) (hw_windows (fst t))) (fst t),
      snd t)"

definition desk_close :: "'r record_lib \<Rightarrow> window \<Rightarrow> 'r desk \<Rightarrow> 'r desk" where
  "desk_close rl x t =
     (let (w, d) = t;
          s = close_window rl 0 x
                \<lparr>cl_windows = hw_windows w, cl_history = hw_history w, cl_layout_save = hw_layout_save w,
                 cl_registry = registry_default, cl_data = {}\<rparr> in
      (w\<lparr>hw_windows := cl_windows s, hw_history := cl_history s, hw_layout_save := cl_layout_save s\<rparr>, d))"

text \<open>An editor on the desk that nothing else is waiting for.\<close>

definition closable :: "window \<Rightarrow> str \<Rightarrow> 'r desk \<Rightarrow> bool" where
  "closable x k t \<longleftrightarrow>
     (let (w, d) = t in
      wi_kind x = PK_StrategyEditor \<and> wi_editor x = Some k \<and> wi_fragment x \<noteq> None \<and> wi_chart x = None \<and>
      wi_size x \<noteq> None \<and> quiet w \<and> hw_out w = [] \<and> hw_restore w = None \<and>
      hw_pending_layout w = \<lparr>pl_windows = [], pl_waiting = False, pl_spawn_requested = {}\<rparr> \<and>
      list_all (\<lambda>y. wi_entity y = wi_entity x \<or> wi_editor y \<noteq> Some k) (hw_windows w) \<and>
      pf_by_region_key (dr_fragments d) k = None)"

lemma merge_despawn: "merge_edit e (AE_WindowDespawn d) = None"
  by (cases e) (simp_all add: merge_edit_def)

text \<open>The desk after closing an editor and choosing undo, before the request is carried out.\<close>

lemma after_close_and_undo:
  assumes "record_documented HISTORY_LIMIT rl view" and "closable x k (w, d)"
  obtains w' where "desk_undo rl (desk_close rl x (w, d)) = (w', d)" and "quiet w'"
    and "hw_windows w' = filter (\<lambda>y. wi_entity y \<noteq> wi_entity x) (hw_windows w)"
    and "hw_out w' = [\<lparr>psr_kind = PK_StrategyEditor, psr_source = PSS_UndoRedo, psr_spec = Some
      \<lparr>ses_region_key = Some k, ses_source = None, ses_layout_source = PSS_UndoRedo\<rparr>\<rparr>]"
    and "hw_pending_layout w' = \<lparr>pl_windows = [closed_layout x], pl_waiting = False, pl_spawn_requested = {}\<rparr>"
    and "hw_restore w' = Some (k, source_of x)"
proof -
  let ?d = "AE_WindowDespawn \<lparr>wd_layout = closed_layout x, wd_snapshot = snapshot_of x\<rparr>"
  let ?h = "(hw_history w)\<lparr>ah_record := rl_edit rl merge_edit (ah_record (hw_history w)) ?d, ah_pending := []\<rparr>"
  let ?w1 = "w\<lparr>hw_windows := filter (\<lambda>y. wi_entity y \<noteq> wi_entity x) (hw_windows w), hw_history := ?h,
              hw_layout_save := mark_layout_changed 0 (hw_layout_save w)\<rparr>"
  have q: "ah_replaying_depth (hw_history w) = 0" using assms(2) by (simp add: closable_def quiet_def)
  have close: "desk_close rl x (w, d) = (?w1, d)"
    using assms(2) q by (simp add: desk_close_def close_window_def closable_def push_window_despawn_def push_edit_def is_replaying_def Let_def)
  obtain rest where v: "view (rl_edit rl merge_edit (ah_record (hw_history w)) ?d) = (?d # rest, [])"
    by (cases "fst (view (ah_record (hw_history w)))")
      (auto simp: documented_edit [OF assms(1)] push_done_def merge_despawn HISTORY_LIMIT_def)
  obtain r' where u: "rl_undo rl (rl_edit rl merge_edit (ah_record (hw_history w)) ?d) = Some (?d, r')"
    by (rule documented_undo [OF assms(1) v]) blast
  obtain f where f: "wi_fragment x = Some f" using assms(2) by (auto simp: closable_def)
  have a: "undo_action ?d = AA_SpawnWindow (closed_layout x) (Some (k, source_of x))"
    using assms(2) f by (simp add: undo_action_def snapshot_of_def closable_def source_of_def)
  define w' where "w' = apply_pending_app_edits_system 0
      (?w1\<lparr>hw_history := ?h\<lparr>ah_record := r', ah_pending := [AA_SpawnWindow (closed_layout x) (Some (k, source_of x))],
        ah_replaying_depth := 1\<rparr>\<rparr>)"
  have e: "desk_undo rl (desk_close rl x (w, d)) = (w', d)"
    using q by (simp add: desk_undo_def close history_frame_def undo_redo_system_def press_undo_def replay_def u a w'_def)
  have "quiet w'" unfolding w'_def by (rule apply_one_action) simp_all
  moreover have "hw_windows w' = filter (\<lambda>y. wi_entity y \<noteq> wi_entity x) (hw_windows w)"
    by (simp add: w'_def apply_pending_app_edits_system_def apply_action_def Let_def)
  moreover have "hw_out w' = [\<lparr>psr_kind = PK_StrategyEditor, psr_source = PSS_UndoRedo, psr_spec = Some
      \<lparr>ses_region_key = Some k, ses_source = None, ses_layout_source = PSS_UndoRedo\<rparr>\<rparr>]"
    "hw_pending_layout w' = \<lparr>pl_windows = [closed_layout x], pl_waiting = False, pl_spawn_requested = {}\<rparr>"
    "hw_restore w' = Some (k, source_of x)"
    using assms(2)
    by (simp_all add: w'_def apply_pending_app_edits_system_def apply_action_def closed_layout_def closable_def Let_def)
  ultimately show thesis by (intro that [of w'] e)
qed

lemma no_other_editor:
  assumes "list_all (\<lambda>y. wi_entity y = wi_entity x \<or> wi_editor y \<noteq> Some k) ws"
  shows "filter (\<lambda>y. wi_editor y = Some k) (filter (\<lambda>y. wi_entity y \<noteq> wi_entity x) ws) = []"
  using assms by (auto simp: list_all_iff filter_empty_conv)

text \<open>The window the dispatcher makes for the key.\<close>

definition reopened :: "nat \<Rightarrow> str \<Rightarrow> window" where
  "reopened e k =
     (new_window e PK_StrategyEditor (num 500, num 400) (num (-300), num 50))
       \<lparr>wi_editor := Some k, wi_fragment := Some \<lparr>sf_source = [], sf_dirty = False\<rparr>\<rparr>"

lemma dispatch_reopens:
  assumes "hw_out w = map (\<lambda>src. \<lparr>psr_kind = PK_StrategyEditor, psr_source = src, psr_spec = Some
      \<lparr>ses_region_key = Some k, ses_source = None, ses_layout_source = src\<rparr>\<rparr>) srcs"
    and "PSS_User \<notin> set srcs" and "pf_by_region_key (dr_fragments d) k = None"
  shows "\<exists>d'. desk_dispatch rl ce (w, d) =
      (w\<lparr>hw_windows := hw_windows w @ map (\<lambda>i. reopened (dr_next d + i) k) [0..<length srcs], hw_out := []\<rparr>, d') \<and>
    pf_by_region_key (dr_fragments d') k = None \<and> dr_max_z d' = dr_max_z d"
proof -
  let ?req = "\<lambda>src. \<lparr>psr_kind = PK_StrategyEditor, psr_source = src, psr_spec = Some
      \<lparr>ses_region_key = Some k, ses_source = None, ses_layout_source = src\<rparr>\<rparr>"
  have "\<exists>s'. fold (dispatch_spawn rl ce ks) (map ?req srcs) s = s' \<and>
      sp_windows s' = sp_windows s @ map (\<lambda>i. reopened (sp_next s + i) k) [0..<length srcs] \<and>
      sp_history s' = sp_history s \<and> pf_by_region_key (sp_fragments s') k = None"
    if "pf_by_region_key (sp_fragments s) k = None" for s ks
    using assms(2) that
  proof (induction srcs arbitrary: s)
    case (Cons src srcs)
    let ?s = "dispatch_spawn rl ce ks (?req src) s"
    have step: "sp_windows ?s = sp_windows s @ [reopened (sp_next s) k]" "sp_next ?s = Suc (sp_next s)"
      "sp_history ?s = sp_history s" "pf_by_region_key (sp_fragments ?s) k = None"
      using Cons.prems
      by (auto simp: dispatch_spawn_def open_panel_def open_editor_def fill_source_def
          spawn_strategy_editor_panel_def reopened_def Let_def split: prod.split option.split)
    have "map (\<lambda>i. reopened (sp_next s + i) k) [0..<length (src # srcs)] =
        reopened (sp_next s) k # map (\<lambda>i. reopened (Suc (sp_next s) + i) k) [0..<length srcs]"
      by (simp add: upt_rec [of 0] map_Suc_upt [symmetric] del: upt_Suc)
    moreover obtain s' where "fold (dispatch_spawn rl ce ks) (map ?req srcs) ?s = s'"
      "sp_windows s' = sp_windows ?s @ map (\<lambda>i. reopened (sp_next ?s + i) k) [0..<length srcs]"
      "sp_history s' = sp_history ?s" "pf_by_region_key (sp_fragments s') k = None"
      using Cons.IH [of ?s] Cons.prems step(4) by auto
    ultimately show ?case using step by simp
  qed simp
  from this [of "\<lparr>sp_windows = hw_windows w, sp_next = dr_next d, sp_allocator = dr_allocator d,
      sp_history = hw_history w, sp_fragments = dr_fragments d, sp_buffer = dr_buffer d\<rparr>" "map wi_kind (hw_windows w)"]
  show ?thesis
    using assms by (auto simp: desk_dispatch_def panel_spawn_dispatcher_system_def Let_def)
qed

lemma upd_first_append: "\<not> list_ex p xs \<Longrightarrow> upd_first p f (xs @ ys) = xs @ upd_first p f ys"
  by (induction xs) auto

lemma wants_closed: "wants_window (closed_layout x) y \<Longrightarrow> wi_kind x = PK_StrategyEditor \<Longrightarrow> wi_editor x = Some k \<Longrightarrow>
    wi_editor y = Some k"
  by (simp add: wants_window_def closed_layout_def want_key_def)

lemma none_wanted:
  assumes "closable x k (w, d)"
  shows "\<not> list_ex (wants_window (closed_layout x)) (filter (\<lambda>y. wi_entity y \<noteq> wi_entity x) (hw_windows w))"
proof -
  have x: "wi_kind x = PK_StrategyEditor" "wi_editor x = Some k"
    and others: "list_all (\<lambda>y. wi_entity y = wi_entity x \<or> wi_editor y \<noteq> Some k) (hw_windows w)"
    using assms by (simp_all add: closable_def)
  from others wants_closed [OF _ x] show ?thesis by (auto simp: list_ex_iff list_all_iff)
qed

text \<open>C24: Closing an editor and choosing undo next brings back one editor with the same key, place, size,
  depth and text, through the stack, the dispatcher, the layout that was waiting for the window and the
  restored text. It is proved for the order in which the dispatcher runs after the undo actions of the
  frame, which the program leaves open (the other order gives \<open>late_dispatch_doubles_the_editor\<close>),
  and for an editor with a size, whose key no other editor and no waiting fragment has, while nothing
  else is replayed, requested or pending.\<close>

theorem closed_editor_comes_back:
  assumes "record_documented HISTORY_LIMIT rl view" and "closable x k (w, d)"
  shows "let t = desk_restore (desk_layout (desk_dispatch rl ce (desk_undo rl (desk_close rl x (w, d))))) in
    \<exists>y. filter (\<lambda>y. wi_editor y = Some k) (hw_windows (fst t)) = [y] \<and> wi_kind y = wi_kind x \<and>
      wi_position y = wi_position x \<and> wi_size y = wi_size x \<and> wi_z y = wi_z x \<and>
      wi_visibility y = Vis_Inherited \<and> source_of y = source_of x \<and>
      hw_restore (fst t) = None \<and> hw_out (fst t) = []"
proof -
  let ?others = "filter (\<lambda>y. wi_entity y \<noteq> wi_entity x) (hw_windows w)"
  obtain w' where u: "desk_undo rl (desk_close rl x (w, d)) = (w', d)" "hw_windows w' = ?others"
    "hw_out w' = [\<lparr>psr_kind = PK_StrategyEditor, psr_source = PSS_UndoRedo, psr_spec = Some
      \<lparr>ses_region_key = Some k, ses_source = None, ses_layout_source = PSS_UndoRedo\<rparr>\<rparr>]"
    "hw_pending_layout w' = \<lparr>pl_windows = [closed_layout x], pl_waiting = False, pl_spawn_requested = {}\<rparr>"
    "hw_restore w' = Some (k, source_of x)"
    by (rule after_close_and_undo [OF assms])
  have c: "wi_kind x = PK_StrategyEditor" "wi_editor x = Some k" "wi_size x \<noteq> None"
    "pf_by_region_key (dr_fragments d) k = None"
    "list_all (\<lambda>y. wi_entity y = wi_entity x \<or> wi_editor y \<noteq> Some k) (hw_windows w)"
    using assms(2) by (simp_all add: closable_def)
  obtain d' where dd: "desk_dispatch rl ce (w', d) = (w'\<lparr>hw_windows := ?others @ [reopened (dr_next d) k], hw_out := []\<rparr>, d')"
    and d': "pf_by_region_key (dr_fragments d') k = None"
    using dispatch_reopens [of w' k "[PSS_UndoRedo]" d rl ce] u(2,3) c(4) by auto
  have none: "\<not> list_ex (wants_window (closed_layout x)) ?others" by (rule none_wanted [OF assms(2)])
  have find_none: "List.find (wants_window (closed_layout x)) ?others = None"
    using none by (simp add: list_ex_find)
  have persisted: "\<not> is_non_persisted_layout_entry (closed_layout x)"
    using c(1) by (simp add: is_non_persisted_layout_entry_def closed_layout_def restore_driver_def)
  have want: "wants_window (closed_layout x) (reopened (dr_next d) k)"
    using c(1,2) by (simp add: wants_window_def closed_layout_def want_key_def reopened_def new_window_def)
  define y where "y = restore_window (closed_layout x) (reopened (dr_next d) k)"
  have y: "wi_kind y = PK_StrategyEditor" "wi_editor y = Some k" "wi_fragment y = Some \<lparr>sf_source = [], sf_dirty = False\<rparr>"
    "wi_position y = wi_position x" "wi_size y = wi_size x" "wi_z y = wi_z x" "wi_visibility y = Vis_Inherited"
    using c(3) by (auto simp: y_def restore_window_def set_visibility_def closed_layout_def reopened_def new_window_def
      is_boot_spawned_mode_owned_def Let_def)
  have take: "take_fragment y pf = (y, pf)" if "pf_by_region_key pf k = None" for pf
    using that y(2,3) by (simp add: take_fragment_def)
  let ?t = "desk_layout (desk_dispatch rl ce (desk_undo rl (desk_close rl x (w, d))))"
  have t: "hw_windows (fst ?t) = ?others @ [y]" "hw_out (fst ?t) = []" "hw_restore (fst ?t) = Some (k, source_of x)"
    using none want persisted d' u(4,5)
    by (simp_all add: u(1) dd desk_layout_def apply_pending_layout_system_def pending_step_def find_append find_none
        upd_first_append y_def [symmetric] take Let_def)
  have frag: "has_fragment k y" using y(2,3) by (simp add: has_fragment_def)
  have nofrag: "\<not> list_ex (has_fragment k) ?others" and noed: "filter (\<lambda>y. wi_editor y = Some k) ?others = []"
    using c(5) by (auto simp: list_ex_iff list_all_iff has_fragment_def filter_empty_conv)
  show ?thesis
    using t y frag nofrag noed c(1)
    by (simp add: desk_restore_def apply_strategy_snapshot_restore_system_def upd_first_append Let_def dirty_fragment_def source_of_def
        has_fragment_def)
qed

text \<open>The order of the dispatcher and the actions of undo is not fixed by the schedule. When the
  dispatcher runs first, the layout does not find the window yet and asks for another one: after the
  next frame two editors have the same key.\<close>

theorem late_dispatch_doubles_the_editor:
  assumes "record_documented HISTORY_LIMIT rl view" and "closable x k (w, d)"
  shows "let t = desk_dispatch rl ce (desk_layout (desk_undo rl (desk_close rl x (w, d)))) in
    length (filter (\<lambda>y. wi_editor y = Some k) (hw_windows (fst t))) = 2"
proof -
  let ?others = "filter (\<lambda>y. wi_entity y \<noteq> wi_entity x) (hw_windows w)"
  obtain w' where u: "desk_undo rl (desk_close rl x (w, d)) = (w', d)" "hw_windows w' = ?others"
    "hw_out w' = [\<lparr>psr_kind = PK_StrategyEditor, psr_source = PSS_UndoRedo, psr_spec = Some
      \<lparr>ses_region_key = Some k, ses_source = None, ses_layout_source = PSS_UndoRedo\<rparr>\<rparr>]"
    "hw_pending_layout w' = \<lparr>pl_windows = [closed_layout x], pl_waiting = False, pl_spawn_requested = {}\<rparr>"
    by (rule after_close_and_undo [OF assms])
  have c: "wi_kind x = PK_StrategyEditor" "wi_editor x = Some k" "pf_by_region_key (dr_fragments d) k = None"
    "list_all (\<lambda>y. wi_entity y = wi_entity x \<or> wi_editor y \<noteq> Some k) (hw_windows w)"
    using assms(2) by (simp_all add: closable_def)
  have none: "\<not> list_ex (wants_window (closed_layout x)) ?others" by (rule none_wanted [OF assms(2)])
  obtain w2 d2 where l: "desk_layout (w', d) = (w2, d2)" and w2: "hw_windows w2 = ?others"
    "hw_out w2 = map (\<lambda>src. \<lparr>psr_kind = PK_StrategyEditor, psr_source = src, psr_spec = Some
      \<lparr>ses_region_key = Some k, ses_source = None, ses_layout_source = src\<rparr>\<rparr>) [PSS_UndoRedo, PSS_LayoutLoad]"
    "pf_by_region_key (dr_fragments d2) k = None"
    using none u(2-4) c(1-3)
    by (simp add: desk_layout_def apply_pending_layout_system_def pending_step_def is_non_persisted_layout_entry_def
        closed_layout_def restore_driver_def list_ex_find want_key_def drop_orphan_peers_def request_spawn_def
        is_boot_spawned_mode_owned_def Let_def)
  obtain d3 where "desk_dispatch rl ce (w2, d2) =
      (w2\<lparr>hw_windows := ?others @ map (\<lambda>i. reopened (dr_next d2 + i) k) [0..<length [PSS_UndoRedo, PSS_LayoutLoad]], hw_out := []\<rparr>, d3)"
    using dispatch_reopens [OF w2(2) _ w2(3), of rl ce] w2(1) by auto
  then show ?thesis
    using no_other_editor [OF c(4)] by (simp add: u(1) l reopened_def Let_def)
qed

subsection \<open>A stack as documented\<close>

text \<open>Two lists, for the witnesses.\<close>

definition list_record :: "nat \<Rightarrow> (app_edit list \<times> app_edit list) record_lib" where
  "list_record n =
     \<lparr>rl_edit = (\<lambda>mrg r e. (push_done mrg n (fst r) e, [])),
      rl_undo = (\<lambda>r. case r of ([], redo) \<Rightarrow> None | (e # past, redo) \<Rightarrow> Some (e, (past, e # redo))),
      rl_redo = (\<lambda>r. case r of (past, []) \<Rightarrow> None | (past, e # redo) \<Rightarrow> Some (e, (e # past, redo))),
      rl_limited = (\<lambda>_. ([], []))\<rparr>"

lemma list_record_documented: "record_documented n (list_record n) (\<lambda>r. r)"
  by (auto simp: record_documented_def list_record_def split: list.split)

definition sample_editor :: "nat \<Rightarrow> str \<Rightarrow> str \<Rightarrow> window" where
  "sample_editor e k src =
     (new_window e PK_StrategyEditor (num 500, num 400) (0, 0))
       \<lparr>wi_editor := Some k, wi_fragment := Some \<lparr>sf_source = src, sf_dirty = False\<rparr>\<rparr>"

definition sample_world :: "window list \<Rightarrow> (app_edit list \<times> app_edit list) history_world" where
  "sample_world ws =
     \<lparr>hw_history = app_history_default (list_record HISTORY_LIMIT), hw_windows = ws,
      hw_pending_layout = \<lparr>pl_windows = [], pl_waiting = False, pl_spawn_requested = {}\<rparr>, hw_restore = None,
      hw_auto_save = \<lparr>as_dirty = False, as_last_change = None\<rparr>,
      hw_layout_save = \<lparr>las_dirty = False, las_last_change = None\<rparr>, hw_out = [], hw_applied = False\<rparr>"

lemma sample_world_simps [simp]:
  "ah_record (hw_history (sample_world ws)) = ([], [])" "quiet (sample_world ws)"
  "ah_suppress_echo_target (hw_history (sample_world ws)) = None" "hw_windows (sample_world ws) = ws"
  by (simp_all add: sample_world_def app_history_default_def list_record_def quiet_def)

lemma sample_editor_simps [simp]:
  "has_fragment k (sample_editor e k' src) \<longleftrightarrow> k = k'" "source_of (sample_editor e k src) = src"
  by (auto simp: sample_editor_def has_fragment_def source_of_def new_window_def)

lemma history_never_stuck_witness:
  "quiet (fold (history_step (list_record HISTORY_LIMIT)) [HE_Typed (1, ''a'', ''x''), HE_Frame 2 False press_undo]
     (sample_world [sample_editor 1 ''a'' []]))"
  by (rule history_never_stuck) simp

lemma typing_undone_and_redone_witness:
  "\<exists>n \<le> length [(1 :: nat, ''x''), (10 ^ 10, ''xy'')].
     text_of ''a'' ((press_and_echo (list_record HISTORY_LIMIT) ''a'' press_undo ^^ n)
       (fold (\<lambda>(now, s). typed (list_record HISTORY_LIMIT) (now, ''a'', s)) [(1, ''x''), (10 ^ 10, ''xy'')]
          (sample_world [sample_editor 1 ''a'' []]))) = Some []"
proof -
  have "text_of ''a'' (sample_world [sample_editor 1 ''a'' []]) = Some []"
    "length [(1 :: nat, ''x''), (10 ^ 10, ''xy'')] \<le> HISTORY_LIMIT"
    by (simp_all add: text_of_def HISTORY_LIMIT_def)
  from typing_undone_and_redone [OF list_record_documented sample_world_simps(1-3) this]
  show ?thesis unfolding Let_def by blast
qed

lemma merge_across_editors_witness:
  "text_of ''a'' (press_and_echo (list_record HISTORY_LIMIT) ''a'' press_redo
     (press_and_echo (list_record HISTORY_LIMIT) ''a'' press_undo
       (typed (list_record HISTORY_LIMIT) (2, ''b'', ''y'') (typed (list_record HISTORY_LIMIT) (1, ''a'', ''x'')
         (sample_world [sample_editor 1 ''a'' [], sample_editor 2 ''b'' []]))))) = Some ''y''"
proof -
  let ?w = "sample_world [sample_editor 1 ''a'' [], sample_editor 2 ''b'' []]"
  have t: "text_of ''a'' ?w = Some []" "text_of ''b'' ?w = Some []" by (simp_all add: text_of_def)
  show ?thesis
    using merge_across_editors [OF list_record_documented _ _ _ t, of "''x''" "''y''" 2 1]
    by (simp add: Let_def abs_diff_def newline_def)
qed

definition sample_rest :: desk_rest where
  "sample_rest =
     \<lparr>dr_next = 7, dr_allocator = 1, dr_fragments = \<lparr>pf_by_region_key = Map.empty, pf_loaded_for_path = None\<rparr>,
      dr_buffer = \<lparr>sb_original_path = None, sb_cache_path = None, sb_last_merged_source = None\<rparr>, dr_max_z = 0,
      dr_peers = [], dr_focus = None, dr_find_target = None, dr_find_open = False\<rparr>"

lemma sample_closable:
  "closable (sample_editor 1 ''region_001'' ''x'') ''region_001'' (sample_world [sample_editor 1 ''region_001'' ''x''], sample_rest)"
  by (simp add: closable_def sample_world_def sample_editor_def sample_rest_def new_window_def quiet_def app_history_default_def)

lemma closed_editor_comes_back_witness:
  "\<exists>y. filter (\<lambda>y. wi_editor y = Some ''region_001'') (hw_windows (fst (desk_restore (desk_layout
     (desk_dispatch (list_record HISTORY_LIMIT) sample_cache (desk_undo (list_record HISTORY_LIMIT)
       (desk_close (list_record HISTORY_LIMIT) (sample_editor 1 ''region_001'' ''x'')
         (sample_world [sample_editor 1 ''region_001'' ''x''], sample_rest)))))))) = [y] \<and> source_of y = ''x''"
  using closed_editor_comes_back [OF list_record_documented sample_closable, of sample_cache]
  by (auto simp: Let_def)

lemma late_dispatch_doubles_the_editor_witness:
  "length (filter (\<lambda>y. wi_editor y = Some ''region_001'') (hw_windows (fst (desk_dispatch (list_record HISTORY_LIMIT)
     sample_cache (desk_layout (desk_undo (list_record HISTORY_LIMIT) (desk_close (list_record HISTORY_LIMIT)
       (sample_editor 1 ''region_001'' ''x'') (sample_world [sample_editor 1 ''region_001'' ''x''], sample_rest)))))))) = 2"
  using late_dispatch_doubles_the_editor [OF list_record_documented sample_closable, of sample_cache]
  by (simp add: Let_def)

end
