(* ===== verification/Layout.thy ===== *)
theory Layout
  imports History
begin

text \<open>
  The persistence of the windows (\<open>src/ui/layout_persistence.rs\<close>): what is stored beside a strategy, the
  explicit and the automatic saves, the dialogs, opening a stored layout and restoring the cache. The
  derived serialisation of the stored layout is a parameter (\<open>layout_codec\<close>), as are the JSON crate, the
  faults of the file system, the files that a dialog gives and the clock.
\<close>

section \<open>Model\<close>

subsection \<open>What is stored\<close>

definition SCHEMA_VERSION :: u32 where "SCHEMA_VERSION = 1"

record viewport_state =
  vp_pan :: vec2
  vp_zoom :: f32

type_synonym chart_sizes = "str \<Rightarrow> vec2 option"

record sidecar_layout =
  sl_schema_version :: "u32 option"
  sl_viewport :: "viewport_state option"
  sl_windows :: "window_layout list option"
  sl_strategy_path :: "path option"
  sl_selected_symbol :: "str option"
  sl_chart_sizes :: "chart_sizes option"
  sl_scenario :: "json option"

text \<open>The camera: where it is, and the scale of an orthographic projection.\<close>

record camera =
  cm_pan :: vec2
  cm_scale :: "f32 option"

record layout_codec =
  lc_parse :: "str \<Rightarrow> sidecar_layout option"
  lc_print :: "sidecar_layout \<Rightarrow> str option"

definition viewport_of :: "camera option \<Rightarrow> viewport_state" where
  "viewport_of c =
     (case c of
        Some x \<Rightarrow> \<lparr>vp_pan = cm_pan x, vp_zoom = unwrap_or (num 1) (cm_scale x)\<rparr>
      | None \<Rightarrow> \<lparr>vp_pan = (0, 0), vp_zoom = 0\<rparr>)"

definition preserved_scenario :: "(str \<Rightarrow> json option) \<Rightarrow> files \<Rightarrow> path option \<Rightarrow> json option" where
  "preserved_scenario parse fs source =
     Option.bind source (\<lambda>p. Option.bind (read_json_with_bom_strip fs p) (\<lambda>s. Option.bind (parse s) (json_get ''scenario'')))"

text \<open>What the windows, the camera and the buffer give, with the scenario of an existing file.\<close>

record layout_view =
  lv_windows :: "window list"
  lv_camera :: "camera option"
  lv_chart_sizes :: chart_sizes

definition build_layout ::
  "(str \<Rightarrow> json option) \<Rightarrow> layout_view \<Rightarrow> strategy_buffer \<Rightarrow> path option \<Rightarrow> files \<Rightarrow> sidecar_layout" where
  "build_layout parse v b preserve fs =
     \<lparr>sl_schema_version = Some SCHEMA_VERSION, sl_viewport = Some (viewport_of (lv_camera v)),
      sl_windows = Some (stored_windows (lv_windows v)), sl_strategy_path = sb_original_path b,
      sl_selected_symbol = None,
      sl_chart_sizes = (if dom (lv_chart_sizes v) = {} then None else Some (lv_chart_sizes v)),
      sl_scenario = preserved_scenario parse fs preserve\<rparr>"

definition instruments_json :: "instrument_registry \<Rightarrow> json" where
  "instruments_json r = JArr (map JStr (ir_ids r))"

text \<open>A scenario from the metadata, when nothing is missing.\<close>

definition minimal_scenario :: "instrument_registry \<Rightarrow> scenario_metadata \<Rightarrow> json option" where
  "minimal_scenario r m =
     (case (sm_start m, sm_end m, sm_granularity m, sm_initial_cash m) of
        (Some st, Some en, Some g, Some cash) \<Rightarrow>
          Some (JObj (obj_insert ''initial_cash'' (JInt cash) (obj_insert ''granularity'' (JStr g)
            (obj_insert ''end'' (JStr en) (obj_insert ''start'' (JStr st)
              (obj_insert ''instruments'' (instruments_json r)
                [(''schema_version'', JInt (uint (unwrap_or 2 (sm_schema_version m))))]))))))
      | _ \<Rightarrow> None)"

definition build_layout_for_explicit_save ::
  "(str \<Rightarrow> json option) \<Rightarrow> layout_view \<Rightarrow> strategy_buffer \<Rightarrow> instrument_registry \<Rightarrow> scenario_metadata \<Rightarrow>
   path option \<Rightarrow> path option \<Rightarrow> files \<Rightarrow> sidecar_layout option" where
  "build_layout_for_explicit_save parse v b r m cache_sidecar fallback fs =
     (let preserve_from = (case cache_sidecar of Some p \<Rightarrow> Some p | None \<Rightarrow> fallback);
          layout = build_layout parse v b preserve_from fs in
      if \<not> ir_editable r then Some layout
      else (case sl_scenario layout of
              Some (JObj es) \<Rightarrow>
                Some (layout\<lparr>sl_scenario := Some (JObj (obj_insert ''instruments'' (instruments_json r) es))\<rparr>)
            | _ \<Rightarrow> map_option (\<lambda>sc. layout\<lparr>sl_scenario := Some sc\<rparr>) (minimal_scenario r m)))"

definition save_layout_to :: "layout_codec \<Rightarrow> io_fault \<Rightarrow> path \<Rightarrow> sidecar_layout \<Rightarrow> files \<Rightarrow> str option \<times> files" where
  "save_layout_to c fault p layout fs =
     (case lc_print c layout of None \<Rightarrow> (Some ''serialize'', fs) | Some s \<Rightarrow> fs_write fault p s fs)"

declare save_layout_to_def [io_defs]

definition apply_chart_sizes :: "sidecar_layout \<Rightarrow> chart_sizes" where
  "apply_chart_sizes layout = unwrap_or Map.empty (sl_chart_sizes layout)"

definition load_layout_from :: "layout_codec \<Rightarrow> files \<Rightarrow> path \<Rightarrow> sidecar_layout option" where
  "load_layout_from c fs p = Option.bind (read_json_with_bom_strip fs p) (lc_parse c)"

definition apply_viewport :: "viewport_state option \<Rightarrow> camera option \<Rightarrow> camera option" where
  "apply_viewport vp c =
     (case (vp, c) of
        (Some v, Some x) \<Rightarrow>
          Some (x\<lparr>cm_pan := vp_pan v, cm_scale := map_option (\<lambda>_. vp_zoom v) (cm_scale x)\<rparr>)
      | _ \<Rightarrow> c)"

subsection \<open>The dialogs\<close>

datatype file_dialog_kind = FD_Load | FD_Save | FD_SaveAs

text \<open>Whether a task runs, for which kind, and a result that was put in by a test.\<close>

record pending_file_dialog =
  fd_task :: bool
  fd_kind :: "file_dialog_kind option"
  fd_resolved :: "path option option"

definition dialog_default :: pending_file_dialog where
  "dialog_default = \<lparr>fd_task = False, fd_kind = None, fd_resolved = None\<rparr>"

definition is_active :: "pending_file_dialog \<Rightarrow> bool" where
  "is_active d \<longleftrightarrow> fd_task d \<or> fd_resolved d \<noteq> None"

definition dialog_begin :: "file_dialog_kind \<Rightarrow> pending_file_dialog \<Rightarrow> pending_file_dialog" where
  "dialog_begin k d = d\<lparr>fd_task := True, fd_kind := Some k\<rparr>"

text \<open>\<open>polled\<close> is what the running task has to give, if it has finished.\<close>

definition poll_take ::
  "file_dialog_kind \<Rightarrow> path option option \<Rightarrow> pending_file_dialog \<Rightarrow> path option option \<times> pending_file_dialog" where
  "poll_take k polled d =
     (if fd_kind d \<noteq> Some k then (None, d)
      else (case fd_resolved d of
              Some r \<Rightarrow> (Some r, d\<lparr>fd_resolved := None, fd_kind := None\<rparr>)
            | None \<Rightarrow>
                (if \<not> fd_task d then (None, d)
                 else (case polled of
                         None \<Rightarrow> (None, d)
                       | Some r \<Rightarrow> (Some r, d\<lparr>fd_task := False, fd_kind := None\<rparr>)))))"

definition inject_resolved :: "file_dialog_kind \<Rightarrow> path option \<Rightarrow> pending_file_dialog \<Rightarrow> pending_file_dialog" where
  "inject_resolved k p d = \<lparr>fd_task = False, fd_kind = Some k, fd_resolved = Some p\<rparr>"

fun open_dialogs :: "file_dialog_kind \<Rightarrow> nat \<Rightarrow> pending_file_dialog \<Rightarrow> pending_file_dialog" where
  "open_dialogs k 0 d = d"
| "open_dialogs k (Suc n) d = open_dialogs k n (if is_active d then d else dialog_begin k d)"

definition handle_save_as_layout_system :: "nat \<Rightarrow> pending_file_dialog \<Rightarrow> pending_file_dialog" where
  "handle_save_as_layout_system n d = open_dialogs FD_SaveAs n d"

definition handle_load_dialog_system :: "nat \<Rightarrow> pending_file_dialog \<Rightarrow> pending_file_dialog" where
  "handle_load_dialog_system n d = open_dialogs FD_Load n d"

datatype layout_load_mode = LLM_UserJsonOpen | LLM_ApplySidecarForPy

definition poll_load_dialog_system ::
  "path option option \<Rightarrow> pending_file_dialog \<Rightarrow> pending_file_dialog \<times> (path \<times> layout_load_mode) list" where
  "poll_load_dialog_system polled d =
     (let (r, d1) = poll_take FD_Load polled d in
      (d1, case r of Some (Some p) \<Rightarrow> [(p, LLM_UserJsonOpen)] | _ \<Rightarrow> []))"

subsection \<open>Saving\<close>

text \<open>The environment of a save.\<close>

record save_env =
  se_codec :: layout_codec
  se_disk :: json_disk
  se_mtime :: "path \<Rightarrow> nat option"
  se_cache :: cache_env
  se_camera :: "camera option"
  se_chart_sizes :: chart_sizes
  se_registry :: instrument_registry
  se_scenario :: scenario_metadata
  se_cache_sidecar :: "path option"

record save_sys =
  ss_buffer :: strategy_buffer
  ss_windows :: "window list"
  ss_auto :: auto_save_state
  ss_target :: "path option"
  ss_writeback :: writeback_state
  ss_files :: files

definition clean_fragments :: "window list \<Rightarrow> window list" where
  "clean_fragments ws =
     map (\<lambda>w. if wi_editor w = None then w
               else w\<lparr>wi_fragment := map_option (\<lambda>f. f\<lparr>sf_dirty := False\<rparr>) (wi_fragment w)\<rparr>) ws"

definition editors_of :: "window list \<Rightarrow> editors" where
  "editors_of ws =
     List.map_filter (\<lambda>w. case (wi_editor w, wi_fragment w) of (Some k, Some f) \<Rightarrow> Some (k, f) | _ \<Rightarrow> None) ws"

definition pre_flush :: "save_env \<Rightarrow> files \<Rightarrow> files" where
  "pre_flush e fs =
     (if ir_editable (se_registry e)
      then snd (flush_sidecars_now (se_disk e) (se_mtime e) (ir_ids (se_registry e)) None (se_cache_sidecar e) fs)
      else fs)"

definition explicit_layout :: "save_env \<Rightarrow> path option \<Rightarrow> path option \<Rightarrow> save_sys \<Rightarrow> sidecar_layout option" where
  "explicit_layout e scenario_json fallback s =
     build_layout_for_explicit_save (jd_parse (se_disk e))
       \<lparr>lv_windows = ss_windows s, lv_camera = se_camera e, lv_chart_sizes = se_chart_sizes e\<rparr>
       (ss_buffer s) (se_registry e) (se_scenario e) scenario_json fallback (ss_files s)"

text \<open>A first save that fails forgets where it was going to.\<close>

definition forget_new :: "bool \<Rightarrow> save_sys \<Rightarrow> save_sys" where
  "forget_new was_new s =
     (if was_new
      then s\<lparr>ss_buffer := (ss_buffer s)\<lparr>sb_original_path := None, sb_cache_path := None\<rparr>, ss_target := None\<rparr>
      else s)"

definition after_sync :: "save_env \<Rightarrow> save_sys \<Rightarrow> save_sys" where
  "after_sync e s =
     s\<lparr>ss_windows := clean_fragments (ss_windows s),
       ss_auto := (ss_auto s)\<lparr>as_dirty := False, as_last_change := None\<rparr>,
       ss_buffer := (ss_buffer s)\<lparr>sb_cache_path := map_option snd (cache_state_paths (se_cache e))\<rparr>\<rparr>"

text \<open>The strategy file and the cache; \<open>rollback\<close> is what a failed write does.\<close>

definition save_strategy ::
  "save_env \<Rightarrow> (save_sys \<Rightarrow> save_sys) \<Rightarrow> (save_sys \<Rightarrow> save_sys) \<Rightarrow> path \<Rightarrow> save_sys \<Rightarrow> save_sys" where
  "save_strategy e synced rollback py s =
     (let items = collect_items (editors_of (ss_windows s)) in
      if items = [] then s
      else (case fs_write (ce_write_fault (se_cache e)) py (merge_fragments items) (ss_files s) of
              (None, fs1) \<Rightarrow>
                (case sync_to_cache (se_cache e) py fs1 of
                   (None, fs2) \<Rightarrow> after_sync e (synced (s\<lparr>ss_files := fs2\<rparr>))
                 | (Some err, fs2) \<Rightarrow>
                     s\<lparr>ss_files := fs2, ss_buffer := (ss_buffer s)\<lparr>sb_cache_path := None\<rparr>\<rparr>)
            | (Some err, fs1) \<Rightarrow> rollback (s\<lparr>ss_files := fs1\<rparr>)))"

definition finish_layout_save :: "save_env \<Rightarrow> path \<Rightarrow> path \<Rightarrow> bool \<Rightarrow> save_sys \<Rightarrow> bool \<times> save_sys" where
  "finish_layout_save e json py was_new s =
     (let s1 = s\<lparr>ss_files := pre_flush e (ss_files s)\<rparr>;
          fallback = map_option (with_extension ''json'') (sb_original_path (ss_buffer s)) in
      case explicit_layout e (ss_target s1) fallback s1 of
        None \<Rightarrow> (False, forget_new was_new s1)
      | Some layout \<Rightarrow>
          (case save_layout_to (se_codec e) (ce_write_fault (se_cache e)) json layout (ss_files s1) of
             (Some err, fs1) \<Rightarrow> (False, forget_new was_new (s1\<lparr>ss_files := fs1\<rparr>))
           | (None, fs1) \<Rightarrow>
               (True, save_strategy e (\<lambda>x. x) (forget_new was_new) py
                        (s1\<lparr>ss_files := fs1, ss_target := Some json\<rparr>))))"

text \<open>A save with a known path, and the number of times a save-as dialog is asked for.\<close>

fun handle_save_layout_system :: "save_env \<Rightarrow> nat \<Rightarrow> save_sys \<Rightarrow> save_sys \<times> nat" where
  "handle_save_layout_system e 0 s = (s, 0)"
| "handle_save_layout_system e (Suc n) s =
     (case sb_original_path (ss_buffer s) of
        None \<Rightarrow> (let (s1, m) = handle_save_layout_system e n s in (s1, Suc m))
      | Some orig \<Rightarrow>
          (let json = with_extension ''json'' orig in
           handle_save_layout_system e n (snd (finish_layout_save e json (with_extension ''py'' json) False s))))"

definition poll_save_dialog_system ::
  "save_env \<Rightarrow> path option option \<Rightarrow> pending_file_dialog \<times> save_sys \<Rightarrow> pending_file_dialog \<times> save_sys" where
  "poll_save_dialog_system e polled t =
     (let (d, s) = t; (r, d1) = poll_take FD_Save polled d in
      case r of
        Some (Some json) \<Rightarrow>
          (let py = with_extension ''py'' json;
               s1 = s\<lparr>ss_buffer := (ss_buffer s)\<lparr>sb_original_path := Some py,
                      sb_cache_path := map_option snd (cache_state_paths (se_cache e))\<rparr>\<rparr> in
           (d1, snd (finish_layout_save e json py True s1)))
      | _ \<Rightarrow> (d1, s))"

definition save_as :: "save_env \<Rightarrow> path \<Rightarrow> save_sys \<Rightarrow> save_sys" where
  "save_as e json s =
     (let s0 = s\<lparr>ss_files := pre_flush e (ss_files s)\<rparr>;
          py = with_extension ''py'' json;
          s1 = s0\<lparr>ss_buffer := (ss_buffer s0)\<lparr>sb_original_path := Some py,
                  sb_cache_path := map_option snd (cache_state_paths (se_cache e))\<rparr>\<rparr>;
          back = (\<lambda>x. x\<lparr>ss_buffer := (ss_buffer x)\<lparr>sb_original_path := sb_original_path (ss_buffer s),
                         sb_cache_path := sb_cache_path (ss_buffer s)\<rparr>\<rparr>);
          fallback = map_option (with_extension ''json'') (sb_original_path (ss_buffer s)) in
      case explicit_layout e (ss_target s) fallback s1 of
        None \<Rightarrow> back s1
      | Some layout \<Rightarrow>
          (case save_layout_to (se_codec e) (ce_write_fault (se_cache e)) json layout (ss_files s1) of
             (Some err, fs1) \<Rightarrow> back (s1\<lparr>ss_files := fs1\<rparr>)
           | (None, fs1) \<Rightarrow>
               save_strategy e (\<lambda>x. x\<lparr>ss_writeback := bump_writeback_for_save_as (ss_writeback x)\<rparr>)
                 (\<lambda>x. (back x)\<lparr>ss_target := ss_target s\<rparr>) py
                 (s1\<lparr>ss_files := fs1, ss_target := Some json\<rparr>)))"

definition poll_save_as_dialog_system ::
  "save_env \<Rightarrow> path option option \<Rightarrow> pending_file_dialog \<times> save_sys \<Rightarrow> pending_file_dialog \<times> save_sys" where
  "poll_save_as_dialog_system e polled t =
     (let (d, s) = t; (r, d1) = poll_take FD_SaveAs polled d in
      (d1, case r of Some (Some json) \<Rightarrow> save_as e json s | _ \<Rightarrow> s))"

subsection \<open>Saving without being asked\<close>

text \<open>When the application window is closed: the strategy into its cache, the layout into the state
  file of the cache.\<close>

definition close_flush :: "save_env \<Rightarrow> save_sys \<Rightarrow> save_sys" where
  "close_flush e s =
     (let items = collect_items (editors_of (ss_windows s)) in
      if items = [] then s
      else (case flush_strategy_cache (ce_write_fault (se_cache e)) (merge_fragments items)
                   (ss_buffer s, ss_auto s, ss_files s) of
              (Inr True, b, a, fs) \<Rightarrow>
                s\<lparr>ss_buffer := b, ss_auto := a, ss_files := fs, ss_windows := clean_fragments (ss_windows s)\<rparr>
            | (r, b, a, fs) \<Rightarrow> s\<lparr>ss_buffer := b, ss_auto := a, ss_files := fs\<rparr>))"

definition auto_layout :: "save_env \<Rightarrow> save_sys \<Rightarrow> sidecar_layout" where
  "auto_layout e s =
     build_layout (jd_parse (se_disk e))
       \<lparr>lv_windows = ss_windows s, lv_camera = se_camera e, lv_chart_sizes = se_chart_sizes e\<rparr>
       (ss_buffer s) (se_cache_sidecar e) (ss_files s)"

definition store_auto_layout :: "save_env \<Rightarrow> save_sys \<Rightarrow> save_sys" where
  "store_auto_layout e s =
     (case cache_state_paths (se_cache e) of
        None \<Rightarrow> s
      | Some (cache_json, cache_py) \<Rightarrow>
          s\<lparr>ss_files := snd (save_layout_to (se_codec e) (ce_write_fault (se_cache e)) cache_json
                              (auto_layout e s) (ss_files s))\<rparr>)"

definition save_layout_on_window_close :: "save_env \<Rightarrow> nat \<Rightarrow> save_sys \<Rightarrow> save_sys" where
  "save_layout_on_window_close e n s = ((\<lambda>x. store_auto_layout e (close_flush e x)) ^^ n) s"

text \<open>\<open>as_secs_f32\<close> gives at least one from here on: the nanoseconds are rounded to a multiple of 64.\<close>

definition second_over :: "nat \<Rightarrow> bool" where
  "second_over ns \<longleftrightarrow> 999999968 \<le> ns"

text \<open>A second after the last change; without a last change no time has passed.\<close>

definition debounced_autosave_system ::
  "save_env \<Rightarrow> nat \<Rightarrow> layout_save_state \<times> save_sys \<Rightarrow> layout_save_state \<times> save_sys" where
  "debounced_autosave_system e now t =
     (let (a, s) = t;
          elapsed = (case las_last_change a of Some t0 \<Rightarrow> now - t0 | None \<Rightarrow> 0) in
      if \<not> las_dirty a \<or> \<not> second_over elapsed then t
      else (\<lparr>las_dirty = False, las_last_change = None\<rparr>, store_auto_layout e s))"

record shortcut_input =
  sc_ctrl :: bool
  sc_shift :: bool
  sc_just_s :: bool
  sc_just_o :: bool

datatype shortcut = SH_Save | SH_SaveAs | SH_Load

text \<open>What is asked for, and whether the half second of the cooldown begins again.\<close>

definition layout_shortcut_system :: "bool \<Rightarrow> shortcut_input \<Rightarrow> shortcut list \<times> bool" where
  "layout_shortcut_system cooling i =
     (if cooling \<or> \<not> sc_ctrl i then ([], False)
      else ((if sc_just_s i then [if sc_shift i then SH_SaveAs else SH_Save] else []) @
            (if sc_just_o i then [SH_Load] else []), sc_just_s i \<or> sc_just_o i))"

subsection \<open>Opening a stored layout\<close>

record open_sys =
  os_windows :: "window list"
  os_camera :: "camera option"
  os_max_z :: f32
  os_pending :: pending_layout
  os_fragments :: pending_fragments
  os_loopback :: "path option"
  os_target :: "path option"
  os_chart_sizes :: chart_sizes

datatype open_output =
    OO_Spawn panel_spawn_requested
  | OO_LoadStrategy path strategy_load_mode
  | OO_Despawn nat

text \<open>What was waiting from an earlier file is dropped.\<close>

definition drop_pending :: "open_sys \<Rightarrow> open_sys" where
  "drop_pending s =
     s\<lparr>os_fragments := \<lparr>pf_by_region_key = Map.empty, pf_loaded_for_path = None\<rparr>,
       os_pending := \<lparr>pl_windows = [], pl_waiting = False, pl_spawn_requested = {}\<rparr>\<rparr>"

text \<open>The strategy is loaded first; the windows wait for its fragments, the camera moves at once.\<close>

definition defer_layout :: "sidecar_layout \<Rightarrow> path \<Rightarrow> open_sys \<Rightarrow> open_sys \<times> open_output list" where
  "defer_layout layout py s =
     (let s1 = drop_pending s in
      (s1\<lparr>os_pending := (case sl_windows layout of
              Some ws \<Rightarrow> (os_pending s1)\<lparr>pl_windows := ws, pl_waiting := True\<rparr>
            | None \<Rightarrow> os_pending s1),
          os_camera := apply_viewport (sl_viewport layout) (os_camera s1)\<rparr>,
       [OO_LoadStrategy py SLM_LayoutRestore]))"

definition restore_step :: "window_layout \<Rightarrow> open_sys \<times> open_output list \<Rightarrow> open_sys \<times> open_output list" where
  "restore_step wl t =
     (let (s, out) = t in
      if is_non_persisted_layout_entry wl then t
      else if list_ex (wants_window wl) (os_windows s)
      then (s\<lparr>os_windows := upd_first (wants_window wl) (restore_window wl) (os_windows s),
              os_max_z := max_z_of wl (os_max_z s)\<rparr>, out)
      else if is_boot_spawned_mode_owned (wl_kind wl) then t
      else (let (pl, reqs) = request_spawn wl (os_pending s) in
            (s\<lparr>os_pending := pl\<lparr>pl_windows := pl_windows pl @ [wl]\<rparr>\<rparr>, out @ map OO_Spawn reqs)))"

text \<open>A window that the file does not list goes; those that the application starts stay.\<close>

definition listed :: "window_layout list \<Rightarrow> window \<Rightarrow> bool" where
  "listed wls w \<longleftrightarrow> list_ex (\<lambda>wl. wl_kind wl = wi_kind w \<and>
     (wl_kind wl = PK_StrategyEditor \<longrightarrow> wi_editor w = want_key wl)) wls"

definition unlisted :: "window_layout list \<Rightarrow> window list \<Rightarrow> nat list" where
  "unlisted wls ws =
     map wi_entity (filter (\<lambda>w. \<not> wi_excluded w \<and> \<not> is_boot_spawned_mode_owned (wi_kind w) \<and> \<not> listed wls w) ws)"

definition apply_windows :: "window_layout list \<Rightarrow> open_sys \<Rightarrow> open_sys \<times> open_output list" where
  "apply_windows wls s =
     (let (s1, out) = fold restore_step wls (s, []); gone = unlisted wls (os_windows s1) in
      (s1\<lparr>os_windows := filter (\<lambda>w. wi_entity w \<notin> set gone) (os_windows s1)\<rparr>, out @ map OO_Despawn gone))"

definition apply_now :: "sidecar_layout \<Rightarrow> open_sys \<Rightarrow> open_sys \<times> open_output list" where
  "apply_now layout s =
     (let s1 = s\<lparr>os_camera := apply_viewport (sl_viewport layout) (os_camera s)\<rparr> in
      case sl_windows layout of None \<Rightarrow> (s1, []) | Some wls \<Rightarrow> apply_windows wls s1)"

text \<open>A file with only a scenario: the strategy beside it is opened, and the layout event that this
  causes is passed over once.\<close>

definition open_scenario_only :: "files \<Rightarrow> path \<Rightarrow> open_sys \<Rightarrow> open_sys \<times> open_output list" where
  "open_scenario_only fs p s =
     (if os_loopback s = Some p then (s\<lparr>os_loopback := None\<rparr>, [])
      else (let py = with_extension ''py'' p in
            if fs py \<noteq> None
            then (s\<lparr>os_loopback := Some p\<rparr>, [OO_LoadStrategy py SLM_UserOpen])
            else (s\<lparr>os_target := Some p\<rparr>, [])))"

text \<open>After a strategy file was opened its own path counts, not the one its sidecar names.\<close>

definition should_load :: "layout_load_mode \<Rightarrow> path option \<Rightarrow> bool" where
  "should_load mode loaded_for \<longleftrightarrow> mode = LLM_UserJsonOpen \<or> loaded_for = None"

definition open_layout :: "files \<Rightarrow> path \<Rightarrow> layout_load_mode \<Rightarrow> sidecar_layout \<Rightarrow> open_sys \<Rightarrow> open_sys \<times> open_output list" where
  "open_layout fs p mode layout s0 =
     (let s = s0\<lparr>os_chart_sizes := apply_chart_sizes layout\<rparr> in
      case sl_strategy_path layout of
        None \<Rightarrow> apply_now layout s
      | Some py \<Rightarrow>
          (if fs py \<noteq> None
           then (if should_load mode (pf_loaded_for_path (os_fragments s)) then defer_layout layout py s
                 else apply_now layout s)
           else (let sibling = with_extension ''py'' p in
                 if mode = LLM_UserJsonOpen \<and> fs sibling \<noteq> None then defer_layout layout sibling s
                 else if mode = LLM_UserJsonOpen then apply_now layout (drop_pending s)
                 else apply_now layout s)))"

definition apply_layout_one ::
  "layout_codec \<Rightarrow> files \<Rightarrow> path \<times> layout_load_mode \<Rightarrow> open_sys \<Rightarrow> open_sys \<times> open_output list" where
  "apply_layout_one c fs ev s =
     (let (p, mode) = ev in
      case load_layout_from c fs p of
        None \<Rightarrow> (s, [])
      | Some layout \<Rightarrow>
          (if sl_strategy_path layout = None \<and> sl_windows layout = None then open_scenario_only fs p s
           else (case sl_schema_version layout of
                   Some v \<Rightarrow> if v \<noteq> SCHEMA_VERSION then (s, []) else open_layout fs p mode layout s
                 | None \<Rightarrow> open_layout fs p mode layout s)))"

fun apply_layout_system ::
  "layout_codec \<Rightarrow> files \<Rightarrow> (path \<times> layout_load_mode) list \<Rightarrow> open_sys \<Rightarrow> open_sys \<times> open_output list" where
  "apply_layout_system c fs [] s = (s, [])"
| "apply_layout_system c fs (ev # evs) s =
     (let (s1, out) = apply_layout_one c fs ev s; (s2, out2) = apply_layout_system c fs evs s1 in (s2, out @ out2))"

subsection \<open>Restoring the cache\<close>

definition cache_restore_has_strategy_editor_window :: "window_layout list option \<Rightarrow> bool" where
  "cache_restore_has_strategy_editor_window wls \<longleftrightarrow>
     (case wls of None \<Rightarrow> False
      | Some ws \<Rightarrow> list_ex (\<lambda>w. wl_kind w = PK_StrategyEditor \<and> \<not> is_non_persisted_layout_entry w) ws)"

definition layout_spawn :: "str \<Rightarrow> panel_spawn_requested" where
  "layout_spawn k =
     \<lparr>psr_kind = PK_StrategyEditor, psr_source = PSS_LayoutLoad,
      psr_spec = Some \<lparr>ses_region_key = Some k, ses_source = None, ses_layout_source = PSS_LayoutLoad\<rparr>\<rparr>"

definition compute_cache_restore_fallback_spawns ::
  "window_layout list option \<Rightarrow> fragments \<Rightarrow> str set \<Rightarrow> str list" where
  "compute_cache_restore_fallback_spawns wls frags dedupe =
     (if cache_restore_has_strategy_editor_window wls then []
      else filter (\<lambda>k. k \<notin> dedupe) (map fst frags))"

record cache_sys =
  cs_buffer :: strategy_buffer
  cs_allocator :: region_key_allocator
  cs_fragments :: pending_fragments
  cs_camera :: "camera option"
  cs_pending :: pending_layout
  cs_target :: "path option"
  cs_chart_sizes :: chart_sizes

definition cache_window_step ::
  "window_layout \<Rightarrow> pending_layout \<times> panel_spawn_requested list \<Rightarrow> pending_layout \<times> panel_spawn_requested list" where
  "cache_window_step wl t =
     (let (pl, out) = t in
      if is_non_persisted_layout_entry wl then t
      else (let pl1 = pl\<lparr>pl_windows := pl_windows pl @ [wl]\<rparr> in
            if is_boot_spawned_mode_owned (wl_kind wl) then (pl1, out)
            else (let (pl2, reqs) = request_spawn wl pl1 in (pl2, out @ reqs))))"

definition fallback_step ::
  "str \<Rightarrow> pending_layout \<times> panel_spawn_requested list \<Rightarrow> pending_layout \<times> panel_spawn_requested list" where
  "fallback_step k t =
     (let (pl, out) = t; key = (PK_StrategyEditor, Some k) in
      if key \<in> pl_spawn_requested pl then t
      else (pl\<lparr>pl_spawn_requested := insert key (pl_spawn_requested pl)\<rparr>, out @ [layout_spawn k]))"

definition cache_restore_one ::
  "cache_env \<Rightarrow> files \<Rightarrow> sidecar_layout \<Rightarrow> cache_sys \<Rightarrow> cache_sys \<times> panel_spawn_requested list" where
  "cache_restore_one ce fs layout s =
     (case cache_state_paths ce of
        None \<Rightarrow> (s, [])
      | Some (cache_json, cache_py) \<Rightarrow>
          (case fs cache_py of
             None \<Rightarrow> (s, [])
           | Some source \<Rightarrow>
               (let outcome = split_py_into_fragments source; frags = so_fragments outcome;
                    (pl, out) = fold cache_window_step (unwrap_or [] (sl_windows layout)) (cs_pending s, []);
                    dedupe = {k. (PK_StrategyEditor, Some k) \<in> pl_spawn_requested pl};
                    (pl2, out2) = fold fallback_step
                      (compute_cache_restore_fallback_spawns (sl_windows layout) frags dedupe) (pl, out) in
                (\<lparr>cs_buffer = \<lparr>sb_original_path = sl_strategy_path layout, sb_cache_path = Some cache_py,
                               sb_last_merged_source = None\<rparr>,
                  cs_allocator = bump_to_at_least (of_nat (so_max_numeric_suffix outcome)) (cs_allocator s),
                  cs_fragments = \<lparr>pf_by_region_key = fold (\<lambda>(k, b) m. m(k \<mapsto> b)) frags Map.empty,
                                  pf_loaded_for_path = sl_strategy_path layout\<rparr>,
                  cs_camera = apply_viewport (sl_viewport layout) (cs_camera s),
                  cs_pending = pl2, cs_target = Some cache_json, cs_chart_sizes = apply_chart_sizes layout\<rparr>, out2))))"

fun apply_cache_restore_system ::
  "cache_env \<Rightarrow> files \<Rightarrow> sidecar_layout list \<Rightarrow> cache_sys \<Rightarrow> cache_sys \<times> panel_spawn_requested list" where
  "apply_cache_restore_system ce fs [] s = (s, [])"
| "apply_cache_restore_system ce fs (l # ls) s =
     (let (s1, out) = cache_restore_one ce fs l s; (s2, out2) = apply_cache_restore_system ce fs ls s1 in
      (s2, out @ out2))"

section \<open>Properties\<close>

subsection \<open>Storing and opening again\<close>

abbreviation persisted :: "window \<Rightarrow> bool" where
  "persisted w \<equiv> \<not> wi_excluded w \<and> restore_driver (wi_kind w) \<noteq> RD_ScenarioInstruments"



definition put_back :: "window \<Rightarrow> window \<Rightarrow> window" where
  "put_back w w' = (if persisted w then restore_window (window_layout_of w) w' else w')"

lemma restore_window_fields [simp]:
  "wi_kind (restore_window wl w) = wi_kind w" "wi_editor (restore_window wl w) = wi_editor w"
  "wi_excluded (restore_window wl w) = wi_excluded w" "wi_entity (restore_window wl w) = wi_entity w"
  by (simp_all add: restore_window_def set_visibility_def Let_def)

lemma put_back_fields [simp]:
  "wi_kind (put_back w w') = wi_kind w'" "wi_editor (put_back w w') = wi_editor w'"
  "wi_excluded (put_back w w') = wi_excluded w'" "wi_entity (put_back w w') = wi_entity w'"
  by (simp_all add: put_back_def)










subsection \<open>The automatic save\<close>

lemma no_change_no_save:
  "las_last_change a = None \<Longrightarrow> fold (debounced_autosave_system e) nows (a, s) = (a, s)"
  by (induction nows) (simp_all add: debounced_autosave_system_def second_over_def)

text \<open>When the layout was saved and then the move of a window is undone, the layout counts as changed
  but the time of the change is not noted: however long one waits, it is never saved again.\<close>

theorem undone_move_never_saved:
  assumes "record_documented HISTORY_LIMIT rl view" and "view (ah_record (hw_history w)) = (AE_WindowMove mv # past, redo)"
    and "quiet w" and "las_last_change (hw_layout_save w) = None"
  shows "let a = hw_layout_save (history_frame rl now False press_undo w) in
    las_dirty a \<and> fold (debounced_autosave_system e) nows (a, s) = (a, s)"
proof -
  obtain r' where u: "rl_undo rl (ah_record (hw_history w)) = Some (AE_WindowMove mv, r')"
    by (rule documented_undo [OF assms(1,2)])
  have "hw_layout_save (history_frame rl now False press_undo w) = (hw_layout_save w)\<lparr>las_dirty := True\<rparr>"
    using assms(3)
    by (simp add: history_frame_def undo_redo_system_def press_undo_def replay_def u undo_action_def
        apply_pending_app_edits_system_def apply_action_def quiet_def Let_def)
  with assms(4) show ?thesis by (simp add: no_change_no_save Let_def)
qed

subsection \<open>Explicit saves\<close>

lemma minimal_scenario_entries:
  "case (sm_start m, sm_end m, sm_granularity m, sm_initial_cash m) of
     (Some st, Some en, Some g, Some cash) \<Rightarrow>
       (\<exists>es. minimal_scenario r m = Some (JObj es) \<and>
          map_of es = [''schema_version'' \<mapsto> JInt (uint (unwrap_or 2 (sm_schema_version m))),
            ''instruments'' \<mapsto> JArr (map JStr (ir_ids r)), ''start'' \<mapsto> JStr st, ''end'' \<mapsto> JStr en,
            ''granularity'' \<mapsto> JStr g, ''initial_cash'' \<mapsto> JInt cash])
   | _ \<Rightarrow> minimal_scenario r m = None"
  by (simp add: minimal_scenario_def instruments_json_def map_of_obj_insert split: option.split)

text \<open>What an explicit save stores of the scenario: the registry of an editable scenario replaces the
  instruments and nothing else of the file that is read; without such a scenario one is made from
  complete metadata, and with incomplete metadata nothing is saved.\<close>

theorem explicit_save_scenario:
  "let preserved = preserved_scenario parse fs (case cache_sidecar of Some p \<Rightarrow> Some p | None \<Rightarrow> fallback);
       result = build_layout_for_explicit_save parse v b r m cache_sidecar fallback fs in
   if \<not> ir_editable r then map_option sl_scenario result = Some preserved
   else (case preserved of
           Some (JObj es) \<Rightarrow>
             (\<exists>layout es'. result = Some layout \<and> sl_scenario layout = Some (JObj es') \<and>
                map_of es' = (map_of es)(''instruments'' \<mapsto> JArr (map JStr (ir_ids r))))
         | _ \<Rightarrow>
             (case (sm_start m, sm_end m, sm_granularity m, sm_initial_cash m) of
                (Some st, Some en, Some g, Some cash) \<Rightarrow>
                  (\<exists>layout es'. result = Some layout \<and> sl_scenario layout = Some (JObj es') \<and>
                     map_of es' = [''schema_version'' \<mapsto> JInt (uint (unwrap_or 2 (sm_schema_version m))),
                       ''instruments'' \<mapsto> JArr (map JStr (ir_ids r)), ''start'' \<mapsto> JStr st, ''end'' \<mapsto> JStr en,
                       ''granularity'' \<mapsto> JStr g, ''initial_cash'' \<mapsto> JInt cash])
              | _ \<Rightarrow> result = None))"
proof -
  let ?source = "case cache_sidecar of Some p \<Rightarrow> Some p | None \<Rightarrow> fallback"
  let ?preserved = "preserved_scenario parse fs ?source"
  have scenario: "sl_scenario (build_layout parse v b ?source fs) = ?preserved" by (simp add: build_layout_def)
  show ?thesis
  proof (cases "ir_editable r")
    case False
    then show ?thesis by (simp add: build_layout_for_explicit_save_def scenario Let_def)
  next
    case True
    show ?thesis
    proof (cases "\<exists>es. ?preserved = Some (JObj es)")
      case obj: True
      then obtain es where "?preserved = Some (JObj es)" by blast
      with True show ?thesis
        by (simp add: build_layout_for_explicit_save_def scenario instruments_json_def map_of_obj_insert Let_def)
    next
      case False
      let ?result = "build_layout_for_explicit_save parse v b r m cache_sidecar fallback fs"
      have eq: "?result = map_option (\<lambda>sc. (build_layout parse v b ?source fs)\<lparr>sl_scenario := Some sc\<rparr>) (minimal_scenario r m)"
        using True False
        by (cases "?preserved") (auto simp: build_layout_for_explicit_save_def scenario Let_def split: json.split)
      have other: "(case ?preserved of Some (JObj es) \<Rightarrow> P es | _ \<Rightarrow> Q) = Q" for P Q
        using False by (cases "?preserved") (auto split: json.split)
      have "case (sm_start m, sm_end m, sm_granularity m, sm_initial_cash m) of
          (Some st, Some en, Some g, Some cash) \<Rightarrow>
            (\<exists>layout es'. ?result = Some layout \<and> sl_scenario layout = Some (JObj es') \<and>
               map_of es' = [''schema_version'' \<mapsto> JInt (uint (unwrap_or 2 (sm_schema_version m))),
                 ''instruments'' \<mapsto> JArr (map JStr (ir_ids r)), ''start'' \<mapsto> JStr st, ''end'' \<mapsto> JStr en,
                 ''granularity'' \<mapsto> JStr g, ''initial_cash'' \<mapsto> JInt cash])
        | _ \<Rightarrow> ?result = None"
        unfolding eq using minimal_scenario_entries [of r m]
        by (cases "sm_start m"; cases "sm_end m"; cases "sm_granularity m"; cases "sm_initial_cash m") auto
      then show ?thesis unfolding other Let_def using True by simp
    qed
  qed
qed

lemma after_sync_fields [simp]:
  "ss_target (after_sync e s) = ss_target s"
  "sb_original_path (ss_buffer (after_sync e s)) = sb_original_path (ss_buffer s)"
  by (simp_all add: after_sync_def)

text \<open>The strategy file is written or the rollback is what remains.\<close>

lemma save_strategy_cases:
  assumes "\<And>x. ss_target (synced x) = ss_target x" and "\<And>x. ss_buffer (synced x) = ss_buffer x"
  shows "(ss_target (save_strategy e synced rollback py s) = ss_target s \<and>
      sb_original_path (ss_buffer (save_strategy e synced rollback py s)) = sb_original_path (ss_buffer s)) \<or>
    (\<exists>fs. save_strategy e synced rollback py s = rollback (s\<lparr>ss_files := fs\<rparr>))"
  using assms by (auto simp: save_strategy_def Let_def split: option.split prod.split)

text \<open>C11: Saving under a new name either moves the application to the new file, or leaves everything but
  the files as it was, whatever fails: reading the scenario, missing metadata, serialising, writing
  the layout or writing the strategy.\<close>

theorem save_as_all_or_nothing:
  "let s' = save_as e json s in
   (ss_target s' = Some json \<and> sb_original_path (ss_buffer s') = Some (with_extension ''py'' json)) \<or>
   s' = s\<lparr>ss_files := ss_files s'\<rparr>"
proof -
  let ?s1 = "s\<lparr>ss_files := pre_flush e (ss_files s),
      ss_buffer := (ss_buffer s)\<lparr>sb_original_path := Some (with_extension ''py'' json),
                  sb_cache_path := map_option snd (cache_state_paths (se_cache e))\<rparr>\<rparr>"
  let ?fallback = "map_option (with_extension ''json'') (sb_original_path (ss_buffer s))"
  show ?thesis
  proof (cases "explicit_layout e (ss_target s) ?fallback ?s1")
    case None
    then show ?thesis by (simp add: save_as_def Let_def)
  next
    case (Some layout)
    obtain err fs1 where w: "save_layout_to (se_codec e) (ce_write_fault (se_cache e)) json layout (pre_flush e (ss_files s)) = (err, fs1)"
      by (metis prod.collapse)
    show ?thesis
    proof (cases err)
      case err: (Some m)
      then show ?thesis using Some w by (simp add: save_as_def Let_def)
    next
      case None
      let ?rollback = "\<lambda>x. x\<lparr>ss_buffer := (ss_buffer x)\<lparr>sb_original_path := sb_original_path (ss_buffer s),
          sb_cache_path := sb_cache_path (ss_buffer s)\<rparr>, ss_target := ss_target s\<rparr>"
      have eq: "save_as e json s = save_strategy e (\<lambda>x. x\<lparr>ss_writeback := bump_writeback_for_save_as (ss_writeback x)\<rparr>)
          ?rollback (with_extension ''py'' json) (?s1\<lparr>ss_files := fs1, ss_target := Some json\<rparr>)"
        using Some w None by (simp add: save_as_def Let_def)
      show ?thesis
        using save_strategy_cases [of "\<lambda>x. x\<lparr>ss_writeback := bump_writeback_for_save_as (ss_writeback x)\<rparr>" e ?rollback
            "with_extension ''py'' json" "?s1\<lparr>ss_files := fs1, ss_target := Some json\<rparr>"]
        unfolding eq Let_def by auto
    qed
  qed
qed

subsection \<open>Restoring the cache\<close>

definition asks_for :: "str \<Rightarrow> panel_spawn_requested \<Rightarrow> bool" where
  "asks_for k r \<longleftrightarrow> Option.bind (psr_spec r) ses_region_key = Some k"

lemma request_asks:
  assumes "request_spawn wl pl = (pl', reqs)" and "wl_kind wl = PK_StrategyEditor \<Longrightarrow> want_key wl \<noteq> Some k"
    and "(PK_StrategyEditor, Some k) \<notin> pl_spawn_requested pl"
  shows "\<not> list_ex (asks_for k) reqs" and "(PK_StrategyEditor, Some k) \<notin> pl_spawn_requested pl'"
  using assms by (auto simp: request_spawn_def asks_for_def Let_def split: if_splits)

lemma cache_windows_requests:
  "fold cache_window_step wls (pl, out) = (pl', out') \<Longrightarrow> (PK_StrategyEditor, Some k) \<notin> pl_spawn_requested pl \<Longrightarrow>
   \<not> list_ex (asks_for k) out \<Longrightarrow>
   \<forall>wl\<in>set wls. wl_kind wl = PK_StrategyEditor \<longrightarrow> want_key wl \<noteq> Some k \<Longrightarrow> \<not> list_ex (asks_for k) out'"
proof (induction wls arbitrary: pl out)
  case (Cons wl wls)
  obtain pl1 out1 where step: "cache_window_step wl (pl, out) = (pl1, out1)" by (metis prod.collapse)
  obtain pl2 reqs where req: "request_spawn wl (pl\<lparr>pl_windows := pl_windows pl @ [wl]\<rparr>) = (pl2, reqs)"
    by (metis prod.collapse)
  have "\<not> list_ex (asks_for k) reqs" "(PK_StrategyEditor, Some k) \<notin> pl_spawn_requested pl2"
    using request_asks [OF req, of k] Cons.prems(2,4) by simp_all
  with step req Cons.prems(2,3)
  have "(PK_StrategyEditor, Some k) \<notin> pl_spawn_requested pl1 \<and> \<not> list_ex (asks_for k) out1"
    by (auto simp: cache_window_step_def Let_def split: if_splits)
  with Cons.IH [of pl1 out1] Cons.prems(1,4) step show ?case by simp
qed simp

lemma dedup_subset: "set (dedup_from prev items) \<subseteq> set items"
  by (induction prev items rule: dedup_from.induct) auto

lemma saved_keys: "fst ` set (dedup_by_key (collect_items eds)) \<subseteq> fst ` set eds"
proof -
  have "set (dedup_by_key (collect_items eds)) \<subseteq> set (collect_items eds)"
    by (simp add: dedup_by_key_def dedup_subset)
  moreover have "fst ` set (collect_items eds) \<subseteq> fst ` set eds"
    by (force simp: collect_items_def)
  ultimately show ?thesis by blast
qed

lemma fold_update_dom:
  fixes k :: str and m :: "str \<Rightarrow> str option"
  shows "k \<in> fst ` set frags \<Longrightarrow> fold (\<lambda>(k, b) m. m(k \<mapsto> b)) frags m k \<noteq> None"
proof (induction frags arbitrary: m)
  case (Cons e frags)
  obtain x y where e: "e = (x, y)" by (cases e)
  have keep: "m k \<noteq> None \<Longrightarrow> fold (\<lambda>(k, b) m. m(k \<mapsto> b)) frags m k \<noteq> None" for m
  proof (induction frags arbitrary: m)
    case (Cons f frags)
    obtain u v where "f = (u, v)" by (cases f)
    with Cons.IH [of "m(u \<mapsto> v)"] Cons.prems show ?case by simp
  qed simp
  show ?case
  proof (cases "k = x")
    case True
    then show ?thesis using keep [of "m(k \<mapsto> y)"] e by (simp del: fun_upd_apply) simp
  next
    case False
    with Cons.prems e have "k \<in> fst ` set frags" by simp
    from Cons.IH [OF this, of "m(x \<mapsto> y)"] e show ?thesis by simp
  qed
qed simp

text \<open>A fragment of the cached strategy that the stored layout has no window for gets no editor when the
  layout lists an editor of another fragment: no request is made for it, and the next automatic save
  from the editors that were asked for writes the cached strategy without it.\<close>

theorem cached_fragment_without_window_is_lost:
  assumes "cache_state_paths ce = Some (cache_json, cache_py)" and "fs cache_py = Some source"
    and "k \<in> fst ` set (so_fragments (split_py_into_fragments source))"
    and "sl_windows layout = Some wls" and "cache_restore_has_strategy_editor_window (Some wls)"
    and "\<forall>wl\<in>set wls. wl_kind wl = PK_StrategyEditor \<longrightarrow> want_key wl \<noteq> Some k"
    and "(PK_StrategyEditor, Some k) \<notin> pl_spawn_requested (cs_pending s)"
    and "cache_restore_one ce fs layout s = (s', out)"
    and "\<forall>key\<in>fst ` set eds. list_ex (asks_for key) out"
    and "should_flush a now DEBOUNCE"
  shows "pf_by_region_key (cs_fragments s') k \<noteq> None \<and> \<not> list_ex (asks_for k) out \<and>
    (let (eds', b', a', fs') = debounced_strategy_autosave_system (\<lambda>_ _. None) now (eds, cs_buffer s', a, fs) in
     \<exists>items. fs' cache_py = Some (merge_fragments items) \<and> k \<notin> fst ` set items)"
proof -
  obtain pl out1 where f: "fold cache_window_step wls (cs_pending s, []) = (pl, out1)" by (metis prod.collapse)
  have s': "cs_fragments s' = \<lparr>pf_by_region_key = fold (\<lambda>(k, b) m. m(k \<mapsto> b)) (so_fragments (split_py_into_fragments source)) Map.empty,
      pf_loaded_for_path = sl_strategy_path layout\<rparr>" "sb_cache_path (cs_buffer s') = Some cache_py" "out = out1"
    using assms(1,2,4,5,8) by (auto simp: cache_restore_one_def f compute_cache_restore_fallback_spawns_def Let_def)
  have none: "\<not> list_ex (asks_for k) out"
    using cache_windows_requests [OF f assms(7) _ assms(6)] s'(3) by simp
  with assms(9) have "k \<notin> fst ` set eds" by auto
  with saved_keys [of eds] have keys: "k \<notin> fst ` set (dedup_by_key (collect_items eds))" by blast
  have "\<exists>items. snd (snd (snd (debounced_strategy_autosave_system (\<lambda>_ _. None) now (eds, cs_buffer s', a, fs)))) cache_py =
      Some (merge_fragments items) \<and> k \<notin> fst ` set items"
    using assms(10) s'(2) keys
    by (intro exI [of _ "dedup_by_key (collect_items eds)"])
      (simp add: debounced_strategy_autosave_system_def flush_strategy_cache_def fs_write_def Let_def)
  then show ?thesis
    using none s'(1) fold_update_dom [OF assms(3), of Map.empty] by (simp add: case_prod_unfold)
qed

subsection \<open>Restoring comes to an end\<close>

text \<open>What decides whether a stored window finds its window.\<close>

definition shape :: "window \<Rightarrow> bool \<times> panel_kind \<times> str option" where
  "shape w = (wi_excluded w, wi_kind w, wi_editor w)"

definition fits :: "window_layout \<Rightarrow> bool \<times> panel_kind \<times> str option \<Rightarrow> bool" where
  "fits wl s \<longleftrightarrow> \<not> fst s \<and> fst (snd s) = wl_kind wl \<and> (wl_kind wl = PK_StrategyEditor \<longrightarrow> snd (snd s) = want_key wl)"

lemma wants_window_shape: "wants_window wl w = fits wl (shape w)"
  by (auto simp: wants_window_def fits_def shape_def)

lemma find_wanted: "List.find (wants_window wl) ws = None \<longleftrightarrow> \<not> list_ex (fits wl) (map shape ws)"
  by (induction ws) (auto simp: wants_window_shape)

lemma upd_first_shapes:
  "List.find p ws = Some v \<Longrightarrow> shape x = shape v \<Longrightarrow> map shape (upd_first p (\<lambda>_. x) ws) = map shape ws"
  by (induction ws) (auto split: if_splits)

lemma restored_shape: "shape (fst (take_fragment (restore_window wl v) pf)) = shape v"
  by (auto simp: take_fragment_def shape_def Let_def split: option.split)

lemma drop_orphan_peers_keeps [simp]:
  "lw_windows (drop_orphan_peers k w) = lw_windows w" "lw_pending (drop_orphan_peers k w) = lw_pending w"
  by (simp_all add: drop_orphan_peers_def Let_def)

text \<open>A stored window is either put back, passed over, or asked for.\<close>

definition to_spawn :: "window_layout \<Rightarrow> window list \<Rightarrow> bool" where
  "to_spawn wl ws \<longleftrightarrow> \<not> is_non_persisted_layout_entry wl \<and> \<not> is_boot_spawned_mode_owned (wl_kind wl) \<and>
     \<not> list_ex (fits wl) (map shape ws)"

lemma pending_step_cases:
  "pending_step wl (w, still, out) =
     (if to_spawn wl (lw_windows w)
      then (let w1 = (case want_key wl of None \<Rightarrow> w | Some k \<Rightarrow> drop_orphan_peers k w);
                (pl, reqs) = request_spawn wl (lw_pending w) in
            (w1\<lparr>lw_pending := pl\<rparr>, still @ [wl], out @ reqs))
      else (fst (pending_step wl (w, still, out)), still, out)) \<and>
   map shape (lw_windows (fst (pending_step wl (w, still, out)))) = map shape (lw_windows w) \<and>
   (\<not> to_spawn wl (lw_windows w) \<longrightarrow>
     lw_pending (fst (pending_step wl (w, still, out))) = lw_pending w)"
proof (cases "List.find (wants_window wl) (lw_windows w)")
  case None
  then have "\<not> list_ex (fits wl) (map shape (lw_windows w))" by (simp only: find_wanted not_False_eq_True)
  with None show ?thesis
    by (auto simp: pending_step_def to_spawn_def Let_def case_prod_unfold split: option.split)
next
  case (Some v)
  then have "list_ex (fits wl) (map shape (lw_windows w))" using find_wanted [of wl "lw_windows w"] by auto
  with Some show ?thesis
    using upd_first_shapes [OF Some restored_shape]
    by (auto simp: pending_step_def to_spawn_def Let_def case_prod_unfold)
qed

definition answers :: "panel_spawn_requested \<Rightarrow> panel_kind \<times> str option \<Rightarrow> bool" where
  "answers r key \<longleftrightarrow> psr_kind r = fst key \<and>
     (fst key = PK_StrategyEditor \<longrightarrow> Option.bind (psr_spec r) ses_region_key = snd key)"

definition asked ::
  "(bool \<times> panel_kind \<times> str option) list \<Rightarrow> layout_world \<times> window_layout list \<times> panel_spawn_requested list \<Rightarrow> bool" where
  "asked S t \<longleftrightarrow> (case t of (w, still, out) \<Rightarrow>
     map shape (lw_windows w) = S \<and>
     (\<forall>wl\<in>set still. to_spawn wl (lw_windows w) \<and> (wl_kind wl, want_key wl) \<in> pl_spawn_requested (lw_pending w)) \<and>
     (\<forall>key\<in>pl_spawn_requested (lw_pending w). \<exists>r\<in>set out. answers r key) \<and>
     (\<forall>r\<in>set out. \<exists>wl. psr_kind r = wl_kind wl \<and> to_spawn wl (lw_windows w) \<and>
        (psr_kind r = PK_StrategyEditor \<longrightarrow> (\<exists>sp. psr_spec r = Some sp \<and> ses_region_key sp = want_key wl))))"

lemma to_spawn_shapes: "map shape ws = map shape ws' \<Longrightarrow> to_spawn wl ws = to_spawn wl ws'"
  by (simp add: to_spawn_def)

lemma asked_step: "asked S t \<Longrightarrow> asked S (pending_step wl t)"
proof (cases t)
  case (fields w still out)
  assume "asked S t"
  with fields have a: "map shape (lw_windows w) = S"
    "\<forall>x\<in>set still. to_spawn x (lw_windows w) \<and> (wl_kind x, want_key x) \<in> pl_spawn_requested (lw_pending w)"
    "\<forall>key\<in>pl_spawn_requested (lw_pending w). \<exists>r\<in>set out. answers r key"
    "\<forall>r\<in>set out. \<exists>x. psr_kind r = wl_kind x \<and> to_spawn x (lw_windows w) \<and>
        (psr_kind r = PK_StrategyEditor \<longrightarrow> (\<exists>sp. psr_spec r = Some sp \<and> ses_region_key sp = want_key x))"
    by (auto simp: asked_def)
  note cases = pending_step_cases [of wl w still out]
  show ?thesis
  proof (cases "to_spawn wl (lw_windows w)")
    case False
    obtain w' where w': "pending_step wl t = (w', still, out)" "map shape (lw_windows w') = S"
        "lw_pending w' = lw_pending w"
      using cases False a(1) fields by (metis fst_conv)
    then have "map shape (lw_windows w') = map shape (lw_windows w)" by (simp add: a(1))
    from to_spawn_shapes [OF this] a w' show ?thesis by (simp add: asked_def)
  next
    case True
    let ?w1 = "case want_key wl of None \<Rightarrow> w | Some k \<Rightarrow> drop_orphan_peers k w"
    have ws: "lw_windows ?w1 = lw_windows w" by (simp split: option.split)
    obtain pl reqs where req: "request_spawn wl (lw_pending w) = (pl, reqs)" by (metis prod.collapse)
    have step: "pending_step wl t = (?w1\<lparr>lw_pending := pl\<rparr>, still @ [wl], out @ reqs)"
      using cases True fields by (simp add: req Let_def)
    have pl: "pl_spawn_requested pl = insert (wl_kind wl, want_key wl) (pl_spawn_requested (lw_pending w))"
      "(wl_kind wl, want_key wl) \<notin> pl_spawn_requested (lw_pending w) \<Longrightarrow> \<exists>r. reqs = [r] \<and>
         answers r (wl_kind wl, want_key wl) \<and> psr_kind r = wl_kind wl \<and>
         (psr_kind r = PK_StrategyEditor \<longrightarrow> (\<exists>sp. psr_spec r = Some sp \<and> ses_region_key sp = want_key wl))"
      "(wl_kind wl, want_key wl) \<in> pl_spawn_requested (lw_pending w) \<Longrightarrow> reqs = []"
      using req by (auto simp: request_spawn_def answers_def Let_def split: if_splits)
    let ?key = "(wl_kind wl, want_key wl)"
    have still: "\<forall>x\<in>set (still @ [wl]). to_spawn x (lw_windows w) \<and> (wl_kind x, want_key x) \<in> pl_spawn_requested pl"
      using a(2) True pl(1) by auto
    have keys: "\<forall>key\<in>pl_spawn_requested pl. \<exists>r\<in>set (out @ reqs). answers r key"
    proof
      fix key
      assume "key \<in> pl_spawn_requested pl"
      then consider "key \<in> pl_spawn_requested (lw_pending w)" | "key = ?key" "?key \<notin> pl_spawn_requested (lw_pending w)"
        using pl(1) by auto
      then show "\<exists>r\<in>set (out @ reqs). answers r key"
      proof cases
        case 1
        with a(3) show ?thesis by auto
      next
        case 2
        with pl(2) show ?thesis by auto
      qed
    qed
    have reqs: "\<exists>x. psr_kind r = wl_kind x \<and> to_spawn x (lw_windows w) \<and>
        (psr_kind r = PK_StrategyEditor \<longrightarrow> (\<exists>sp. psr_spec r = Some sp \<and> ses_region_key sp = want_key x))"
      if "r \<in> set (out @ reqs)" for r
    proof (cases "r \<in> set out")
      case False
      with that have "r \<in> set reqs" by simp
      with pl(2,3) True show ?thesis by (cases "?key \<in> pl_spawn_requested (lw_pending w)") auto
    qed (use a(4) in blast)
    from a(1) still keys reqs show ?thesis by (simp add: asked_def step ws)
  qed
qed

lemma asked_fold: "asked S t \<Longrightarrow> asked S (fold pending_step wls t)"
  by (induction wls arbitrary: t) (simp_all add: asked_step)

lemma plain_panel_opens:
  "restore_driver k = RD_WindowLayout \<Longrightarrow> \<not> is_boot_spawned_mode_owned k \<Longrightarrow> k \<noteq> PK_StrategyEditor \<Longrightarrow>
   \<exists>v. plain_panel e k = Some v \<and> wi_kind v = k \<and> \<not> wi_excluded v"
  by (cases k) (simp_all add: plain_panel_def new_window_def restore_driver_def is_boot_spawned_mode_owned_def)

text \<open>A request is answered by a window; no window goes.\<close>

definition answered :: "panel_spawn_requested \<Rightarrow> window \<Rightarrow> bool" where
  "answered r v \<longleftrightarrow> \<not> wi_excluded v \<and> wi_kind v = psr_kind r \<and>
     (psr_kind r = PK_StrategyEditor \<longrightarrow> (\<forall>sp k. psr_spec r = Some sp \<longrightarrow> ses_region_key sp = Some k \<longrightarrow> wi_editor v = Some k))"

lemma fill_source_key [simp]:
  "ses_region_key (fst (fill_source sp s)) = ses_region_key sp"
  "sp_windows (snd (fill_source sp s)) = sp_windows s"
  by (auto simp: fill_source_def Let_def split: option.split)

lemma dispatch_keeps: "\<exists>new. sp_windows (dispatch_spawn rl ce existing r s) = sp_windows s @ new"
  by (auto simp: dispatch_spawn_def open_panel_def open_editor_def blank_editor_def Let_def case_prod_unfold
      split: option.split)

lemma dispatch_opens:
  assumes "psr_kind r \<noteq> PK_StrategyEditor \<Longrightarrow> psr_kind r \<notin> set existing"
    and "restore_driver (psr_kind r) = RD_WindowLayout" and "\<not> is_boot_spawned_mode_owned (psr_kind r)"
    and "psr_kind r = PK_StrategyEditor \<Longrightarrow> \<exists>sp k. psr_spec r = Some sp \<and> ses_region_key sp = Some k"
  shows "list_ex (answered r) (sp_windows (dispatch_spawn rl ce existing r s))"
proof (cases "psr_kind r = PK_StrategyEditor")
  case True
  with assms(4) show ?thesis
    by (auto simp: dispatch_spawn_def open_panel_def open_editor_def answered_def Let_def case_prod_unfold
        spawn_strategy_editor_panel_def new_window_def)
next
  case False
  with plain_panel_opens [OF assms(2,3) False, of "sp_next s"] obtain v
    where "plain_panel (sp_next s) (psr_kind r) = Some v" "wi_kind v = psr_kind r" "\<not> wi_excluded v" by blast
  with False assms(1) show ?thesis
    by (auto simp: dispatch_spawn_def open_panel_def answered_def Let_def)
qed

lemma dispatch_all_keep: "\<exists>new. sp_windows (fold (dispatch_spawn rl ce existing) rs s) = sp_windows s @ new"
proof (induction rs arbitrary: s)
  case (Cons r rs)
  obtain n1 where "sp_windows (dispatch_spawn rl ce existing r s) = sp_windows s @ n1" using dispatch_keeps by blast
  moreover obtain n2 where "sp_windows (fold (dispatch_spawn rl ce existing) rs (dispatch_spawn rl ce existing r s)) =
      sp_windows (dispatch_spawn rl ce existing r s) @ n2" using Cons by blast
  ultimately show ?case by simp
qed simp

lemma dispatch_all_open:
  assumes "r \<in> set rs" and "psr_kind r \<noteq> PK_StrategyEditor \<Longrightarrow> psr_kind r \<notin> set existing"
    and "restore_driver (psr_kind r) = RD_WindowLayout" and "\<not> is_boot_spawned_mode_owned (psr_kind r)"
    and "psr_kind r = PK_StrategyEditor \<Longrightarrow> \<exists>sp k. psr_spec r = Some sp \<and> ses_region_key sp = Some k"
  shows "list_ex (answered r) (sp_windows (fold (dispatch_spawn rl ce existing) rs s))"
  using assms(1)
proof (induction rs arbitrary: s)
  case (Cons x rs)
  show ?case
  proof (cases "r \<in> set rs")
    case True
    with Cons.IH show ?thesis by simp
  next
    case False
    with Cons.prems have "x = r" by simp
    with dispatch_opens [OF assms(2-5), of rl ce s]
    have "list_ex (answered r) (sp_windows (dispatch_spawn rl ce existing x s))" by simp
    moreover obtain new where "sp_windows (fold (dispatch_spawn rl ce existing) rs (dispatch_spawn rl ce existing x s)) =
        sp_windows (dispatch_spawn rl ce existing x s) @ new" using dispatch_all_keep by blast
    ultimately show ?thesis by simp
  qed
qed simp

text \<open>When every stored window finds its window, nothing stays pending.\<close>

lemma all_found:
  "\<forall>wl\<in>set wls. list_ex (fits wl) (map shape (lw_windows w)) \<Longrightarrow>
   \<exists>w'. fold pending_step wls (w, [], out) = (w', [], out) \<and> map shape (lw_windows w') = map shape (lw_windows w) \<and>
     lw_pending w' = lw_pending w"
proof (induction wls arbitrary: w)
  case (Cons wl wls)
  then have "\<not> to_spawn wl (lw_windows w)" by (simp add: to_spawn_def)
  then obtain w1 where w1: "pending_step wl (w, [], out) = (w1, [], out)" "map shape (lw_windows w1) = map shape (lw_windows w)"
      "lw_pending w1 = lw_pending w"
    using pending_step_cases [of wl w "[]" out] by (metis fst_conv)
  with Cons.prems have "\<forall>wl\<in>set wls. list_ex (fits wl) (map shape (lw_windows w1))" by simp
  from Cons.IH [OF this] w1 show ?case by auto
qed simp

lemma want_key_editor: "wl_kind wl = PK_StrategyEditor \<Longrightarrow> \<exists>k. want_key wl = Some k"
  by (simp add: want_key_def)

lemma persisted_kind: "\<not> is_non_persisted_layout_entry wl \<Longrightarrow> restore_driver (wl_kind wl) = RD_WindowLayout"
  by (cases "restore_driver (wl_kind wl)") (simp_all add: is_non_persisted_layout_entry_def)

lemma request_keeps_waiting: "pl_waiting (fst (request_spawn wl pl)) = pl_waiting pl"
  by (simp add: request_spawn_def Let_def)

lemma first_pass:
  "fold pending_step wls (w, still, out) = (w', still', out') \<Longrightarrow>
   map shape (lw_windows w') = map shape (lw_windows w) \<and> still' = still @ filter (\<lambda>x. to_spawn x (lw_windows w)) wls \<and>
   pl_waiting (lw_pending w') = pl_waiting (lw_pending w)"
proof (induction wls arbitrary: w still out)
  case (Cons wl wls)
  obtain w1 still1 out1 where step: "pending_step wl (w, still, out) = (w1, still1, out1)" by (metis prod_cases3)
  have one: "map shape (lw_windows w1) = map shape (lw_windows w)"
    "still1 = (if to_spawn wl (lw_windows w) then still @ [wl] else still)"
    "pl_waiting (lw_pending w1) = pl_waiting (lw_pending w)"
    using pending_step_cases [of wl w still out] step request_keeps_waiting [of wl "lw_pending w"]
    by (cases "to_spawn wl (lw_windows w)"; simp add: Let_def case_prod_unfold)+
  from to_spawn_shapes [OF one(1)] have "to_spawn x (lw_windows w1) = to_spawn x (lw_windows w)" for x by simp
  with Cons.IH [of w1 still1 out1] Cons.prems step one show ?case by auto
qed simp

text \<open>What was asked for is opened.\<close>

lemma still_found:
  assumes "asked S (w, still, reqs)" and "\<forall>sh\<in>set S. fst sh \<longrightarrow> restore_driver (fst (snd sh)) = RD_ScenarioInstruments"
    and "sp_windows s = lw_windows w" and "wl \<in> set still"
  shows "list_ex (fits wl) (map shape (sp_windows (panel_spawn_dispatcher_system rl ce reqs s)))"
proof -
  from assms(1,4) obtain r where r: "r \<in> set reqs" "answers r (wl_kind wl, want_key wl)"
    by (fastforce simp: asked_def)
  with assms(1) obtain x where x: "psr_kind r = wl_kind x" "to_spawn x (lw_windows w)"
      "psr_kind r = PK_StrategyEditor \<longrightarrow> (\<exists>sp. psr_spec r = Some sp \<and> ses_region_key sp = want_key x)"
    by (auto simp: asked_def)
  have driver: "restore_driver (psr_kind r) = RD_WindowLayout" "\<not> is_boot_spawned_mode_owned (psr_kind r)"
    using x(1,2) persisted_kind by (auto simp: to_spawn_def)
  have S: "map shape (lw_windows w) = S" using assms(1) by (simp add: asked_def)
  have "psr_kind r \<notin> set (map wi_kind (sp_windows s))" if other: "psr_kind r \<noteq> PK_StrategyEditor"
  proof
    assume "psr_kind r \<in> set (map wi_kind (sp_windows s))"
    then obtain v where v: "v \<in> set (lw_windows w)" "wi_kind v = psr_kind r" using assms(3) by auto
    with S have "shape v \<in> set S" by auto
    with assms(2) v(2) driver(1) have "\<not> wi_excluded v" by (fastforce simp: shape_def)
    with v x other have "list_ex (fits x) (map shape (lw_windows w))"
      by (auto simp: list_ex_iff fits_def shape_def)
    with x(2) show False by (simp add: to_spawn_def)
  qed
  moreover have "\<exists>sp k. psr_spec r = Some sp \<and> ses_region_key sp = Some k" if "psr_kind r = PK_StrategyEditor"
    using x that want_key_editor [of x] by auto
  ultimately have "list_ex (answered r) (sp_windows (panel_spawn_dispatcher_system rl ce reqs s))"
    unfolding panel_spawn_dispatcher_system_def
    using dispatch_all_open [OF r(1) _ driver, of "map wi_kind (sp_windows s)"] by blast
  then obtain v where v: "v \<in> set (sp_windows (panel_spawn_dispatcher_system rl ce reqs s))" "answered r v"
    by (auto simp: list_ex_iff)
  have "fits wl (shape v)"
    using v(2) r(2) x(3) want_key_editor [of wl]
    by (auto simp: fits_def shape_def answered_def answers_def)
  with v(1) show ?thesis by (auto simp: list_ex_iff)
qed

lemma second_pass:
  assumes "\<forall>wl\<in>set (pl_windows (lw_pending w)). list_ex (fits wl) (map shape ws)" and "\<not> pl_waiting (lw_pending w)"
    and "pl_windows (lw_pending w) = [] \<Longrightarrow> pl_spawn_requested (lw_pending w) = {}"
  shows "\<exists>w'. apply_pending_layout_system (w\<lparr>lw_windows := ws\<rparr>) = (w', []) \<and> map shape (lw_windows w') = map shape ws \<and>
    pl_windows (lw_pending w') = [] \<and> pl_spawn_requested (lw_pending w') = {}"
proof (cases "pl_windows (lw_pending w) = []")
  case True
  with assms(3) show ?thesis by (simp add: apply_pending_layout_system_def Let_def)
next
  case False
  let ?w0 = "w\<lparr>lw_windows := ws, lw_pending := (lw_pending w)\<lparr>pl_waiting := False, pl_windows := []\<rparr>\<rparr>"
  have "\<forall>wl\<in>set (pl_windows (lw_pending w)). list_ex (fits wl) (map shape (lw_windows ?w0))" using assms(1) by simp
  from all_found [OF this, of "[]"] obtain w' where
      "fold pending_step (pl_windows (lw_pending w)) (?w0, [], []) = (w', [], [])" "map shape (lw_windows w') = map shape ws"
    by auto
  with False assms(2) show ?thesis by (simp add: apply_pending_layout_system_def Let_def)
qed

text \<open>One round restores a layout for which nothing was asked yet and whose fragments are there.\<close>

lemma restoring_round:
  assumes "pl_spawn_requested (lw_pending w) = {}" and "pl_waiting (lw_pending w) \<longrightarrow> \<not> no_fragments (lw_fragments w)"
    and "\<forall>v\<in>set (lw_windows w). wi_excluded v \<longrightarrow> restore_driver (wi_kind v) = RD_ScenarioInstruments"
    and "sp_windows s = lw_windows (fst (apply_pending_layout_system w))"
  shows "let (w1, reqs) = apply_pending_layout_system w;
             s1 = panel_spawn_dispatcher_system rl ce reqs s;
             (w2, reqs2) = apply_pending_layout_system (w1\<lparr>lw_windows := sp_windows s1\<rparr>) in
    pl_windows (lw_pending w2) = [] \<and> pl_spawn_requested (lw_pending w2) = {} \<and> reqs2 = [] \<and>
    list_all (\<lambda>wl. is_non_persisted_layout_entry wl \<or> is_boot_spawned_mode_owned (wl_kind wl) \<or>
        list_ex (wants_window wl) (lw_windows w2)) (pl_windows (lw_pending w))"
proof (cases "pl_windows (lw_pending w) = []")
  case True
  with assms(1) show ?thesis by (simp add: apply_pending_layout_system_def Let_def)
next
  case False
  let ?pl = "lw_pending w"
  let ?w0 = "w\<lparr>lw_pending := ?pl\<lparr>pl_waiting := False, pl_windows := []\<rparr>\<rparr>"
  let ?S = "map shape (lw_windows w)"
  obtain wa still reqs where f: "fold pending_step (pl_windows ?pl) (?w0, [], []) = (wa, still, reqs)"
    by (metis prod_cases3)
  have pass: "map shape (lw_windows wa) = ?S" "still = filter (\<lambda>x. to_spawn x (lw_windows w)) (pl_windows ?pl)"
    "\<not> pl_waiting (lw_pending wa)"
    using first_pass [OF f] by simp_all
  have "asked ?S (?w0, [], [])" using assms(1) by (simp add: asked_def)
  from asked_fold [OF this, of "pl_windows ?pl"] have asked: "asked ?S (wa, still, reqs)" by (simp add: f)
  define w1 where "w1 = wa\<lparr>lw_pending := (if still = [] then (lw_pending wa)\<lparr>pl_windows := still, pl_spawn_requested := {}\<rparr>
      else (lw_pending wa)\<lparr>pl_windows := still\<rparr>)\<rparr>"
  have one: "apply_pending_layout_system w = (w1, reqs)"
    using False assms(2) f by (auto simp: apply_pending_layout_system_def w1_def Let_def)
  then have s: "sp_windows s = lw_windows wa" using assms(4) by (simp add: w1_def)
  let ?s1 = "panel_spawn_dispatcher_system rl ce reqs s"
  have excl: "\<forall>sh\<in>set ?S. fst sh \<longrightarrow> restore_driver (fst (snd sh)) = RD_ScenarioInstruments"
    using assms(3) by (auto simp: shape_def)
  obtain new where new: "sp_windows ?s1 = lw_windows wa @ new"
    using dispatch_all_keep [of rl ce "map wi_kind (sp_windows s)" reqs s] s by (auto simp: panel_spawn_dispatcher_system_def)
  have every: "is_non_persisted_layout_entry wl \<or> is_boot_spawned_mode_owned (wl_kind wl) \<or>
      list_ex (fits wl) (map shape (sp_windows ?s1))" if "wl \<in> set (pl_windows ?pl)" for wl
  proof (cases "to_spawn wl (lw_windows w)")
    case True
    with that pass(2) have "wl \<in> set still" by simp
    from still_found [OF asked excl s this] show ?thesis by blast
  next
    case False
    then show ?thesis by (auto simp: to_spawn_def new pass(1))
  qed
  have pending: "pl_windows (lw_pending w1) = still" "\<not> pl_waiting (lw_pending w1)"
    "pl_windows (lw_pending w1) = [] \<Longrightarrow> pl_spawn_requested (lw_pending w1) = {}"
    using pass(3) by (auto simp: w1_def)
  have "\<forall>wl\<in>set (pl_windows (lw_pending w1)). list_ex (fits wl) (map shape (sp_windows ?s1))"
    using still_found [OF asked excl s] by (simp add: pending(1))
  from second_pass [OF this pending(2,3)] obtain w2 where
    w2: "apply_pending_layout_system (w1\<lparr>lw_windows := sp_windows ?s1\<rparr>) = (w2, [])"
      "map shape (lw_windows w2) = map shape (sp_windows ?s1)" "pl_windows (lw_pending w2) = []"
      "pl_spawn_requested (lw_pending w2) = {}" by blast
  have "list_ex (wants_window wl) (lw_windows w2) = list_ex (fits wl) (map shape (sp_windows ?s1))" for wl
    unfolding w2(2) [symmetric] by (simp add: list_ex_iff wants_window_shape)
  then show ?thesis using every w2 by (simp add: one list_all_iff)
qed

lemma opened_with_strategy:
  assumes "sl_strategy_path layout = Some py" and "fs py \<noteq> None \<or> fs (with_extension ''py'' p) \<noteq> None"
    and "sl_windows layout = Some wls" and "open_layout fs p LLM_UserJsonOpen layout o0 = (o1, out)"
  shows "os_pending o1 = \<lparr>pl_windows = wls, pl_waiting = True, pl_spawn_requested = {}\<rparr>"
  using assms by (auto simp: open_layout_def should_load_def defer_layout_def drop_pending_def Let_def split: if_splits)

text \<open>C10: A layout file that the user opens together with its strategy is restored after one round: until the
  fragments of the strategy have arrived nothing happens; then the requests of the first frame open every
  window that is missing, the next frame puts them all in place, and nothing is pending, nothing is
  asked for again, and every window of the file that the layout owns is there. The windows that are
  excluded from layouts are taken to be those of the scenario only. (The cache is restored on another path,
  which marks editors as asked for; see \<open>fallback_key_blocks_editor\<close>.)\<close>

theorem restoring_ends:
  assumes "sl_strategy_path layout = Some py" and "fs py \<noteq> None \<or> fs (with_extension ''py'' p) \<noteq> None"
    and "sl_windows layout = Some wls" and "open_layout fs p LLM_UserJsonOpen layout o0 = (o1, out)"
    and "lw_pending w = os_pending o1"
    and "\<forall>v\<in>set (lw_windows w). wi_excluded v \<longrightarrow> restore_driver (wi_kind v) = RD_ScenarioInstruments"
    and "sp_windows s = lw_windows (fst (apply_pending_layout_system w))"
  shows "if no_fragments (lw_fragments w) then apply_pending_layout_system w = (w, [])
    else let (w1, reqs) = apply_pending_layout_system w;
             s1 = panel_spawn_dispatcher_system rl ce reqs s;
             (w2, reqs2) = apply_pending_layout_system (w1\<lparr>lw_windows := sp_windows s1\<rparr>) in
    pl_windows (lw_pending w2) = [] \<and> pl_spawn_requested (lw_pending w2) = {} \<and> reqs2 = [] \<and>
    list_all (\<lambda>wl. is_non_persisted_layout_entry wl \<or> is_boot_spawned_mode_owned (wl_kind wl) \<or>
        list_ex (wants_window wl) (lw_windows w2)) wls"
proof -
  have pl: "lw_pending w = \<lparr>pl_windows = wls, pl_waiting = True, pl_spawn_requested = {}\<rparr>"
    using opened_with_strategy [OF assms(1-4)] assms(5) by simp
  show ?thesis
  proof (cases "no_fragments (lw_fragments w)")
    case True
    with pl show ?thesis by (simp add: apply_pending_layout_system_def Let_def)
  next
    case False
    with restoring_round [OF _ _ assms(6,7), of rl ce] pl show ?thesis by simp
  qed
qed

subsection \<open>A request that is never made\<close>

lemma fallback_asks:
  "fold fallback_step ks (pl, out) = (pl', out') \<Longrightarrow>
   pl_windows pl' = pl_windows pl \<and> pl_waiting pl' = pl_waiting pl \<and>
   pl_spawn_requested pl' = pl_spawn_requested pl \<union> (\<lambda>k. (PK_StrategyEditor, Some k)) ` set ks"
  by (induction ks arbitrary: pl out) (auto simp: fallback_step_def Let_def insert_absorb split: if_splits)

lemma editor_entry:
  "wl_kind wl = PK_StrategyEditor \<Longrightarrow> \<not> is_non_persisted_layout_entry wl \<and> \<not> is_boot_spawned_mode_owned (wl_kind wl)"
  by (simp add: is_non_persisted_layout_entry_def restore_driver_def is_boot_spawned_mode_owned_def)

lemma blocked_frame:
  assumes "pl_windows (lw_pending w) = [wl]" and "\<not> pl_waiting (lw_pending w)" and "wl_kind wl = PK_StrategyEditor"
    and "(wl_kind wl, want_key wl) \<in> pl_spawn_requested (lw_pending w)" and "\<not> list_ex (wants_window wl) (lw_windows w)"
  shows "\<exists>w'. apply_pending_layout_system w = (w', []) \<and> lw_pending w' = lw_pending w \<and> lw_windows w' = lw_windows w"
proof -
  have "List.find (wants_window wl) (lw_windows w) = None" using assms(5) by (auto simp: find_None_iff list_ex_iff)
  moreover obtain k where "want_key wl = Some k" using want_key_editor [OF assms(3)] by blast
  ultimately show ?thesis
    using assms(1,2,4) editor_entry [OF assms(3)]
    by (auto simp: apply_pending_layout_system_def pending_step_def request_spawn_def Let_def)
qed

text \<open>The keys that restoring the cache asks for without a stored window stay marked as asked for:
  when a file is opened whose layout lists such an editor, its window is never asked for, in no later
  frame, and the layout stays pending for good.\<close>

theorem fallback_key_blocks_editor:
  assumes "cache_state_paths ce = Some (cache_json, cache_py)" and "fs cache_py = Some source"
    and "k \<in> fst ` set (so_fragments (split_py_into_fragments source))" and "sl_windows layout = None"
    and "cs_pending s = \<lparr>pl_windows = [], pl_waiting = False, pl_spawn_requested = {}\<rparr>"
    and "cache_restore_one ce fs layout s = (s', out)"
    and "sl_windows opened = Some [wl]" and "wl_kind wl = PK_StrategyEditor" and "want_key wl = Some k"
    and "os_pending o1 = cs_pending s'" and "\<not> list_ex (wants_window wl) (os_windows o1)"
    and "pf_loaded_for_path (os_fragments o1) \<noteq> None"
    and "open_layout fs2 p LLM_ApplySidecarForPy opened o1 = (o2, out2)"
    and "lw_pending w = os_pending o2" and "lw_windows w = os_windows o2"
  shows "(\<forall>v. lw_pending v = cs_pending s' \<longrightarrow> apply_pending_layout_system v = (v, [])) \<and>
    (\<forall>r. OO_Spawn r \<notin> set out2) \<and>
    (let wn = ((\<lambda>v. fst (apply_pending_layout_system v)) ^^ n) w in
     pl_windows (lw_pending wn) = [wl] \<and> snd (apply_pending_layout_system wn) = [])"
proof -
  let ?keys = "filter (\<lambda>x. x \<notin> {}) (map fst (so_fragments (split_py_into_fragments source)))"
  obtain pl out1 where f: "fold fallback_step ?keys (cs_pending s, []) = (pl, out1)" by (metis prod.collapse)
  have "cs_pending s' = pl"
    using assms(1,2,4,5,6) f
    by (auto simp: cache_restore_one_def compute_cache_restore_fallback_spawns_def
        cache_restore_has_strategy_editor_window_def Let_def)
  with fallback_asks [OF f] assms(3,5)
  have pending: "pl_windows (cs_pending s') = []" "\<not> pl_waiting (cs_pending s')"
      "(PK_StrategyEditor, Some k) \<in> pl_spawn_requested (cs_pending s')"
    by auto
  have entry: "\<not> is_non_persisted_layout_entry wl" "\<not> is_boot_spawned_mode_owned (wl_kind wl)"
    using editor_entry [OF assms(8)] by simp_all
  have "open_layout fs2 p LLM_ApplySidecarForPy opened o1 =
      apply_now opened (o1\<lparr>os_chart_sizes := apply_chart_sizes opened\<rparr>)"
    using assms(12) by (auto simp: open_layout_def should_load_def Let_def split: option.split)
  then have o2: "os_pending o2 = (cs_pending s')\<lparr>pl_windows := [wl]\<rparr>" "set (os_windows o2) \<subseteq> set (os_windows o1)"
      "\<forall>r. OO_Spawn r \<notin> set out2"
    using assms(7-11,13) entry pending
    by (auto simp: apply_now_def apply_windows_def restore_step_def request_spawn_def Let_def)
  have never: "pl_windows (lw_pending wn) = [wl] \<and> snd (apply_pending_layout_system wn) = [] \<and>
      lw_pending wn = lw_pending w \<and> lw_windows wn = lw_windows w"
    if "wn = ((\<lambda>v. fst (apply_pending_layout_system v)) ^^ n) w" for wn n
    using that
  proof (induction n arbitrary: wn)
    case 0
    have gone: "\<not> list_ex (wants_window wl) (lw_windows w)" using assms(11,15) o2(2) by (auto simp: list_ex_iff)
    with 0 show ?case
      using blocked_frame [of w wl] assms(8,9,14) o2(1) pending by auto
  next
    case (Suc n)
    let ?v = "((\<lambda>v. fst (apply_pending_layout_system v)) ^^ n) w"
    have v: "lw_pending ?v = lw_pending w" "lw_windows ?v = lw_windows w" using Suc.IH [OF refl] by simp_all
    have gone: "\<not> list_ex (wants_window wl) (lw_windows w)" using assms(11,15) o2(2) by (auto simp: list_ex_iff)
    have stuck: "\<exists>w'. apply_pending_layout_system x = (w', []) \<and> lw_pending w' = lw_pending x \<and> lw_windows w' = lw_windows x"
      if "lw_pending x = lw_pending w" "lw_windows x = lw_windows w" for x
      by (rule blocked_frame [where wl = wl]) (use that gone assms(8,9,14) o2(1) pending in auto)
    from stuck [OF v] obtain v1 where v1: "apply_pending_layout_system ?v = (v1, [])" "lw_pending v1 = lw_pending w"
      "lw_windows v1 = lw_windows w" using v by auto
    have "wn = v1" using Suc.prems v1 by simp
    with stuck [of v1] v1 o2(1) assms(14) show ?case by auto
  qed
  have "apply_pending_layout_system v = (v, [])" if "lw_pending v = cs_pending s'" for v
    using that pending(1) by (simp add: apply_pending_layout_system_def)
  with o2(3) never [OF refl, of n] show ?thesis unfolding Let_def by blast
qed

subsection \<open>Examples\<close>

definition sample_open :: "window list \<Rightarrow> open_sys" where
  "sample_open ws =
     \<lparr>os_windows = ws, os_camera = None, os_max_z = num 10,
      os_pending = \<lparr>pl_windows = [], pl_waiting = False, pl_spawn_requested = {}\<rparr>,
      os_fragments = \<lparr>pf_by_region_key = Map.empty, pf_loaded_for_path = None\<rparr>,
      os_loopback = None, os_target = None, os_chart_sizes = Map.empty\<rparr>"


lemma undone_move_never_saved_witness:
  "let mv = \<lparr>wm_kind = PK_Orders, wm_region_key = None, wm_before = (0, 0), wm_after = (num 3, num 4)\<rparr>;
       w = sample_world [];
       w1 = w\<lparr>hw_history := (hw_history w)\<lparr>ah_record := ([AE_WindowMove mv], [])\<rparr>\<rparr>;
       a = hw_layout_save (history_frame (list_record HISTORY_LIMIT) 5 False press_undo w1) in
   las_dirty a \<and> (\<forall>e s. fold (debounced_autosave_system e) [10 ^ 10, 10 ^ 12] (a, s) = (a, s))"
proof -
  let ?mv = "\<lparr>wm_kind = PK_Orders, wm_region_key = None, wm_before = (0, 0), wm_after = (num 3, num 4)\<rparr> :: window_move_edit"
  let ?w = "sample_world []"
  let ?w1 = "?w\<lparr>hw_history := (hw_history ?w)\<lparr>ah_record := ([AE_WindowMove ?mv], [])\<rparr>\<rparr>"
  have "(\<lambda>r. r) (ah_record (hw_history ?w1)) = (AE_WindowMove ?mv # [], [])" "quiet ?w1"
    "las_last_change (hw_layout_save ?w1) = None"
    by (simp_all add: quiet_def sample_world_def app_history_default_def)
  from undone_move_never_saved [OF list_record_documented this]
  show ?thesis unfolding Let_def by blast
qed

lemma sample_split:
  "so_fragments (split_py_into_fragments (merge_fragments [(''b'', ''x = 1''), (''a'', ''y'')])) =
   [(''b'', trim_newlines ''x = 1''), (''a'', trim_newlines ''y'')]"
  using split_blocks_outcome [of "[(''b'', ''x = 1''), (''a'', ''y'')]"] merge_distinct [of "[(''b'', ''x = 1''), (''a'', ''y'')]"]
    fold_push_distinct [of "[(''b'', ''x = 1''), (''a'', ''y'')]" "split_init\<lparr>sx_any_marker := True\<rparr>"]
  by (simp add: good_samples split_init_def)

lemma sample_cache_paths: "cache_state_paths sample_cache = Some (''c/app_state.json'', ''c/app_state.py'')"
  by (simp add: sample_cache_def cache_state_paths_def path_join_def ends_with_def)

lemma sample_editor_entry:
  "wl_kind (window_layout_of (sample_editor 7 k src)) = PK_StrategyEditor"
  "want_key (window_layout_of (sample_editor 7 k src)) = Some k"
  "\<not> is_non_persisted_layout_entry (window_layout_of (sample_editor 7 k src))"
  by (simp_all add: window_layout_of_def sample_editor_def new_window_def want_key_def
      is_non_persisted_layout_entry_def restore_driver_def)

definition sample_sidecar :: "window_layout list option \<Rightarrow> sidecar_layout" where
  "sample_sidecar wls =
     \<lparr>sl_schema_version = None, sl_viewport = None, sl_windows = wls, sl_strategy_path = Some ''s.py'',
      sl_selected_symbol = None, sl_chart_sizes = None, sl_scenario = None\<rparr>"

definition sample_cache_sys :: cache_sys where
  "sample_cache_sys =
     \<lparr>cs_buffer = \<lparr>sb_original_path = None, sb_cache_path = None, sb_last_merged_source = None\<rparr>,
      cs_allocator = 0, cs_fragments = \<lparr>pf_by_region_key = Map.empty, pf_loaded_for_path = None\<rparr>,
      cs_camera = None, cs_pending = \<lparr>pl_windows = [], pl_waiting = False, pl_spawn_requested = {}\<rparr>,
      cs_target = None, cs_chart_sizes = Map.empty\<rparr>"

lemma cached_fragment_without_window_is_lost_witness:
  "let fs = [''c/app_state.py'' \<mapsto> merge_fragments [(''b'', ''x = 1''), (''a'', ''y'')]];
       layout = sample_sidecar (Some [window_layout_of (sample_editor 7 ''a'' ''y'')]);
       (s', out) = cache_restore_one sample_cache fs layout sample_cache_sys in
    pf_by_region_key (cs_fragments s') ''b'' \<noteq> None \<and> \<not> list_ex (asks_for ''b'') out \<and>
    (let (eds', b', a', fs') = debounced_strategy_autosave_system (\<lambda>_ _. None) (2 * 10 ^ 9)
           ([(''a'', \<lparr>sf_source = ''y'', sf_dirty = True\<rparr>)], cs_buffer s', \<lparr>as_dirty = True, as_last_change = Some 0\<rparr>, fs) in
     \<exists>items. fs' ''c/app_state.py'' = Some (merge_fragments items) \<and> ''b'' \<notin> fst ` set items)"
proof -
  let ?source = "merge_fragments [(''b'', ''x = 1''), (''a'', ''y'')]"
  let ?wl = "window_layout_of (sample_editor 7 ''a'' ''y'')"
  let ?layout = "sample_sidecar (Some [?wl])"
  let ?fs = "[''c/app_state.py'' \<mapsto> ?source] :: files"
  have stored: "?fs ''c/app_state.py'' = Some ?source" by simp
  have side: "sl_windows ?layout = Some [?wl]" by (simp add: sample_sidecar_def)
  have out: "list_ex (asks_for ''a'') (snd (cache_restore_one sample_cache ?fs ?layout sample_cache_sys))"
    unfolding cache_restore_one_def sample_cache_paths option.case prod.case stored Let_def
    by (simp add: side sample_editor_entry asks_for_def cache_window_step_def request_spawn_def is_boot_spawned_mode_owned_def
        compute_cache_restore_fallback_spawns_def cache_restore_has_strategy_editor_window_def sample_cache_sys_def Let_def)
  obtain s' out' where r: "cache_restore_one sample_cache ?fs ?layout sample_cache_sys = (s', out')" by (metis prod.collapse)
  have kept: "''b'' \<in> fst ` set (so_fragments (split_py_into_fragments ?source))" by (simp add: sample_split)
  have flush: "should_flush \<lparr>as_dirty = True, as_last_change = Some 0\<rparr> (2 * 10 ^ 9) DEBOUNCE"
    by (simp add: should_flush_def DEBOUNCE_def)
  have editor: "cache_restore_has_strategy_editor_window (Some [?wl])"
    "\<forall>wl\<in>set [?wl]. wl_kind wl = PK_StrategyEditor \<longrightarrow> want_key wl \<noteq> Some ''b''"
    "(PK_StrategyEditor, Some ''b'') \<notin> pl_spawn_requested (cs_pending sample_cache_sys)"
    by (simp_all add: sample_editor_entry cache_restore_has_strategy_editor_window_def sample_cache_sys_def)
  show ?thesis
    using cached_fragment_without_window_is_lost [OF sample_cache_paths stored kept side editor r _ flush,
        where eds = "[(''a'', \<lparr>sf_source = ''y'', sf_dirty = True\<rparr>)]"]
    using out by (simp add: r Let_def del: fun_upd_apply)
qed

definition sample_layout_world :: "window_layout list \<Rightarrow> layout_world" where
  "sample_layout_world wls =
     \<lparr>lw_windows = [], lw_max_z = num 10, lw_pending = \<lparr>pl_windows = wls, pl_waiting = False, pl_spawn_requested = {}\<rparr>,
      lw_fragments = \<lparr>pf_by_region_key = Map.empty, pf_loaded_for_path = None\<rparr>, lw_peers = [], lw_focus = None,
      lw_find_target = None, lw_find_open = False\<rparr>"

definition sample_spawn :: "window list \<Rightarrow> (app_edit list \<times> app_edit list) spawn_sys" where
  "sample_spawn ws =
     \<lparr>sp_windows = ws, sp_next = 7, sp_allocator = 0, sp_history = app_history_default (list_record HISTORY_LIMIT),
      sp_fragments = \<lparr>pf_by_region_key = Map.empty, pf_loaded_for_path = None\<rparr>,
      sp_buffer = \<lparr>sb_original_path = None, sb_cache_path = None, sb_last_merged_source = None\<rparr>\<rparr>"

lemma restoring_ends_witness:
  "let wls = [window_layout_of (sample_editor 7 ''a'' ''y''), window_layout_of (new_window 8 PK_Orders (0, 0) (0, 0))];
       layout = (sample_sidecar (Some wls))\<lparr>sl_strategy_path := Some ''s.py''\<rparr>;
       (o1, out) = open_layout [''s.py'' \<mapsto> ''y''] ''s.json'' LLM_UserJsonOpen layout (sample_open []);
       w = (sample_layout_world [])\<lparr>lw_pending := os_pending o1,
             lw_fragments := \<lparr>pf_by_region_key = [''a'' \<mapsto> ''y''], pf_loaded_for_path = Some ''s.py''\<rparr>\<rparr>;
       (w1, reqs) = apply_pending_layout_system w;
       s1 = panel_spawn_dispatcher_system (list_record HISTORY_LIMIT) sample_cache reqs
              (sample_spawn (lw_windows (fst (apply_pending_layout_system w))));
       (w2, reqs2) = apply_pending_layout_system (w1\<lparr>lw_windows := sp_windows s1\<rparr>) in
    pl_windows (lw_pending w2) = [] \<and> pl_spawn_requested (lw_pending w2) = {} \<and> reqs2 = [] \<and>
    list_all (\<lambda>wl. is_non_persisted_layout_entry wl \<or> is_boot_spawned_mode_owned (wl_kind wl) \<or>
        list_ex (wants_window wl) (lw_windows w2)) wls"
proof -
  let ?wls = "[window_layout_of (sample_editor 7 ''a'' ''y''), window_layout_of (new_window 8 PK_Orders (0, 0) (0, 0))]"
  let ?layout = "(sample_sidecar (Some ?wls))\<lparr>sl_strategy_path := Some ''s.py''\<rparr>"
  let ?fs = "[''s.py'' \<mapsto> ''y''] :: files"
  obtain o1 out where op: "open_layout ?fs ''s.json'' LLM_UserJsonOpen ?layout (sample_open []) = (o1, out)" by (metis prod.collapse)
  let ?w = "(sample_layout_world [])\<lparr>lw_pending := os_pending o1,
      lw_fragments := \<lparr>pf_by_region_key = [''a'' \<mapsto> ''y''], pf_loaded_for_path = Some ''s.py''\<rparr>\<rparr>"
  have l: "sl_strategy_path ?layout = Some ''s.py''" "?fs ''s.py'' \<noteq> None \<or> ?fs (with_extension ''py'' ''s.json'') \<noteq> None"
    "sl_windows ?layout = Some ?wls"
    by (simp_all add: sample_sidecar_def)
  have w: "lw_pending ?w = os_pending o1"
    "\<forall>v\<in>set (lw_windows ?w). wi_excluded v \<longrightarrow> restore_driver (wi_kind v) = RD_ScenarioInstruments"
    "sp_windows (sample_spawn (lw_windows (fst (apply_pending_layout_system ?w)))) = lw_windows (fst (apply_pending_layout_system ?w))"
    by (simp_all add: sample_layout_world_def sample_spawn_def)
  have "\<not> no_fragments (lw_fragments ?w)" by (simp add: no_fragments_def)
  with restoring_ends [OF l op w, of "list_record HISTORY_LIMIT" sample_cache]
  show ?thesis unfolding op Let_def prod.case by simp
qed

lemma fallback_key_blocks_editor_witness:
  "let fs = [''c/app_state.py'' \<mapsto> merge_fragments [(''b'', ''x = 1''), (''a'', ''y'')]];
       s' = fst (cache_restore_one sample_cache fs (sample_sidecar None) sample_cache_sys);
       wl = window_layout_of (sample_editor 7 ''a'' ''y'');
       o1 = (sample_open [])\<lparr>os_pending := cs_pending s',
              os_fragments := \<lparr>pf_by_region_key = Map.empty, pf_loaded_for_path = Some ''s.py''\<rparr>\<rparr>;
       (o2, out2) = open_layout fs ''s.json'' LLM_ApplySidecarForPy (sample_sidecar (Some [wl])) o1;
       w = (sample_layout_world [])\<lparr>lw_pending := os_pending o2, lw_windows := os_windows o2\<rparr> in
    (\<forall>v. lw_pending v = cs_pending s' \<longrightarrow> apply_pending_layout_system v = (v, [])) \<and>
    (\<forall>r. OO_Spawn r \<notin> set out2) \<and>
    (let wn = ((\<lambda>v. fst (apply_pending_layout_system v)) ^^ 100) w in
     pl_windows (lw_pending wn) = [wl] \<and> snd (apply_pending_layout_system wn) = [])"
proof -
  let ?source = "merge_fragments [(''b'', ''x = 1''), (''a'', ''y'')]"
  let ?fs = "[''c/app_state.py'' \<mapsto> ?source] :: files"
  let ?wl = "window_layout_of (sample_editor 7 ''a'' ''y'')"
  obtain s' out where r: "cache_restore_one sample_cache ?fs (sample_sidecar None) sample_cache_sys = (s', out)"
    by (metis prod.collapse)
  let ?o1 = "(sample_open [])\<lparr>os_pending := cs_pending s',
      os_fragments := \<lparr>pf_by_region_key = Map.empty, pf_loaded_for_path = Some ''s.py''\<rparr>\<rparr>"
  obtain o2 out2 where op: "open_layout ?fs ''s.json'' LLM_ApplySidecarForPy (sample_sidecar (Some [?wl])) ?o1 = (o2, out2)"
    by (metis prod.collapse)
  let ?w = "(sample_layout_world [])\<lparr>lw_pending := os_pending o2, lw_windows := os_windows o2\<rparr>"
  have stored: "?fs ''c/app_state.py'' = Some ?source" by simp
  have kept: "''a'' \<in> fst ` set (so_fragments (split_py_into_fragments ?source))" by (simp add: sample_split)
  have side: "sl_windows (sample_sidecar x) = x" for x by (simp add: sample_sidecar_def)
  have pend: "cs_pending sample_cache_sys = \<lparr>pl_windows = [], pl_waiting = False, pl_spawn_requested = {}\<rparr>"
    by (simp add: sample_cache_sys_def)
  have o1: "os_pending ?o1 = cs_pending s'" "\<not> list_ex (wants_window ?wl) (os_windows ?o1)"
      "pf_loaded_for_path (os_fragments ?o1) \<noteq> None"
    by (simp_all add: sample_open_def)
  have w: "lw_pending ?w = os_pending o2" "lw_windows ?w = os_windows o2" by simp_all
  from fallback_key_blocks_editor [OF sample_cache_paths stored kept side pend r side sample_editor_entry(1,2) o1 op w,
      where n = 100]
  show ?thesis unfolding r op Let_def fst_conv prod.case .
qed

end
