(* ===== verification/Find.thy ===== *)
theory Find
  imports History Modals
begin

text \<open>
  Searching and replacing in the strategy editors (\<open>src/ui/strategy_editor_find.rs\<close>): the matches of a
  query, the replacement, the state of the panel and the systems that drive it. Lower-casing of a
  character is a parameter; spawning the panel and the rectangles that mark the matches are left out.
\<close>

section \<open>Model\<close>

subsection \<open>Matches\<close>

record match_span =
  ms_line :: nat
  ms_from :: nat
  ms_to :: nat

text \<open>The bytes that the needle consumes at the start of the haystack; without regard to case the
  characters are compared one by one.\<close>

fun fold_case_len :: "(str \<Rightarrow> str) \<Rightarrow> str list \<Rightarrow> str list \<Rightarrow> nat option" where
  "fold_case_len lower [] hay = Some 0"
| "fold_case_len lower (n # ns) [] = None"
| "fold_case_len lower (n # ns) (h # hs) =
     (if lower h = lower n then map_option (\<lambda>k. length h + k) (fold_case_len lower ns hs) else None)"

definition match_len_at :: "(str \<Rightarrow> str) \<Rightarrow> str \<Rightarrow> str \<Rightarrow> bool \<Rightarrow> nat option" where
  "match_len_at lower haystack needle case_sensitive =
     (if case_sensitive then (if starts_with needle haystack then Some (length needle) else None)
      else fold_case_len lower (utf8_chars needle) (utf8_chars haystack))"

text \<open>The byte offsets of the characters of a line.\<close>

fun char_indices :: "nat \<Rightarrow> str list \<Rightarrow> nat list" where
  "char_indices b [] = []"
| "char_indices b (w # ws) = b # char_indices (b + length w) ws"

fun scan_line :: "(str \<Rightarrow> str) \<Rightarrow> str \<Rightarrow> bool \<Rightarrow> nat \<Rightarrow> str \<Rightarrow> nat list \<Rightarrow> nat \<Rightarrow> match_span list" where
  "scan_line lower query case_sensitive i l [] blocked = []"
| "scan_line lower query case_sensitive i l (b # bs) blocked =
     (if b < blocked then scan_line lower query case_sensitive i l bs blocked
      else (case match_len_at lower (drop b l) query case_sensitive of
              Some n \<Rightarrow> \<lparr>ms_line = i, ms_from = b, ms_to = b + n\<rparr> # scan_line lower query case_sensitive i l bs (b + n)
            | None \<Rightarrow> scan_line lower query case_sensitive i l bs blocked))"

definition find_matches :: "(str \<Rightarrow> str) \<Rightarrow> str \<Rightarrow> str \<Rightarrow> bool \<Rightarrow> match_span list" where
  "find_matches lower source query case_sensitive =
     (if query = [] then []
      else concat (map (\<lambda>(i, l). scan_line lower query case_sensitive i l (char_indices 0 (utf8_chars l)) 0)
                     (enumerate 0 (lines source))))"

subsection \<open>Replacing\<close>

datatype replace_scope = RS_Current | RS_All

definition line_start_offsets :: "str \<Rightarrow> nat list" where
  "line_start_offsets source =
     0 # map (\<lambda>(i, c). i + 1) (filter (\<lambda>(i, c). c = newline) (enumerate 0 source))"

definition abs_range :: "nat list \<Rightarrow> match_span \<Rightarrow> (nat \<times> nat) option" where
  "abs_range starts m =
     (if ms_line m < length starts
      then Some (starts ! ms_line m + ms_from m, starts ! ms_line m + ms_to m) else None)"

definition is_char_boundary :: "nat \<Rightarrow> str \<Rightarrow> bool" where
  "is_char_boundary i s \<longleftrightarrow> i = 0 \<or> i = length s \<or> (i < length s \<and> \<not> is_cont (s ! i))"

text \<open>\<open>String::replace_range\<close>: it panics on a range that cuts a character.\<close>

definition replace_range :: "nat \<times> nat \<Rightarrow> str \<Rightarrow> str \<Rightarrow> str option" where
  "replace_range r new s =
     (if fst r \<le> snd r \<and> snd r \<le> length s \<and> is_char_boundary (fst r) s \<and> is_char_boundary (snd r) s
      then Some (take (fst r) s @ new @ drop (snd r) s) else None)"

definition replace_step :: "str \<Rightarrow> nat \<times> nat \<Rightarrow> str option \<Rightarrow> str option" where
  "replace_step new r acc =
     (case acc of
        None \<Rightarrow> None
      | Some out \<Rightarrow> if snd r \<le> length out then replace_range r new out else Some out)"

text \<open>From right to left; None is a panic.\<close>

definition apply_replacement :: "str \<Rightarrow> match_span list \<Rightarrow> nat \<Rightarrow> str \<Rightarrow> replace_scope \<Rightarrow> str option" where
  "apply_replacement source ms current new scope =
     (if ms = [] then Some source
      else (let starts = line_start_offsets source;
                ranges = (case scope of
                    RS_All \<Rightarrow> List.map_filter (abs_range starts) ms
                  | RS_Current \<Rightarrow>
                      (if current < length ms
                       then (case abs_range starts (ms ! current) of Some r \<Rightarrow> [r] | None \<Rightarrow> []) else [])) in
            fold (replace_step new) (sort_key (\<lambda>r. - int (fst r)) ranges) (Some source)))"

subsection \<open>The panel\<close>

datatype find_focused_field = FF_None | FF_Query | FF_Replacement

datatype find_button_kind = FB_Prev | FB_Next | FB_Replace | FB_ReplaceAll

record find_replace_state =
  fr_query :: str
  fr_replacement :: str
  fr_case_sensitive :: bool
  fr_matches :: "match_span list"
  fr_current :: nat
  fr_is_open :: bool
  fr_target_editor :: "nat option"
  fr_panel_root :: "nat option"
  fr_query_editor :: "nat option"
  fr_replacement_editor :: "nat option"
  fr_focused_field :: find_focused_field

definition find_default :: find_replace_state where
  "find_default =
     \<lparr>fr_query = [], fr_replacement = [], fr_case_sensitive = False, fr_matches = [], fr_current = 0,
      fr_is_open = False, fr_target_editor = None, fr_panel_root = None, fr_query_editor = None,
      fr_replacement_editor = None, fr_focused_field = FF_None\<rparr>"

text \<open>The input focus, the editors that exist and the state; \<open>pressed\<close> is the shortcut outside its
  cooldown.\<close>

definition find_keyboard_system ::
  "bool \<Rightarrow> bool \<Rightarrow> nat set \<Rightarrow> nat option \<times> find_replace_state \<Rightarrow> nat option \<times> find_replace_state" where
  "find_keyboard_system pressed escape editors t =
     (let (focus, s) = t;
          focused = (case focus of Some e \<Rightarrow> if e \<in> editors then Some e else None | None \<Rightarrow> None);
          (focus1, s1) =
            (if \<not> pressed then (focus, s)
             else if \<not> fr_is_open s
             then (None, s\<lparr>fr_is_open := True, fr_target_editor := focused, fr_focused_field := FF_Query\<rparr>)
             else (None, s\<lparr>fr_target_editor := (if focused \<noteq> None then focused else fr_target_editor s),
                           fr_focused_field := FF_Query\<rparr>)) in
      if escape \<and> fr_is_open s1
      then ((case fr_target_editor s1 of Some e \<Rightarrow> Some e | None \<Rightarrow> focus1),
            s1\<lparr>fr_is_open := False, fr_focused_field := FF_None\<rparr>)
      else (focus1, s1))"

text \<open>A panel that is gone is forgotten, and the first time the search opens one is made; \<open>made\<close> are
  its three nodes.\<close>

definition manage_find_panel_lifecycle_system ::
  "(nat \<Rightarrow> bool) \<Rightarrow> nat \<times> nat \<times> nat \<Rightarrow> find_replace_state \<Rightarrow> find_replace_state \<times> bool option" where
  "manage_find_panel_lifecycle_system exists made s =
     (let s1 = (case fr_panel_root s of
                  Some r \<Rightarrow> if exists r then s
                            else s\<lparr>fr_panel_root := None, fr_query_editor := None, fr_replacement_editor := None\<rparr>
                | None \<Rightarrow> s);
          (r, q, p) = made;
          s2 = (if fr_is_open s1 \<and> fr_panel_root s1 = None
                then s1\<lparr>fr_panel_root := Some r, fr_query_editor := Some q, fr_replacement_editor := Some p,
                        fr_focused_field := FF_Query\<rparr>
                else s1) in
      (s2, case fr_panel_root s2 of Some x \<Rightarrow> if exists x then Some (fr_is_open s2) else None | None \<Rightarrow> None))"

text \<open>What the last run saw: the query, the case, whether the panel was open and the editor.\<close>

type_synonym find_seen = "str \<times> bool \<times> bool \<times> nat option"

definition find_seen_default :: find_seen where "find_seen_default = ([], False, False, None)"

definition region_of :: "editor_peer list \<Rightarrow> nat \<Rightarrow> str option" where
  "region_of ps e = map_option ep_region_key (List.find (\<lambda>p. ep_entity p = e) ps)"

definition source_for :: "window list \<Rightarrow> str \<Rightarrow> str option" where
  "source_for ws k = map_option source_of (List.find (has_fragment k) ws)"

definition compute_find_match_spans_system ::
  "(str \<Rightarrow> str) \<Rightarrow> bool \<Rightarrow> window list \<Rightarrow> editor_peer list \<Rightarrow> find_replace_state \<times> find_seen \<Rightarrow>
   find_replace_state \<times> find_seen" where
  "compute_find_match_spans_system lower source_changed ws ps t =
     (let (s, seen) = t;
          now = (fr_query s, fr_case_sensitive s, fr_is_open s, fr_target_editor s);
          (q, c, opened, tgt) = seen;
          anew = q \<noteq> fr_query s \<or> c \<noteq> fr_case_sensitive s \<or> tgt \<noteq> fr_target_editor s in
      case fr_target_editor s of
        None \<Rightarrow> (s, now)
      | Some e \<Rightarrow>
          (case region_of ps e of
             None \<Rightarrow>
               (find_default\<lparr>fr_panel_root := fr_panel_root s, fr_query_editor := fr_query_editor s,
                             fr_replacement_editor := fr_replacement_editor s\<rparr>, find_seen_default)
           | Some k \<Rightarrow>
               (if seen = now \<and> \<not> source_changed then t
                else if \<not> fr_is_open s \<or> fr_query s = [] then (s\<lparr>fr_matches := [], fr_current := 0\<rparr>, now)
                else (case source_for ws k of
                        None \<Rightarrow> (s, now)
                      | Some source \<Rightarrow>
                          (let ms = find_matches lower source (fr_query s) (fr_case_sensitive s);
                               cur = (if anew then 0 else fr_current s) in
                           (s\<lparr>fr_matches := ms,
                              fr_current := (if ms = [] then 0 else min cur (length ms - 1))\<rparr>, now))))))"

text \<open>\<open>f3\<close>, \<open>enter\<close> and \<open>shift\<close> are the keys, \<open>presses\<close> the unread button presses.\<close>

definition find_navigate_system ::
  "bool \<Rightarrow> bool \<Rightarrow> bool \<Rightarrow> find_button_kind list \<Rightarrow> nat option \<Rightarrow> find_replace_state \<Rightarrow> find_replace_state" where
  "find_navigate_system shift f3 enter presses focus s =
     (if \<not> fr_is_open s \<or> fr_matches s = [] then s
      else (let enter_nav = (enter \<and> fr_focused_field s \<noteq> FF_Query \<and>
                  \<not> (fr_target_editor s \<noteq> None \<and> focus = fr_target_editor s));
                forward = ((f3 \<and> \<not> shift) \<or> (enter_nav \<and> \<not> shift) \<or> FB_Next \<in> set presses);
                backward = ((f3 \<and> shift) \<or> (enter_nav \<and> shift) \<or> FB_Prev \<in> set presses);
                n = length (fr_matches s) in
            if \<not> forward \<and> \<not> backward then s
            else s\<lparr>fr_current := (if forward then (fr_current s + 1) mod n else (fr_current s + n - 1) mod n)\<rparr>))"

text \<open>The last replacing button of the frame decides.\<close>

definition scope_of :: "find_button_kind list \<Rightarrow> replace_scope option" where
  "scope_of presses =
     fold (\<lambda>b acc. case b of FB_Replace \<Rightarrow> Some RS_Current | FB_ReplaceAll \<Rightarrow> Some RS_All | _ \<Rightarrow> acc) presses None"

text \<open>The text that is sent to the editor: none, one, or a panic.\<close>

definition replace_execute_system ::
  "find_button_kind list \<Rightarrow> window list \<Rightarrow> editor_peer list \<Rightarrow> find_replace_state \<Rightarrow> editor_request list option" where
  "replace_execute_system presses ws ps s =
     (case (if fr_is_open s then scope_of presses else None) of
        None \<Rightarrow> Some []
      | Some scope \<Rightarrow>
          (if fr_matches s = [] then Some []
           else (case fr_target_editor s of
                   None \<Rightarrow> Some []
                 | Some e \<Rightarrow>
                     (case Option.bind (region_of ps e) (source_for ws) of
                        None \<Rightarrow> Some []
                      | Some source \<Rightarrow>
                          map_option (\<lambda>new. if new = source then [] else [ER_SetText e new])
                            (apply_replacement source (fr_matches s) (fr_current s) (fr_replacement s) scope)))))"

definition find_button_interaction_system :: "find_button_kind list \<Rightarrow> find_button_kind list" where
  "find_button_interaction_system pressed = pressed"

text \<open>One key for the field that has the keyboard.\<close>

definition edit_find_field :: "(str \<Rightarrow> str) \<Rightarrow> find_replace_state \<Rightarrow> find_replace_state" where
  "edit_find_field f s =
     (case fr_focused_field s of
        FF_Query \<Rightarrow> s\<lparr>fr_query := f (fr_query s)\<rparr>
      | FF_Replacement \<Rightarrow> s\<lparr>fr_replacement := f (fr_replacement s)\<rparr>
      | FF_None \<Rightarrow> s)"

definition find_key :: "bool \<Rightarrow> key_event \<Rightarrow> nat option \<times> find_replace_state \<Rightarrow> nat option \<times> find_replace_state" where
  "find_key mod_held ev t =
     (let (focus, s) = t in
      if \<not> ke_pressed ev then t
      else (case ke_key ev of
              K_Character w \<Rightarrow>
                (if mod_held then t
                 else (focus, edit_find_field (\<lambda>b. b @ concat (filter (\<lambda>ch. \<not> is_control_char ch) (utf8_chars w))) s))
            | K_Backspace \<Rightarrow> (focus, edit_find_field pop_char s)
            | K_Tab \<Rightarrow>
                (focus, s\<lparr>fr_focused_field := (case fr_focused_field s of
                    FF_Query \<Rightarrow> FF_Replacement | FF_Replacement \<Rightarrow> FF_Query | FF_None \<Rightarrow> FF_None)\<rparr>)
            | K_Escape \<Rightarrow>
                ((case fr_target_editor s of Some e \<Rightarrow> Some e | None \<Rightarrow> focus),
                 s\<lparr>fr_is_open := False, fr_focused_field := FF_None\<rparr>)
            | _ \<Rightarrow> t))"

text \<open>The keys that are left for the systems after it.\<close>

definition find_field_input_system ::
  "bool \<Rightarrow> key_event list \<times> nat option \<times> find_replace_state \<Rightarrow> key_event list \<times> nat option \<times> find_replace_state" where
  "find_field_input_system mod_held t =
     (let (evs, focus, s) = t in
      if \<not> fr_is_open s \<or> fr_focused_field s = FF_None then t
      else ([], fold (find_key mod_held) evs (focus, s)))"

definition find_count_text :: "find_replace_state \<Rightarrow> str" where
  "find_count_text s =
     (if fr_matches s = [] then ''0/0''
      else show_nat (fr_current s + 1) @ ''/'' @ show_nat (length (fr_matches s)))"

subsection \<open>Marking the matches\<close>

text \<open>What the text layout crate answers: the row and byte a place of the text is shown at, and the
  horizontal positions before a byte and after a range.\<close>

record display_layout =
  dl_buffer_to_display :: "nat \<Rightarrow> nat \<Rightarrow> (nat \<times> nat) option"
  dl_x_at_byte :: "nat \<Rightarrow> nat \<Rightarrow> f32 option"
  dl_x_after_source_range :: "nat \<Rightarrow> nat \<Rightarrow> nat \<Rightarrow> f32 option"

record rect_overlay =
  ro_display_row :: nat
  ro_x_from :: f32
  ro_x_to :: f32
  ro_active :: bool
  ro_z :: int

definition overlay_of :: "display_layout \<Rightarrow> nat \<Rightarrow> nat \<times> match_span \<Rightarrow> rect_overlay option" where
  "overlay_of dl current m =
     (let (i, sp) = m in
      Option.bind (dl_buffer_to_display dl (ms_line sp mod 2 ^ 32) (ms_from sp)) (\<lambda>(row, b).
        Option.bind (dl_x_at_byte dl row b) (\<lambda>x0.
          map_option (\<lambda>x1. \<lparr>ro_display_row = row, ro_x_from = x0, ro_x_to = x1, ro_active = (i = current), ro_z = -2\<rparr>)
            (dl_x_after_source_range dl row b (b + (ms_to sp - ms_from sp))))))"

definition update_find_overlay_rects_system ::
  "bool \<Rightarrow> display_layout \<Rightarrow> nat \<Rightarrow> find_replace_state \<Rightarrow> rect_overlay list \<Rightarrow> rect_overlay list" where
  "update_find_overlay_rects_system changed dl entity s rects =
     (if \<not> changed then rects
      else if \<not> fr_is_open s \<or> fr_target_editor s \<noteq> Some entity then []
      else List.map_filter (overlay_of dl (fr_current s)) (enumerate 0 (fr_matches s)))"

definition merge_find_overlay_rects_system :: "rect_overlay list \<Rightarrow> rect_overlay list \<Rightarrow> rect_overlay list" where
  "merge_find_overlay_rects_system rects underlays = filter (\<lambda>r. ro_z r \<noteq> -2) underlays @ rects"

section \<open>Properties\<close>

subsection \<open>Characters\<close>

definition char_len :: "char \<Rightarrow> nat" where
  "char_len c =
     (if byte c < 0x80 then 1 else if byte c < 0xC0 then 0 else if byte c < 0xE0 then 2
      else if byte c < 0xF0 then 3 else 4)"

definition utf8_char :: "str \<Rightarrow> bool" where
  "utf8_char w \<longleftrightarrow> w \<noteq> [] \<and> length w = char_len (hd w) \<and> list_all is_cont (tl w)"

definition well_formed :: "str \<Rightarrow> bool" where
  "well_formed s \<longleftrightarrow> list_all utf8_char (utf8_chars s)"

lemma utf8_char_not_cont: "utf8_char w \<Longrightarrow> w \<noteq> [] \<and> \<not> is_cont (hd w)"
  by (auto simp: utf8_char_def char_len_def is_cont_def split: if_splits)

lemma concat_utf8_chars [simp]: "concat (utf8_chars s) = s"
  by (induction s) (auto split: list.split)

lemma hd_utf8_chars: "s \<noteq> [] \<Longrightarrow> utf8_chars s \<noteq> [] \<and> hd (utf8_chars s) \<noteq> [] \<and> hd (hd (utf8_chars s)) = hd s"
  by (induction s) (auto split: list.split)

lemma utf8_chars_append:
  "w \<noteq> [] \<Longrightarrow> list_all is_cont (tl w) \<Longrightarrow> s = [] \<or> \<not> is_cont (hd s) \<Longrightarrow> utf8_chars (w @ s) = w # utf8_chars s"
proof (induction w)
  case (Cons c t)
  show ?case
  proof (cases t)
    case Nil
    then show ?thesis using Cons.prems(3) hd_utf8_chars [of s] by (cases "s = []"; cases "utf8_chars s") auto
  next
    case (Cons d u)
    with Cons.IH Cons.prems have "utf8_chars (t @ s) = t # utf8_chars s" by auto
    with Cons Cons.prems(2) show ?thesis by simp
  qed
qed simp

lemma hd_concat_chars: "list_all utf8_char ws \<Longrightarrow> concat ws = [] \<or> \<not> is_cont (hd (concat ws))"
  by (cases ws) (auto dest: utf8_char_not_cont)

lemma utf8_chars_concat: "list_all utf8_char ws \<Longrightarrow> utf8_chars (concat ws) = ws"
proof (induction ws)
  case (Cons w ws)
  then have "utf8_char w" "list_all utf8_char ws" by simp_all
  then have "utf8_chars (w @ concat ws) = w # utf8_chars (concat ws)"
    by (intro utf8_chars_append hd_concat_chars) (simp_all add: utf8_char_def)
  with Cons show ?case by simp
qed simp

lemma starts_with_iff: "starts_with p s \<longleftrightarrow> (\<exists>r. s = p @ r)"
  by (auto simp: starts_with_def intro: exI [of _ "drop (length p) s"]) (metis append_take_drop_id)

lemma starts_with_char:
  assumes "utf8_char v" and "utf8_char w"
  shows "starts_with (v @ a) (w @ b) \<longleftrightarrow> v = w \<and> starts_with a b"
proof -
  have "v = w" if "w @ b = v @ x" for x
  proof -
    have "hd w = hd v" using assms that by (metis hd_append2 utf8_char_def)
    with assms have "length w = length v" by (simp add: utf8_char_def)
    with that show ?thesis by simp
  qed
  then show ?thesis by (auto simp: starts_with_iff)
qed

lemma list_all_drop: "list_all P xs \<Longrightarrow> list_all P (drop n xs)"
  by (auto simp: list_all_iff dest: in_set_dropD)

lemma list_all_take: "list_all P xs \<Longrightarrow> list_all P (take n xs)"
  by (auto simp: list_all_iff dest: in_set_takeD)

subsection \<open>The reference\<close>

text \<open>Replacing from left to right, character by character.\<close>

fun prefix_match :: "(str \<Rightarrow> str \<Rightarrow> bool) \<Rightarrow> str list \<Rightarrow> str list \<Rightarrow> bool" where
  "prefix_match eq [] hs = True"
| "prefix_match eq (n # ns) [] = False"
| "prefix_match eq (n # ns) (h # hs) = (eq h n \<and> prefix_match eq ns hs)"

function replace_ref :: "(str \<Rightarrow> str \<Rightarrow> bool) \<Rightarrow> str list \<Rightarrow> str \<Rightarrow> str list \<Rightarrow> str" where
  "replace_ref eq qs new [] = []"
| "replace_ref eq qs new (w # ws) =
     (if qs \<noteq> [] \<and> prefix_match eq qs (w # ws)
      then new @ replace_ref eq qs new (drop (length qs) (w # ws))
      else w @ replace_ref eq qs new ws)"
  by pat_completeness auto
termination
  by (relation "measure (\<lambda>(eq, qs, new, ws). length ws)") auto

definition same_char :: "(str \<Rightarrow> str) \<Rightarrow> bool \<Rightarrow> str \<Rightarrow> str \<Rightarrow> bool" where
  "same_char lower case_sensitive a b \<longleftrightarrow> (if case_sensitive then a = b else lower a = lower b)"

text \<open>Where its occurrences are.\<close>

function occurrences :: "(str \<Rightarrow> str \<Rightarrow> bool) \<Rightarrow> str list \<Rightarrow> nat \<Rightarrow> str list \<Rightarrow> (nat \<times> nat) list" where
  "occurrences eq qs b [] = []"
| "occurrences eq qs b (w # ws) =
     (if qs \<noteq> [] \<and> prefix_match eq qs (w # ws)
      then (let e = b + length (concat (take (length qs) (w # ws))) in
            (b, e) # occurrences eq qs e (drop (length qs) (w # ws)))
      else occurrences eq qs (b + length w) ws)"
  by pat_completeness auto
termination
  by (relation "measure (\<lambda>(eq, qs, b, ws). length ws)") auto

lemma replace_ref_start:
  assumes "list_all utf8_char ws" and "new = [] \<or> \<not> is_cont (hd new)"
  shows "replace_ref eq qs new ws = [] \<or> \<not> is_cont (hd (replace_ref eq qs new ws))"
  using assms
proof (induction eq qs new ws rule: replace_ref.induct)
  case (2 eq qs new w ws)
  have rest: "list_all utf8_char (drop (length qs) (w # ws))"
    using 2(3) by (rule list_all_drop)
  show ?case
    using 2(1) [OF _ rest 2(4)] 2(2-4) by (auto dest: utf8_char_not_cont simp: hd_append)
qed simp

lemma prefix_match_length: "prefix_match eq qs ws \<Longrightarrow> length qs \<le> length ws"
  by (induction eq qs ws rule: prefix_match.induct) auto

lemma occurrences_from: "r \<in> set (occurrences eq qs b ws) \<Longrightarrow> list_all utf8_char ws \<Longrightarrow> b \<le> fst r \<and> fst r < snd r"
proof (induction eq qs b ws rule: occurrences.induct)
  case (2 eq qs b w ws)
  have rest: "list_all utf8_char (drop (length qs) (w # ws))"
    using 2(4) by (rule list_all_drop)
  have "qs \<noteq> [] \<Longrightarrow> 0 < length (concat (take (length qs) (w # ws)))"
    using 2(4) by (cases qs) (auto dest: utf8_char_not_cont)
  then show ?case
    using 2(1) [OF _ refl _ rest] 2(2-4) by (fastforce simp: Let_def split: if_splits)
qed simp

lemma occurrences_sorted:
  "list_all utf8_char ws \<Longrightarrow> sorted_wrt (<) (map fst (occurrences eq qs b ws))"
proof (induction eq qs b ws rule: occurrences.induct)
  case (2 eq qs b w ws)
  show ?case
  proof (cases "qs \<noteq> [] \<and> prefix_match eq qs (w # ws)")
    case True
    let ?e = "b + length (concat (take (length qs) (w # ws)))"
    have rest: "list_all utf8_char (drop (length qs) (w # ws))" using 2(3) by (rule list_all_drop)
    have "b < ?e" using True 2(3) by (cases qs) (auto dest: utf8_char_not_cont)
    then have "b < fst r" if "r \<in> set (occurrences eq qs ?e (drop (length qs) (w # ws)))" for r
      using occurrences_from [OF that rest] by (blast intro: less_le_trans)
    then have "\<forall>x\<in>set (map fst (occurrences eq qs ?e (drop (length qs) (w # ws)))). b < x"
      by (simp only: set_map ball_simps) blast
    with 2(1) [OF True refl rest] True show ?thesis by (simp add: Let_def del: drop_Cons)
  next
    case False
    with 2(2) 2(3) False show ?thesis by (auto simp: Let_def)
  qed
qed simp

lemma insort_last: "\<forall>x\<in>set xs. f x < f k \<Longrightarrow> insort_key f k xs = xs @ [k]"
  by (induction xs) auto

lemma sort_descending: "sorted_wrt (<) (map fst rs) \<Longrightarrow> sort_key (\<lambda>r. - int (fst r)) rs = rev rs"
  by (induction rs) (auto simp: insort_last)


subsection \<open>Searching finds the occurrences\<close>

lemma fold_case_prefix:
  "fold_case_len lower qs ws =
     (if prefix_match (same_char lower False) qs ws then Some (length (concat (take (length qs) ws))) else None)"
  by (induction lower qs ws rule: fold_case_len.induct) (auto simp: same_char_def)

lemma starts_with_prefix:
  "list_all utf8_char qs \<Longrightarrow> list_all utf8_char ws \<Longrightarrow>
   starts_with (concat qs) (concat ws) \<longleftrightarrow> prefix_match (same_char lower True) qs ws"
proof (induction "same_char lower True" qs ws rule: prefix_match.induct)
  case (2 n ns)
  then show ?case by (auto simp: starts_with_def utf8_char_def)
next
  case (3 n ns h hs)
  then show ?case by (auto simp: starts_with_char same_char_def)
qed (simp add: starts_with_def)

lemma exact_prefix_length:
  "prefix_match (same_char lower True) qs ws \<Longrightarrow> length (concat (take (length qs) ws)) = length (concat qs)"
  by (induction "same_char lower True" qs ws rule: prefix_match.induct) (auto simp: same_char_def)

lemma match_len_at_chars:
  assumes "list_all utf8_char ws" and "well_formed q"
  shows "match_len_at lower (concat ws) q cs =
    (if prefix_match (same_char lower cs) (utf8_chars q) ws
     then Some (length (concat (take (length (utf8_chars q)) ws))) else None)"
proof (cases cs)
  case True
  have "list_all utf8_char (utf8_chars q)" using assms(2) by (simp add: well_formed_def)
  from starts_with_prefix [OF this assms(1), of lower] exact_prefix_length [of lower "utf8_chars q" ws] True
  show ?thesis by (simp add: match_len_at_def)
next
  case False
  with assms(1) show ?thesis by (simp add: match_len_at_def utf8_chars_concat fold_case_prefix)
qed

lemma scan_skip:
  "list_all utf8_char us \<Longrightarrow>
   scan_line lower q cs i l (char_indices b (us @ ws)) (b + length (concat us)) =
   scan_line lower q cs i l (char_indices (b + length (concat us)) ws) (b + length (concat us))"
proof (induction us arbitrary: b)
  case (Cons u us)
  then have "u \<noteq> []" by (simp add: utf8_char_def)
  then show ?case using Cons.IH [of "b + length u"] Cons.prems by (simp add: add.assoc)
qed simp

definition on_line :: "nat \<Rightarrow> nat \<times> nat \<Rightarrow> match_span" where
  "on_line i r = \<lparr>ms_line = i, ms_from = fst r, ms_to = snd r\<rparr>"

lemma scan_line_occurrences:
  assumes "well_formed q" and "q \<noteq> []"
  shows "list_all utf8_char ws \<Longrightarrow> blocked \<le> length pre \<Longrightarrow>
    scan_line lower q cs i (pre @ concat ws) (char_indices (length pre) ws) blocked =
    map (on_line i) (occurrences (same_char lower cs) (utf8_chars q) (length pre) ws)"
proof (induction "length ws" arbitrary: ws pre blocked rule: less_induct)
  case less
  show ?case
  proof (cases ws)
    case (Cons w us)
    let ?qs = "utf8_chars q"
    let ?n = "length (concat (take (length ?qs) ws))"
    have qs: "?qs \<noteq> []" using assms(2) hd_utf8_chars by blast
    have m: "match_len_at lower (drop (length pre) (pre @ concat ws)) q cs =
        (if prefix_match (same_char lower cs) ?qs ws then Some ?n else None)"
      using match_len_at_chars [OF less.prems(1) assms(1)] by simp
    show ?thesis
    proof (cases "prefix_match (same_char lower cs) ?qs ws")
      case True
      let ?pre = "pre @ concat (take (length ?qs) ws)"
      let ?rest = "drop (length ?qs) ws"
      have split: "take (length ?qs) ws @ ?rest = ws" by simp
      have ok: "list_all utf8_char (take (length ?qs) ws)" "list_all utf8_char ?rest"
        using less.prems(1) by (simp_all add: list_all_drop list_all_take)
      have w: "take (length ?qs) ws = w # take (length ?qs - 1) us" using Cons qs by (cases ?qs) auto
      have "w \<noteq> []" using less.prems(1) Cons by (simp add: utf8_char_def)
      have skip: "scan_line lower q cs i (pre @ concat ws) (char_indices (length pre + length w) us) (length pre + ?n) =
          scan_line lower q cs i (pre @ concat ws) (char_indices (length pre + ?n) ?rest) (length pre + ?n)"
      proof -
        have us: "us = take (length ?qs - 1) us @ ?rest" using Cons w split by simp
        have n: "?n = length w + length (concat (take (length ?qs - 1) us))" by (simp add: w)
        have "list_all utf8_char (take (length ?qs - 1) us)" using ok(1) by (simp add: w)
        from scan_skip [OF this, of lower q cs i "pre @ concat ws" "length pre + length w" ?rest]
        show ?thesis using us n by (simp add: add.assoc)
      qed
      have "length ?rest < length ws" using Cons qs by (cases ?qs) auto
      from less.hyps [OF this ok(2), of "length pre + ?n" ?pre]
      have IH: "scan_line lower q cs i (pre @ concat ws) (char_indices (length pre + ?n) ?rest) (length pre + ?n) =
          map (on_line i) (occurrences (same_char lower cs) ?qs (length pre + ?n) ?rest)"
        by (simp flip: concat_append)
      show ?thesis
        using m True less.prems(2) qs skip IH by (simp add: Cons on_line_def Let_def)
    next
      case False
      have "length us < length ws" "list_all utf8_char us" using Cons less.prems(1) by simp_all
      from less.hyps [OF this, of blocked "pre @ w"]
      show ?thesis using m False less.prems(2) by (simp add: Cons Let_def)
    qed
  qed simp
qed

lemma prefix_match_break:
  "\<forall>v\<in>set qs. \<not> eq x v \<Longrightarrow> prefix_match eq qs (us @ x # ws) = prefix_match eq qs us"
  by (induction eq qs us rule: prefix_match.induct) auto

lemma occurrences_match:
  assumes "qs \<noteq> []" and "prefix_match eq qs ws"
  shows "occurrences eq qs b ws =
    (b, b + length (concat (take (length qs) ws))) #
      occurrences eq qs (b + length (concat (take (length qs) ws))) (drop (length qs) ws)"
  using assms by (cases ws; cases qs) (simp_all add: Let_def)

lemma occurrences_break:
  assumes "\<forall>v\<in>set qs. \<not> eq x v" and "qs \<noteq> []"
  shows "occurrences eq qs b (us @ x # ws) =
    occurrences eq qs b us @ occurrences eq qs (b + length (concat us) + length x) ws"
proof (induction "length us" arbitrary: us b rule: less_induct)
  case less
  have break: "prefix_match eq qs (us @ x # ws) = prefix_match eq qs us" for us ws
    using assms(1) by (rule prefix_match_break)
  show ?case
  proof (cases us)
    case Nil
    then show ?thesis using break [of "[]" ws] assms(2) by (cases qs) auto
  next
    case (Cons u us')
    show ?thesis
    proof (cases "prefix_match eq qs us")
      case True
      then have shorter: "length qs \<le> length us" by (rule prefix_match_length)
      have len: "length (concat us) = length (concat (take (length qs) us)) + length (concat (drop (length qs) us))"
        by (metis append_take_drop_id concat_append length_append)
      have "length (drop (length qs) us) < length us" using assms(2) Cons by (cases qs) auto
      then show ?thesis
        using less [of "drop (length qs) us" "b + length (concat (take (length qs) us))"]
          occurrences_match [OF assms(2) True, of b] occurrences_match [OF assms(2), of eq "us @ x # ws" b] True break [of us ws] shorter
        by (simp add: len add.assoc)
    next
      case False
      with less [of us' "b + length u"] Cons break [of us ws] show ?thesis by (simp add: add.assoc)
    qed
  qed
qed

lemma occurrences_shift:
  "occurrences eq qs (B + b) ws = map (\<lambda>r. (B + fst r, B + snd r)) (occurrences eq qs b ws)"
  by (induction eq qs b ws rule: occurrences.induct) (auto simp: Let_def add.assoc)

lemma newline_char: "utf8_char w \<Longrightarrow> newline \<in> set w \<Longrightarrow> w = [newline]"
proof -
  assume w: "utf8_char w" "newline \<in> set w"
  have "\<not> is_cont newline" by (simp add: is_cont_def newline_def byte_def)
  with w have "hd w = newline" by (cases w) (auto simp: utf8_char_def list_all_iff)
  with w(1) have "length w = 1" by (simp add: utf8_char_def char_len_def newline_def byte_def)
  with \<open>hd w = newline\<close> show "w = [newline]" by (cases w) auto
qed

lemma carriage_last: "utf8_char w \<Longrightarrow> last w = carriage \<Longrightarrow> w = [carriage]"
proof -
  assume w: "utf8_char w" "last w = carriage"
  have "\<not> is_cont carriage" by (simp add: is_cont_def carriage_def byte_def)
  moreover have "is_cont (last (tl w))" if "tl w \<noteq> []"
    using w(1) last_in_set [OF that] by (simp add: utf8_char_def list_all_iff)
  ultimately have "tl w = []"
    using w(2) by (cases w) (auto split: if_splits)
  with w show "w = [carriage]" by (cases w) (auto simp: utf8_char_def)
qed

lemma strip_cr_chars:
  assumes "list_all utf8_char l"
  obtains l' where "list_all utf8_char l'" "strip_cr (concat l) = concat l'" "l = l' \<or> l = l' @ [[carriage]]"
proof (cases "concat l \<noteq> [] \<and> last (concat l) = carriage")
  case False
  then show ?thesis using that [of l] assms by (auto simp: strip_cr_def)
next
  case True
  then obtain m w where l: "l = m @ [w]" by (cases l rule: rev_cases) auto
  with assms have w: "utf8_char w" by simp
  with True l have "last w = carriage" by (simp add: utf8_char_def)
  with w have "w = [carriage]" by (rule carriage_last)
  with l True assms show ?thesis using that [of m] by (simp add: strip_cr_def butlast_append)
qed

lemma line_starts_cons:
  assumes "newline \<notin> set a"
  shows "line_start_offsets (a @ newline # r) = 0 # map ((+) (length a + 1)) (line_start_offsets r)"
proof -
  have shift: "map (\<lambda>(i, c). i + 1) (filter (\<lambda>(i, c). c = newline) (enumerate (n + m) r)) =
      map ((+) n) (map (\<lambda>(i, c). i + 1) (filter (\<lambda>(i, c). c = newline) (enumerate m r)))" for n m
    by (induction r arbitrary: m) (auto simp flip: add_Suc_right)
  have none: "filter (\<lambda>(i, c). c = newline) (enumerate n a) = []" for n
    using assms by (induction a arbitrary: n) auto
  show ?thesis
    using none [of 0] shift [of "Suc (length a)" 0]
    by (simp add: line_start_offsets_def enumerate_append_eq)
qed


lemma lines_no_newline:
  assumes "newline \<notin> set s"
  shows "lines s = (if s = [] then [] else [s])"
proof -
  have none: "dropWhile (\<lambda>c. c \<noteq> newline) s = []" using assms by (auto simp: dropWhile_eq_Nil_conv)
  show ?thesis unfolding lines.simps [of s] none by simp
qed

definition keeps_breaks :: "(str \<Rightarrow> str) \<Rightarrow> bool" where
  "keeps_breaks lower \<longleftrightarrow>
     (\<forall>w. (lower w = lower [newline] \<longrightarrow> w = [newline]) \<and> (lower w = lower [carriage] \<longrightarrow> w = [carriage]))"

definition one_line :: "str \<Rightarrow> bool" where
  "one_line s \<longleftrightarrow> newline \<notin> set s \<and> carriage \<notin> set s"

lemma no_break_matches:
  assumes "keeps_breaks lower" and "one_line q"
  shows "\<forall>v\<in>set (utf8_chars q). \<not> same_char lower cs [newline] v"
    and "\<forall>v\<in>set (utf8_chars q). \<not> same_char lower cs [carriage] v"
proof -
  have "set v \<subseteq> set q" if "v \<in> set (utf8_chars q)" for v
    using that concat_utf8_chars [of q] by (metis UN_upper set_concat)
  then show "\<forall>v\<in>set (utf8_chars q). \<not> same_char lower cs [newline] v"
    and "\<forall>v\<in>set (utf8_chars q). \<not> same_char lower cs [carriage] v"
    using assms unfolding keeps_breaks_def one_line_def same_char_def by (metis list.set_intros(1) subsetD)+
qed

text \<open>The matches of one line as ranges of the whole text.\<close>

lemma abs_on_line:
  "i < length starts \<Longrightarrow> map (abs_range starts) (map (on_line i) (occurrences eq qs 0 ws)) =
    map Some (occurrences eq qs (starts ! i) ws)"
  using occurrences_shift [of eq qs "starts ! i" 0 ws] by (simp add: abs_range_def on_line_def)

abbreviation line_matches :: "(str \<Rightarrow> str) \<Rightarrow> str \<Rightarrow> bool \<Rightarrow> nat \<times> str \<Rightarrow> match_span list" where
  "line_matches lower q cs \<equiv> \<lambda>(i, l). scan_line lower q cs i l (char_indices 0 (utf8_chars l)) 0"

lemma line_matches_occurrences:
  assumes "well_formed q" and "q \<noteq> []" and "list_all utf8_char ws"
  shows "line_matches lower q cs (i, concat ws) = map (on_line i) (occurrences (same_char lower cs) (utf8_chars q) 0 ws)"
  using scan_line_occurrences [OF assms(1,2,3), of 0 "[]"] by (simp add: utf8_chars_concat [OF assms(3)])

lemma text_occurrences:
  assumes q: "well_formed q" "q \<noteq> []"
    and nl: "\<forall>v\<in>set (utf8_chars q). \<not> same_char lower cs [newline] v"
    and cr: "\<forall>v\<in>set (utf8_chars q). \<not> same_char lower cs [carriage] v"
  shows "list_all utf8_char ws \<Longrightarrow>
    map (abs_range (sl @ map ((+) B) (line_start_offsets (concat ws))))
      (concat (map (line_matches lower q cs) (enumerate (length sl) (lines (concat ws))))) =
    map Some (occurrences (same_char lower cs) (utf8_chars q) B ws)"
proof (induction "length ws" arbitrary: ws sl B rule: less_induct)
  case less
  let ?eq = "same_char lower cs"
  let ?qs = "utf8_chars q"
  have qs: "?qs \<noteq> []" using q(2) hd_utf8_chars by blast
  define l where "l = takeWhile (\<lambda>w. w \<noteq> [newline]) ws"
  have lok: "list_all utf8_char l" using less.prems by (auto simp: l_def list_all_iff dest: set_takeWhileD)
  have "newline \<notin> set w" if "w \<in> set l" for w
    using set_takeWhileD [OF that [unfolded l_def]] lok that newline_char [of w] by (auto simp: list_all_iff)
  then have lnl: "newline \<notin> set (concat l)" by auto
  obtain l' where l': "list_all utf8_char l'" "strip_cr (concat l) = concat l'" "l = l' \<or> l = l' @ [[carriage]]"
    using strip_cr_chars [OF lok] by blast
  have same: "occurrences ?eq ?qs b l = occurrences ?eq ?qs b l'" for b
    using l'(3) occurrences_break [where eq = ?eq and qs = ?qs and x = "[carriage]" and us = l' and ws = "[]"] cr qs by auto
  show ?case
  proof (cases "dropWhile (\<lambda>w. w \<noteq> [newline]) ws")
    case Nil
    then have ws: "l = ws" by (simp add: l_def takeWhile_eq_all_conv dropWhile_eq_Nil_conv)
    have "newline \<notin> set (concat ws)" using lnl unfolding ws .
    then have ln: "lines (concat ws) = (if concat ws = [] then [] else [concat ws])"
      by (rule lines_no_newline)
    let ?starts = "sl @ map ((+) B) (line_start_offsets (concat ws))"
    have "length sl < length ?starts" "?starts ! length sl = B" by (simp_all add: line_start_offsets_def nth_append)
    then have one: "map (abs_range ?starts) (line_matches lower q cs (length sl, concat ws)) = map Some (occurrences ?eq ?qs B ws)"
      using abs_on_line [of "length sl" ?starts ?eq ?qs ws]
      by (simp only: line_matches_occurrences [OF q less.prems])
    show ?thesis
    proof (cases ws)
      case (Cons w us)
      then have "concat ws \<noteq> []" using less.prems by (simp add: utf8_char_def)
      with ln have "lines (concat ws) = [concat ws]" by presburger
      with one show ?thesis by simp
    qed simp
  next
    case (Cons x rest)
    then have "x = [newline]" using hd_dropWhile [of "\<lambda>w. w \<noteq> [newline]" ws] by simp
    then have ws: "ws = l @ [newline] # rest"
      using Cons takeWhile_dropWhile_id [of "\<lambda>w. w \<noteq> [newline]" ws] by (simp add: l_def)
    have rok: "list_all utf8_char rest" using less.prems by (simp add: ws)
    have smaller: "length rest < length ws" by (simp add: ws)
    let ?B = "B + length (concat l) + 1"
    have cat: "concat ws = concat l @ newline # concat rest" by (simp add: ws)
    let ?starts = "sl @ map ((+) B) (line_start_offsets (concat ws))"
    have starts: "?starts = (sl @ [B]) @ map ((+) ?B) (line_start_offsets (concat rest))"
      unfolding cat line_starts_cons [OF lnl] by (simp add: comp_def add.assoc)
    have ln: "lines (concat ws) = concat l' # lines (concat rest)"
      unfolding cat using lines_Cons_line [OF lnl] l'(2) by simp
    have first: "map (abs_range ?starts) (line_matches lower q cs (length sl, concat l')) =
        map Some (occurrences ?eq ?qs B l)"
      using abs_on_line [of "length sl" ?starts ?eq ?qs l'] line_matches_occurrences [OF q l'(1), of lower cs "length sl"]
      unfolding starts by (simp add: nth_append same)
    have others: "map (abs_range ?starts) (concat (map (line_matches lower q cs) (enumerate (length (sl @ [B])) (lines (concat rest))))) =
        map Some (occurrences ?eq ?qs ?B rest)"
      unfolding starts by (rule less.hyps [OF smaller rok])
    have "occurrences ?eq ?qs B ws = occurrences ?eq ?qs B l @ occurrences ?eq ?qs ?B rest"
      by (simp add: ws occurrences_break [where eq = ?eq and qs = ?qs and x = "[newline]"] nl qs)
    with first others show ?thesis by (simp add: ln)
  qed
qed

lemma matches_are_occurrences:
  assumes "well_formed q" and "q \<noteq> []" and "well_formed source" and "keeps_breaks lower" and "one_line q"
  shows "map (abs_range (line_start_offsets source)) (find_matches lower source q cs) =
    map Some (occurrences (same_char lower cs) (utf8_chars q) 0 (utf8_chars source))"
  using text_occurrences [OF assms(1,2) no_break_matches [OF assms(4,5)], of "utf8_chars source" "[]" 0 cs] assms(2,3)
  by (simp add: find_matches_def well_formed_def map_idI)


subsection \<open>Replacing from right to left\<close>

lemma boundary_start: "well_formed new \<Longrightarrow> new = [] \<or> \<not> is_cont (hd new)"
  using hd_concat_chars [of "utf8_chars new"] by (simp add: well_formed_def)

lemma is_char_boundary_append: "r = [] \<or> \<not> is_cont (hd r) \<Longrightarrow> is_char_boundary (length p) (p @ r)"
  by (cases r) (auto simp: is_char_boundary_def nth_append)

lemma replace_range_middle:
  assumes "m @ r = [] \<or> \<not> is_cont (hd (m @ r))" and "r = [] \<or> \<not> is_cont (hd r)"
  shows "replace_step new (length p, length p + length m) (Some (p @ m @ r)) = Some (p @ new @ r)"
  using is_char_boundary_append [OF assms(1), of p] is_char_boundary_append [OF assms(2), of "p @ m"]
  by (simp add: replace_step_def replace_range_def)

lemma replace_right_to_left:
  assumes new: "new = [] \<or> \<not> is_cont (hd new)"
  shows "list_all utf8_char ws \<Longrightarrow>
    foldr (replace_step new) (occurrences eq qs (length pre) ws) (Some (pre @ concat ws)) =
    Some (pre @ replace_ref eq qs new ws)"
proof (induction "length ws" arbitrary: ws pre rule: less_induct)
  case less
  show ?case
  proof (cases ws)
    case (Cons w us)
    show ?thesis
    proof (cases "qs \<noteq> [] \<and> prefix_match eq qs ws")
      case True
      let ?m = "concat (take (length qs) ws)"
      let ?rest = "drop (length qs) ws"
      let ?r = "replace_ref eq qs new ?rest"
      have rok: "list_all utf8_char ?rest" using less.prems by (rule list_all_drop)
      have "length ?rest < length ws" using True Cons by (cases qs) auto
      from less.hyps [OF this rok, of "pre @ ?m"]
      have IH: "foldr (replace_step new) (occurrences eq qs (length pre + length ?m) ?rest) (Some (pre @ concat ws)) =
          Some (pre @ ?m @ ?r)"
        by (simp flip: concat_append)
      have "?r = [] \<or> \<not> is_cont (hd ?r)" by (rule replace_ref_start [OF rok new])
      moreover have "?m @ ?r = [] \<or> \<not> is_cont (hd (?m @ ?r))"
        using True Cons less.prems by (cases qs) (auto dest: utf8_char_not_cont)
      ultimately have "replace_step new (length pre, length pre + length ?m) (Some (pre @ ?m @ ?r)) = Some (pre @ new @ ?r)"
        using replace_range_middle by blast
      with IH True show ?thesis
        using occurrences_match [of qs eq ws "length pre"] by (simp add: Cons)
    next
      case False
      have "length us < length ws" "list_all utf8_char us" using Cons less.prems by simp_all
      from less.hyps [OF this, of "pre @ w"] False show ?thesis by (auto simp: Cons Let_def)
    qed
  qed simp
qed

lemma map_filter_some: "map f xs = map Some ys \<Longrightarrow> List.map_filter f xs = ys"
  by (induction xs arbitrary: ys) (auto simp: List.map_filter_simps Cons_eq_map_conv)

text \<open>C3: Replacing all matches gives the text with every occurrence replaced from left to right,
  character by character, though the code searches line by line and replaces from right to left by
  byte offsets; on well-formed text it never panics.\<close>

theorem replace_all_is_reference:
  assumes "well_formed source" and "well_formed query" and "well_formed new" and "one_line query" and "keeps_breaks lower"
  shows "apply_replacement source (find_matches lower source query cs) current new RS_All =
    Some (replace_ref (same_char lower cs) (utf8_chars query) new (utf8_chars source))"
proof (cases "query = []")
  case True
  have "replace_ref eq [] new ws = concat ws" for eq ws by (induction ws) auto
  with True show ?thesis by (simp add: find_matches_def apply_replacement_def)
next
  case False
  let ?occ = "occurrences (same_char lower cs) (utf8_chars query) 0 (utf8_chars source)"
  let ?ms = "find_matches lower source query cs"
  have src: "list_all utf8_char (utf8_chars source)" using assms(1) by (simp add: well_formed_def)
  have ms: "map (abs_range (line_start_offsets source)) ?ms = map Some ?occ"
    by (rule matches_are_occurrences [OF assms(2) False assms(1,5,4)])
  have replaced: "foldr (replace_step new) ?occ (Some source) =
      Some (replace_ref (same_char lower cs) (utf8_chars query) new (utf8_chars source))"
    using replace_right_to_left [OF boundary_start [OF assms(3)] src, of "same_char lower cs" "utf8_chars query" "[]"] by simp
  show ?thesis
  proof (cases "?ms = []")
    case True
    with ms replaced show ?thesis by (simp add: apply_replacement_def)
  next
    case False
    then show ?thesis
      using replaced map_filter_some [OF ms] sort_descending [OF occurrences_sorted [OF src]]
      by (simp add: apply_replacement_def foldr_conv_fold)
  qed
qed

subsection \<open>The cursor\<close>

definition cursor_ok :: "find_replace_state \<Rightarrow> bool" where
  "cursor_ok s \<longleftrightarrow> fr_matches s = [] \<or> fr_current s < length (fr_matches s)"

text \<open>What happens to the search: the shortcut and the escape key, the panel, a new computation, the
  keys of the fields, the navigation, and the end of its editor.\<close>

datatype find_event =
    FE_Keyboard bool bool "nat set"
  | FE_Lifecycle "nat \<Rightarrow> bool" "nat \<times> nat \<times> nat"
  | FE_Compute bool "window list" "editor_peer list"
  | FE_Keys bool "key_event list"
  | FE_Navigate bool bool bool "find_button_kind list"
  | FE_EditorsGone "nat list" "editor_peer list"

type_synonym find_world = "(nat option \<times> find_replace_state) \<times> find_seen"

definition find_step :: "(str \<Rightarrow> str) \<Rightarrow> find_event \<Rightarrow> find_world \<Rightarrow> find_world" where
  "find_step lower ev w =
     (let ((focus, s), seen) = w in
      case ev of
        FE_Keyboard pressed escape editors \<Rightarrow> (find_keyboard_system pressed escape editors (focus, s), seen)
      | FE_Lifecycle exists made \<Rightarrow> ((focus, fst (manage_find_panel_lifecycle_system exists made s)), seen)
      | FE_Compute changed ws ps \<Rightarrow>
          (let (s1, seen1) = compute_find_match_spans_system lower changed ws ps (s, seen) in ((focus, s1), seen1))
      | FE_Keys held evs \<Rightarrow> (snd (find_field_input_system held (evs, focus, s)), seen)
      | FE_Navigate shift f3 enter presses \<Rightarrow> ((focus, find_navigate_system shift f3 enter presses focus s), seen)
      | FE_EditorsGone removed ps \<Rightarrow>
          (let (ps1, focus1, tgt, opened) =
             cleanup_strategy_editor_node_on_root_despawn removed (ps, focus, fr_target_editor s, fr_is_open s) in
           ((focus1, s\<lparr>fr_target_editor := tgt, fr_is_open := opened\<rparr>), seen)))"

lemma find_key_matches [simp]:
  "fr_matches (snd (find_key held ev t)) = fr_matches (snd t)" "fr_current (snd (find_key held ev t)) = fr_current (snd t)"
  by (cases t; auto simp: find_key_def edit_find_field_def split: key.split find_focused_field.split)+

lemma find_keys_matches [simp]:
  "fr_matches (snd (fold (find_key held) evs t)) = fr_matches (snd t)"
  "fr_current (snd (fold (find_key held) evs t)) = fr_current (snd t)"
  by (induction evs arbitrary: t) simp_all

lemma clamp_in_range: "ms \<noteq> [] \<Longrightarrow> min c (length ms - Suc 0) < length ms"
  by (cases ms) auto

lemma compute_cursor_ok:
  "cursor_ok s \<Longrightarrow> cursor_ok (fst (compute_find_match_spans_system lower changed ws ps (s, seen)))"
  by (auto simp: compute_find_match_spans_system_def cursor_ok_def find_default_def Let_def clamp_in_range
      split: option.split prod.split)

lemma navigate_cursor_ok: "cursor_ok s \<Longrightarrow> cursor_ok (find_navigate_system shift f3 enter presses focus s)"
  by (auto simp: find_navigate_system_def cursor_ok_def Let_def)

lemma find_step_cursor: "cursor_ok (snd (fst w)) \<Longrightarrow> cursor_ok (snd (fst (find_step lower ev w)))"
proof (cases ev)
  case (FE_Compute changed ws ps)
  assume "cursor_ok (snd (fst w))"
  with FE_Compute show ?thesis
    using compute_cursor_ok [of "snd (fst w)" lower changed ws ps "snd w"]
    by (auto simp: find_step_def Let_def split: prod.splits)
next
  case (FE_Navigate shift f3 enter presses)
  assume "cursor_ok (snd (fst w))"
  with FE_Navigate show ?thesis
    using navigate_cursor_ok [of "snd (fst w)"] by (auto simp: find_step_def split: prod.splits)
next
  case (FE_Keys held evs)
  assume "cursor_ok (snd (fst w))"
  with FE_Keys show ?thesis
    by (auto simp: find_step_def find_field_input_system_def cursor_ok_def split: prod.splits)
qed (auto simp: find_step_def cursor_ok_def find_keyboard_system_def manage_find_panel_lifecycle_system_def
      cleanup_strategy_editor_node_on_root_despawn_def Let_def split: prod.splits option.splits)

interpretation cursor: invariant_system "find_step lower" "\<lambda>w. cursor_ok (snd (fst w))"
  by unfold_locales (rule find_step_cursor)

text \<open>Whatever is typed, searched, navigated, edited or closed, the current match is one of the
  matches: neither the count nor a replacement of the current match ever refers to a match that is
  not there.\<close>

theorem current_match_exists:
  "let s = snd (fst (fold (find_step lower) es ((None, find_default), find_seen_default))) in
   fr_matches s = [] \<or> fr_current s < length (fr_matches s)"
  using cursor.run_inv [of "((None, find_default), find_seen_default)" lower es]
  by (simp add: cursor_ok_def find_default_def)

definition next_match :: "find_replace_state \<Rightarrow> find_replace_state" where
  "next_match s = find_navigate_system False False False [FB_Next] None s"

definition prev_match :: "find_replace_state \<Rightarrow> find_replace_state" where
  "prev_match s = find_navigate_system False False False [FB_Prev] None s"

lemma next_match_step:
  "fr_is_open s \<Longrightarrow> fr_matches s \<noteq> [] \<Longrightarrow> next_match s = s\<lparr>fr_current := (fr_current s + 1) mod length (fr_matches s)\<rparr>"
  by (simp add: next_match_def find_navigate_system_def Let_def)

lemma mod_sum_small: "a < n \<Longrightarrow> b < n \<Longrightarrow> (a + b) mod n = (if a + b < n then a + b else a + b - n)" for n :: nat
  by (simp add: mod_if [of "a + b"])

lemma next_matches:
  assumes "fr_is_open s" and "fr_matches s \<noteq> []" and "cursor_ok s"
  shows "(next_match ^^ k) s = s\<lparr>fr_current := (fr_current s + k) mod length (fr_matches s)\<rparr>"
proof (induction k)
  case 0
  with assms show ?case by (simp add: cursor_ok_def)
next
  case (Suc k)
  then show ?case using assms by (simp add: next_match_step mod_Suc_eq)
qed

text \<open>The next button visits every match once before it comes back to the first, and the previous
  button takes back one press of the next.\<close>

theorem next_visits_every_match:
  assumes "fr_is_open s" and "fr_matches s \<noteq> []" and "fr_current s < length (fr_matches s)"
  shows "let n = length (fr_matches s) in
    (next_match ^^ n) s = s \<and>
    bij_betw (\<lambda>k. fr_current ((next_match ^^ k) s)) {0..<n} {0..<n} \<and>
    prev_match (next_match s) = s"
proof -
  let ?n = "length (fr_matches s)"
  let ?c = "fr_current s"
  have c: "cursor_ok s" using assms(3) by (simp add: cursor_ok_def)
  have steps: "fr_current ((next_match ^^ k) s) = (?c + k) mod ?n" for k
    by (simp add: next_matches [OF assms(1,2) c])
  have inj: "inj_on (\<lambda>k. (?c + k) mod ?n) {0..<?n}"
  proof (rule inj_onI)
    fix x y
    assume x: "x \<in> {0..<?n}" and y: "y \<in> {0..<?n}" and "(?c + x) mod ?n = (?c + y) mod ?n"
    with assms(3) show "x = y" by (auto simp: mod_sum_small split: if_splits)
  qed
  moreover have "(\<lambda>k. (?c + k) mod ?n) ` {0..<?n} = {0..<?n}"
    by (rule card_subset_eq) (use assms(2) inj in \<open>auto simp: card_image\<close>)
  ultimately have "bij_betw (\<lambda>k. (?c + k) mod ?n) {0..<?n} {0..<?n}" by (simp add: bij_betw_def)
  moreover have "prev_match (next_match s) = s"
  proof -
    have "((?c + 1) mod ?n + ?n - 1) mod ?n = ?c"
      using assms(3) by (cases "?c + 1 = ?n") auto
    then show ?thesis
      using assms(1,2) by (simp add: next_match_step [OF assms(1,2)] prev_match_def find_navigate_system_def Let_def)
  qed
  ultimately show ?thesis using assms(3) by (simp add: Let_def steps next_matches [OF assms(1,2) c])
qed

text \<open>The space key has a key value of its own, which the drain of the fields passes over.\<close>

definition no_blank_text :: "key_event \<Rightarrow> bool" where
  "no_blank_text ev \<longleftrightarrow> (case ke_key ev of K_Character w \<Rightarrow> CHR 0x20 \<notin> set w | _ \<Rightarrow> True)"

lemma set_utf8_chars: "w \<in> set (utf8_chars s) \<Longrightarrow> set w \<subseteq> set s"
  by (metis UN_upper concat_utf8_chars set_concat)

lemma pop_char_subset: "set (pop_char b) \<subseteq> set b"
  by (auto simp: pop_char_def dest!: in_set_dropD set_dropWhileD)

lemma edit_query:
  "fr_query (edit_find_field f s) = (if fr_focused_field s = FF_Query then f (fr_query s) else fr_query s)"
  by (cases "fr_focused_field s") (simp_all add: edit_find_field_def)

lemma find_keys_blank:
  "list_all no_blank_text evs \<Longrightarrow> CHR 0x20 \<notin> set (fr_query (snd t)) \<Longrightarrow>
   CHR 0x20 \<notin> set (fr_query (snd (fold (find_key held) evs t)))"
proof (induction evs arbitrary: t)
  case (Cons ev evs)
  have "CHR 0x20 \<notin> set (fr_query (snd (find_key held ev t)))"
  proof (cases t)
    case (Pair focus s)
    have query: "CHR 0x20 \<notin> set (fr_query s)" using Cons.prems(2) by (simp add: Pair)
    show ?thesis
    proof (cases "ke_key ev")
      case (K_Character w)
      then have "CHR 0x20 \<notin> set w" using Cons.prems(1) by (simp add: no_blank_text_def)
      then have "CHR 0x20 \<notin> set (concat (filter P (utf8_chars w)))" for P using set_utf8_chars [of _ w] by auto
      with K_Character query show ?thesis by (simp add: Pair find_key_def edit_query)
    next
      case K_Backspace
      with query show ?thesis using pop_char_subset [of "fr_query s"] by (auto simp: Pair find_key_def edit_query)
    qed (use query in \<open>simp_all add: Pair find_key_def edit_query\<close>)
  qed
  with Cons show ?case by simp
qed simp

text \<open>No sequence of keys puts a blank into the query, however often the space key is pressed, as
  long as no key delivers a text that contains one: a phrase of two words cannot be searched for.\<close>

theorem phrase_cannot_be_typed:
  assumes "list_all no_blank_text evs" and "CHR 0x20 \<notin> set (fr_query s)" and "one_line phrase" and "CHR 0x20 \<in> set phrase"
  shows "fr_query (snd (snd (find_field_input_system held (evs, focus, s)))) \<noteq> phrase"
  using find_keys_blank [OF assms(1), of "(focus, s)" held] assms(2,4)
  by (auto simp: find_field_input_system_def)

text \<open>When the editor that is searched goes away, its matches stay: opened again without an editor,
  the panel shows their number and the buttons walk through them, though nothing is searched.\<close>

theorem matches_outlive_their_editor:
  assumes "fr_target_editor s = Some e" and "e \<in> ep_entity ` {p \<in> set ps. ep_root p \<in> set removed}"
    and "fr_is_open s" and "fr_matches s \<noteq> []"
  shows "let w = fold (find_step lower)
           [FE_EditorsGone removed ps, FE_Keyboard True False {}, FE_Compute changed ws ps', FE_Navigate False False False [FB_Next]]
           ((None, s), seen);
         s' = snd (fst w) in
    fr_is_open s' \<and> fr_target_editor s' = None \<and> fr_matches s' = fr_matches s \<and>
    find_count_text s' = show_nat ((fr_current s + 1) mod length (fr_matches s) + 1) @ ''/'' @ show_nat (length (fr_matches s))"
  using assms
  by (auto simp: find_step_def cleanup_strategy_editor_node_on_root_despawn_def find_keyboard_system_def
      compute_find_match_spans_system_def find_navigate_system_def find_count_text_def Let_def)

subsection \<open>Examples\<close>

text \<open>The matches of an earlier text are byte ranges of that text: replacing one of them in a text that
  changed since panics when it cuts a character.\<close>

lemma stale_match_panics:
  "apply_replacement (utf8 [0xE3, 0x81, 0x82]) (find_matches (\<lambda>w. w) ''ab'' ''b'' True) 0 ''x'' RS_Current = None"
  unfolding utf8_def by code_simp

lemma ascii_well_formed: "\<forall>c\<in>set s. byte c < 0x80 \<Longrightarrow> well_formed s"
proof -
  assume a: "\<forall>c\<in>set s. byte c < 0x80"
  then have "list_all utf8_char (map (\<lambda>c. [c]) s)" by (auto simp: list_all_iff utf8_char_def char_len_def)
  moreover from this have "utf8_chars (concat (map (\<lambda>c. [c]) s)) = map (\<lambda>c. [c]) s" by (rule utf8_chars_concat)
  ultimately show ?thesis by (simp add: well_formed_def)
qed

lemma replace_all_is_reference_witness:
  "apply_replacement ''xaxa'' (find_matches (\<lambda>w. w) ''xaxa'' ''a'' True) 0 ''bb'' RS_All = Some ''xbbxbb''"
proof -
  have wf: "well_formed ''xaxa''" "well_formed ''a''" "well_formed ''bb''"
    by (simp_all add: ascii_well_formed byte_def)
  have "one_line ''a''" "keeps_breaks (\<lambda>w. w)" by (simp_all add: one_line_def keeps_breaks_def newline_def carriage_def)
  from replace_all_is_reference [OF wf this, of True 0] show ?thesis
    by (simp add: same_char_def is_cont_def byte_def)
qed

definition sample_find :: find_replace_state where
  "sample_find =
     find_default\<lparr>fr_query := ''a'', fr_is_open := True, fr_target_editor := Some 5, fr_current := 1,
       fr_matches := [on_line 0 (1, 2), on_line 0 (4, 5), on_line 3 (0, 1)], fr_focused_field := FF_Query\<rparr>"

lemma sample_find_facts:
  "fr_is_open sample_find" "fr_matches sample_find \<noteq> []" "length (fr_matches sample_find) = 3"
  "fr_current sample_find = 1" "fr_target_editor sample_find = Some 5"
  by (simp_all add: sample_find_def)

lemma next_visits_every_match_witness:
  "(next_match ^^ 3) sample_find = sample_find \<and>
   bij_betw (\<lambda>k. fr_current ((next_match ^^ k) sample_find)) {0..<3} {0..<3} \<and>
   prev_match (next_match sample_find) = sample_find"
proof -
  have "fr_current sample_find < length (fr_matches sample_find)" by (simp add: sample_find_facts)
  from next_visits_every_match [OF sample_find_facts(1,2) this]
  show ?thesis by (simp only: sample_find_facts Let_def)
qed

lemma phrase_cannot_be_typed_witness:
  "fr_query (snd (snd (find_field_input_system False
     ([\<lparr>ke_pressed = True, ke_key = K_Character ''x''\<rparr>, \<lparr>ke_pressed = True, ke_key = K_Space\<rparr>,
       \<lparr>ke_pressed = True, ke_key = K_Character ''y''\<rparr>], None, sample_find)))) \<noteq> ''ax y''"
  by (rule phrase_cannot_be_typed) (simp_all add: no_blank_text_def sample_find_def one_line_def newline_def carriage_def)

lemma matches_outlive_their_editor_witness:
  "let w = fold (find_step (\<lambda>w. w))
         [FE_EditorsGone [4] [\<lparr>ep_entity = 5, ep_root = 4, ep_region_key = ''k'', ep_text = [], ep_seed = None, ep_relang = False\<rparr>],
          FE_Keyboard True False {}, FE_Compute False [] [], FE_Navigate False False False [FB_Next]]
         ((None, sample_find), find_seen_default);
       s' = snd (fst w) in
   fr_is_open s' \<and> fr_target_editor s' = None \<and> fr_matches s' = fr_matches sample_find \<and>
   find_count_text s' = show_nat ((1 + 1) mod 3 + 1) @ ''/'' @ show_nat 3"
proof -
  let ?ps = "[\<lparr>ep_entity = 5, ep_root = 4, ep_region_key = ''k'', ep_text = [], ep_seed = None, ep_relang = False\<rparr>]"
  have "5 \<in> ep_entity ` {p \<in> set ?ps. ep_root p \<in> set [4]}" by (auto intro!: image_eqI)
  from matches_outlive_their_editor [OF sample_find_facts(5) this sample_find_facts(1,2),
      where lower = "\<lambda>w. w" and changed = False and ps' = "[]" and seen = find_seen_default]
  show ?thesis by (simp only: sample_find_facts)
qed

text \<open>Marking again leaves what others drew and draws the same marks.\<close>

lemma overlay_mark: "overlay_of dl c m = Some r \<Longrightarrow> ro_z r = -2"
  by (auto simp: overlay_of_def bind_eq_Some_conv split: prod.splits)

lemma merge_overlays_again:
  assumes "rects = update_find_overlay_rects_system True dl e s old"
  shows "merge_find_overlay_rects_system rects (merge_find_overlay_rects_system rects us) =
    merge_find_overlay_rects_system rects us"
proof -
  have "\<forall>r\<in>set rects. ro_z r = -2"
    using overlay_mark by (auto simp: assms update_find_overlay_rects_system_def List.map_filter_def)
  then have "filter (\<lambda>r. ro_z r \<noteq> -2) rects = []" by (auto simp: filter_empty_conv)
  then show ?thesis by (simp add: merge_find_overlay_rects_system_def)
qed

end
