(* ===== verification/Chart_View.thy ===== *)
theory Chart_View
  imports Trading F32
begin

text \<open>
  What a chart shows: the view of a chart with its mapping between prices, times and places, the
  automatic scale, and moving, zooming and resetting it with the mouse
  (\<open>src/ui/chart_viewstate.rs\<close>, \<open>src/ui/chart_interaction.rs\<close>). Every operation on coordinates is in
  binary32. A chart is a record of its components; \<open>ch_changed\<close> is the engine's change mark as the
  system that asks for the scale sees it. The bits of a float and the projection of the camera are
  parameters; times are 64 bit integers far from their limits.
\<close>

unbundle bit_operations_syntax

section \<open>Model\<close>

subsection \<open>The view\<close>

definition PRICE_GUTTER_WIDTH :: f32 where "PRICE_GUTTER_WIDTH = F64_Fin 50"
definition TIME_GUTTER_HEIGHT :: f32 where "TIME_GUTTER_HEIGHT = F64_Fin 24"
definition CHART_DRAW_SIZE :: vec2 where "CHART_DRAW_SIZE = (F64_Fin 310, F64_Fin 180)"
definition TITLE_BAR_HEIGHT :: f32 where "TITLE_BAR_HEIGHT = F64_Fin 40"
definition CHART_PANEL_SIZE :: vec2 where "CHART_PANEL_SIZE = (F64_Fin 360, F64_Fin 244)"
definition CHART_CHILD_LOCAL_X_REPLAY :: f32 where "CHART_CHILD_LOCAL_X_REPLAY = F64_Fin (- 25)"
definition LADDER_WIDTH :: f32 where "LADDER_WIDTH = F64_Fin 120"
definition LIVE_COMBINED_PANEL_SIZE :: vec2 where "LIVE_COMBINED_PANEL_SIZE = (F64_Fin 480, F64_Fin 244)"
definition LADDER_PANE_LOCAL_X :: f32 where "LADDER_PANE_LOCAL_X = F64_Fin 180"
definition CHART_CHILD_LOCAL_X_LIVE :: f32 where "CHART_CHILD_LOCAL_X_LIVE = F64_Fin (- 85)"
definition DEFAULT_CELL_WIDTH :: f32 where "DEFAULT_CELL_WIDTH = F64_Fin 6"
definition VOLUME_AREA_RATIO :: f32 where "VOLUME_AREA_RATIO = f32_of (2 / 10)"
definition RIGHT_EDGE_MARGIN :: f32 where "RIGHT_EDGE_MARGIN = F64_Fin 8"

datatype basis = Basis_Time u64

record chart_view_state =
  cv_bounds :: vec2
  cv_translation :: vec2
  cv_scaling :: f32
  cv_cell_width :: f32
  cv_cell_height :: f32
  cv_basis :: basis
  cv_latest_x :: int
  cv_base_price_y :: f32
  cv_decimals :: nat
  cv_tick_size :: f32
  cv_auto_scale :: bool
  cv_signature :: u64

definition chart_view_default :: chart_view_state where
  "chart_view_default =
     \<lparr>cv_bounds = CHART_DRAW_SIZE, cv_translation = (0, 0), cv_scaling = F64_Fin 1,
      cv_cell_width = DEFAULT_CELL_WIDTH, cv_cell_height = F64_Fin 1, cv_basis = Basis_Time 60000,
      cv_latest_x = 0, cv_base_price_y = 0, cv_decimals = 2, cv_tick_size = f32_of (1 / 100),
      cv_auto_scale = True, cv_signature = - 1\<rparr>"

definition timeframe_ms :: "chart_view_state \<Rightarrow> u64" where
  "timeframe_ms s = (case cv_basis s of Basis_Time ms \<Rightarrow> ms)"

definition timeframe_f32 :: "basis \<Rightarrow> f32" where
  "timeframe_f32 b = (case b of Basis_Time ms \<Rightarrow> f32_of_int (uint ms))"

definition volume_area_height :: "chart_view_state \<Rightarrow> f32" where
  "volume_area_height s = f32_mul (snd (cv_bounds s)) VOLUME_AREA_RATIO"

definition main_area_height :: "chart_view_state \<Rightarrow> f32" where
  "main_area_height s = f32_sub (snd (cv_bounds s)) (volume_area_height s)"

definition half :: "f32 \<Rightarrow> f32" where "half x = f32_div x (F64_Fin 2)"

definition main_area_y_bottom :: "chart_view_state \<Rightarrow> f32" where
  "main_area_y_bottom s = f32_add (half (f64_neg (snd (cv_bounds s)))) (volume_area_height s)"

definition main_area_center_y :: "chart_view_state \<Rightarrow> f32" where
  "main_area_center_y s = f32_add (main_area_y_bottom s) (half (main_area_height s))"

definition right_anchor_x :: "chart_view_state \<Rightarrow> f32" where
  "right_anchor_x s = f32_sub (half (fst (cv_bounds s))) RIGHT_EDGE_MARGIN"

definition body_half_width :: "chart_view_state \<Rightarrow> f32" where
  "body_half_width s =
     f32_max (f32_mul (f32_mul (cv_cell_width s) (cv_scaling s)) (f32_of (4 / 10))) (f32_of (1 / 2))"

definition reset_view :: "chart_view_state \<Rightarrow> chart_view_state" where
  "reset_view s =
     s\<lparr>cv_translation := (0, 0), cv_scaling := F64_Fin 1, cv_cell_width := DEFAULT_CELL_WIDTH,
       cv_auto_scale := True\<rparr>"

subsection \<open>Prices, times and places\<close>

definition price_to_y :: "chart_view_state \<Rightarrow> f32 \<Rightarrow> f32" where
  "price_to_y s price =
     (let ticks = f32_div (f32_sub price (cv_base_price_y s)) (cv_tick_size s) in
      f32_add (f32_add (main_area_center_y s) (f32_mul (f32_mul ticks (cv_cell_height s)) (cv_scaling s)))
        (snd (cv_translation s)))"

definition y_to_price :: "chart_view_state \<Rightarrow> f32 \<Rightarrow> f32" where
  "y_to_price s y =
     (let scaled = f32_mul (cv_cell_height s) (cv_scaling s);
          ticks = f32_div (f32_sub (f32_sub y (main_area_center_y s)) (snd (cv_translation s))) scaled in
      f32_add (cv_base_price_y s) (f32_mul ticks (cv_tick_size s)))"

definition interval_to_x :: "chart_view_state \<Rightarrow> int \<Rightarrow> f32" where
  "interval_to_x s open_time_ms =
     (let dt = f32_of_int (open_time_ms - cv_latest_x s);
          cells = f32_div dt (timeframe_f32 (cv_basis s)) in
      f32_add (f32_add (right_anchor_x s) (f32_mul (f32_mul cells (cv_cell_width s)) (cv_scaling s)))
        (fst (cv_translation s)))"

definition x_to_time_ms :: "chart_view_state \<Rightarrow> f32 \<Rightarrow> int" where
  "x_to_time_ms s x =
     (let scaled = f32_mul (cv_cell_width s) (cv_scaling s);
          cells = f32_div (f32_sub (f32_sub x (right_anchor_x s)) (fst (cv_translation s))) scaled in
      cv_latest_x s + f32_to_i64 (f64_round_to_int (f32_mul cells (timeframe_f32 (cv_basis s)))))"

definition visible_price_range :: "chart_view_state \<Rightarrow> f32 \<times> f32" where
  "visible_price_range s =
     (let high = y_to_price s (half (snd (cv_bounds s))); low = y_to_price s (half (f64_neg (snd (cv_bounds s)))) in
      (f32_min low high, f32_max low high))"

definition main_area_price_range :: "chart_view_state \<Rightarrow> f32 \<times> f32" where
  "main_area_price_range s =
     (let high = y_to_price s (half (snd (cv_bounds s))); low = y_to_price s (main_area_y_bottom s) in
      (f32_min low high, f32_max low high))"

definition visible_time_range :: "chart_view_state \<Rightarrow> int \<times> int" where
  "visible_time_range s =
     (let a = x_to_time_ms s (half (f64_neg (fst (cv_bounds s)))); b = x_to_time_ms s (half (fst (cv_bounds s))) in
      (min a b, max a b))"

text \<open>The candles from the first that is not left of the drawing to the last that is not right of it,
  with a margin of one cell.\<close>

definition slice_left :: "chart_view_state \<Rightarrow> f32" where
  "slice_left s = f32_sub (half (f64_neg (fst (cv_bounds s)))) (f32_mul (cv_cell_width s) (cv_scaling s))"

definition slice_right :: "chart_view_state \<Rightarrow> f32" where
  "slice_right s = f32_add (half (fst (cv_bounds s))) (f32_mul (cv_cell_width s) (cv_scaling s))"

definition rposition :: "('a \<Rightarrow> bool) \<Rightarrow> 'a list \<Rightarrow> nat option" where
  "rposition p xs = map_option (\<lambda>i. length xs - 1 - i) (position p (rev xs))"

definition visible_candle_slice :: "chart_view_state \<Rightarrow> ohlc_point list \<Rightarrow> ohlc_point list" where
  "visible_candle_slice s ohlc =
     (if ohlc = [] then ohlc
      else (let start = (case position (\<lambda>pt. slice_left s \<le> interval_to_x s (oh_open_time_ms pt)) ohlc of
                           Some i \<Rightarrow> i | None \<Rightarrow> length ohlc);
                stop = (case rposition (\<lambda>pt. interval_to_x s (oh_open_time_ms pt) \<le> slice_right s) ohlc of
                          Some i \<Rightarrow> i + 1 | None \<Rightarrow> start);
                start' = min start (length ohlc);
                stop' = max start' (min stop (length ohlc)) in
            take (stop' - start') (drop start' ohlc)))"

subsection \<open>The automatic scale\<close>

definition FNV_PRIME :: u64 where "FNV_PRIME = 0x100000001b3"
definition FNV_OFFSET :: u64 where "FNV_OFFSET = 0xcbf29ce484222325"

definition mix :: "u64 \<Rightarrow> u64 \<Rightarrow> u64" where
  "mix x h = (h XOR x) * FNV_PRIME"

definition compute_ohlc_signature :: "(f32 \<Rightarrow> u32) \<Rightarrow> ohlc_point list \<Rightarrow> u64" where
  "compute_ohlc_signature bits ohlc =
     (let h = mix (of_nat (length ohlc)) FNV_OFFSET in
      if ohlc = [] then h
      else (let c = last ohlc; b = (\<lambda>x. ucast (bits x)) in
            fold mix [word_of_int (oh_open_time_ms c), b (oh_high c), b (oh_low c), b (oh_close c),
                      b (case oh_volume c of Some v \<Rightarrow> v | None \<Rightarrow> 0)] h))"

definition high_low :: "ohlc_point list \<Rightarrow> f32 \<times> f32" where
  "high_low pts =
     fold (\<lambda>pt (mn, mx). (if oh_low pt < mn then oh_low pt else mn, if mx < oh_high pt then oh_high pt else mx))
       pts (F32_MAX, f64_neg F32_MAX)"

definition compute_autoscale :: "chart_view_state \<Rightarrow> instrument_trading_data \<Rightarrow> f32 \<times> f32" where
  "compute_autoscale s data =
     (let visible = visible_candle_slice s (itd_ohlc_points data) in
      if visible = [] then (cv_base_price_y s, cv_cell_height s)
      else (let (mn, mx) = high_low visible in
            if \<not> f64_is_finite mn \<or> \<not> f64_is_finite mx then (cv_base_price_y s, cv_cell_height s)
            else (let raw = f32_sub mx mn;
                      pad = (if 0 < raw then f32_mul raw (f32_of (1 / 10)) else F64_Fin 1);
                      lo = f32_sub mn pad; hi = f32_add mx pad;
                      range = f32_max (f32_sub hi lo) F32_EPSILON in
                  (half (f32_add lo hi),
                   f32_div (f32_mul (main_area_height s) (cv_tick_size s)) range))))"

subsection \<open>Systems\<close>

record chart =
  ch_entity :: nat
  ch_instrument :: str
  ch_view :: chart_view_state
  ch_changed :: bool

definition data_tick_one :: "(f32 \<Rightarrow> u32) \<Rightarrow> (str \<Rightarrow> instrument_trading_data option) \<Rightarrow> chart \<Rightarrow> chart \<times> nat list" where
  "data_tick_one bits m c =
     (case m (ch_instrument c) of
        None \<Rightarrow> (c, [])
      | Some data \<Rightarrow>
          (let sg = compute_ohlc_signature bits (itd_ohlc_points data); v = ch_view c in
           if sg = cv_signature v then (c, [])
           else (let v1 = v\<lparr>cv_signature := sg\<rparr>;
                     v2 = (if itd_ohlc_points data = [] then v1
                           else v1\<lparr>cv_latest_x := oh_open_time_ms (last (itd_ohlc_points data))\<rparr>) in
                 (c\<lparr>ch_view := v2, ch_changed := True\<rparr>, if cv_auto_scale v then [ch_entity c] else []))))"

definition chart_data_tick_system ::
  "(f32 \<Rightarrow> u32) \<Rightarrow> bool \<Rightarrow> (str \<Rightarrow> instrument_trading_data option) \<Rightarrow> chart list \<Rightarrow> chart list \<times> nat list" where
  "chart_data_tick_system bits map_changed m cs =
     (if \<not> map_changed then (cs, [])
      else (map (\<lambda>c. fst (data_tick_one bits m c)) cs, concat (map (\<lambda>c. snd (data_tick_one bits m c)) cs)))"

text \<open>The changed charts ask for the scale; their mark is taken.\<close>

definition chart_interaction_tick_system :: "chart list \<Rightarrow> chart list \<times> nat list" where
  "chart_interaction_tick_system cs =
     (map (\<lambda>c. c\<lparr>ch_changed := False\<rparr>) cs,
      map ch_entity (filter (\<lambda>c. ch_changed c \<and> cv_auto_scale (ch_view c)) cs))"

text \<open>A value is written only when it moves, so that the write does not ask for another one.\<close>

definition moves :: "f32 \<Rightarrow> f32 \<Rightarrow> bool" where
  "moves old new \<longleftrightarrow> F32_EPSILON < f64_abs (f32_sub old new)"

definition autoscale_one :: "(str \<Rightarrow> instrument_trading_data option) \<Rightarrow> chart \<Rightarrow> chart" where
  "autoscale_one m c =
     (case m (ch_instrument c) of
        None \<Rightarrow> c
      | Some data \<Rightarrow>
          (let (b, h) = compute_autoscale (ch_view c) data; v = ch_view c;
               v1 = (if moves (cv_base_price_y v) b then v\<lparr>cv_base_price_y := b\<rparr> else v);
               v2 = (if moves (cv_cell_height v) h then v1\<lparr>cv_cell_height := h\<rparr> else v1) in
           c\<lparr>ch_view := v2,
             ch_changed := (ch_changed c \<or> moves (cv_base_price_y v) b \<or> moves (cv_cell_height v) h)\<rparr>))"

definition chart_autoscale_apply_system ::
  "(str \<Rightarrow> instrument_trading_data option) \<Rightarrow> nat list \<Rightarrow> chart list \<Rightarrow> chart list" where
  "chart_autoscale_apply_system m requests cs =
     fold (\<lambda>e cs. upd_first (\<lambda>c. ch_entity c = e) (autoscale_one m) cs) (rev (remdups (rev requests))) cs"

text \<open>The three systems of a frame. The first two are in one set, and their order is not fixed.\<close>

definition chart_frame ::
  "(f32 \<Rightarrow> u32) \<Rightarrow> bool \<Rightarrow> bool \<Rightarrow> (str \<Rightarrow> instrument_trading_data option) \<Rightarrow> chart list \<Rightarrow> chart list \<times> nat list" where
  "chart_frame bits data_first map_changed m cs =
     (let (cs2, requests) =
            (if data_first
             then (let (cs1, r1) = chart_data_tick_system bits map_changed m cs;
                       (cs2, r2) = chart_interaction_tick_system cs1 in (cs2, r1 @ r2))
             else (let (cs1, r1) = chart_interaction_tick_system cs;
                       (cs2, r2) = chart_data_tick_system bits map_changed m cs1 in (cs2, r1 @ r2))) in
      (chart_autoscale_apply_system m requests cs2, requests))"

subsection \<open>Moving, zooming, resetting\<close>

record chart_click_state =
  cc_last_click :: "nat \<Rightarrow> f32 option"
  cc_dragged :: "nat set"

definition DOUBLE_CLICK_SECS :: f32 where "DOUBLE_CLICK_SECS = f32_of (4 / 10)"
definition ZOOM_SENSITIVITY :: f32 where "ZOOM_SENSITIVITY = F64_Fin 30"
definition PIXELS_PER_LINE :: f32 where "PIXELS_PER_LINE = F64_Fin 20"
definition MIN_CELL_WIDTH :: f32 where "MIN_CELL_WIDTH = F64_Fin 1"
definition MAX_CELL_WIDTH :: f32 where "MAX_CELL_WIDTH = F64_Fin 50"
definition MIN_PX_PER_PRICE_UNIT :: f32 where "MIN_PX_PER_PRICE_UNIT = f32_of (1 / 1000)"
definition MAX_PX_PER_PRICE_UNIT :: f32 where "MAX_PX_PER_PRICE_UNIT = F64_Fin 2000"

definition is_double_click :: "f32 option \<Rightarrow> f32 \<Rightarrow> bool" where
  "is_double_click last_click now =
     (case last_click of Some t \<Rightarrow> f32_sub now t \<le> DOUBLE_CLICK_SECS | None \<Rightarrow> False)"

text \<open>\<open>scale\<close> is the zoom of the camera, when there is one camera.\<close>

definition chart_drag ::
  "pointer_button \<Rightarrow> nat \<Rightarrow> vec2 \<Rightarrow> f32 option \<Rightarrow> chart list \<times> chart_click_state \<Rightarrow> chart list \<times> chart_click_state" where
  "chart_drag button e delta scale t =
     (let (cs, k) = t; sc = (case scale of Some x \<Rightarrow> x | None \<Rightarrow> F64_Fin 1) in
      if button \<noteq> PB_Primary \<or> \<not> list_ex (\<lambda>c. ch_entity c = e) cs then t
      else (upd_first (\<lambda>c. ch_entity c = e)
              (\<lambda>c. c\<lparr>ch_view := (ch_view c)\<lparr>
                        cv_translation := (f32_add (fst (cv_translation (ch_view c))) (f32_mul (fst delta) sc),
                                           f32_sub (snd (cv_translation (ch_view c))) (f32_mul (snd delta) sc)),
                        cv_auto_scale := False\<rparr>, ch_changed := True\<rparr>) cs,
            k\<lparr>cc_dragged := insert e (cc_dragged k)\<rparr>))"

definition chart_click ::
  "pointer_button \<Rightarrow> nat \<Rightarrow> f32 \<Rightarrow> chart list \<times> chart_click_state \<Rightarrow> chart list \<times> chart_click_state" where
  "chart_click button e now t =
     (let (cs, k) = t in
      if button \<noteq> PB_Primary then t
      else if e \<in> cc_dragged k
      then (cs, k\<lparr>cc_dragged := cc_dragged k - {e}, cc_last_click := (cc_last_click k)(e := None)\<rparr>)
      else if is_double_click (cc_last_click k e) now
      then (upd_first (\<lambda>c. ch_entity c = e) (\<lambda>c. c\<lparr>ch_view := reset_view (ch_view c), ch_changed := True\<rparr>) cs,
            k\<lparr>cc_last_click := (cc_last_click k)(e := None)\<rparr>)
      else (cs, k\<lparr>cc_last_click := (cc_last_click k)(e \<mapsto> now)\<rparr>))"

definition chart_click_state_cleanup_system :: "nat list \<Rightarrow> chart_click_state \<Rightarrow> chart_click_state" where
  "chart_click_state_cleanup_system removed k =
     fold (\<lambda>e k. k\<lparr>cc_last_click := (cc_last_click k)(e := None), cc_dragged := cc_dragged k - {e}\<rparr>) removed k"

text \<open>None is the panic of a clamp whose bounds are not ordered.\<close>

definition apply_cursor_zoom :: "vec2 \<Rightarrow> f32 \<Rightarrow> chart_view_state \<Rightarrow> chart_view_state option" where
  "apply_cursor_zoom cursor wheel_y s =
     (let price = y_to_price s (snd cursor); time = x_to_time_ms s (fst cursor);
          factor = f32_add (F64_Fin 1) (f32_div wheel_y ZOOM_SENSITIVITY) in
      Option.bind (f32_clamp MIN_CELL_WIDTH MAX_CELL_WIDTH (f32_mul (cv_cell_width s) factor)) (\<lambda>w.
      Option.bind (f32_clamp (f32_mul MIN_PX_PER_PRICE_UNIT (cv_tick_size s))
                     (f32_mul MAX_PX_PER_PRICE_UNIT (cv_tick_size s)) (f32_mul (cv_cell_height s) factor)) (\<lambda>h.
        (let s1 = s\<lparr>cv_cell_width := w, cv_cell_height := h, cv_auto_scale := False\<rparr>;
             (tx, ty) = cv_translation s in
         Some (s1\<lparr>cv_translation :=
           (f32_sub tx (f32_sub (interval_to_x s1 time) (fst cursor)),
            f32_sub ty (f32_sub (price_to_y s1 price) (snd cursor)))\<rparr>)))))"

datatype scroll_unit = SU_Line | SU_Pixel

text \<open>The pointers and what they are over, in the order of the maps; the camera gives the place in the
  world of a place on the screen; \<open>at\<close> is the place of a chart.\<close>

record pointer_env =
  pe_hover :: "(nat \<times> nat list) list"
  pe_locations :: "(nat \<times> vec2 option) list"
  pe_camera :: "(vec2 \<Rightarrow> vec2 option) option"
  pe_translation :: "nat \<Rightarrow> vec2"

definition wheel_lines :: "scroll_unit \<times> f32 \<Rightarrow> f32" where
  "wheel_lines ev = (case fst ev of SU_Line \<Rightarrow> snd ev | SU_Pixel \<Rightarrow> f32_div (snd ev) PIXELS_PER_LINE)"

definition hovered_chart :: "pointer_env \<Rightarrow> chart list \<Rightarrow> (nat \<times> nat) option" where
  "hovered_chart pe cs =
     List.find (\<lambda>(e, p). list_ex (\<lambda>c. ch_entity c = e) cs)
       (concat (map (\<lambda>(p, es). map (\<lambda>e. (e, p)) es) (pe_hover pe)))"

definition pointer_location :: "pointer_env \<Rightarrow> nat \<Rightarrow> vec2 option" where
  "pointer_location pe p =
     (case List.find (\<lambda>(i, l). i = p \<and> l \<noteq> None) (pe_locations pe) of Some (_, l) \<Rightarrow> l | None \<Rightarrow> None)"

definition zoom_chart :: "vec2 \<Rightarrow> f32 \<Rightarrow> nat \<Rightarrow> chart list \<Rightarrow> chart list option" where
  "zoom_chart cursor y e cs =
     (case List.find (\<lambda>c. ch_entity c = e) cs of
        None \<Rightarrow> Some cs
      | Some c \<Rightarrow>
          map_option (\<lambda>v. upd_first (\<lambda>c. ch_entity c = e) (\<lambda>c. c\<lparr>ch_view := v, ch_changed := True\<rparr>) cs)
            (apply_cursor_zoom cursor y (ch_view c)))"

definition zoom_event :: "pointer_env \<Rightarrow> scroll_unit \<times> f32 \<Rightarrow> chart list \<Rightarrow> chart list option" where
  "zoom_event pe ev cs =
     (let y = wheel_lines ev in
      if f64_eq y 0 then Some cs
      else (case hovered_chart pe cs of
              None \<Rightarrow> Some cs
            | Some (e, p) \<Rightarrow>
                (case Option.bind (pe_camera pe) (\<lambda>proj. Option.bind (pointer_location pe p) proj) of
                   None \<Rightarrow> Some cs
                 | Some world \<Rightarrow>
                     zoom_chart (f32_sub (fst world) (fst (pe_translation pe e)),
                                 f32_sub (snd world) (snd (pe_translation pe e))) y e cs)))"

definition chart_scroll_zoom_system ::
  "bool \<Rightarrow> pointer_env \<Rightarrow> (scroll_unit \<times> f32) list \<Rightarrow> chart list \<Rightarrow> chart list option" where
  "chart_scroll_zoom_system ctrl pe wheel cs =
     (if ctrl then Some cs else fold (\<lambda>ev acc. Option.bind acc (zoom_event pe ev)) wheel (Some cs))"


section \<open>Properties\<close>

subsection \<open>The visible candles\<close>

lemma drop_position:
  "drop (case position p xs of Some i \<Rightarrow> i | None \<Rightarrow> length xs) xs = dropWhile (\<lambda>x. \<not> p x) xs"
  by (induction xs) (auto split: option.splits)

lemma position_length:
  "(case position p xs of Some i \<Rightarrow> i | None \<Rightarrow> length xs) = length (takeWhile (\<lambda>x. \<not> p x) xs)"
  by (induction xs) (auto split: option.splits)

lemma position_Some: "position p xs = Some i \<Longrightarrow> i < length xs \<and> p (xs ! i) \<and> (\<forall>j < i. \<not> p (xs ! j))"
  by (induction xs arbitrary: i) (auto split: if_splits simp: less_Suc_eq_0_disj)

lemma position_None: "position p xs = None \<longleftrightarrow> (\<forall>x \<in> set xs. \<not> p x)"
  by (induction xs) auto

definition kept_on :: "('a \<Rightarrow> bool) \<Rightarrow> 'a list \<Rightarrow> bool" where
  "kept_on p xs \<longleftrightarrow> sorted_wrt (\<lambda>x y. p x \<longrightarrow> p y) xs"

lemma kept_on_dropWhile: "kept_on p xs \<Longrightarrow> filter p xs = dropWhile (\<lambda>x. \<not> p x) xs"
  by (induction xs) (auto simp: kept_on_def)

lemma lost_on_takeWhile: "sorted_wrt (\<lambda>x y. q y \<longrightarrow> q x) xs \<Longrightarrow> filter q xs = takeWhile q xs"
  by (induction xs) auto

lemma rposition_takeWhile:
  assumes "sorted_wrt (\<lambda>x y. q y \<longrightarrow> q x) xs"
  shows "(case rposition q xs of Some i \<Rightarrow> i + 1 | None \<Rightarrow> 0) = length (takeWhile q xs)"
  using assms
proof (induction xs rule: rev_induct)
  case (snoc x xs)
  then have ih: "(case rposition q xs of Some i \<Rightarrow> i + 1 | None \<Rightarrow> 0) = length (takeWhile q xs)"
    and all: "q x \<Longrightarrow> \<forall>y\<in>set xs. q y"
    by (simp_all add: sorted_wrt_append)
  show ?case
  proof (cases "q x")
    case True
    with all have "takeWhile q xs = xs" by simp
    with True all show ?thesis by (simp add: rposition_def takeWhile_append)
  next
    case False
    have "rposition q (xs @ [x]) = rposition q xs"
      using False position_Some [of q "rev xs"] by (auto simp: rposition_def option.map_comp o_def intro!: option.map_cong)
    moreover have "takeWhile q (ys @ [x]) = takeWhile q ys" for ys using False by (induction ys) simp_all
    ultimately show ?thesis using ih by simp
  qed
qed (simp add: rposition_def)

lemma dropWhile_take: "dropWhile p (take n xs) = drop (length (takeWhile p xs)) (take n xs)"
proof (induction xs arbitrary: n)
  case (Cons x xs)
  then show ?case by (cases n) auto
qed simp

lemma slice_is_filter:
  assumes p: "kept_on p xs" and q: "sorted_wrt (\<lambda>x y. q y \<longrightarrow> q x) xs"
  shows "(let start = (case position p xs of Some i \<Rightarrow> i | None \<Rightarrow> length xs);
              stop = (case rposition q xs of Some i \<Rightarrow> i + 1 | None \<Rightarrow> start);
              start' = min start (length xs); stop' = max start' (min stop (length xs)) in
          take (stop' - start') (drop start' xs)) = filter (\<lambda>x. p x \<and> q x) xs"
proof -
  let ?a = "length (takeWhile (\<lambda>x. \<not> p x) xs)" and ?n = "length (takeWhile q xs)"
  have le: "?a \<le> length xs" "?n \<le> length xs" by (simp_all add: length_takeWhile_le)
  have n: "(case rposition q xs of Some i \<Rightarrow> i + 1 | None \<Rightarrow> 0) = ?n" by (rule rposition_takeWhile [OF q])
  have stop: "max ?a (min (case rposition q xs of Some i \<Rightarrow> i + 1 | None \<Rightarrow> ?a) (length xs)) = max ?a ?n"
    using n le by (auto split: option.splits)
  have "filter (\<lambda>x. p x \<and> q x) xs = filter p (takeWhile q xs)"
    unfolding lost_on_takeWhile [OF q, symmetric] by (simp add: conj_commute)
  also have "\<dots> = filter p (take ?n xs)" by (rule arg_cong [OF takeWhile_eq_take])
  also have "\<dots> = dropWhile (\<lambda>x. \<not> p x) (take ?n xs)"
    using p by (intro kept_on_dropWhile) (simp add: kept_on_def sorted_wrt_take)
  also have "\<dots> = drop ?a (take ?n xs)" by (rule dropWhile_take)
  also have "\<dots> = take (max ?a ?n - ?a) (drop ?a xs)"
    by (cases "?a \<le> ?n") (simp_all add: take_drop max_def)
  finally show ?thesis using le by (simp add: Let_def position_length stop min_absorb1)
qed

text \<open>A view whose geometry is finite, with cells of positive width.\<close>

definition view_ok :: "chart_view_state \<Rightarrow> bool" where
  "view_ok s \<longleftrightarrow>
     0 < cv_cell_width s \<and> f64_is_finite (cv_cell_width s) \<and> 0 < cv_scaling s \<and> f64_is_finite (cv_scaling s) \<and>
     f64_is_finite (fst (cv_translation s)) \<and> f64_is_finite (right_anchor_x s) \<and> timeframe_ms s \<noteq> 0"

lemma f32_of_int_pos:
  assumes "0 < n" and "n < 2 ^ 64"
  obtains c where "f32_of_int n = F64_Fin c" and "0 < c"
proof -
  have "(of_int n :: rat) \<le> of_int (2 ^ 64)" using assms(2) by (simp only: of_int_le_iff)
  then have "of_int n \<le> pow2 64" by (simp add: pow2_def)
  then have hi: "fit (of_int n) \<le> pow2 64" using fit_mono [of "of_int n" "pow2 64"] fit_pow2 [of 64] by simp
  have "pow2 0 \<le> of_int n" using assms(1) by (simp add: pow2_def)
  then have lo: "1 \<le> fit (of_int n)" using fit_mono [of "pow2 0" "of_int n"] fit_pow2 [of 0] by (simp add: pow2_def)
  have "pow2 64 < pow2 128" by (rule pow2_strict_mono) simp
  with lo hi have "f32_of_int n = F64_Fin (fit (of_int n))"
    using pow2_pos [of 128] by (simp add: f32_of_int_def f32_of_fit)
  with lo show thesis by (intro that [of "fit (of_int n)"]) simp_all
qed

lemma interval_to_x_mono:
  assumes ok: "view_ok s" and "a \<le> b"
  shows "interval_to_x s a \<le> interval_to_x s b"
proof -
  obtain w z x r where w: "cv_cell_width s = F64_Fin w" "0 < w" and z: "cv_scaling s = F64_Fin z" "0 < z"
    and x: "fst (cv_translation s) = F64_Fin x" and r: "right_anchor_x s = F64_Fin r"
    using ok by (auto simp: view_ok_def f64_is_finite_def zero_f64_def split: f64.splits)
  obtain ms where ms: "cv_basis s = Basis_Time ms" by (cases "cv_basis s")
  have "0 < uint ms" using ok ms uint_nonnegative [of ms] uint_0_iff [of ms]
    by (simp add: view_ok_def timeframe_ms_def less_le)
  then obtain c where c: "f32_of_int (uint ms) = F64_Fin c" "0 < c"
    using uint_lt2p [of ms] by (auto elim: f32_of_int_pos)
  have "f32_of_int (a - cv_latest_x s) \<le> f32_of_int (b - cv_latest_x s)"
    using assms(2) by (intro f32_of_int_mono) simp
  then show ?thesis using w(2) z(2) c(2)
    by (simp add: interval_to_x_def Let_def timeframe_f32_def w(1) z(1) c(1) x r ms f32_mono)
qed

lemma visible_slice_filter:
  assumes "view_ok s" and "sorted (map oh_open_time_ms ohlc)"
  shows "visible_candle_slice s ohlc =
    filter (\<lambda>pt. slice_left s \<le> interval_to_x s (oh_open_time_ms pt) \<and>
                interval_to_x s (oh_open_time_ms pt) \<le> slice_right s) ohlc"
proof -
  have mono: "sorted_wrt (\<lambda>x y. interval_to_x s (oh_open_time_ms x) \<le> interval_to_x s (oh_open_time_ms y)) ohlc"
    using assms(2) unfolding sorted_map
    by (rule sorted_wrt_mono_rel [rotated]) (rule interval_to_x_mono [OF assms(1)])
  have "kept_on (\<lambda>pt. slice_left s \<le> interval_to_x s (oh_open_time_ms pt)) ohlc"
    unfolding kept_on_def by (rule sorted_wrt_mono_rel [OF _ mono]) (blast intro: f64_le_trans)
  moreover have "sorted_wrt (\<lambda>x y. interval_to_x s (oh_open_time_ms y) \<le> slice_right s \<longrightarrow>
      interval_to_x s (oh_open_time_ms x) \<le> slice_right s) ohlc"
    by (rule sorted_wrt_mono_rel [OF _ mono]) (blast intro: f64_le_trans)
  ultimately show ?thesis
    using slice_is_filter [of "\<lambda>pt. slice_left s \<le> interval_to_x s (oh_open_time_ms pt)" ohlc
        "\<lambda>pt. interval_to_x s (oh_open_time_ms pt) \<le> slice_right s"]
    by (cases "ohlc = []") (simp_all add: visible_candle_slice_def)
qed

text \<open>C32: The visible candles are those within the drawing, with a margin of one cell on either side,
  though the code only looks for the first and the last of them.\<close>

theorem visible_slice_is_the_filter:
  assumes "view_ok s" and "sorted (map oh_open_time_ms ohlc)"
  shows "visible_candle_slice s ohlc =
    filter (\<lambda>pt. slice_left s \<le> interval_to_x s (oh_open_time_ms pt) \<and>
                interval_to_x s (oh_open_time_ms pt) \<le> slice_right s) ohlc"
  using assms by (rule visible_slice_filter)

definition sample_candle :: "int \<Rightarrow> ohlc_point" where
  "sample_candle t =
     \<lparr>oh_timestamp_ms = t, oh_open_time_ms = t, oh_open = F64_Fin 10, oh_high = F64_Fin 12, oh_low = F64_Fin 9,
      oh_close = F64_Fin 11, oh_volume = Some (F64_Fin 100)\<rparr>"

lemma view_ok_default: "view_ok chart_view_default"
  by code_simp

lemma visible_slice_is_the_filter_witness:
  "visible_candle_slice chart_view_default (map sample_candle [- 6000000, 0]) =
    filter (\<lambda>pt. slice_left chart_view_default \<le> interval_to_x chart_view_default (oh_open_time_ms pt) \<and>
                interval_to_x chart_view_default (oh_open_time_ms pt) \<le> slice_right chart_view_default)
      (map sample_candle [- 6000000, 0])"
  by (rule visible_slice_is_the_filter [OF view_ok_default]) (simp add: sample_candle_def)

subsection \<open>The automatic scale settles\<close>

lemma moves_self [simp]: "\<not> moves x x"
  by (simp add: moves_def f32_eps_sub_self)

definition rescaled :: "chart_view_state \<Rightarrow> instrument_trading_data \<Rightarrow> chart_view_state" where
  "rescaled v data =
     (let (b, h) = compute_autoscale v data in
      v\<lparr>cv_base_price_y := (if moves (cv_base_price_y v) b then b else cv_base_price_y v),
        cv_cell_height := (if moves (cv_cell_height v) h then h else cv_cell_height v)\<rparr>)"

lemma geometry_ignores_scale [simp]:
  "visible_candle_slice (v\<lparr>cv_base_price_y := b, cv_cell_height := h\<rparr>) ohlc = visible_candle_slice v ohlc"
  "main_area_height (v\<lparr>cv_base_price_y := b, cv_cell_height := h\<rparr>) = main_area_height v"
  by (simp_all add: visible_candle_slice_def slice_left_def slice_right_def interval_to_x_def right_anchor_x_def
      main_area_height_def volume_area_height_def)

text \<open>The wanted scale either does not depend on the present one, or is the present one.\<close>

lemma compute_autoscale_cases:
  obtains b h where "\<And>b' h'. compute_autoscale (v\<lparr>cv_base_price_y := b', cv_cell_height := h'\<rparr>) data = (b, h)"
  | "\<And>b' h'. compute_autoscale (v\<lparr>cv_base_price_y := b', cv_cell_height := h'\<rparr>) data = (b', h')"
proof (cases "visible_candle_slice v (itd_ohlc_points data) = [] \<or>
    \<not> f64_is_finite (fst (high_low (visible_candle_slice v (itd_ohlc_points data)))) \<or>
    \<not> f64_is_finite (snd (high_low (visible_candle_slice v (itd_ohlc_points data))))")
  case True
  then have "compute_autoscale (v\<lparr>cv_base_price_y := b', cv_cell_height := h'\<rparr>) data = (b', h')" for b' h'
    by (auto simp: compute_autoscale_def Let_def split: prod.splits)
  then show ?thesis by (rule that(2))
next
  case False
  then have "compute_autoscale (v\<lparr>cv_base_price_y := b', cv_cell_height := h'\<rparr>) data =
      compute_autoscale v data" for b' h'
    by (cases "high_low (visible_candle_slice v (itd_ohlc_points data))") (simp add: compute_autoscale_def Let_def)
  then show ?thesis by (intro that(1) [of "fst (compute_autoscale v data)" "snd (compute_autoscale v data)"]) simp
qed

lemma rescaled_settled:
  assumes "compute_autoscale (rescaled v data) data = (b, h)"
  shows "\<not> moves (cv_base_price_y (rescaled v data)) b" and "\<not> moves (cv_cell_height (rescaled v data)) h"
proof -
  let ?m = "\<lambda>old new. if moves old new then new else old"
  obtain b0 h0 where c: "compute_autoscale v data = (b0, h0)" by (cases "compute_autoscale v data")
  then have r: "rescaled v data =
      v\<lparr>cv_base_price_y := ?m (cv_base_price_y v) b0, cv_cell_height := ?m (cv_cell_height v) h0\<rparr>"
    by (simp add: rescaled_def)
  have v: "v\<lparr>cv_base_price_y := cv_base_price_y v, cv_cell_height := cv_cell_height v\<rparr> = v" by simp
  have "\<not> moves (cv_base_price_y (rescaled v data)) b \<and> \<not> moves (cv_cell_height (rescaled v data)) h"
  proof (rule compute_autoscale_cases [of v data])
    fix b1 h1
    assume *: "\<And>b' h'. compute_autoscale (v\<lparr>cv_base_price_y := b', cv_cell_height := h'\<rparr>) data = (b1, h1)"
    from * [where b' = "cv_base_price_y v" and h' = "cv_cell_height v"] c v have "b0 = b1" "h0 = h1" by simp_all
    moreover from * assms r have "b = b1" "h = h1" by simp_all
    ultimately show ?thesis using r by simp
  next
    assume *: "\<And>b' h'. compute_autoscale (v\<lparr>cv_base_price_y := b', cv_cell_height := h'\<rparr>) data = (b', h')"
    with assms r have "b = cv_base_price_y (rescaled v data)" "h = cv_cell_height (rescaled v data)" by auto
    then show ?thesis by (simp add: moves_self)
  qed
  then show "\<not> moves (cv_base_price_y (rescaled v data)) b" "\<not> moves (cv_cell_height (rescaled v data)) h" by auto
qed

text \<open>A chart that is scaled has nothing left to write.\<close>

definition settled :: "(str \<Rightarrow> instrument_trading_data option) \<Rightarrow> chart \<Rightarrow> bool" where
  "settled m c \<longleftrightarrow> autoscale_one m c = c"

lemma settled_autoscale: "ch_changed c = False \<Longrightarrow> settled m ((autoscale_one m c)\<lparr>ch_changed := False\<rparr>)"
proof (cases "m (ch_instrument c)")
  case (Some data)
  obtain b h where c: "compute_autoscale (ch_view c) data = (b, h)" by (cases "compute_autoscale (ch_view c) data")
  obtain b' h' where c': "compute_autoscale (rescaled (ch_view c) data) data = (b', h')"
    by (cases "compute_autoscale (rescaled (ch_view c) data) data")
  have "ch_view (autoscale_one m c) = rescaled (ch_view c) data"
    using Some c by (auto simp: autoscale_one_def rescaled_def)
  moreover have "ch_instrument (autoscale_one m c) = ch_instrument c"
    using Some c by (simp add: autoscale_one_def Let_def)
  ultimately show ?thesis using Some c' rescaled_settled [OF c']
    by (simp add: settled_def autoscale_one_def [of m "_\<lparr>ch_changed := False\<rparr>"] Let_def)
qed (simp add: settled_def autoscale_one_def)

lemma upd_first_distinct:
  assumes "distinct (map key cs)"
  shows "upd_first (\<lambda>c. key c = e) f cs = map (\<lambda>c. if key c = e then f c else c) cs"
  using assms
proof (induction cs)
  case (Cons c cs)
  show ?case
  proof (cases "key c = e")
    case True
    have "key x \<noteq> e" if "x \<in> set cs" for x using Cons.prems True that by (auto simp: image_iff)
    then have "map (\<lambda>c. if key c = e then f c else c) cs = cs" by (intro map_idI) simp
    with True show ?thesis by simp
  qed (use Cons in simp)
qed simp

lemma fold_upd_first:
  assumes "distinct (map key cs)" and "\<And>c. key (f c) = key c" and "distinct es"
  shows "fold (\<lambda>e. upd_first (\<lambda>c. key c = e) f) es cs = map (\<lambda>c. if key c \<in> set es then f c else c) cs"
  using assms(1,3)
proof (induction es arbitrary: cs)
  case (Cons e es)
  let ?cs = "map (\<lambda>c. if key c = e then f c else c) cs"
  have "map key ?cs = map key cs" using assms(2) by simp
  then have d: "distinct (map key ?cs)" using Cons.prems(1) by (simp only:)
  have "fold (\<lambda>e. upd_first (\<lambda>c. key c = e) f) (e # es) cs = fold (\<lambda>e. upd_first (\<lambda>c. key c = e) f) es ?cs"
    using upd_first_distinct [OF Cons.prems(1)] by simp
  also have "\<dots> = map (\<lambda>c. if key c \<in> set es then f c else c) ?cs"
    using Cons.IH [OF d] Cons.prems(2) by simp
  also have "\<dots> = map (\<lambda>c. if key c \<in> set (e # es) then f c else c) cs"
    using Cons.prems(2) assms(2) by auto
  finally show ?case .
qed simp

definition scaled :: "(str \<Rightarrow> instrument_trading_data option) \<Rightarrow> chart \<Rightarrow> chart" where
  "scaled m c =
     (let c' = c\<lparr>ch_changed := False\<rparr> in
      if ch_changed c \<and> cv_auto_scale (ch_view c) then autoscale_one m c' else c')"

lemma autoscale_one_keeps [simp]:
  "ch_entity (autoscale_one m c) = ch_entity c"
  "cv_auto_scale (ch_view (autoscale_one m c)) = cv_auto_scale (ch_view c)"
  by (auto simp: autoscale_one_def Let_def split: option.splits prod.splits)

lemma distinct_entity_eq:
  "distinct (map ch_entity cs) \<Longrightarrow> c \<in> set cs \<Longrightarrow> d \<in> set cs \<Longrightarrow> ch_entity c = ch_entity d \<Longrightarrow> c = d"
  by (metis distinct_map inj_on_eq_iff)

lemma quiet_frame:
  assumes "distinct (map ch_entity cs)"
  shows "chart_frame bits d False m cs =
    (map (scaled m) cs, map ch_entity (filter (\<lambda>c. ch_changed c \<and> cv_auto_scale (ch_view c)) cs))"
proof -
  let ?cs = "map (\<lambda>c. c\<lparr>ch_changed := False\<rparr>) cs"
  let ?r = "map ch_entity (filter (\<lambda>c. ch_changed c \<and> cv_auto_scale (ch_view c)) cs)"
  have ent: "ch_entity c \<in> set ?r \<longleftrightarrow> ch_changed c \<and> cv_auto_scale (ch_view c)" if "c \<in> set cs" for c
    using distinct_entity_eq [OF assms that] that by force
  have "chart_autoscale_apply_system m ?r ?cs =
      map (\<lambda>c. if ch_entity c \<in> set ?r then autoscale_one m c else c) ?cs"
    using assms fold_upd_first [of ch_entity ?cs "autoscale_one m" "rev (remdups (rev ?r))"]
    by (simp add: chart_autoscale_apply_system_def o_def)
  also have "\<dots> = map (scaled m) cs"
    using ent by (simp add: scaled_def Let_def)
  finally show ?thesis
    by (cases d) (simp_all add: chart_frame_def chart_data_tick_system_def chart_interaction_tick_system_def)
qed

lemma scaled_twice:
  "ch_changed (scaled m (scaled m c)) = False" "scaled m (scaled m (scaled m c)) = scaled m (scaled m c)"
  "ch_changed c \<and> cv_auto_scale (ch_view c) \<longrightarrow> settled m (scaled m (scaled m c))"
proof -
  let ?d = "scaled m c"
  have fix_d: "scaled m x = x" if "\<not> ch_changed x" for x using that by (simp add: scaled_def)
  have s: "scaled m ?d = ?d\<lparr>ch_changed := False\<rparr> \<and> (ch_changed c \<and> cv_auto_scale (ch_view c) \<longrightarrow> settled m (scaled m ?d))"
  proof (cases "ch_changed c \<and> cv_auto_scale (ch_view c)")
    case True
    then have d: "?d = autoscale_one m (c\<lparr>ch_changed := False\<rparr>)" by (simp add: scaled_def)
    have fin: "settled m (?d\<lparr>ch_changed := False\<rparr>)" unfolding d by (rule settled_autoscale) simp
    have "cv_auto_scale (ch_view ?d)" using True by (simp add: d)
    then have "scaled m ?d = ?d\<lparr>ch_changed := False\<rparr>"
      using fin by (simp add: scaled_def [of m ?d] settled_def Let_def)
    with fin show ?thesis by simp
  next
    case False
    then have "?d = c\<lparr>ch_changed := False\<rparr>" by (auto simp: scaled_def)
    then have "\<not> ch_changed ?d" by simp
    then have "scaled m ?d = ?d" by (rule fix_d)
    with \<open>\<not> ch_changed ?d\<close> False show ?thesis by auto
  qed
  then show "ch_changed (scaled m (scaled m c)) = False" by simp
  then show "scaled m (scaled m (scaled m c)) = scaled m (scaled m c)" using fix_d by blast
  show "ch_changed c \<and> cv_auto_scale (ch_view c) \<longrightarrow> settled m (scaled m (scaled m c))" using s by blast
qed

text \<open>C33: Writing the scale marks the chart changed, and a changed chart asks for the scale; still, when no
  new data arrive, two frames suffice: then nothing is asked for and nothing written, whatever the
  candles and whatever the order of the systems, and a chart that had asked has the scale of its
  candles.\<close>

theorem autoscale_settles:
  assumes "distinct (map ch_entity cs)"
  shows "let cs2 = fst (chart_frame bits d2 False m (fst (chart_frame bits d1 False m cs))) in
    chart_frame bits d3 False m cs2 = (cs2, []) \<and>
    list_all2 (\<lambda>c c2. ch_changed c \<and> cv_auto_scale (ch_view c) \<longrightarrow> settled m c2) cs cs2"
proof -
  have ent: "map ch_entity (map (scaled m) xs) = map ch_entity xs" for xs
    by (simp add: scaled_def Let_def)
  let ?cs2 = "map (scaled m) (map (scaled m) cs)"
  have d: "distinct (map ch_entity (map (scaled m) cs))" "distinct (map ch_entity ?cs2)"
    using assms by (simp_all only: ent)
  have "fst (chart_frame bits d2 False m (fst (chart_frame bits d1 False m cs))) = ?cs2"
    using quiet_frame [OF assms] quiet_frame [OF d(1)] by simp
  moreover have "chart_frame bits d3 False m ?cs2 = (?cs2, [])"
    using quiet_frame [OF d(2)] scaled_twice by (simp add: filter_empty_conv)
  moreover have "list_all2 (\<lambda>c c2. ch_changed c \<and> cv_auto_scale (ch_view c) \<longrightarrow> settled m c2) cs ?cs2"
    using scaled_twice(3) [of _ m] by (simp add: list_all2_map2 list_all2_same)
  ultimately show ?thesis by (simp only: Let_def)
qed

definition sample_chart :: chart where
  "sample_chart = \<lparr>ch_entity = 7, ch_instrument = ''X'', ch_view = chart_view_default, ch_changed = True\<rparr>"

definition sample_data :: "str \<Rightarrow> instrument_trading_data option" where
  "sample_data i = Some \<lparr>itd_price = None, itd_ohlc_points = [sample_candle 0], itd_depth = None\<rparr>"

lemma autoscale_settles_witness:
  "let cs2 = fst (chart_frame (\<lambda>_. 0) True False sample_data (fst (chart_frame (\<lambda>_. 0) False False sample_data [sample_chart]))) in
    chart_frame (\<lambda>_. 0) True False sample_data cs2 = (cs2, []) \<and>
    list_all2 (\<lambda>c c2. ch_changed c \<and> cv_auto_scale (ch_view c) \<longrightarrow> settled sample_data c2) [sample_chart] cs2"
  by (rule autoscale_settles) simp

subsection \<open>Zooming stays in bounds\<close>

lemma f32_of_small:
  assumes "\<bar>x\<bar> \<le> pow2 e" and "- 149 \<le> e" and "e < 128"
  obtains y where "f32_of x = F64_Fin y" and "\<bar>y\<bar> \<le> pow2 e"
proof -
  have "fit x \<le> pow2 e" "- pow2 e \<le> fit x"
    using assms(1) fit_mono [of x "pow2 e"] fit_mono [of "- pow2 e" x] fit_pow2 [OF assms(2)]
    by (simp_all add: fit_minus abs_le_iff)
  moreover have "pow2 e < pow2 128" using assms(3) by (rule pow2_strict_mono)
  ultimately show thesis by (intro that [of "fit x"]) (simp_all add: f32_of_fit abs_le_iff)
qed

text \<open>Scrolling of up to a million lines or pixels at once.\<close>

definition wheel_ok :: "scroll_unit \<times> f32 \<Rightarrow> bool" where
  "wheel_ok ev \<longleftrightarrow> (case snd ev of F64_Fin r \<Rightarrow> \<bar>r\<bar> \<le> pow2 20 | _ \<Rightarrow> False)"

definition zoomable :: "chart_view_state \<Rightarrow> bool" where
  "zoomable v \<longleftrightarrow> f64_is_finite (cv_cell_width v) \<and> f64_is_finite (cv_cell_height v) \<and> cv_tick_size v = f32_of (1 / 100)"

definition in_zoom_bounds :: "chart_view_state \<Rightarrow> bool" where
  "in_zoom_bounds v \<longleftrightarrow>
     MIN_CELL_WIDTH \<le> cv_cell_width v \<and> cv_cell_width v \<le> MAX_CELL_WIDTH \<and>
     f32_mul MIN_PX_PER_PRICE_UNIT (cv_tick_size v) \<le> cv_cell_height v \<and>
     cv_cell_height v \<le> f32_mul MAX_PX_PER_PRICE_UNIT (cv_tick_size v)"

lemma zoom_limits:
  "MIN_CELL_WIDTH \<le> MAX_CELL_WIDTH"
  "f32_mul MIN_PX_PER_PRICE_UNIT (f32_of (1 / 100)) \<le> f32_mul MAX_PX_PER_PRICE_UNIT (f32_of (1 / 100))"
  "f64_is_finite (f32_mul MIN_PX_PER_PRICE_UNIT (f32_of (1 / 100)))"
  "f64_is_finite (f32_mul MAX_PX_PER_PRICE_UNIT (f32_of (1 / 100)))"
  by code_simp+

lemma f64_between_finite: "a \<le> x \<Longrightarrow> x \<le> b \<Longrightarrow> f64_is_finite a \<Longrightarrow> f64_is_finite b \<Longrightarrow> f64_is_finite x"
  by (cases x; cases a; cases b) (auto simp: f64_is_finite_def)

lemma in_zoom_bounds_zoomable: "in_zoom_bounds v \<Longrightarrow> cv_tick_size v = f32_of (1 / 100) \<Longrightarrow> zoomable v"
  using zoom_limits(3,4)
  by (auto simp: in_zoom_bounds_def zoomable_def MIN_CELL_WIDTH_def MAX_CELL_WIDTH_def
      intro: f64_between_finite f64_between_finite [of "F64_Fin 1" _ "F64_Fin 50"])
     (simp_all add: f64_is_finite_def f64_between_finite [of "F64_Fin 1" _ "F64_Fin 50", unfolded f64_is_finite_def])

lemma wheel_lines_small:
  assumes "wheel_ok ev"
  obtains r where "wheel_lines ev = F64_Fin r" and "\<bar>r\<bar> \<le> pow2 20"
proof -
  obtain x where x: "snd ev = F64_Fin x" "\<bar>x\<bar> \<le> pow2 20"
    using assms by (auto simp: wheel_ok_def split: f64.splits)
  show thesis
  proof (cases "fst ev")
    case SU_Line
    with x show thesis by (intro that) (simp_all add: wheel_lines_def)
  next
    case SU_Pixel
    have "\<bar>x / 20\<bar> \<le> pow2 20" using x(2) by simp
    then obtain y where "f32_of (x / 20) = F64_Fin y" "\<bar>y\<bar> \<le> pow2 20" by (rule f32_of_small) simp_all
    with SU_Pixel x show thesis
      by (intro that [of y]) (simp_all add: wheel_lines_def f32_div_def PIXELS_PER_LINE_def)
  qed
qed

lemma zoom_factor_finite:
  assumes "\<bar>r\<bar> \<le> pow2 20"
  obtains q where "f32_add (F64_Fin 1) (f32_div (F64_Fin r) ZOOM_SENSITIVITY) = F64_Fin q"
proof -
  have "\<bar>r / 30\<bar> \<le> pow2 20" using assms by simp
  then obtain y where y: "f32_of (r / 30) = F64_Fin y" "\<bar>y\<bar> \<le> pow2 20" by (rule f32_of_small) simp_all
  have "\<bar>1 + y\<bar> \<le> pow2 21" using y(2) by (simp add: pow2_def)
  then obtain q where "f32_of (1 + y) = F64_Fin q" by (rule f32_of_small) simp_all
  with y(1) show thesis by (intro that) (simp add: f32_add_def f32_div_def ZOOM_SENSITIVITY_def)
qed

lemma zoom_one:
  assumes "zoomable v" and "\<bar>r\<bar> \<le> pow2 20"
  obtains v' where "apply_cursor_zoom cursor (F64_Fin r) v = Some v'" and "in_zoom_bounds v'"
    and "cv_tick_size v' = f32_of (1 / 100)"
proof -
  obtain q where q: "f32_add (F64_Fin 1) (f32_div (F64_Fin r) ZOOM_SENSITIVITY) = F64_Fin q"
    using assms(2) by (rule zoom_factor_finite)
  have t: "cv_tick_size v = f32_of (1 / 100)" using assms(1) by (simp add: zoomable_def)
  obtain w0 h0 where wh: "cv_cell_width v = F64_Fin w0" "cv_cell_height v = F64_Fin h0"
    using assms(1) by (auto simp: zoomable_def f64_is_finite_def split: f64.splits)
  have nan: "f32_mul (F64_Fin a) (F64_Fin b) \<noteq> F64_NaN" for a b by (simp add: f32_mul_def)
  obtain w where w: "f32_clamp MIN_CELL_WIDTH MAX_CELL_WIDTH (f32_mul (F64_Fin w0) (F64_Fin q)) = Some w"
    using zoom_limits(1) by (auto simp: f32_clamp_def)
  obtain h where h: "f32_clamp (f32_mul MIN_PX_PER_PRICE_UNIT (f32_of (1 / 100)))
      (f32_mul MAX_PX_PER_PRICE_UNIT (f32_of (1 / 100))) (f32_mul (F64_Fin h0) (F64_Fin q)) = Some h"
    using zoom_limits(2) by (auto simp: f32_clamp_def)
  obtain v' where v': "apply_cursor_zoom cursor (F64_Fin r) v = Some v'" "cv_cell_width v' = w"
      "cv_cell_height v' = h" "cv_tick_size v' = f32_of (1 / 100)"
    by (cases "cv_translation v") (simp add: apply_cursor_zoom_def Let_def q t wh w h)
  with f32_clamp_within [OF w nan] f32_clamp_within [OF h nan] show thesis
    by (intro that [of v']) (simp_all add: in_zoom_bounds_def)
qed

definition zoomed_from :: "chart list \<Rightarrow> chart list \<Rightarrow> bool" where
  "zoomed_from cs cs' \<longleftrightarrow>
     list_all2 (\<lambda>c c'. (ch_view c' = ch_view c \<or> in_zoom_bounds (ch_view c')) \<and> zoomable (ch_view c')) cs cs'"

lemma zoomed_from_refl: "list_all (\<lambda>c. zoomable (ch_view c)) cs \<Longrightarrow> zoomed_from cs cs"
  by (auto simp: zoomed_from_def list_all2_same list_all_iff)

lemma zoomed_from_trans: "zoomed_from a b \<Longrightarrow> zoomed_from b c \<Longrightarrow> zoomed_from a c"
  by (auto simp: zoomed_from_def list_all2_conv_all_nth) metis

lemma zoomed_from_upd:
  assumes "list_all (\<lambda>c. zoomable (ch_view c)) cs" and "in_zoom_bounds v" and "zoomable v"
  shows "zoomed_from cs (upd_first p (\<lambda>c. c\<lparr>ch_view := v, ch_changed := True\<rparr>) cs)"
  using assms(1)
proof (induction cs)
  case (Cons c cs)
  then show ?case using assms(2,3) zoomed_from_refl [of cs] by (simp add: zoomed_from_def)
qed (simp add: zoomed_from_def)

lemma zoom_event_bounds:
  assumes "wheel_ok ev" and "list_all (\<lambda>c. zoomable (ch_view c)) cs"
  shows "\<exists>cs'. zoom_event pe ev cs = Some cs' \<and> zoomed_from cs cs'"
proof -
  obtain r where r: "wheel_lines ev = F64_Fin r" "\<bar>r\<bar> \<le> pow2 20" using assms(1) by (rule wheel_lines_small)
  have stay: "\<exists>cs'. Some cs = Some cs' \<and> zoomed_from cs cs'" using zoomed_from_refl [OF assms(2)] by simp
  have zoom: "\<exists>cs'. zoom_chart cursor (F64_Fin r) e cs = Some cs' \<and> zoomed_from cs cs'" for cursor e
  proof (cases "List.find (\<lambda>c. ch_entity c = e) cs")
    case (Some c)
    then have "c \<in> set cs" by (auto simp: find_Some_iff)
    with assms(2) have "zoomable (ch_view c)" by (simp add: list_all_iff)
    then obtain v where "apply_cursor_zoom cursor (F64_Fin r) (ch_view c) = Some v" "in_zoom_bounds v"
        "cv_tick_size v = f32_of (1 / 100)"
      using r(2) by (rule zoom_one)
    with Some zoomed_from_upd [OF assms(2) _ in_zoom_bounds_zoomable] show ?thesis
      by (simp add: zoom_chart_def)
  qed (use stay in \<open>simp add: zoom_chart_def\<close>)
  show ?thesis
    using stay zoom by (simp add: zoom_event_def Let_def r split: option.split prod.split)
qed

text \<open>C34: However the wheel is turned, no clamp panics, and every chart either keeps its view or has cells
  within the limits of the zoom.\<close>

theorem zoom_stays_in_bounds:
  assumes "list_all (\<lambda>c. zoomable (ch_view c)) cs" and "list_all wheel_ok wheel"
  shows "\<exists>cs'. chart_scroll_zoom_system ctrl pe wheel cs = Some cs' \<and> length cs' = length cs \<and>
    (\<forall>i < length cs. ch_view (cs' ! i) = ch_view (cs ! i) \<or> in_zoom_bounds (ch_view (cs' ! i)))"
proof -
  have "\<exists>cs'. fold (\<lambda>ev acc. Option.bind acc (zoom_event pe ev)) wheel (Some cs) = Some cs' \<and> zoomed_from cs cs'"
    using assms
  proof (induction wheel arbitrary: cs)
    case (Cons ev wheel)
    then obtain cs1 where 1: "zoom_event pe ev cs = Some cs1" "zoomed_from cs cs1"
      using zoom_event_bounds [of ev cs pe] by auto
    then have "list_all (\<lambda>c. zoomable (ch_view c)) cs1"
      by (auto simp: zoomed_from_def list_all2_conv_all_nth list_all_length)
    with Cons obtain cs2 where "fold (\<lambda>ev acc. Option.bind acc (zoom_event pe ev)) wheel (Some cs1) = Some cs2"
        "zoomed_from cs1 cs2" by auto
    with 1 zoomed_from_trans show ?case by fastforce
  qed (simp add: zoomed_from_refl)
  then obtain cs' where "chart_scroll_zoom_system ctrl pe wheel cs = Some cs'" "zoomed_from cs cs'"
    using zoomed_from_refl [OF assms(1)] by (cases ctrl) (auto simp: chart_scroll_zoom_system_def)
  then show ?thesis by (auto simp: zoomed_from_def list_all2_conv_all_nth)
qed

definition sample_pointer :: pointer_env where
  "sample_pointer =
     \<lparr>pe_hover = [(0, [7])], pe_locations = [(0, Some (F64_Fin 10, F64_Fin 20))], pe_camera = Some Some,
      pe_translation = (\<lambda>_. (0, 0))\<rparr>"

lemma zoom_stays_in_bounds_witness:
  "\<exists>cs'. chart_scroll_zoom_system False sample_pointer [(SU_Line, F64_Fin (- 40))] [sample_chart] = Some cs' \<and>
    length cs' = length [sample_chart] \<and>
    (\<forall>i < length [sample_chart]. ch_view (cs' ! i) = ch_view ([sample_chart] ! i) \<or> in_zoom_bounds (ch_view (cs' ! i)))"
  by (rule zoom_stays_in_bounds)
     (simp_all add: zoomable_def sample_chart_def chart_view_default_def f64_is_finite_def DEFAULT_CELL_WIDTH_def
        wheel_ok_def pow2_def)

subsection \<open>Only a double click resets a view\<close>

datatype chart_event =
    CE_Drag pointer_button nat vec2 "f32 option"
  | CE_Click pointer_button nat f32
  | CE_Removed "nat list"
  | CE_Wheel bool pointer_env "(scroll_unit \<times> f32) list"
  | CE_Frame bool bool "str \<Rightarrow> instrument_trading_data option"

text \<open>A wheel event that panics ends the program; it is left without effect here.\<close>

definition chart_step ::
  "(f32 \<Rightarrow> u32) \<Rightarrow> chart_event \<Rightarrow> chart list \<times> chart_click_state \<Rightarrow> chart list \<times> chart_click_state" where
  "chart_step bits ev t =
     (case ev of
        CE_Drag b e d sc \<Rightarrow> chart_drag b e d sc t
      | CE_Click b e now \<Rightarrow> chart_click b e now t
      | CE_Removed es \<Rightarrow> (fst t, chart_click_state_cleanup_system es (snd t))
      | CE_Wheel ctrl pe wheel \<Rightarrow>
          (case chart_scroll_zoom_system ctrl pe wheel (fst t) of Some cs \<Rightarrow> (cs, snd t) | None \<Rightarrow> t)
      | CE_Frame d changed m \<Rightarrow> (fst (chart_frame bits d changed m (fst t)), snd t))"

definition scales_itself :: "nat \<Rightarrow> chart list \<Rightarrow> bool" where
  "scales_itself e cs \<longleftrightarrow> (\<exists>c \<in> set cs. ch_entity c = e \<and> cv_auto_scale (ch_view c))"

definition has_chart :: "nat \<Rightarrow> chart list \<Rightarrow> bool" where
  "has_chart e cs \<longleftrightarrow> e \<in> ch_entity ` set cs"

text \<open>The events that count as a click on, or a movement of, a chart.\<close>

definition touches :: "nat \<Rightarrow> chart_event \<Rightarrow> bool" where
  "touches e ev \<longleftrightarrow>
     (\<exists>now. ev = CE_Click PB_Primary e now) \<or> (\<exists>d sc. ev = CE_Drag PB_Primary e d sc)"

definition remembered :: "nat \<Rightarrow> chart_event list \<Rightarrow> chart_click_state \<Rightarrow> bool" where
  "remembered e es k \<longleftrightarrow>
     (\<forall>t. cc_last_click k e = Some t \<longrightarrow>
        (\<exists>pre mid. es = pre @ [CE_Click PB_Primary e t] @ mid \<and>
           (\<forall>ev \<in> set mid. \<forall>now. ev \<noteq> CE_Click PB_Primary e now) \<and>
           (e \<notin> cc_dragged k \<longrightarrow> (\<forall>ev \<in> set mid. \<not> touches e ev))))"

lemma cleanup_click: "cc_last_click (chart_click_state_cleanup_system es k) e = (if e \<in> set es then None else cc_last_click k e)"
  "cc_dragged (chart_click_state_cleanup_system es k) = cc_dragged k - set es"
  by (induction es arbitrary: k) (auto simp: chart_click_state_cleanup_system_def)

lemma upd_first_entities:
  "(\<And>c. ch_entity (f c) = ch_entity c) \<Longrightarrow> map ch_entity (upd_first p f cs) = map ch_entity cs"
  by (induction cs) auto

lemma fold_upd_entities:
  "(\<And>c. ch_entity (f c) = ch_entity c) \<Longrightarrow> map ch_entity (fold (\<lambda>e. upd_first (p e) f) es cs) = map ch_entity cs"
  by (induction es arbitrary: cs) (simp_all add: upd_first_entities)

lemma data_tick_one_keeps [simp]:
  "ch_entity (fst (data_tick_one bits m c)) = ch_entity c"
  "cv_auto_scale (ch_view (fst (data_tick_one bits m c))) = cv_auto_scale (ch_view c)"
  by (auto simp: data_tick_one_def Let_def split: option.split)

text \<open>What decides who may scale itself: the entities with their marks, in order.\<close>

definition marks :: "chart list \<Rightarrow> (nat \<times> bool) list" where
  "marks cs = map (\<lambda>c. (ch_entity c, cv_auto_scale (ch_view c))) cs"

lemma scales_itself_marks: "scales_itself e cs \<longleftrightarrow> (e, True) \<in> set (marks cs)"
  by (auto simp: scales_itself_def marks_def)

lemma has_chart_marks: "has_chart e cs \<longleftrightarrow> e \<in> fst ` set (marks cs)"
  by (force simp: has_chart_def marks_def)

lemma marks_upd:
  "(\<And>c. ch_entity (f c) = ch_entity c \<and> cv_auto_scale (ch_view (f c)) = cv_auto_scale (ch_view c)) \<Longrightarrow>
   marks (upd_first p f cs) = marks cs"
  by (induction cs) (auto simp: marks_def)

lemma marks_frame: "marks (fst (chart_frame bits d changed m cs)) = marks cs"
proof -
  have ap: "marks (chart_autoscale_apply_system m r xs) = marks xs" for r xs
  proof -
    have "marks (fold (\<lambda>e. upd_first (\<lambda>c. ch_entity c = e) (autoscale_one m)) es xs) = marks xs" for es xs
      by (induction es arbitrary: xs) (simp_all add: marks_upd)
    then show ?thesis by (simp add: chart_autoscale_apply_system_def)
  qed
  have data: "marks (fst (chart_data_tick_system bits changed m xs)) = marks xs" for xs
    by (simp add: chart_data_tick_system_def marks_def o_def)
  have tick: "marks (fst (chart_interaction_tick_system xs)) = marks xs" for xs
    by (simp add: chart_interaction_tick_system_def marks_def o_def)
  show ?thesis using ap data tick by (simp add: chart_frame_def case_prod_beta Let_def)
qed

text \<open>The same charts, of which none has begun to scale itself.\<close>

definition fades :: "chart list \<Rightarrow> chart list \<Rightarrow> bool" where
  "fades cs cs' \<longleftrightarrow> map fst (marks cs') = map fst (marks cs) \<and>
     (\<forall>e. (e, True) \<in> set (marks cs') \<longrightarrow> (e, True) \<in> set (marks cs))"

lemma fades_refl [simp]: "fades cs cs"
  by (simp add: fades_def)

lemma fades_upd: "\<not> cv_auto_scale v \<Longrightarrow> fades cs (upd_first p (\<lambda>c. c\<lparr>ch_view := v, ch_changed := True\<rparr>) cs)"
  by (induction cs) (auto simp: marks_def fades_def)

lemma zoom_stops_scaling: "apply_cursor_zoom cursor y s = Some v \<Longrightarrow> \<not> cv_auto_scale v"
  by (cases "cv_translation s") (auto simp: apply_cursor_zoom_def Let_def bind_eq_Some_conv)

lemma fades_zoom_event: "zoom_event pe ev cs = Some cs' \<Longrightarrow> fades cs cs'"
  by (auto simp: zoom_event_def zoom_chart_def Let_def split: if_splits option.splits prod.splits
      intro: fades_upd dest: zoom_stops_scaling)

lemma fold_bind_None: "fold (\<lambda>ev acc. Option.bind acc (f ev)) es None = None"
  by (induction es) simp_all

lemma fades_zoom: "chart_scroll_zoom_system ctrl pe wheel cs = Some cs' \<Longrightarrow> fades cs cs'"
proof -
  have "fades cs cs'" if "fold (\<lambda>ev acc. Option.bind acc (zoom_event pe ev)) wheel (Some cs) = Some cs'" for cs cs'
    using that
  proof (induction wheel arbitrary: cs)
    case (Cons ev wheel)
    then obtain cs1 where 1: "zoom_event pe ev cs = Some cs1"
      by (cases "zoom_event pe ev cs") (simp_all add: fold_bind_None)
    with Cons have "fades cs1 cs'" by simp
    with fades_zoom_event [OF 1] show ?case by (simp add: fades_def)
  qed simp
  then show "chart_scroll_zoom_system ctrl pe wheel cs = Some cs' \<Longrightarrow> fades cs cs'"
    by (auto simp: chart_scroll_zoom_system_def split: if_splits)
qed

lemma scales_upd_other:
  "e' \<noteq> e \<Longrightarrow> (\<And>c. ch_entity (f c) = ch_entity c) \<Longrightarrow>
   scales_itself e (upd_first (\<lambda>c. ch_entity c = e') f cs) = scales_itself e cs"
  by (induction cs) (auto simp: scales_itself_def)

lemma marks_upd_fst: "(\<And>c. ch_entity (f c) = ch_entity c) \<Longrightarrow> map fst (marks (upd_first p f cs)) = map fst (marks cs)"
  by (induction cs) (auto simp: marks_def)

lemma entities_step: "map fst (marks (fst (chart_step bits ev t))) = map fst (marks (fst t))"
proof (cases ev)
  case (CE_Wheel ctrl pe wheel)
  then show ?thesis by (auto simp: chart_step_def fades_def dest: fades_zoom split: option.split)
qed (auto simp: chart_step_def chart_drag_def chart_click_def marks_upd_fst marks_frame Let_def split: prod.split)

lemma has_chart_step: "has_chart e (fst (chart_step bits ev t)) = has_chart e (fst t)"
  using entities_step [of bits ev t] by (metis has_chart_marks list.set_map)

lemma scales_upd_off:
  assumes "scales_itself e (upd_first p f cs)"
    and "\<And>c. ch_entity (f c) = ch_entity c \<and> \<not> cv_auto_scale (ch_view (f c))"
  shows "scales_itself e cs"
  using assms by (induction cs) (auto simp: scales_itself_def split: if_splits)

lemma gains_scale:
  assumes "\<not> scales_itself e (fst t)" and "scales_itself e (fst (chart_step bits ev t))"
  shows "\<exists>now t0. ev = CE_Click PB_Primary e now \<and> cc_last_click (snd t) e = Some t0 \<and>
    f32_sub now t0 \<le> DOUBLE_CLICK_SECS \<and> e \<notin> cc_dragged (snd t)"
proof (cases t)
  case (Pair cs k)
  show ?thesis
  proof (cases ev)
    case (CE_Drag b e' d sc)
    with assms Pair show ?thesis
      by (auto simp: chart_step_def chart_drag_def Let_def split: if_splits dest: scales_upd_off)
  next
    case (CE_Click b e' now)
    show ?thesis
    proof (cases "e' = e")
      case True
      with CE_Click assms Pair show ?thesis
        by (auto simp: chart_step_def chart_click_def is_double_click_def split: if_splits option.splits)
    next
      case False
      with CE_Click assms Pair show ?thesis
        by (auto simp: chart_step_def chart_click_def scales_upd_other split: if_splits)
    qed
  next
    case (CE_Wheel ctrl pe wheel)
    with assms Pair show ?thesis
      by (auto simp: chart_step_def scales_itself_marks fades_def dest: fades_zoom split: option.splits)
  qed (use assms Pair in \<open>auto simp: chart_step_def scales_itself_marks marks_frame\<close>)
qed

lemma remembered_step:
  assumes "remembered e es (snd t)" and "has_chart e (fst t)"
  shows "remembered e (es @ [ev]) (snd (chart_step bits ev t))"
proof -
  obtain cs k where t: "t = (cs, k)" by (cases t)
  have keep: "remembered e (es @ [ev]) k'"
    if "cc_last_click k' e = cc_last_click k e" "\<And>now. ev \<noteq> CE_Click PB_Primary e now"
      "e \<notin> cc_dragged k' \<Longrightarrow> e \<notin> cc_dragged k \<and> \<not> touches e ev" for k'
    unfolding remembered_def
  proof (intro allI impI)
    fix t0 assume "cc_last_click k' e = Some t0"
    then have "cc_last_click k e = Some t0" using that(1) by simp
    with assms(1) t have "\<exists>pre mid. es = pre @ [CE_Click PB_Primary e t0] @ mid \<and>
        (\<forall>x \<in> set mid. \<forall>now. x \<noteq> CE_Click PB_Primary e now) \<and>
        (e \<notin> cc_dragged k \<longrightarrow> (\<forall>x \<in> set mid. \<not> touches e x))"
      by (simp add: remembered_def)
    then obtain pre mid where m: "es = pre @ [CE_Click PB_Primary e t0] @ mid"
        "\<forall>x \<in> set mid. \<forall>now. x \<noteq> CE_Click PB_Primary e now"
        "e \<notin> cc_dragged k \<longrightarrow> (\<forall>x \<in> set mid. \<not> touches e x)"
      by blast
    show "\<exists>pre mid. es @ [ev] = pre @ [CE_Click PB_Primary e t0] @ mid \<and>
        (\<forall>x \<in> set mid. \<forall>now. x \<noteq> CE_Click PB_Primary e now) \<and>
        (e \<notin> cc_dragged k' \<longrightarrow> (\<forall>x \<in> set mid. \<not> touches e x))"
      using m that(2,3) by (intro exI [of _ pre] exI [of _ "mid @ [ev]"]) auto
  qed
  have forget: "remembered e (es @ [ev]) k'" if "cc_last_click k' e = None" for k'
    using that by (simp add: remembered_def)
  have fresh: "remembered e (es @ [ev]) k'" if "ev = CE_Click PB_Primary e now" "cc_last_click k' e = Some now" for k' now
    using that by (simp add: remembered_def) (intro exI [of _ es] exI [of _ "[]"], simp)
  have ex: "list_ex (\<lambda>c. ch_entity c = e) cs" using assms(2) t by (auto simp: has_chart_def list_ex_iff)
  show ?thesis
  proof (cases ev)
    case (CE_Drag b e' d sc)
    show ?thesis
      by (rule keep) (use CE_Drag t ex in \<open>auto simp: chart_step_def chart_drag_def touches_def Let_def split: if_splits\<close>)
  next
    case (CE_Click b e' now)
    show ?thesis
    proof (cases "b = PB_Primary \<and> e' = e")
      case True
      then show ?thesis using CE_Click t fresh forget
        by (auto simp: chart_step_def chart_click_def)
    next
      case False
      show ?thesis
        by (rule keep) (use False CE_Click t in \<open>auto simp: chart_step_def chart_click_def touches_def split: if_splits\<close>)
    qed
  next
    case (CE_Removed rs)
    show ?thesis
    proof (cases "e \<in> set rs")
      case True
      then show ?thesis using CE_Removed t by (intro forget) (simp add: chart_step_def cleanup_click)
    next
      case False
      show ?thesis
        by (rule keep) (use False CE_Removed t in \<open>auto simp: chart_step_def cleanup_click touches_def\<close>)
    qed
  next
    case (CE_Wheel ctrl pe wheel)
    show ?thesis
      by (rule keep) (use CE_Wheel t in \<open>auto simp: chart_step_def touches_def split: option.splits\<close>)
  next
    case (CE_Frame d changed m)
    show ?thesis
      by (rule keep) (use CE_Frame t in \<open>auto simp: chart_step_def touches_def\<close>)
  qed
qed

definition no_clicks :: chart_click_state where
  "no_clicks = \<lparr>cc_last_click = (\<lambda>_. None), cc_dragged = {}\<rparr>"

lemma remembered_run:
  "has_chart e cs \<Longrightarrow> remembered e es (snd (fold (chart_step bits) es (cs, no_clicks))) \<and>
     has_chart e (fst (fold (chart_step bits) es (cs, no_clicks)))"
proof (induction es rule: rev_induct)
  case (snoc ev es)
  then show ?case using remembered_step has_chart_step by simp
qed (simp add: remembered_def no_clicks_def)

text \<open>C35: A chart that was moved or zoomed only goes back to the automatic scale by a double click: a press
  of the first button within the time limit of another one on the same chart, with neither a click nor
  a movement of the chart in between. A movement is not mistaken for a click.\<close>

theorem only_double_click_resets:
  assumes "\<not> scales_itself e (fst (fold (chart_step bits) es (cs, no_clicks)))"
    and "scales_itself e (fst (fold (chart_step bits) (es @ [ev]) (cs, no_clicks)))"
  shows "\<exists>now t0 pre mid. ev = CE_Click PB_Primary e now \<and> f32_sub now t0 \<le> DOUBLE_CLICK_SECS \<and>
    es = pre @ [CE_Click PB_Primary e t0] @ mid \<and> (\<forall>x \<in> set mid. \<not> touches e x)"
proof -
  let ?t = "fold (chart_step bits) es (cs, no_clicks)"
  have "has_chart e (fst (chart_step bits ev ?t))"
    using assms(2) by (auto simp: scales_itself_def has_chart_def)
  moreover have "has_chart e (fst (fold (chart_step bits) xs (cs, no_clicks))) = has_chart e cs" for xs
    by (induction xs rule: rev_induct) (simp_all add: has_chart_step)
  ultimately have "has_chart e cs" by (simp add: has_chart_step)
  then have "remembered e es (snd ?t)" using remembered_run by blast
  moreover obtain now t0 where "ev = CE_Click PB_Primary e now" "cc_last_click (snd ?t) e = Some t0"
      "f32_sub now t0 \<le> DOUBLE_CLICK_SECS" "e \<notin> cc_dragged (snd ?t)"
    using gains_scale [of e ?t bits ev] assms by auto
  ultimately show ?thesis by (auto simp: remembered_def)
qed

lemma only_double_click_resets_witness:
  "\<exists>now t0 pre mid. CE_Click PB_Primary 7 (F64_Fin 4) = CE_Click PB_Primary 7 now \<and>
    f32_sub now t0 \<le> DOUBLE_CLICK_SECS \<and>
    [CE_Drag PB_Primary 7 (F64_Fin 2, F64_Fin 3) None, CE_Click PB_Primary 7 (F64_Fin 2),
     CE_Click PB_Primary 7 (F64_Fin 4)] = pre @ [CE_Click PB_Primary 7 t0] @ mid \<and> (\<forall>x \<in> set mid. \<not> touches 7 x)"
proof (rule only_double_click_resets [where cs = "[sample_chart]" and bits = "\<lambda>_. 0"])
  show "\<not> scales_itself 7 (fst (fold (chart_step (\<lambda>_. 0))
      [CE_Drag PB_Primary 7 (F64_Fin 2, F64_Fin 3) None, CE_Click PB_Primary 7 (F64_Fin 2),
       CE_Click PB_Primary 7 (F64_Fin 4)] ([sample_chart], no_clicks)))"
    by (simp add: scales_itself_def chart_step_def chart_drag_def chart_click_def sample_chart_def no_clicks_def
        is_double_click_def Let_def)
  show "scales_itself 7 (fst (fold (chart_step (\<lambda>_. 0))
      ([CE_Drag PB_Primary 7 (F64_Fin 2, F64_Fin 3) None, CE_Click PB_Primary 7 (F64_Fin 2),
       CE_Click PB_Primary 7 (F64_Fin 4)] @ [CE_Click PB_Primary 7 (F64_Fin 4)]) ([sample_chart], no_clicks)))"
  proof -
    have "f32_sub (F64_Fin 4) (F64_Fin 4) \<le> DOUBLE_CLICK_SECS" by code_simp
    then show ?thesis
      by (simp add: scales_itself_def chart_step_def chart_drag_def chart_click_def sample_chart_def no_clicks_def
          is_double_click_def reset_view_def Let_def)
  qed
qed

end
