(* ===== verification/Chart_Panes.thy ===== *)
theory Chart_Panes
  imports Chart_View
begin

text \<open>
  What is drawn around and over a chart: the labels of the axes (\<open>src/ui/chart_axes.rs\<close>), the cross
  of the pointer with its readings (\<open>src/ui/chart_crosshair.rs\<close>), the candles and volumes
  (\<open>src/ui/chart_render.rs\<close>, \<open>src/ui/chart_volume.rs\<close>) and the rows of the order book
  (\<open>src/ui/chart_ladder_pane.rs\<close>). What is drawn is a list; colours are left out but for the side
  they stand for. Printing a float to a number of digits, the decimal logarithm and power, and the
  calendar crate are parameters.
\<close>

section \<open>Model\<close>

subsection \<open>The labels of the axes\<close>

definition TEXT_SIZE :: f32 where "TEXT_SIZE = F64_Fin 11"
definition PRICE_LABEL_PAD_X :: f32 where "PRICE_LABEL_PAD_X = F64_Fin 3"
definition PRICE_LABEL_PITCH :: f32 where "PRICE_LABEL_PITCH = F64_Fin 3"
definition TIME_LABEL_PITCH :: f32 where "TIME_LABEL_PITCH = f32_of (45 / 10)"
definition MIN_TIME_LABEL_SPACING :: f32 where "MIN_TIME_LABEL_SPACING = F64_Fin 44"
definition MAX_LABELS :: nat where "MAX_LABELS = 64"

text \<open>The decimal logarithm, and the power of ten of a float.\<close>

record log_lib =
  lg_log10 :: "f32 \<Rightarrow> f32"
  lg_pow10 :: "f32 \<Rightarrow> f32"

definition calc_optimal_price_ticks :: "log_lib \<Rightarrow> f32 \<Rightarrow> f32 \<Rightarrow> int \<Rightarrow> f32 \<times> f32" where
  "calc_optimal_price_ticks lg highest lowest labels_can_fit =
     (let range = f32_max (f64_abs (f32_sub highest lowest)) F32_EPSILON;
          labels = f32_of_int (max 1 labels_can_fit);
          base = lg_pow10 lg (f32_floor (lg_log10 lg range));
          r = f32_div range base;
          step = (if r \<le> f32_mul labels (f32_of (1 / 10)) then f32_mul (f32_of (1 / 10)) base
                  else if r \<le> f32_mul labels (f32_of (2 / 10)) then f32_mul (f32_of (2 / 10)) base
                  else if r \<le> f32_mul labels (f32_of (5 / 10)) then f32_mul (f32_of (5 / 10)) base
                  else if r \<le> labels then base
                  else if r \<le> f32_mul labels (F64_Fin 2) then f32_mul (F64_Fin 2) base
                  else f32_min (f32_div range labels) (f32_mul (F64_Fin 5) base)) in
      (step, f32_mul (f32_ceil (f32_div highest step)) step))"

definition M1_TIME_STEPS :: "int list" where
  "M1_TIME_STEPS = map (\<lambda>n. n * 60000) [720, 180, 60, 30, 15, 10, 5, 2, 1]"
definition M3_TIME_STEPS :: "int list" where
  "M3_TIME_STEPS = map (\<lambda>n. n * 60000) [1440, 720, 360, 120, 60, 30, 15, 9, 3]"
definition M5_TIME_STEPS :: "int list" where
  "M5_TIME_STEPS = map (\<lambda>n. n * 60000) [1440, 720, 480, 240, 120, 60, 30, 15, 5]"
definition HOURLY_TIME_STEPS :: "int list" where
  "HOURLY_TIME_STEPS = map (\<lambda>n. n * 60000) [5760, 2880, 1440, 720, 480, 240, 120, 60]"
definition MS_TIME_STEPS :: "int list" where
  "MS_TIME_STEPS = [120000, 60000, 30000, 10000, 5000, 2000, 1000, 500, 200, 100]"

definition time_steps_for :: "u64 \<Rightarrow> int list" where
  "time_steps_for timeframe =
     (let tf_min = uint timeframe div 60000 in
      if tf_min = 0 then MS_TIME_STEPS else if tf_min = 1 then M1_TIME_STEPS
      else if tf_min = 3 then M3_TIME_STEPS else if tf_min = 5 then M5_TIME_STEPS
      else if tf_min = 15 then take 7 M5_TIME_STEPS else if tf_min = 30 then take 6 M5_TIME_STEPS
      else HOURLY_TIME_STEPS)"

fun pick_step :: "int \<Rightarrow> int \<Rightarrow> int \<Rightarrow> int list \<Rightarrow> int" where
  "pick_step duration want selected [] = selected"
| "pick_step duration want selected (step # steps) =
     (if 0 < step \<and> want \<le> duration div step then step
      else pick_step duration want (if step \<le> duration then step else selected) steps)"

definition calc_optimal_time_step :: "int \<Rightarrow> int \<Rightarrow> int \<Rightarrow> u64 \<Rightarrow> int \<times> int" where
  "calc_optimal_time_step earliest latest labels_can_fit timeframe =
     (let steps = time_steps_for timeframe; duration = max 0 (latest - earliest); want = max 1 labels_can_fit;
          step = pick_step duration want (hd steps) steps in
      (step, if 0 < step then earliest div step * step else earliest))"

text \<open>Down to the first value that is not above; the loop of the code has no bound, so None is a loop
  that does not end.\<close>

partial_function (option) down_to :: "f32 \<Rightarrow> f32 \<Rightarrow> f32 \<Rightarrow> f32 option" where
  "down_to high step value = (if high < value then down_to high step (f32_sub value step) else Some value)"

fun label_values :: "nat \<Rightarrow> f32 \<Rightarrow> f32 \<Rightarrow> f32 \<Rightarrow> f32 list" where
  "label_values 0 low step value = []"
| "label_values (Suc n) low step value =
     (if low \<le> value then value # label_values n low step (f32_sub value step) else [])"

record axis_label =
  al_chart :: nat
  al_text :: str
  al_x :: f32
  al_y :: f32

definition price_labels_fit :: "chart_view_state \<Rightarrow> int" where
  "price_labels_fit s = f32_to_i32 (f32_max (f32_div (main_area_height s) (f32_mul TEXT_SIZE PRICE_LABEL_PITCH)) (F64_Fin 1))"

text \<open>The labels of one chart, or a loop without end.\<close>

definition price_labels :: "log_lib \<Rightarrow> nat \<Rightarrow> chart_view_state \<Rightarrow> axis_label list option" where
  "price_labels lg e s =
     (let (low, high) = main_area_price_range s in
      if \<not> f64_is_finite low \<or> \<not> f64_is_finite high \<or> f64_abs (f32_sub high low) < F32_EPSILON then Some []
      else (let (step, rounded_max) = calc_optimal_price_ticks lg high low (price_labels_fit s) in
            if step \<le> 0 \<or> \<not> f64_is_finite step then Some []
            else map_option
                   (\<lambda>value. map (\<lambda>v. \<lparr>al_chart = e, al_text = fmt_fixed (cv_decimals s) v,
                        al_x = f32_add (half (f64_neg PRICE_GUTTER_WIDTH)) PRICE_LABEL_PAD_X, al_y = price_to_y s v\<rparr>)
                      (label_values MAX_LABELS low step value))
                   (down_to high step rounded_max)))"

text \<open>The changed charts whose gutter is alive; all labels, and None when one of the loops does not end.\<close>

definition relabel :: "(nat \<Rightarrow> chart_view_state \<Rightarrow> axis_label list option) \<Rightarrow> (nat \<times> chart_view_state) list \<Rightarrow> (nat \<Rightarrow> bool) \<Rightarrow>
    axis_label list \<Rightarrow> axis_label list option" where
  "relabel build changed alive labels =
     fold (\<lambda>(e, s) acc. Option.bind acc (\<lambda>ls.
             if \<not> alive e then Some ls
             else map_option (\<lambda>new. filter (\<lambda>l. al_chart l \<noteq> e) ls @ new) (build e s)))
       changed (Some labels)"

definition price_axis_labels_system ::
  "log_lib \<Rightarrow> (nat \<times> chart_view_state) list \<Rightarrow> (nat \<Rightarrow> bool) \<Rightarrow> axis_label list \<Rightarrow>
   axis_label list option" where
  "price_axis_labels_system lg = relabel (price_labels lg)"

text \<open>The first multiple that is not before the drawing.\<close>

function up_to :: "int \<Rightarrow> int \<Rightarrow> int \<Rightarrow> int" where
  "up_to earliest step t = (if t < earliest \<and> 0 < step then up_to earliest step (t + step) else t)"
  by auto
termination by (relation "measure (\<lambda>(earliest, step, t). nat (earliest - t))") auto

declare up_to.simps [simp del]

fun time_label_places :: "nat \<Rightarrow> (int \<Rightarrow> str option) \<Rightarrow> chart_view_state \<Rightarrow> int \<Rightarrow> int \<Rightarrow> f32 option \<Rightarrow> int \<Rightarrow> (int \<times> f32 \<times> str) list" where
  "time_label_places 0 fmt s latest step last_x t = []"
| "time_label_places (Suc n) fmt s latest step last_x t =
     (if latest < t then []
      else (let x = interval_to_x s t; half_x = half (fst (cv_bounds s));
                far = (case last_x of None \<Rightarrow> True | Some lx \<Rightarrow> MIN_TIME_LABEL_SPACING \<le> f32_sub x lx) in
            case (if f64_neg half_x \<le> x \<and> x \<le> half_x \<and> far then fmt t else None) of
              Some text \<Rightarrow> (t, x, text) # time_label_places n fmt s latest step (Some x) (t + step)
            | None \<Rightarrow> time_label_places n fmt s latest step last_x (t + step)))"

definition time_labels_fit :: "chart_view_state \<Rightarrow> int" where
  "time_labels_fit s = f32_to_i32 (f32_max (f32_div (fst (cv_bounds s)) (f32_mul TEXT_SIZE TIME_LABEL_PITCH)) (F64_Fin 1))"

definition time_labels :: "(int \<Rightarrow> str option) \<Rightarrow> chart_view_state \<Rightarrow> (int \<times> f32 \<times> str) list" where
  "time_labels fmt s =
     (let (earliest, latest) = visible_time_range s in
      if latest \<le> earliest then []
      else (let (step, rounded_earliest) = calc_optimal_time_step earliest latest (time_labels_fit s) (timeframe_ms s) in
            if step = 0 then []
            else time_label_places MAX_LABELS fmt s latest step None (up_to earliest step rounded_earliest)))"

definition time_axis_labels_system ::
  "(int \<Rightarrow> str option) \<Rightarrow> (nat \<times> chart_view_state) list \<Rightarrow> (nat \<Rightarrow> bool) \<Rightarrow> axis_label list \<Rightarrow> axis_label list option" where
  "time_axis_labels_system fmt =
     relabel (\<lambda>e s. Some (map (\<lambda>(t, x, text). \<lparr>al_chart = e, al_text = text, al_x = x, al_y = 0\<rparr>) (time_labels fmt s)))"

subsection \<open>The cross and its readings\<close>

record crosshair_state =
  xh_cursor :: "vec2 option"
  xh_price :: "f32 option"
  xh_time_ms :: "int option"
  xh_volume :: "f32 option"

definition crosshair_default :: crosshair_state where
  "crosshair_default = \<lparr>xh_cursor = None, xh_price = None, xh_time_ms = None, xh_volume = None\<rparr>"

text \<open>The pointer moves over the chart; \<open>hit\<close> is its place in the world, \<open>origin\<close> that of the chart.\<close>

definition crosshair_move :: "vec2 option \<Rightarrow> vec2 \<Rightarrow> crosshair_state \<Rightarrow> crosshair_state" where
  "crosshair_move hit origin x =
     (case hit of
        None \<Rightarrow> x
      | Some p \<Rightarrow> x\<lparr>xh_cursor := Some (f32_sub (fst p) (fst origin), f32_sub (snd p) (snd origin))\<rparr>)"

definition crosshair_out :: "crosshair_state \<Rightarrow> crosshair_state" where
  "crosshair_out x = x\<lparr>xh_cursor := None, xh_price := None, xh_time_ms := None, xh_volume := None\<rparr>"

text \<open>\<open>binary_search_by_key\<close> on increasing times: the place of the time, or where it would go.\<close>

definition binary_search :: "int \<Rightarrow> int list \<Rightarrow> nat + nat" where
  "binary_search t ts =
     (case position (\<lambda>x. t \<le> x) ts of
        Some i \<Rightarrow> if ts ! i = t then Inr i else Inl i
      | None \<Rightarrow> Inl (length ts))"

definition nearest_candle_volume :: "ohlc_point list \<Rightarrow> int \<Rightarrow> f32 option" where
  "nearest_candle_volume ohlc target =
     (if ohlc = [] then None
      else (let idx = (case binary_search target (map oh_open_time_ms ohlc) of
                 Inr i \<Rightarrow> i
               | Inl i \<Rightarrow>
                   if i = 0 then 0
                   else if length ohlc \<le> i then length ohlc - 1
                   else (let prev_dist = target - oh_open_time_ms (ohlc ! (i - 1));
                             next_dist = oh_open_time_ms (ohlc ! i) - target in
                         if prev_dist \<le> next_dist then i - 1 else i)) in
            oh_volume (ohlc ! idx)))"

text \<open>The readings of a chart whose cross or view changed.\<close>

definition crosshair_derive :: "ohlc_point list option \<Rightarrow> chart_view_state \<Rightarrow> crosshair_state \<Rightarrow> crosshair_state" where
  "crosshair_derive data s x =
     (case xh_cursor x of
        None \<Rightarrow> x
      | Some c \<Rightarrow>
          (let t = x_to_time_ms s (fst c); in_main = main_area_y_bottom s \<le> snd c in
           x\<lparr>xh_price := (if in_main then Some (y_to_price s (snd c)) else None),
             xh_time_ms := Some t,
             xh_volume := (if in_main then None else Option.bind data (\<lambda>pts. nearest_candle_volume pts t))\<rparr>))"

definition chart_crosshair_derive_system ::
  "(str \<Rightarrow> instrument_trading_data option) \<Rightarrow> (bool \<times> str \<times> chart_view_state \<times> crosshair_state) list \<Rightarrow>
   (bool \<times> str \<times> chart_view_state \<times> crosshair_state) list" where
  "chart_crosshair_derive_system m cs =
     map (\<lambda>(changed, i, s, x).
            (changed, i, s, if changed then crosshair_derive (map_option itd_ohlc_points (m i)) s x else x)) cs"

datatype drawn =
    Line vec2 vec2
  | Rect vec2 vec2 bool

text \<open>The two lines, relative to the chart.\<close>

definition chart_crosshair_render_system :: "(chart_view_state \<times> crosshair_state) list \<Rightarrow> drawn list list" where
  "chart_crosshair_render_system cs =
     map (\<lambda>(s, x). case xh_cursor x of
            None \<Rightarrow> []
          | Some (cx, cy) \<Rightarrow>
              [Line (cx, half (f64_neg (snd (cv_bounds s)))) (cx, half (snd (cv_bounds s))),
               Line (half (f64_neg (fst (cv_bounds s))), cy) (half (fst (cv_bounds s)), cy)]) cs"

datatype gutter = Gutter_Price | Gutter_Time

record badge =
  bd_chart :: nat
  bd_gutter :: gutter
  bd_place :: vec2
  bd_size :: vec2
  bd_text :: str

definition PRICE_BADGE_HEIGHT :: f32 where "PRICE_BADGE_HEIGHT = F64_Fin 16"
definition TIME_BADGE_WIDTH :: f32 where "TIME_BADGE_WIDTH = F64_Fin 46"

definition format_volume :: "f32 \<Rightarrow> str" where
  "format_volume vol =
     (let v = f64_abs vol in
      if F64_Fin 1000000000 \<le> v then fmt_fixed 1 (f32_div vol (F64_Fin 1000000000)) @ ''B''
      else if F64_Fin 1000000 \<le> v then fmt_fixed 1 (f32_div vol (F64_Fin 1000000)) @ ''M''
      else if F64_Fin 1000 \<le> v then fmt_fixed 1 (f32_div vol (F64_Fin 1000)) @ ''K''
      else fmt_fixed 0 vol)"

definition badges_of ::
  "(int \<Rightarrow> str option) \<Rightarrow> bool \<Rightarrow> bool \<Rightarrow> nat \<Rightarrow> chart_view_state \<Rightarrow> crosshair_state \<Rightarrow> badge list" where
  "badges_of fmt_time price_alive time_alive e s x =
     (case xh_price x of
        Some p \<Rightarrow>
          (if price_alive
           then [\<lparr>bd_chart = e, bd_gutter = Gutter_Price, bd_place = (0, price_to_y s p),
                  bd_size = (PRICE_GUTTER_WIDTH, PRICE_BADGE_HEIGHT), bd_text = fmt_fixed (cv_decimals s) p\<rparr>] else [])
      | None \<Rightarrow> []) @
     (case (xh_volume x, xh_cursor x) of
        (Some v, Some c) \<Rightarrow>
          (if price_alive
           then [\<lparr>bd_chart = e, bd_gutter = Gutter_Price, bd_place = (0, snd c),
                  bd_size = (PRICE_GUTTER_WIDTH, PRICE_BADGE_HEIGHT), bd_text = format_volume v\<rparr>] else [])
      | _ \<Rightarrow> []) @
     (case xh_time_ms x of
        Some t \<Rightarrow>
          (case (if time_alive then fmt_time t else None) of
             Some text \<Rightarrow> [\<lparr>bd_chart = e, bd_gutter = Gutter_Time, bd_place = (interval_to_x s t, 0),
                           bd_size = (TIME_BADGE_WIDTH, TIME_GUTTER_HEIGHT), bd_text = text\<rparr>]
           | None \<Rightarrow> [])
      | None \<Rightarrow> [])"

text \<open>The charts whose cross changed.\<close>

definition crosshair_badge_system ::
  "(int \<Rightarrow> str option) \<Rightarrow> (nat \<Rightarrow> bool) \<Rightarrow> (nat \<Rightarrow> bool) \<Rightarrow>
   (nat \<times> chart_view_state \<times> crosshair_state) list \<Rightarrow> badge list \<Rightarrow> badge list" where
  "crosshair_badge_system fmt_time price_alive time_alive changed bs =
     fold (\<lambda>(e, s, x) bs. filter (\<lambda>b. bd_chart b \<noteq> e) bs @
             badges_of fmt_time (price_alive e) (time_alive e) e s x) changed bs"

subsection \<open>Candles and volumes\<close>

definition max_visible_volume :: "ohlc_point list \<Rightarrow> f32" where
  "max_visible_volume visible = fold (\<lambda>v m. f32_max m v) (List.map_filter oh_volume visible) 0"

definition volume_bar_height :: "f32 \<Rightarrow> f32 \<Rightarrow> f32 \<Rightarrow> f32" where
  "volume_bar_height vol max_volume area_height =
     (if max_volume \<le> 0 then 0
      else (case f32_clamp 0 (F64_Fin 1) (f32_div vol max_volume) of
              Some r \<Rightarrow> f32_mul r area_height | None \<Rightarrow> 0))"

text \<open>The bars, relative to the chart: the middle of each, its size, and whether the price rose.\<close>

definition volume_bar :: "chart_view_state \<Rightarrow> f32 \<Rightarrow> ohlc_point \<Rightarrow> drawn list" where
  "volume_bar s mx c =
     (case oh_volume c of
        None \<Rightarrow> []
      | Some vol \<Rightarrow>
          (let height = volume_bar_height vol mx (volume_area_height s) in
           if height \<le> 0 then []
           else [Rect (interval_to_x s (oh_open_time_ms c),
                       f32_add (half (f64_neg (snd (cv_bounds s)))) (half height))
                   (f32_mul (body_half_width s) (F64_Fin 2), height) (oh_open c \<le> oh_close c)]))"

definition volume_render_system ::
  "(str \<Rightarrow> instrument_trading_data option) \<Rightarrow> (str \<times> chart_view_state) list \<Rightarrow> drawn list list" where
  "volume_render_system m cs =
     map (\<lambda>(i, s). case m i of
            None \<Rightarrow> []
          | Some data \<Rightarrow>
              (let visible = visible_candle_slice s (itd_ohlc_points data); mx = max_visible_volume visible in
               if mx \<le> 0 then [] else concat (map (volume_bar s mx) visible))) cs"

definition draw_candle :: "chart_view_state \<Rightarrow> f32 \<Rightarrow> ohlc_point \<Rightarrow> drawn list" where
  "draw_candle s x pt =
     (let y_open = price_to_y s (oh_open pt); y_close = price_to_y s (oh_close pt) in
      [Line (x, price_to_y s (oh_low pt)) (x, price_to_y s (oh_high pt)),
       Rect (x, half (f32_add y_open y_close))
         (f32_mul (body_half_width s) (F64_Fin 2), f32_max (f64_abs (f32_sub y_close y_open)) (f32_of (3 / 2)))
         (oh_open pt \<le> oh_close pt)])"

fun draw_candles :: "chart_view_state \<Rightarrow> vec2 option \<Rightarrow> ohlc_point list \<Rightarrow> drawn list" where
  "draw_candles s prev [] = []"
| "draw_candles s prev (pt # pts) =
     (let x = interval_to_x s (oh_open_time_ms pt); current = (x, price_to_y s (oh_close pt)) in
      (case prev of Some p \<Rightarrow> [Line p current] | None \<Rightarrow> []) @ draw_candle s x pt @ draw_candles s (Some current) pts)"

text \<open>The background is drawn for every chart that has data.\<close>

definition chart_main_render_system ::
  "(str \<Rightarrow> instrument_trading_data option) \<Rightarrow> (str \<times> chart_view_state) list \<Rightarrow> (bool \<times> drawn list) list" where
  "chart_main_render_system m cs =
     map (\<lambda>(i, s). case m i of
            None \<Rightarrow> (False, [])
          | Some data \<Rightarrow> (True, draw_candles s None (visible_candle_slice s (itd_ohlc_points data)))) cs"

subsection \<open>The rows of the order book\<close>

definition LADDER_CONTENT_HEIGHT :: f32 where "LADDER_CONTENT_HEIGHT = F64_Fin 204"
definition LADDER_ROW_COUNT :: f32 where "LADDER_ROW_COUNT = F64_Fin 21"
definition LADDER_DEPTH :: nat where "LADDER_DEPTH = 10"
definition LADDER_PRICE_DECIMALS :: nat where "LADDER_PRICE_DECIMALS = 2"

datatype ladder_row_kind = LR_Ask | LR_Last | LR_Bid

definition ladder_row_height :: "f32 \<Rightarrow> f32" where
  "ladder_row_height h = f32_div h LADDER_ROW_COUNT"

definition ladder_row_y :: "ladder_row_kind \<Rightarrow> nat \<Rightarrow> f32 \<Rightarrow> f32" where
  "ladder_row_y kind index h =
     (let up = f32_add (f32_of_int (int index)) (F64_Fin 1); row = ladder_row_height h in
      case kind of LR_Last \<Rightarrow> 0 | LR_Ask \<Rightarrow> f32_mul up row | LR_Bid \<Rightarrow> f32_mul (f64_neg up) row)"

text \<open>What the hasher is fed; the hash function is a parameter.\<close>

definition signature_words :: "(f64 \<Rightarrow> u64) \<Rightarrow> depth_snapshot option \<Rightarrow> f64 option \<Rightarrow> u64 list" where
  "signature_words bits depth last_price =
     (case depth of
        None \<Rightarrow> [0]
      | Some d \<Rightarrow> [1, of_nat (length (ds_asks d)), of_nat (length (ds_bids d))] @
          concat (map (\<lambda>l. [bits (dl_price l), bits (dl_size l)]) (ds_asks d @ ds_bids d))) @
     [case last_price of Some p \<Rightarrow> bits p | None \<Rightarrow> - 1]"

definition depth_signature :: "(u64 list \<Rightarrow> u64) \<Rightarrow> (f64 \<Rightarrow> u64) \<Rightarrow> depth_snapshot option \<Rightarrow> f64 option \<Rightarrow> u64" where
  "depth_signature hash bits depth last_price = hash (signature_words bits depth last_price)"

text \<open>The hash of the standard library and the bits of a float, both used only to compare.\<close>

record ladder_lib =
  ll_hash :: "u64 list \<Rightarrow> u64"
  ll_bits :: "f64 \<Rightarrow> u64"

definition format_level_label :: "depth_level option \<Rightarrow> str" where
  "format_level_label level =
     (case level of
        Some l \<Rightarrow> fmt_fixed LADDER_PRICE_DECIMALS (dl_price l) @ ''  '' @
                    format_volume (f64_as_f32 (dl_size l))
      | None \<Rightarrow> ''---'')"

record ladder_row =
  lr_kind :: ladder_row_kind
  lr_y :: f32
  lr_label :: str

definition spawn_row :: "ladder_row_kind \<Rightarrow> nat \<Rightarrow> str \<Rightarrow> ladder_row" where
  "spawn_row kind index label =
     \<lparr>lr_kind = kind, lr_y = ladder_row_y kind index LADDER_CONTENT_HEIGHT, lr_label = label\<rparr>"

definition get :: "'a list \<Rightarrow> nat \<Rightarrow> 'a option" where
  "get xs i = (if i < length xs then Some (xs ! i) else None)"

definition last_row_label :: "f64 option \<Rightarrow> str" where
  "last_row_label last_price =
     (case last_price of Some p \<Rightarrow> ''LAST '' @ fmt_fixed LADDER_PRICE_DECIMALS p | None \<Rightarrow> ''LAST ---'')"

definition ladder_rows :: "depth_snapshot option \<Rightarrow> f64 option \<Rightarrow> ladder_row list" where
  "ladder_rows depth last_price =
     (case depth of
        Some d \<Rightarrow>
          map (\<lambda>i. spawn_row LR_Ask i (format_level_label (get (ds_asks d) i))) [0..<LADDER_DEPTH] @
          [spawn_row LR_Last 0 (last_row_label last_price)] @
          map (\<lambda>i. spawn_row LR_Bid i (format_level_label (get (ds_bids d) i))) [0..<LADDER_DEPTH]
      | None \<Rightarrow> [spawn_row LR_Last 0 ''No depth data''])"

record ladder_pane =
  lp_root :: nat
  lp_signature :: u64
  lp_added :: bool
  lp_rows :: "ladder_row list"

definition render_pane ::
  "ladder_lib \<Rightarrow> bool \<Rightarrow> (nat \<Rightarrow> str option) \<Rightarrow> (str \<Rightarrow> instrument_trading_data option) \<Rightarrow> (str \<Rightarrow> f64 option) \<Rightarrow>
   ladder_pane \<Rightarrow> ladder_pane" where
  "render_pane lib map_changed instrument m last_prices p =
     (if \<not> map_changed \<and> \<not> lp_added p then p
      else (case instrument (lp_root p) of
              None \<Rightarrow> p
            | Some i \<Rightarrow>
                (let depth = Option.bind (m i) itd_depth; last_price = last_prices i;
                     sg = depth_signature (ll_hash lib) (ll_bits lib) depth last_price in
                 if \<not> lp_added p \<and> sg = lp_signature p then p
                 else p\<lparr>lp_signature := sg, lp_rows := ladder_rows depth last_price\<rparr>)))"

definition ladder_render_system ::
  "ladder_lib \<Rightarrow> bool \<Rightarrow> (nat \<Rightarrow> str option) \<Rightarrow> (str \<Rightarrow> instrument_trading_data option) \<Rightarrow> (str \<Rightarrow> f64 option) \<Rightarrow>
   ladder_pane list \<Rightarrow> ladder_pane list" where
  "ladder_render_system lib map_changed instrument m last_prices = map (render_pane lib map_changed instrument m last_prices)"

section \<open>Properties\<close>

subsection \<open>The labels of the time axis\<close>

lemma time_steps_positive: "list_all (\<lambda>s. 0 < s) (time_steps_for tf) \<and> time_steps_for tf \<noteq> []"
  by (simp add: time_steps_for_def MS_TIME_STEPS_def M1_TIME_STEPS_def M3_TIME_STEPS_def M5_TIME_STEPS_def
      HOURLY_TIME_STEPS_def Let_def)

lemma pick_step_positive: "0 < selected \<Longrightarrow> list_all (\<lambda>s. 0 < s) steps \<Longrightarrow> 0 < pick_step duration want selected steps"
  by (induction steps arbitrary: selected) auto

lemma time_step_positive:
  assumes "calc_optimal_time_step earliest latest room tf = (step, r)"
  shows "0 < step \<and> step dvd r \<and> r \<le> earliest"
proof -
  have "0 < pick_step d w (hd (time_steps_for tf)) (time_steps_for tf)" for d w
    using time_steps_positive [of tf] by (intro pick_step_positive) (auto simp: list_all_iff)
  then have "0 < step" and "r = earliest div step * step"
    using assms by (auto simp: calc_optimal_time_step_def Let_def)
  then show ?thesis
    using pos_mod_sign [of step earliest] by (simp flip: minus_mod_eq_div_mult)
qed

lemma up_to_spec:
  assumes "0 < step"
  shows "earliest \<le> up_to earliest step t \<and> t \<le> up_to earliest step t \<and> step dvd (up_to earliest step t - t)"
  using assms
proof (induction earliest step t rule: up_to.induct)
  case (1 earliest step t)
  show ?case
  proof (cases "t < earliest")
    case True
    with 1 have "earliest \<le> up_to earliest step (t + step) \<and> t + step \<le> up_to earliest step (t + step) \<and>
        step dvd (up_to earliest step (t + step) - (t + step))" by simp
    moreover from this have "step dvd (up_to earliest step (t + step) - (t + step)) + step" by (intro dvd_add) simp_all
    ultimately show ?thesis using True 1(2) by (simp add: up_to.simps [of earliest step t])
  qed (simp add: up_to.simps [of earliest step t])
qed

definition far_apart :: "f32 option \<Rightarrow> f32 \<Rightarrow> bool" where
  "far_apart last_x x \<longleftrightarrow> (case last_x of None \<Rightarrow> True | Some lx \<Rightarrow> MIN_TIME_LABEL_SPACING \<le> f32_sub x lx)"

fun spaced :: "f32 option \<Rightarrow> f32 list \<Rightarrow> bool" where
  "spaced last_x [] = True"
| "spaced last_x (x # xs) = (far_apart last_x x \<and> spaced (Some x) xs)"

text \<open>A label stands at the place of its time, which is no earlier than the first, no later than the last,
  and a number of steps after a given time.\<close>

fun label_at :: "(int \<Rightarrow> str option) \<Rightarrow> chart_view_state \<Rightarrow> int \<Rightarrow> int \<Rightarrow> int \<Rightarrow> int \<Rightarrow> int \<times> f32 \<times> str \<Rightarrow> bool" where
  "label_at fmt s step origin lo hi (u, x, label) \<longleftrightarrow>
     lo \<le> u \<and> u \<le> hi \<and> step dvd (u - origin) \<and> x = interval_to_x s u \<and> fmt u = Some label \<and>
     f64_neg (half (fst (cv_bounds s))) \<le> x \<and> x \<le> half (fst (cv_bounds s))"

lemma label_at_mono:
  assumes "label_at fmt s step origin lo hi l" and "lo' \<le> lo" and "step dvd (origin - origin')"
  shows "label_at fmt s step origin' lo' hi l"
proof -
  obtain u x label where l: "l = (u, x, label)" by (cases l)
  have "step dvd (u - origin) + (origin - origin')" using assms l by (intro dvd_add) simp_all
  with assms l show ?thesis by auto
qed

lemma time_label_places_spec:
  assumes "0 < step"
  shows "let ls = time_label_places n fmt s latest step last_x t in
    length ls \<le> n \<and> sorted_wrt (<) (map fst ls) \<and> spaced last_x (map (fst \<circ> snd) ls) \<and>
    list_all (label_at fmt s step t t latest) ls"
  using assms
proof (induction n fmt s latest step last_x t rule: time_label_places.induct)
  case (2 n fmt s latest step last_x t)
  let ?half = "half (fst (cv_bounds s))"
  have later: "list_all (label_at fmt s step t t latest) ls"
    and above: "\<forall>u \<in> set (map fst ls). t < u" if "list_all (label_at fmt s step (t + step) (t + step) latest) ls" for ls
    using that 2(3) by (auto simp: list_all_iff intro: label_at_mono)
  let ?x = "interval_to_x s t"
  let ?label = "if f64_neg ?half \<le> ?x \<and> ?x \<le> ?half \<and> far_apart last_x ?x then fmt t else None"
  show ?case
  proof (cases "latest < t")
    case False
    show ?thesis
    proof (cases ?label)
      case None
      with False have "time_label_places (Suc n) fmt s latest step last_x t =
          time_label_places n fmt s latest step last_x (t + step)"
        by (simp add: Let_def far_apart_def)
      with 2(1) [OF False refl refl _ None [unfolded far_apart_def]] 2(3) later show ?thesis
        by (simp add: Let_def)
    next
      case (Some label)
      then have here: "far_apart last_x ?x" "label_at fmt s step t t latest (t, ?x, label)"
        using False by (auto split: if_splits)
      from Some False have e: "time_label_places (Suc n) fmt s latest step last_x t =
          (t, ?x, label) # time_label_places n fmt s latest step (Some ?x) (t + step)"
        by (simp add: Let_def far_apart_def)
      define ls where "ls = time_label_places n fmt s latest step (Some ?x) (t + step)"
      have ih: "length ls \<le> n \<and> sorted_wrt (<) (map fst ls) \<and> spaced (Some ?x) (map (fst \<circ> snd) ls) \<and>
          list_all (label_at fmt s step (t + step) (t + step) latest) ls"
        using 2(2) [OF False refl refl _ Some [unfolded far_apart_def]] 2(3) by (simp add: ls_def Let_def o_def)
      show ?thesis
        unfolding e ls_def [symmetric] Let_def using here ih later [of ls] above [of ls]
        by (simp add: o_def del: label_at.simps)
    qed
  qed simp
qed simp

text \<open>C36: The labels of the time axis stand at multiples of one step within the visible times, in order, at
  the places of their times and within the drawing, never closer than the room a label needs, and there
  are at most sixty-four.\<close>

theorem time_labels_sound:
  "let (earliest, latest) = visible_time_range s;
       step = fst (calc_optimal_time_step earliest latest (time_labels_fit s) (timeframe_ms s));
       ls = time_labels fmt s in
   0 < step \<and> length ls \<le> MAX_LABELS \<and> sorted_wrt (<) (map fst ls) \<and> spaced None (map (fst \<circ> snd) ls) \<and>
   list_all (label_at fmt s step 0 earliest latest) ls"
proof -
  obtain earliest latest where r: "visible_time_range s = (earliest, latest)" by (cases "visible_time_range s")
  obtain step start where c: "calc_optimal_time_step earliest latest (time_labels_fit s) (timeframe_ms s) = (step, start)"
    by (cases "calc_optimal_time_step earliest latest (time_labels_fit s) (timeframe_ms s)")
  have step: "0 < step" "step dvd start" using time_step_positive [OF c] by auto
  let ?t = "up_to earliest step start"
  have "step dvd (?t - start) + start" using up_to_spec [OF step(1), of earliest start] step(2) by (intro dvd_add) simp_all
  then have t: "earliest \<le> ?t" "step dvd (?t - 0)" using up_to_spec [OF step(1), of earliest start] by simp_all
  let ?ls = "time_labels fmt s"
  have "0 < step \<and> length ?ls \<le> MAX_LABELS \<and> sorted_wrt (<) (map fst ?ls) \<and> spaced None (map (fst \<circ> snd) ?ls) \<and>
    list_all (label_at fmt s step 0 earliest latest) ?ls"
  proof (cases "latest \<le> earliest")
    case False
    then have "?ls = time_label_places MAX_LABELS fmt s latest step None ?t"
      using step by (simp add: time_labels_def r c)
    with time_label_places_spec [OF step(1), of MAX_LABELS fmt s latest None ?t] label_at_mono [OF _ t] step(1)
    show ?thesis by (simp add: Let_def list_all_iff)
  qed (simp add: time_labels_def r c step)
  then show ?thesis by (simp only: r c Let_def fst_conv prod.case)
qed

subsection \<open>The labels of the price axis may never end\<close>

lemma down_to_stuck: "high < value \<Longrightarrow> f32_sub value step = value \<Longrightarrow> down_to high step value = None"
proof (rule ccontr)
  assume stuck: "high < value" "f32_sub value step = value" and "down_to high step value \<noteq> None"
  then obtain y where "down_to high step value = Some y" by auto
  then have "\<not> (high < value \<and> f32_sub value step = value)"
    by (rule down_to.raw_induct [where P = "\<lambda>h st v y. \<not> (h < v \<and> f32_sub v st = v)", rotated])
       (auto split: if_splits)
  with stuck show False by simp
qed

text \<open>A chart of a window somewhat higher than the default, zoomed in as far as the zoom goes, at a price
  of eight hundred thousand.\<close>

definition endless_view :: chart_view_state where
  "endless_view = chart_view_default
     \<lparr>cv_bounds := (F64_Fin 310, F64_Fin 400), cv_cell_height := f32_mul MAX_PX_PER_PRICE_UNIT (f32_of (1 / 100)),
      cv_base_price_y := F64_Fin 800219, cv_auto_scale := False\<rparr>"

lemma endless_range: "main_area_price_range endless_view = (F64_Fin (12803503 / 16), F64_Fin (12803505 / 16))"
  by code_simp

lemma endless_fit: "price_labels_fit endless_view = 9"
  by code_simp

definition endless_step :: f32 where "endless_step = f32_mul (f32_of (2 / 10)) (f32_of (1 / 10))"

lemma endless_ticks:
  assumes "f32_floor (lg_log10 lg (F64_Fin (1 / 8))) = F64_Fin (- 1)" and "lg_pow10 lg (F64_Fin (- 1)) = f32_of (1 / 10)"
  shows "calc_optimal_price_ticks lg (F64_Fin (12803505 / 16)) (F64_Fin (12803503 / 16)) 9 =
    (endless_step, F64_Fin (12803506 / 16))"
proof -
  have range: "f32_max (f64_abs (f32_sub (F64_Fin (12803505 / 16)) (F64_Fin (12803503 / 16)))) F32_EPSILON = F64_Fin (1 / 8)"
    by code_simp
  have cmp: "\<not> f32_div (F64_Fin (1 / 8)) (f32_of (1 / 10)) \<le> f32_mul (f32_of_int (max 1 9)) (f32_of (1 / 10))"
    "f32_div (F64_Fin (1 / 8)) (f32_of (1 / 10)) \<le> f32_mul (f32_of_int (max 1 9)) (f32_of (2 / 10))"
    by code_simp+
  have top: "f32_mul (f32_ceil (f32_div (F64_Fin (12803505 / 16)) (endless_step))) (endless_step) = F64_Fin (12803506 / 16)"
    by code_simp+
  show ?thesis using cmp top by (simp add: calc_optimal_price_ticks_def range assms Let_def endless_step_def)
qed

text \<open>C40: The loop that looks for the first label is not bounded, unlike the loop over the labels: in this
  view the step is less than half of the distance of two numbers at that price, the first candidate was
  rounded to above the drawing, and taking the step away from it does not change it. The zoom allows
  the view. Of the logarithm and the power only their value for this range and decade is used.\<close>

theorem price_axis_never_ends:
  assumes "f32_floor (lg_log10 lg (F64_Fin (1 / 8))) = F64_Fin (- 1)" and "lg_pow10 lg (F64_Fin (- 1)) = f32_of (1 / 10)"
  shows "in_zoom_bounds endless_view \<and> view_ok endless_view \<and> price_labels lg e endless_view = None"
proof -
  have ok: "in_zoom_bounds endless_view" "view_ok endless_view" by code_simp+
  have guards: "f64_is_finite (F64_Fin (12803503 / 16))" "f64_is_finite (F64_Fin (12803505 / 16))"
    "\<not> f64_abs (f32_sub (F64_Fin (12803505 / 16)) (F64_Fin (12803503 / 16))) < F32_EPSILON"
    "\<not> endless_step \<le> 0" "f64_is_finite (endless_step)"
    by code_simp+
  have "f32_sub (F64_Fin (12803506 / 16)) (endless_step) = F64_Fin (12803506 / 16)" by code_simp
  then have "down_to (F64_Fin (12803505 / 16)) (endless_step) (F64_Fin (12803506 / 16)) = None"
    by (intro down_to_stuck) simp_all
  with ok guards show ?thesis
    by (simp add: price_labels_def endless_range endless_fit endless_ticks [OF assms])
qed

lemma price_axis_never_ends_witness:
  "in_zoom_bounds endless_view \<and> view_ok endless_view \<and>
   price_labels \<lparr>lg_log10 = (\<lambda>x. F64_Fin (- 1)), lg_pow10 = (\<lambda>x. f32_of (1 / 10))\<rparr> 7 endless_view = None"
  by (rule price_axis_never_ends) (simp_all add: floor_minus)

subsection \<open>Days do not fit the cells of minutes\<close>

text \<open>The basis of a chart is a minute from its creation on; nothing changes it.\<close>

definition at_latest :: "int \<Rightarrow> f32 \<Rightarrow> chart_view_state" where
  "at_latest t w = chart_view_default\<lparr>cv_latest_x := t, cv_cell_width := w\<rparr>"

lemma day_out_of_view:
  assumes "MIN_CELL_WIDTH \<le> w" and "w \<le> MAX_CELL_WIDTH" and "u \<le> t - 86400000"
  shows "\<not> slice_left (at_latest t w) \<le> interval_to_x (at_latest t w) u"
proof -
  obtain r where w: "w = F64_Fin r" "1 \<le> r" "r \<le> 50"
    using assms(1,2) by (cases w) (auto simp: MIN_CELL_WIDTH_def MAX_CELL_WIDTH_def)
  have ok: "view_ok (at_latest t w)"
    using w view_ok_default by (simp add: view_ok_def at_latest_def right_anchor_x_def timeframe_ms_def zero_f64_def f64_is_finite_def)
  have cells: "f32_div (f32_of_int (- 86400000)) (timeframe_f32 (Basis_Time 60000)) = F64_Fin (- 1440)"
    and far: "f32_of (- 1440) = F64_Fin (- 1440)" "f32_add (f32_add (right_anchor_x chart_view_default)
        (f32_mul (F64_Fin (- 1440)) (F64_Fin 1))) 0 = F64_Fin (- 1293)"
    and left: "f32_sub (half (f64_neg (F64_Fin 310))) (F64_Fin 50) = F64_Fin (- 205)"
    by code_simp+
  have "f32_mul (F64_Fin (- 1440)) w \<le> F64_Fin (- 1440)"
    using w f32_of_mono [of "- 1440 * r" "- 1440"] far(1) by (simp add: f32_mul_def)
  then have "f32_mul (f32_mul (F64_Fin (- 1440)) w) (F64_Fin 1) \<le> f32_mul (F64_Fin (- 1440)) (F64_Fin 1)"
    by (rule f32_mul_mono) simp
  moreover obtain a where "right_anchor_x chart_view_default = F64_Fin a"
    using view_ok_default by (auto simp: view_ok_def f64_is_finite_def split: f64.splits)
  ultimately have "f32_add (f32_add (right_anchor_x chart_view_default) (f32_mul (f32_mul (F64_Fin (- 1440)) w) (F64_Fin 1))) 0
      \<le> F64_Fin (- 1293)"
    using far(2) by (simp add: zero_f64_def) (metis f32_add_mono f32_add_mono_left)
  moreover have "interval_to_x (at_latest t w) (t - 86400000) =
      f32_add (f32_add (right_anchor_x chart_view_default) (f32_mul (f32_mul (F64_Fin (- 1440)) w) (F64_Fin 1))) 0"
    using cells by (simp add: interval_to_x_def at_latest_def right_anchor_x_def chart_view_default_def)
  moreover have "interval_to_x (at_latest t w) u \<le> interval_to_x (at_latest t w) (t - 86400000)"
    using ok assms(3) by (rule interval_to_x_mono)
  ultimately have here: "interval_to_x (at_latest t w) u \<le> F64_Fin (- 1293)" by (metis f64_le_trans)
  have "f32_sub (half (f64_neg (F64_Fin 310))) (F64_Fin 50) \<le> slice_left (at_latest t w)"
  proof -
    have "f32_mul w (F64_Fin 1) \<le> f32_mul (F64_Fin 50) (F64_Fin 1)" using w by (intro f32_mul_mono) simp_all
    moreover have "f32_mul (F64_Fin 50) (F64_Fin 1) = F64_Fin 50" "half (f64_neg (F64_Fin 310)) = F64_Fin (- 155)" by code_simp+
    ultimately have "f64_neg (F64_Fin 50) \<le> f64_neg (f32_mul w (F64_Fin 1))"
      by (cases "f32_mul w (F64_Fin 1)") simp_all
    then show ?thesis
      using \<open>half (f64_neg (F64_Fin 310)) = F64_Fin (- 155)\<close>
      by (simp add: slice_left_def at_latest_def chart_view_default_def CHART_DRAW_SIZE_def f32_sub_def f32_add_mono_left)
  qed
  then have near: "F64_Fin (- 205) \<le> slice_left (at_latest t w)" using left by simp
  show ?thesis
  proof
    assume "slice_left (at_latest t w) \<le> interval_to_x (at_latest t w) u"
    with near here have "F64_Fin (- 205) \<le> F64_Fin (- 1293)" by (blast intro: f64_le_trans)
    then show False by simp
  qed
qed

text \<open>The candles of a scenario of days are a thousand cells apart: whatever cell width the zoom allows,
  a chart that was not moved shows one candle at most.\<close>

theorem daily_candles_out_of_view:
  assumes "ohlc \<noteq> []" and "sorted_wrt (\<lambda>a b. oh_open_time_ms a \<le> oh_open_time_ms b - 86400000) ohlc"
    and "MIN_CELL_WIDTH \<le> w" and "w \<le> MAX_CELL_WIDTH"
  shows "length (visible_candle_slice (at_latest (oh_open_time_ms (last ohlc)) w) ohlc) \<le> 1"
proof -
  let ?t = "oh_open_time_ms (last ohlc)"
  let ?v = "at_latest ?t w"
  obtain r where w: "w = F64_Fin r" "1 \<le> r"
    using assms(3,4) by (cases w) (auto simp: MIN_CELL_WIDTH_def MAX_CELL_WIDTH_def)
  have ok: "view_ok ?v"
    using w view_ok_default by (simp add: view_ok_def at_latest_def right_anchor_x_def timeframe_ms_def zero_f64_def f64_is_finite_def)
  have sorted: "sorted (map oh_open_time_ms ohlc)"
    using assms(2) unfolding sorted_map by (rule sorted_wrt_mono_rel [rotated]) simp
  have "\<forall>pt \<in> set (butlast ohlc). oh_open_time_ms pt \<le> ?t - 86400000"
    using assms(1,2) append_butlast_last_id [of ohlc]
    by (metis list.set_intros(1) sorted_wrt_append)
  then have none: "filter (\<lambda>pt. slice_left ?v \<le> interval_to_x ?v (oh_open_time_ms pt) \<and>
      interval_to_x ?v (oh_open_time_ms pt) \<le> slice_right ?v) (butlast ohlc) = []"
    using day_out_of_view [OF assms(3,4)] by (simp add: filter_empty_conv)
  have "visible_candle_slice ?v ohlc = filter (\<lambda>pt. slice_left ?v \<le> interval_to_x ?v (oh_open_time_ms pt) \<and>
      interval_to_x ?v (oh_open_time_ms pt) \<le> slice_right ?v) (butlast ohlc @ [last ohlc])"
    using visible_slice_filter [OF ok sorted] assms(1) by simp
  with none show ?thesis by simp
qed

lemma daily_candles_out_of_view_witness:
  "length (visible_candle_slice (at_latest (oh_open_time_ms (last (map sample_candle [0, 86400000, 172800000]))) (F64_Fin 6))
     (map sample_candle [0, 86400000, 172800000])) \<le> 1"
  by (rule daily_candles_out_of_view) (simp_all add: sample_candle_def MIN_CELL_WIDTH_def MAX_CELL_WIDTH_def)

subsection \<open>The readings of the cross\<close>

text \<open>The candle nearest to a time, the earlier one when two are as near.\<close>

lemma binary_search_cases:
  assumes "sorted_wrt (<) ts"
  shows "(\<exists>i < length ts. binary_search t ts = Inr i \<and> ts ! i = t) \<or>
    (\<exists>i \<le> length ts. binary_search t ts = Inl i \<and> (\<forall>j < i. ts ! j < t) \<and> (\<forall>j. i \<le> j \<longrightarrow> j < length ts \<longrightarrow> t < ts ! j))"
proof (cases "position (\<lambda>x. t \<le> x) ts")
  case None
  then have "\<forall>x \<in> set ts. x < t" by (simp add: position_None not_le)
  with None show ?thesis by (auto simp: binary_search_def)
next
  case (Some i)
  then have i: "i < length ts" "t \<le> ts ! i" "\<forall>j < i. ts ! j < t" by (auto dest: position_Some simp: not_le)
  have "ts ! i \<le> ts ! j" if "i \<le> j" "j < length ts" for j
    using assms that i by (cases "i = j") (auto simp: sorted_wrt_iff_nth_less less_imp_le)
  with i Some show ?thesis by (cases "ts ! i = t") (fastforce simp: binary_search_def)+
qed

lemma nearest_candle_is_nearest:
  assumes "sorted_wrt (<) (map oh_open_time_ms ohlc)" and "ohlc \<noteq> []"
  shows "\<exists>c \<in> set ohlc. nearest_candle_volume ohlc t = oh_volume c \<and>
    (\<forall>d \<in> set ohlc. \<bar>oh_open_time_ms c - t\<bar> \<le> \<bar>oh_open_time_ms d - t\<bar>)"
proof -
  let ?ts = "map oh_open_time_ms ohlc"
  let ?time = "\<lambda>i. oh_open_time_ms (ohlc ! i)"
  have mono: "?time i \<le> ?time j" if "i \<le> j" "j < length ohlc" for i j
    using assms(1) that by (cases "i = j") (auto simp: sorted_wrt_iff_nth_less less_imp_le)
  have pick: ?thesis
    if "i < length ohlc" "nearest_candle_volume ohlc t = oh_volume (ohlc ! i)"
      "\<forall>j < length ohlc. \<bar>?time i - t\<bar> \<le> \<bar>?time j - t\<bar>" for i
    using that by (intro bexI [of _ "ohlc ! i"]) (auto simp: all_set_conv_all_nth)
  from binary_search_cases [OF assms(1), of t] show ?thesis
  proof (elim disjE exE conjE)
    fix i assume "i < length ?ts" "binary_search t ?ts = Inr i" "?ts ! i = t"
    then show ?thesis using assms(2) by (intro pick [of i]) (simp_all add: nearest_candle_volume_def)
  next
    fix i assume i: "i \<le> length ?ts" and b: "binary_search t ?ts = Inl i"
      and below: "\<forall>j < i. ?ts ! j < t" and above: "\<forall>j. i \<le> j \<longrightarrow> j < length ?ts \<longrightarrow> t < ?ts ! j"
    let ?k = "if i = 0 then 0 else if length ohlc \<le> i then length ohlc - 1
      else if t - ?time (i - 1) \<le> ?time i - t then i - 1 else i"
    have k: "?k < length ohlc" using assms(2) i by auto
    have "nearest_candle_volume ohlc t = oh_volume (ohlc ! ?k)"
      using assms(2) b by (simp add: nearest_candle_volume_def Let_def)
    moreover have "\<bar>?time ?k - t\<bar> \<le> \<bar>?time j - t\<bar>" if j: "j < length ohlc" for j
    proof (cases "j < i")
      case True
      then have "?time j < t" "?time j \<le> ?time (i - 1)" using below j i mono [of j "i - 1"] by auto
      moreover have "?time (i - 1) < t" using below True i j by (cases "i - 1 < i") auto
      ultimately show ?thesis using above i True
        by (cases "length ohlc \<le> i") (auto simp: not_le)
    next
      case False
      then have "t < ?time j" "?time i \<le> ?time j" using above j mono [of i j] by auto
      moreover have "i < length ohlc" using False j by simp
      moreover have "0 < i \<Longrightarrow> ?time (i - 1) < t" using below i by auto
      moreover have "t < ?time i" using above \<open>i < length ohlc\<close> by simp
      ultimately show ?thesis by auto
    qed
    ultimately show ?thesis using k by (intro pick [of ?k]) auto
  qed
qed

lemma badges_of_chart: "b \<in> set (badges_of fmt_time pa ta e s x) \<Longrightarrow> bd_chart b = e"
  by (auto simp: badges_of_def split: option.splits if_splits)

lemma badges_replaced:
  "filter (\<lambda>b. bd_chart b = e) (crosshair_badge_system fmt_time pa ta [(e, s, x)] old) = badges_of fmt_time (pa e) (ta e) e s x"
  "filter (\<lambda>b. bd_chart b \<noteq> e) (crosshair_badge_system fmt_time pa ta [(e, s, x)] old) = filter (\<lambda>b. bd_chart b \<noteq> e) old"
  using badges_of_chart [of _ fmt_time "pa e" "ta e" e s x]
  by (auto simp: crosshair_badge_system_def filter_id_conv filter_empty_conv)

text \<open>C37: What is read under the pointer, for candles in order of time, and what the badges say: always the
  time; over the prices the price and no volume, over the volumes no price and the volume of the candle
  nearest to the time. Where the gutters are alive, the badges of the chart are then replaced by exactly one
  at the price axis, with the price or the volume that was read (none when that candle has no
  volume), and one at the time axis when the time can be written; those of other charts stay.\<close>

theorem crosshair_readings:
  assumes "sorted_wrt (<) (map oh_open_time_ms ohlc)" and "ohlc \<noteq> []" and "xh_cursor x = Some c"
    and "price_alive e" and "time_alive e"
  shows "let x' = crosshair_derive (Some ohlc) s x; t = x_to_time_ms s (fst c);
        bs = crosshair_badge_system fmt_time price_alive time_alive [(e, s, x')] old in
    xh_time_ms x' = Some t \<and>
    (if main_area_y_bottom s \<le> snd c then xh_price x' = Some (y_to_price s (snd c)) \<and> xh_volume x' = None
     else xh_price x' = None \<and>
       (\<exists>d \<in> set ohlc. xh_volume x' = oh_volume d \<and>
          (\<forall>d' \<in> set ohlc. \<bar>oh_open_time_ms d - t\<bar> \<le> \<bar>oh_open_time_ms d' - t\<bar>))) \<and>
    map (\<lambda>b. (bd_gutter b, bd_text b, bd_place b)) (filter (\<lambda>b. bd_chart b = e) bs) =
      (if main_area_y_bottom s \<le> snd c
       then [(Gutter_Price, fmt_fixed (cv_decimals s) (y_to_price s (snd c)), (0, price_to_y s (y_to_price s (snd c))))]
       else case xh_volume x' of Some v \<Rightarrow> [(Gutter_Price, format_volume v, (0, snd c))] | None \<Rightarrow> []) @
      (case fmt_time t of Some text \<Rightarrow> [(Gutter_Time, text, (interval_to_x s t, 0))] | None \<Rightarrow> []) \<and>
    filter (\<lambda>b. bd_chart b \<noteq> e) bs = filter (\<lambda>b. bd_chart b \<noteq> e) old"
proof -
  let ?x = "crosshair_derive (Some ohlc) s x"
  let ?t = "x_to_time_ms s (fst c)"
  have read: "xh_cursor ?x = Some c" "xh_time_ms ?x = Some ?t"
      "xh_price ?x = (if main_area_y_bottom s \<le> snd c then Some (y_to_price s (snd c)) else None)"
      "xh_volume ?x = (if main_area_y_bottom s \<le> snd c then None else nearest_candle_volume ohlc ?t)"
    using assms(3) by (simp_all add: crosshair_derive_def Let_def)
  have badges: "map (\<lambda>b. (bd_gutter b, bd_text b, bd_place b)) (badges_of fmt_time True True e s ?x) =
      (if main_area_y_bottom s \<le> snd c
       then [(Gutter_Price, fmt_fixed (cv_decimals s) (y_to_price s (snd c)), (0, price_to_y s (y_to_price s (snd c))))]
       else case xh_volume ?x of Some v \<Rightarrow> [(Gutter_Price, format_volume v, (0, snd c))] | None \<Rightarrow> []) @
      (case fmt_time ?t of Some text \<Rightarrow> [(Gutter_Time, text, (interval_to_x s ?t, 0))] | None \<Rightarrow> [])"
    by (simp add: badges_of_def read split: option.split)
  show ?thesis
    using nearest_candle_is_nearest [OF assms(1,2), of ?t] badges
    unfolding Let_def badges_replaced using assms(4,5) by (auto simp: read)
qed

lemma crosshair_readings_witness:
  "let ohlc = map sample_candle [0, 60000]; c = (F64_Fin 20, F64_Fin 30); s = chart_view_default; e = 3;
       fmt_time = (\<lambda>_. Some ''09:00''); old = [];
       x' = crosshair_derive (Some ohlc) s (crosshair_default\<lparr>xh_cursor := Some c\<rparr>); t = x_to_time_ms s (fst c);
       bs = crosshair_badge_system fmt_time (\<lambda>_. True) (\<lambda>_. True) [(e, s, x')] old in
    xh_time_ms x' = Some t \<and>
    (if main_area_y_bottom s \<le> snd c then xh_price x' = Some (y_to_price s (snd c)) \<and> xh_volume x' = None
     else xh_price x' = None \<and>
       (\<exists>d \<in> set ohlc. xh_volume x' = oh_volume d \<and>
          (\<forall>d' \<in> set ohlc. \<bar>oh_open_time_ms d - t\<bar> \<le> \<bar>oh_open_time_ms d' - t\<bar>))) \<and>
    map (\<lambda>b. (bd_gutter b, bd_text b, bd_place b)) (filter (\<lambda>b. bd_chart b = e) bs) =
      (if main_area_y_bottom s \<le> snd c
       then [(Gutter_Price, fmt_fixed (cv_decimals s) (y_to_price s (snd c)), (0, price_to_y s (y_to_price s (snd c))))]
       else case xh_volume x' of Some v \<Rightarrow> [(Gutter_Price, format_volume v, (0, snd c))] | None \<Rightarrow> []) @
      (case fmt_time t of Some text \<Rightarrow> [(Gutter_Time, text, (interval_to_x s t, 0))] | None \<Rightarrow> []) \<and>
    filter (\<lambda>b. bd_chart b \<noteq> e) bs = filter (\<lambda>b. bd_chart b \<noteq> e) old"
  unfolding Let_def by (rule crosshair_readings [unfolded Let_def]) (simp_all add: sample_candle_def)

subsection \<open>The rows of the order book\<close>

lemma ask_places:
  "map (\<lambda>i. ladder_row_y LR_Ask i LADDER_CONTENT_HEIGHT) [0..<10] =
      [F64_Fin (10186167 / 1048576), F64_Fin (10186167 / 524288), F64_Fin (7639625 / 262144), F64_Fin
      (10186167 / 262144), F64_Fin (12732709 / 262144), F64_Fin (7639625 / 131072), F64_Fin (68), F64_Fin
      (10186167 / 131072), F64_Fin (5729719 / 65536), F64_Fin (12732709 / 131072)]"
  by code_simp

lemma bid_places:
  "map (\<lambda>i. ladder_row_y LR_Bid i LADDER_CONTENT_HEIGHT) [0..<10] =
      [F64_Fin (- (10186167 / 1048576)), F64_Fin (- (10186167 / 524288)), F64_Fin (- (7639625 / 262144)),
      F64_Fin (- (10186167 / 262144)), F64_Fin (- (12732709 / 262144)), F64_Fin (- (7639625 / 131072)),
      F64_Fin (- (68)), F64_Fin (- (10186167 / 131072)), F64_Fin (- (5729719 / 65536)), F64_Fin (-
      (12732709 / 131072))]"
  by code_simp

lemma last_place: "ladder_row_y LR_Last 0 LADDER_CONTENT_HEIGHT = F64_Fin 0"
  by (simp add: ladder_row_y_def zero_f64_def Let_def)

text \<open>With a book there are always twenty-one rows, each at a place of its own within the pane: ten asks
  and ten bids from the best on, with a mark where the book has none, and the last price between
  them.\<close>

theorem ladder_always_twenty_one_rows:
  "let rows = ladder_rows (Some d) last_price in
   map lr_kind rows = replicate 10 LR_Ask @ [LR_Last] @ replicate 10 LR_Bid \<and>
   distinct (map lr_y rows) \<and> list_all (\<lambda>r. F64_Fin (- 102) < lr_y r \<and> lr_y r < F64_Fin 102) rows \<and>
   map lr_label rows =
     take 10 (map (\<lambda>l. format_level_label (Some l)) (ds_asks d) @ replicate 10 ''---'') @
     [last_row_label last_price] @
     take 10 (map (\<lambda>l. format_level_label (Some l)) (ds_bids d) @ replicate 10 ''---'')"
proof -
  have labels: "map (\<lambda>i. format_level_label (get ls i)) [0..<10] =
      take 10 (map (\<lambda>l. format_level_label (Some l)) ls @ replicate 10 ''---'')" for ls
    by (rule nth_equalityI) (auto simp: get_def nth_append format_level_label_def)
  have kinds: "map (\<lambda>i. k) [0..<10] = replicate 10 k" for k :: ladder_row_kind by (simp add: map_replicate_const)
  let ?rows = "ladder_rows (Some d) last_price"
  have rows: "map lr_kind ?rows = replicate 10 LR_Ask @ [LR_Last] @ replicate 10 LR_Bid"
    "map lr_label ?rows =
       map (\<lambda>i. format_level_label (get (ds_asks d) i)) [0..<10] @ [last_row_label last_price] @
       map (\<lambda>i. format_level_label (get (ds_bids d) i)) [0..<10]"
    by (simp_all add: ladder_rows_def LADDER_DEPTH_def spawn_row_def o_def kinds del: upt_rec_numeral)
  have ys: "map lr_y ?rows = map (\<lambda>i. ladder_row_y LR_Ask i LADDER_CONTENT_HEIGHT) [0..<10] @
      [ladder_row_y LR_Last 0 LADDER_CONTENT_HEIGHT] @ map (\<lambda>i. ladder_row_y LR_Bid i LADDER_CONTENT_HEIGHT) [0..<10]"
    by (simp add: ladder_rows_def LADDER_DEPTH_def spawn_row_def o_def del: upt_rec_numeral)
  have "distinct (map lr_y ?rows)" unfolding ys ask_places bid_places last_place by simp
  moreover have "list_all (\<lambda>y. F64_Fin (- 102) < y \<and> y < F64_Fin 102) (map lr_y ?rows)"
    unfolding ys ask_places bid_places last_place by simp
  ultimately show ?thesis unfolding Let_def using rows by (simp add: labels list.pred_map o_def del: upt_rec_numeral)
qed

end
