(* ===== verification/Chart_Windows.thy ===== *)
theory Chart_Windows
  imports Chart_Panes Scenario
begin

text \<open>
  The windows of the charts: one for every registered instrument, laid out when its size changes
  (\<open>src/ui/window.rs\<close>), and joined by a pane for the order book while orders are live (the mode
  synchronisation of \<open>src/ui/chart_ladder_pane.rs\<close>). A root is a record of what its entity and the
  chart within it carry; \<open>cr_resized\<close> is the change mark of its sprite, \<open>cr_added\<close> that of a root that
  is new. The order in which a hash set is walked is a parameter.
\<close>

section \<open>Model\<close>

record chart_root =
  cr_entity :: nat
  cr_instrument :: str
  cr_size :: "vec2 option"
  cr_resized :: bool
  cr_added :: bool
  cr_content :: bool
  cr_chart_x :: f32
  cr_price_x :: f32
  cr_bounds :: vec2
  cr_hit_size :: vec2
  cr_price_gutter_x :: f32
  cr_time_gutter_y :: f32

record book_pane =
  bp_root :: nat
  bp_size :: vec2
  bp_x :: f32

definition spawn_chart_panel :: "nat \<Rightarrow> str \<Rightarrow> vec2 \<Rightarrow> chart_root" where
  "spawn_chart_panel e instrument initial_size =
     \<lparr>cr_entity = e, cr_instrument = instrument, cr_size = Some initial_size, cr_resized = True, cr_added = True,
      cr_content = True, cr_chart_x = CHART_CHILD_LOCAL_X_REPLAY, cr_price_x = CHART_CHILD_LOCAL_X_REPLAY,
      cr_bounds = CHART_DRAW_SIZE, cr_hit_size = CHART_DRAW_SIZE,
      cr_price_gutter_x = f32_add (half (fst CHART_DRAW_SIZE)) (half PRICE_GUTTER_WIDTH),
      cr_time_gutter_y = f32_sub (half (f64_neg (snd CHART_DRAW_SIZE))) (half TIME_GUTTER_HEIGHT)\<rparr>"

subsection \<open>One window for every instrument\<close>

record chart_desk =
  cd_roots :: "chart_root list"
  cd_data :: "str \<Rightarrow> instrument_trading_data option"
  cd_sizes :: "str \<Rightarrow> vec2 option"

text \<open>The map from the shown instruments to their windows: the last one wins.\<close>

definition spawned :: "chart_root list \<Rightarrow> str \<Rightarrow> nat option" where
  "spawned roots = map_of (rev (map (\<lambda>r. (cr_instrument r, cr_entity r)) roots))"

definition instrument_chart_sync_system ::
  "(str set \<Rightarrow> str list) \<Rightarrow> (str \<Rightarrow> nat) \<Rightarrow> bool \<Rightarrow> str list \<Rightarrow> chart_desk \<Rightarrow> chart_desk" where
  "instrument_chart_sync_system it fresh changed ids d =
     (if \<not> changed then d
      else (let desired = set ids; sp = spawned (cd_roots d);
                new = filter (\<lambda>i. sp i = None) (it desired);
                sz = (\<lambda>i. case cd_sizes d i of Some s \<Rightarrow> s | None \<Rightarrow> CHART_PANEL_SIZE);
                gone = (\<lambda>i. sp i \<noteq> None \<and> i \<notin> desired) in
            \<lparr>cd_roots = filter (\<lambda>r. \<not> (gone (cr_instrument r) \<and> sp (cr_instrument r) = Some (cr_entity r))) (cd_roots d) @
               map (\<lambda>i. spawn_chart_panel (fresh i) i (sz i)) new,
             cd_data = (\<lambda>i. if gone i then None else cd_data d i),
             cd_sizes = (\<lambda>i. if gone i then None else cd_sizes d i)\<rparr>))"

subsection \<open>Live and replay\<close>

definition LIVE_PANE :: "nat \<Rightarrow> book_pane" where
  "LIVE_PANE e = \<lparr>bp_root = e, bp_size = (LADDER_WIDTH, LADDER_CONTENT_HEIGHT), bp_x = LADDER_PANE_LOCAL_X\<rparr>"

definition sync_root :: "bool \<Rightarrow> chart_root \<Rightarrow> chart_root" where
  "sync_root live r =
     (let x = (if live then CHART_CHILD_LOCAL_X_LIVE else CHART_CHILD_LOCAL_X_REPLAY);
          r1 = (if cr_content r then r\<lparr>cr_chart_x := x, cr_price_x := x\<rparr> else r);
          target = (if live then LIVE_COMBINED_PANEL_SIZE else CHART_PANEL_SIZE);
          from_default = (if live then CHART_PANEL_SIZE else LIVE_COMBINED_PANEL_SIZE) in
      if (cr_added r \<or> cr_size r = Some from_default) \<and> cr_size r \<noteq> Some target
      then r1\<lparr>cr_size := Some target, cr_resized := True\<rparr> else r1)"

definition has_pane :: "book_pane list \<Rightarrow> nat \<Rightarrow> bool" where
  "has_pane ps e \<longleftrightarrow> list_ex (\<lambda>p. bp_root p = e) ps"

text \<open>What is spawned and despawned takes effect after the system; the marks of new roots are taken.\<close>

definition chart_ladder_mode_sync_system ::
  "bool \<Rightarrow> execution_mode \<Rightarrow> chart_root list \<times> book_pane list \<Rightarrow> chart_root list \<times> book_pane list" where
  "chart_ladder_mode_sync_system mode_changed m t =
     (let (roots, ps) = t; live = is_live_mode m in
      if \<not> mode_changed \<and> \<not> list_ex cr_added roots then t
      else (map (\<lambda>r. (sync_root live r)\<lparr>cr_added := False\<rparr>) roots,
            if live then ps @ map (\<lambda>r. LIVE_PANE (cr_entity r))
                  (filter (\<lambda>r. \<not> has_pane ps (cr_entity r) \<and> cr_content r) roots)
            else filter (\<lambda>p. bp_root p \<notin> cr_entity ` set roots) ps))"

subsection \<open>Laying out a window\<close>

definition moved :: "f32 \<Rightarrow> f32 \<Rightarrow> f32" where
  "moved old new = (if f32_of (1 / 100) < f64_abs (f32_sub old new) then new else old)"

definition layout_root :: "f32 \<Rightarrow> vec2 \<Rightarrow> chart_root \<Rightarrow> chart_root" where
  "layout_root ladder_w sz r =
     (let draw_w = f32_max (f32_sub (f32_sub (fst sz) PRICE_GUTTER_WIDTH) ladder_w) (F64_Fin 10);
          draw_h = f32_max (f32_sub (f32_sub (snd sz) TITLE_BAR_HEIGHT) TIME_GUTTER_HEIGHT) (F64_Fin 10) in
      r\<lparr>cr_hit_size := (draw_w, draw_h), cr_bounds := (draw_w, draw_h),
        cr_price_gutter_x := moved (cr_price_gutter_x r) (f32_add (half draw_w) (half PRICE_GUTTER_WIDTH)),
        cr_time_gutter_y := moved (cr_time_gutter_y r) (f32_sub (half (f64_neg draw_h)) (half TIME_GUTTER_HEIGHT))\<rparr>)"

definition layout_pane :: "vec2 \<Rightarrow> book_pane \<Rightarrow> book_pane" where
  "layout_pane sz p =
     p\<lparr>bp_size := (LADDER_WIDTH, f32_sub (snd sz) TITLE_BAR_HEIGHT),
       bp_x := moved (bp_x p) (f32_sub (half (fst sz)) (half LADDER_WIDTH))\<rparr>"

definition layout_one :: "chart_root \<Rightarrow> chart_root list \<times> book_pane list \<Rightarrow> chart_root list \<times> book_pane list" where
  "layout_one r t =
     (let (roots, ps) = t in
      case cr_size r of
        None \<Rightarrow> t
      | Some sz \<Rightarrow>
          (let with_pane = has_pane ps (cr_entity r); w = (if with_pane then LADDER_WIDTH else 0) in
           if \<not> cr_content r then t
           else (map (\<lambda>x. if cr_entity x = cr_entity r then layout_root w sz x else x) roots,
                 if with_pane then map (\<lambda>p. if bp_root p = cr_entity r then layout_pane sz p else p) ps else ps)))"

definition chart_content_layout_system :: "chart_root list \<times> book_pane list \<Rightarrow> chart_root list \<times> book_pane list" where
  "chart_content_layout_system t =
     (let (roots, ps) = fold layout_one (filter cr_resized (fst t)) t in
      (map (\<lambda>r. r\<lparr>cr_resized := False\<rparr>) roots, ps))"

section \<open>Properties\<close>

lemma spawned_None: "spawned roots i = None \<longleftrightarrow> i \<notin> cr_instrument ` set roots"
  by (auto simp: spawned_def map_of_eq_None_iff image_iff)

lemma spawned_in: "spawned roots i = Some e \<Longrightarrow> i \<in> cr_instrument ` set roots"
  using spawned_None [of roots i] by auto

lemma spawned_Some: "distinct (map cr_instrument roots) \<Longrightarrow> r \<in> set roots \<Longrightarrow> spawned roots (cr_instrument r) = Some (cr_entity r)"
  unfolding spawned_def by (rule map_of_is_SomeI) (auto simp: rev_map [symmetric] o_def)

text \<open>C38: After every change of the registry there is exactly one window for every registered instrument:
  the windows of those that stay are untouched, new ones have the remembered size or the default, and
  of those that went neither data nor size is kept. Hash sets are walked in any order.\<close>

theorem charts_follow_registry:
  assumes "\<And>A. finite A \<Longrightarrow> set (it A) = A \<and> distinct (it A)" and "distinct (map cr_instrument (cd_roots d))"
  shows "let d' = instrument_chart_sync_system it fresh True ids d in
    set (map cr_instrument (cd_roots d')) = set ids \<and> distinct (map cr_instrument (cd_roots d')) \<and>
    filter (\<lambda>r. cr_instrument r \<in> set ids) (cd_roots d) = filter (\<lambda>r. cr_instrument r \<in> cr_instrument ` set (cd_roots d)) (cd_roots d') \<and>
    (\<forall>r. r \<in> set (cd_roots d') \<and> cr_instrument r \<notin> cr_instrument ` set (cd_roots d) \<longrightarrow>
       cr_size r = Some (case cd_sizes d (cr_instrument r) of Some s \<Rightarrow> s | None \<Rightarrow> CHART_PANEL_SIZE)) \<and>
    (\<forall>i. (cd_data d' i, cd_sizes d' i) =
       (if i \<in> cr_instrument ` set (cd_roots d) - set ids then (None, None) else (cd_data d i, cd_sizes d i)))"
proof -
  let ?roots = "cd_roots d" and ?shown = "cr_instrument ` set (cd_roots d)"
  let ?d = "instrument_chart_sync_system it fresh True ids d"
  let ?size = "\<lambda>i. case cd_sizes d i of Some s \<Rightarrow> s | None \<Rightarrow> CHART_PANEL_SIZE"
  let ?new = "filter (\<lambda>i. i \<notin> ?shown) (it (set ids))"
  have it: "set (it (set ids)) = set ids" "distinct (it (set ids))" using assms(1) [of "set ids"] by simp_all
  have stay: "filter (\<lambda>r. (\<exists>y. spawned ?roots (cr_instrument r) = Some y) \<and> cr_instrument r \<notin> set ids \<longrightarrow>
      spawned ?roots (cr_instrument r) \<noteq> Some (cr_entity r)) ?roots = filter (\<lambda>r. cr_instrument r \<in> set ids) ?roots"
    using spawned_Some [OF assms(2)] by (intro filter_cong) auto
  have roots: "cd_roots ?d = filter (\<lambda>r. cr_instrument r \<in> set ids) ?roots @ map (\<lambda>i. spawn_chart_panel (fresh i) i (?size i)) ?new"
    unfolding stay [symmetric] by (simp add: instrument_chart_sync_system_def Let_def spawned_None)
  have name: "cr_instrument (spawn_chart_panel e i s) = i" "cr_size (spawn_chart_panel e i s) = Some s" for e i s
    by (simp_all add: spawn_chart_panel_def)
  have names: "map cr_instrument (cd_roots ?d) = map cr_instrument (filter (\<lambda>r. cr_instrument r \<in> set ids) ?roots) @ ?new"
    by (simp add: roots o_def name)
  have "set (map cr_instrument (cd_roots ?d)) = set ids" using it(1) by (auto simp: names simp del: map_append)
  moreover have "distinct (map cr_instrument (cd_roots ?d))"
    using assms(2) it(2) by (auto simp: names distinct_map_filter simp del: map_append)
  moreover have "filter (\<lambda>r. cr_instrument r \<in> set ids) ?roots = filter (\<lambda>r. cr_instrument r \<in> ?shown) (cd_roots ?d)"
  proof -
    have "filter (\<lambda>r. cr_instrument r \<in> ?shown) (filter (\<lambda>r. cr_instrument r \<in> set ids) ?roots) =
        filter (\<lambda>r. cr_instrument r \<in> set ids) ?roots"
      by (rule filter_True) auto
    moreover have "filter (\<lambda>r. cr_instrument r \<in> ?shown) (map (\<lambda>i. spawn_chart_panel (fresh i) i (?size i)) ?new) = []"
      by (auto simp: filter_empty_conv name)
    ultimately show ?thesis by (simp add: roots)
  qed
  moreover have "\<forall>r. r \<in> set (cd_roots ?d) \<and> cr_instrument r \<notin> ?shown \<longrightarrow> cr_size r = Some (?size (cr_instrument r))"
    by (auto simp: roots name)
  moreover have "\<forall>i. (cd_data ?d i, cd_sizes ?d i) = (if i \<in> ?shown - set ids then (None, None) else (cd_data d i, cd_sizes d i))"
    by (auto simp: instrument_chart_sync_system_def Let_def spawned_None simp del: image_iff dest: spawned_in)
  ultimately show ?thesis unfolding Let_def by blast
qed

definition sample_desk :: chart_desk where
  "sample_desk =
     \<lparr>cd_roots = [spawn_chart_panel 4 ''A'' CHART_PANEL_SIZE], cd_data = (\<lambda>_. None),
      cd_sizes = [''B'' \<mapsto> (F64_Fin 600, F64_Fin 400)]\<rparr>"

text \<open>Every finite set has some walk.\<close>

lemma some_walk: "\<exists>it :: str set \<Rightarrow> str list. \<forall>A. finite A \<longrightarrow> set (it A) = A \<and> distinct (it A)"
  using finite_distinct_list by (intro choice) blast

lemma charts_follow_registry_witness:
  "\<exists>it. let d = sample_desk; d' = instrument_chart_sync_system it (\<lambda>_. 9) True [''B''] d in
    set (map cr_instrument (cd_roots d')) = set [''B''] \<and> distinct (map cr_instrument (cd_roots d')) \<and>
    filter (\<lambda>r. cr_instrument r \<in> set [''B'']) (cd_roots d) = filter (\<lambda>r. cr_instrument r \<in> cr_instrument ` set (cd_roots d)) (cd_roots d') \<and>
    (\<forall>r. r \<in> set (cd_roots d') \<and> cr_instrument r \<notin> cr_instrument ` set (cd_roots d) \<longrightarrow>
       cr_size r = Some (case cd_sizes d (cr_instrument r) of Some s \<Rightarrow> s | None \<Rightarrow> CHART_PANEL_SIZE)) \<and>
    (\<forall>i. (cd_data d' i, cd_sizes d' i) =
       (if i \<in> cr_instrument ` set (cd_roots d) - set [''B''] then (None, None) else (cd_data d i, cd_sizes d i)))"
proof -
  obtain it :: "str set \<Rightarrow> str list" where it: "\<And>A. finite A \<Longrightarrow> set (it A) = A \<and> distinct (it A)"
    using some_walk by blast
  have d: "distinct (map cr_instrument (cd_roots sample_desk))" by (simp add: sample_desk_def)
  show ?thesis unfolding Let_def
    by (intro exI [of _ it], rule charts_follow_registry [OF it d, unfolded Let_def])
qed

subsection \<open>A remembered size is lost\<close>

definition default_size :: "execution_mode \<Rightarrow> vec2" where
  "default_size m = (if is_live_mode m then LIVE_COMBINED_PANEL_SIZE else CHART_PANEL_SIZE)"

text \<open>The synchronisation with the mode, which runs after it, gives every new window the default size of
  the mode: the size that was remembered for the instrument, as a layout restores it, never lasts.\<close>

theorem remembered_chart_size_lost:
  assumes "\<And>A. finite A \<Longrightarrow> set (it A) = A" and "i \<in> set ids" and "i \<notin> cr_instrument ` set (cd_roots d)"
    and "cd_sizes d i = Some stored"
  shows "let d' = instrument_chart_sync_system it fresh True ids d;
             (roots, ps') = chart_ladder_mode_sync_system mode_changed m (cd_roots d', ps) in
    (\<exists>r \<in> set (cd_roots d'). cr_instrument r = i \<and> cr_size r = Some stored) \<and>
    (\<exists>r \<in> set roots. cr_instrument r = i \<and> cr_size r = Some (default_size m))"
proof -
  let ?d = "instrument_chart_sync_system it fresh True ids d"
  let ?r = "spawn_chart_panel (fresh i) i stored"
  have "i \<in> set (it (set ids))" using assms(1) [of "set ids"] assms(2) by simp
  then have r: "?r \<in> set (cd_roots ?d)"
    using assms(3,4) by (auto simp: instrument_chart_sync_system_def Let_def spawned_None intro!: rev_image_eqI [of i])
  moreover have "cr_added ?r" by (simp add: spawn_chart_panel_def)
  ultimately have "list_ex cr_added (cd_roots ?d)" by (auto simp: list_ex_iff)
  then have "fst (chart_ladder_mode_sync_system mode_changed m (cd_roots ?d, ps)) =
      map (\<lambda>r. (sync_root (is_live_mode m) r)\<lparr>cr_added := False\<rparr>) (cd_roots ?d)"
    by (simp add: chart_ladder_mode_sync_system_def Let_def)
  moreover have "cr_instrument (sync_root l ?r) = i" "cr_size (sync_root (is_live_mode m) ?r) = Some (default_size m)" for l
    by (auto simp: sync_root_def spawn_chart_panel_def Let_def default_size_def)
  moreover have "cr_instrument ?r = i" "cr_size ?r = Some stored" by (simp_all add: spawn_chart_panel_def)
  ultimately show ?thesis using r
    by (cases "chart_ladder_mode_sync_system mode_changed m (cd_roots ?d, ps)") (force simp: Let_def)
qed

lemma remembered_chart_size_lost_witness:
  "\<exists>it. let d' = instrument_chart_sync_system it (\<lambda>_. 9) True [''A'', ''B''] sample_desk;
             (roots, ps') = chart_ladder_mode_sync_system False EM_Replay (cd_roots d', []) in
    (\<exists>r \<in> set (cd_roots d'). cr_instrument r = ''B'' \<and> cr_size r = Some (F64_Fin 600, F64_Fin 400)) \<and>
    (\<exists>r \<in> set roots. cr_instrument r = ''B'' \<and> cr_size r = Some (default_size EM_Replay))"
proof -
  obtain it :: "str set \<Rightarrow> str list" where it: "\<And>A. finite A \<Longrightarrow> set (it A) = A"
    using some_walk by blast
  show ?thesis
    by (intro exI [of _ it], rule remembered_chart_size_lost) (simp_all add: it sample_desk_def spawn_chart_panel_def)
qed

subsection \<open>Changes of the mode\<close>

definition panes_of :: "book_pane list \<Rightarrow> nat \<Rightarrow> nat" where
  "panes_of ps e = length (filter (\<lambda>p. bp_root p = e) ps)"

definition follows :: "bool \<Rightarrow> vec2 option \<Rightarrow> vec2 option" where
  "follows live s =
     (if s = Some CHART_PANEL_SIZE \<or> s = Some LIVE_COMBINED_PANEL_SIZE
      then Some (if live then LIVE_COMBINED_PANEL_SIZE else CHART_PANEL_SIZE) else s)"

lemma sync_root_keeps [simp]:
  "cr_entity (sync_root live r) = cr_entity r" "cr_content (sync_root live r) = cr_content r"
  "cr_instrument (sync_root live r) = cr_instrument r"
  by (auto simp: sync_root_def Let_def)

lemma sync_root_size: "\<not> cr_added r \<Longrightarrow> cr_size (sync_root live r) = follows live (cr_size r)"
  by (auto simp: sync_root_def Let_def follows_def)

lemma follows_twice: "follows live (follows l s) = follows live s"
  by (auto simp: follows_def CHART_PANEL_SIZE_def LIVE_COMBINED_PANEL_SIZE_def)

lemma panes_after:
  assumes "distinct (map cr_entity roots)" and "list_all cr_content roots" and "r \<in> set roots"
    and "\<forall>r \<in> set roots. panes_of ps (cr_entity r) \<le> 1"
  shows "panes_of (snd (chart_ladder_mode_sync_system True m (roots, ps))) (cr_entity r) = (if is_live_mode m then 1 else 0)"
proof (cases "is_live_mode m")
  case True
  let ?new = "filter (\<lambda>r. \<not> has_pane ps (cr_entity r) \<and> cr_content r) roots"
  have has: "has_pane ps e \<longleftrightarrow> panes_of ps e \<noteq> 0" for e
    by (auto simp: has_pane_def panes_of_def list_ex_iff filter_empty_conv)
  have one: "filter (\<lambda>x. cr_entity x = cr_entity r) roots = [r]"
    using assms(1,3)
  proof (induction roots)
    case (Cons x xs)
    show ?case
    proof (cases "x = r")
      case True
      with Cons.prems have "filter (\<lambda>x. cr_entity x = cr_entity r) xs = []" by (auto simp: filter_empty_conv image_iff)
      with True show ?thesis by simp
    next
      case False
      with Cons have "r \<in> set xs" by simp
      with Cons.prems have "cr_entity x \<noteq> cr_entity r" by (auto simp: image_iff)
      with Cons False show ?thesis by simp
    qed
  qed simp
  have "filter (\<lambda>p. bp_root p = cr_entity r) (map (\<lambda>r. LIVE_PANE (cr_entity r)) ?new) =
      map (\<lambda>r. LIVE_PANE (cr_entity r)) (filter (\<lambda>x. \<not> has_pane ps (cr_entity x) \<and> cr_content x) (filter (\<lambda>x. cr_entity x = cr_entity r) roots))"
    by (simp add: filter_map o_def LIVE_PANE_def conj_commute)
  then have "panes_of (map (\<lambda>r. LIVE_PANE (cr_entity r)) ?new) (cr_entity r) = (if has_pane ps (cr_entity r) then 0 else 1)"
    using assms(2,3) by (simp add: panes_of_def one list_all_iff)
  moreover have "panes_of (a @ b) e = panes_of a e + panes_of b e" for a b e by (simp add: panes_of_def)
  ultimately show ?thesis using True has [of "cr_entity r"] assms(3,4)
    by (auto simp: chart_ladder_mode_sync_system_def Let_def le_Suc_eq)
next
  case False
  then show ?thesis using assms(3)
    by (auto simp: chart_ladder_mode_sync_system_def Let_def panes_of_def filter_empty_conv)
qed

lemma mode_frames:
  assumes "distinct (map cr_entity roots)" and "list_all cr_content roots" and "list_all (\<lambda>r. \<not> cr_added r) roots"
  shows "let (rs, ps) = fold (chart_ladder_mode_sync_system True) ms (roots, []); live = is_live_mode (last ms) in
    map cr_entity rs = map cr_entity roots \<and> list_all cr_content rs \<and> list_all (\<lambda>r. \<not> cr_added r) rs \<and>
    (\<forall>r \<in> set roots. panes_of ps (cr_entity r) \<le> 1) \<and>
    (ms \<noteq> [] \<longrightarrow> map cr_size rs = map (follows live \<circ> cr_size) roots \<and>
       (\<forall>r \<in> set roots. panes_of ps (cr_entity r) = (if live then 1 else 0)))"
  unfolding Let_def case_prod_beta
proof (induction ms rule: rev_induct)
  case (snoc m ms)
  obtain rs ps where run: "fold (chart_ladder_mode_sync_system True) ms (roots, []) = (rs, ps)"
    by (cases "fold (chart_ladder_mode_sync_system True) ms (roots, [])")
  with snoc.IH have ent: "map cr_entity rs = map cr_entity roots" and content: "list_all cr_content rs"
    and old: "list_all (\<lambda>r. \<not> cr_added r) rs" and ps: "\<forall>r \<in> set roots. panes_of ps (cr_entity r) \<le> 1" by simp_all
  let ?l = "is_live_mode m"
  have step: "fst (chart_ladder_mode_sync_system True m (rs, ps)) = map (\<lambda>r. (sync_root ?l r)\<lparr>cr_added := False\<rparr>) rs"
    by (simp add: chart_ladder_mode_sync_system_def Let_def)
  have "map cr_size (map (\<lambda>r. (sync_root ?l r)\<lparr>cr_added := False\<rparr>) rs) = map (follows ?l) (map cr_size rs)"
    using old by (simp add: list_all_iff sync_root_size)
  also have "\<dots> = map (follows ?l \<circ> cr_size) roots"
  proof (cases "ms = []")
    case True
    with run show ?thesis by simp
  next
    case False
    with snoc.IH run have "map cr_size rs = map (follows (is_live_mode (last ms)) \<circ> cr_size) roots" by simp
    then have "map (follows ?l) (map cr_size rs) = map (follows ?l) (map (follows (is_live_mode (last ms)) \<circ> cr_size) roots)"
      by (rule arg_cong)
    then show ?thesis by (simp add: o_def follows_twice)
  qed
  finally have sizes: "map cr_size (map (\<lambda>r. (sync_root ?l r)\<lparr>cr_added := False\<rparr>) rs) = map (follows ?l \<circ> cr_size) roots" .
  have ents: "\<exists>x \<in> set rs. cr_entity x = cr_entity r" if "r \<in> set roots" for r
    using ent that by (metis imageE imageI list.set_map)
  have few: "\<forall>x \<in> set rs. panes_of ps (cr_entity x) \<le> 1"
    using ent ps by (metis imageE imageI list.set_map)
  have panes: "\<forall>r \<in> set roots. panes_of (snd (chart_ladder_mode_sync_system True m (rs, ps))) (cr_entity r) = (if ?l then 1 else 0)"
    using panes_after [of rs _ ps m] ents few content ent assms(1) by metis
  have "map cr_entity (map (\<lambda>r. (sync_root ?l r)\<lparr>cr_added := False\<rparr>) rs) = map cr_entity rs" by simp
  moreover have "list_all cr_content (map (\<lambda>r. (sync_root ?l r)\<lparr>cr_added := False\<rparr>) rs)"
    "list_all (\<lambda>r. \<not> cr_added r) (map (\<lambda>r. (sync_root ?l r)\<lparr>cr_added := False\<rparr>) rs)"
    using content by (simp_all add: list_all_iff)
  moreover have "\<forall>r \<in> set roots. panes_of (snd (chart_ladder_mode_sync_system True m (rs, ps))) (cr_entity r) \<le> 1"
    using panes by simp
  ultimately show ?case using run step sizes panes ent by (simp del: map_map)
qed (use assms in \<open>simp add: panes_of_def\<close>)

text \<open>C39: Through any changes of the mode a window has exactly one pane for the order book while orders are
  live and none in a replay; a window of a default size has the default size of the mode, and one that
  the user resized keeps its size.\<close>

theorem mode_changes_keep_sizes:
  assumes "distinct (map cr_entity roots)" and "list_all cr_content roots" and "list_all (\<lambda>r. \<not> cr_added r) roots"
    and "ms \<noteq> []"
  shows "let (roots', ps) = fold (chart_ladder_mode_sync_system True) ms (roots, []); live = is_live_mode (last ms) in
    map cr_size roots' = map (follows live \<circ> cr_size) roots \<and>
    (\<forall>r \<in> set roots. panes_of ps (cr_entity r) = (if live then 1 else 0))"
  using mode_frames [OF assms(1-3), of ms] assms(4) by (simp add: case_prod_beta Let_def)

definition sample_roots :: "chart_root list" where
  "sample_roots =
     [(spawn_chart_panel 4 ''A'' CHART_PANEL_SIZE)\<lparr>cr_added := False\<rparr>,
      (spawn_chart_panel 5 ''B'' (F64_Fin 600, F64_Fin 400))\<lparr>cr_added := False\<rparr>]"

lemma mode_changes_keep_sizes_witness:
  "let (roots', ps) = fold (chart_ladder_mode_sync_system True) [EM_LiveManual, EM_Replay, EM_LiveAuto] (sample_roots, []);
       live = is_live_mode (last [EM_LiveManual, EM_Replay, EM_LiveAuto]) in
    map cr_size roots' = map (follows live \<circ> cr_size) sample_roots \<and>
    (\<forall>r \<in> set sample_roots. panes_of ps (cr_entity r) = (if live then 1 else 0))"
  by (rule mode_changes_keep_sizes) (simp_all add: sample_roots_def spawn_chart_panel_def)

subsection \<open>A resized window is not laid out for the mode\<close>

text \<open>Going live adds the pane at the place it has in a window of the default size and moves the chart
  to the left, but a window that the user resized is not laid out again: its size does not change, so
  the chart keeps the width it had without the pane. In a window of six hundred by four hundred the
  chart then reaches under the pane and out of the window on the left.\<close>

theorem live_mode_does_not_lay_out:
  assumes "\<not> cr_added r" and "\<not> cr_resized r" and "cr_content r" and "is_live_mode m"
    and "cr_size r \<noteq> Some CHART_PANEL_SIZE" and "cr_size r \<noteq> Some LIVE_COMBINED_PANEL_SIZE"
  shows "chart_content_layout_system (chart_ladder_mode_sync_system True m ([r], [])) =
    ([r\<lparr>cr_chart_x := CHART_CHILD_LOCAL_X_LIVE, cr_price_x := CHART_CHILD_LOCAL_X_LIVE\<rparr>], [LIVE_PANE (cr_entity r)])"
  using assms
  by (simp add: chart_ladder_mode_sync_system_def sync_root_def chart_content_layout_system_def has_pane_def Let_def)

definition laid_out :: chart_root where
  "laid_out = (spawn_chart_panel 4 ''A'' (F64_Fin 600, F64_Fin 400))
     \<lparr>cr_added := False, cr_resized := False, cr_bounds := (F64_Fin 550, F64_Fin 336), cr_hit_size := (F64_Fin 550, F64_Fin 336),
      cr_price_gutter_x := F64_Fin 300, cr_time_gutter_y := F64_Fin (- 180)\<rparr>"

lemma laid_out_is_laid_out:
  "chart_content_layout_system ([(spawn_chart_panel 4 ''A'' (F64_Fin 600, F64_Fin 400))\<lparr>cr_added := False\<rparr>], []) = ([laid_out], [])"
proof -
  have w: "f32_max (f32_sub (f32_sub (F64_Fin 600) PRICE_GUTTER_WIDTH) 0) (F64_Fin 10) = F64_Fin 550" by code_simp
  have h: "f32_max (f32_sub (f32_sub (F64_Fin 400) TITLE_BAR_HEIGHT) TIME_GUTTER_HEIGHT) (F64_Fin 10) = F64_Fin 336" by code_simp
  have x: "f32_add (half (F64_Fin 550)) (half PRICE_GUTTER_WIDTH) = F64_Fin 300" by code_simp
  have y: "f32_sub (half (F64_Fin (- 336))) (half TIME_GUTTER_HEIGHT) = F64_Fin (- 180)" by code_simp
  have gx: "moved (f32_add (half (fst CHART_DRAW_SIZE)) (half PRICE_GUTTER_WIDTH)) (F64_Fin 300) = F64_Fin 300" by code_simp
  have gy: "moved (f32_sub (half (f64_neg (snd CHART_DRAW_SIZE))) (half TIME_GUTTER_HEIGHT)) (F64_Fin (- 180)) = F64_Fin (- 180)" by code_simp
  show ?thesis
    by (simp add: chart_content_layout_system_def layout_one_def layout_root_def has_pane_def laid_out_def spawn_chart_panel_def
        Let_def w h x y gx gy)
qed

lemma laid_out_overlaps:
  "f32_sub LADDER_PANE_LOCAL_X (half LADDER_WIDTH) < f32_add CHART_CHILD_LOCAL_X_LIVE (half (F64_Fin 550))"
  "f32_sub CHART_CHILD_LOCAL_X_LIVE (half (F64_Fin 550)) < F64_Fin (- 300)"
  by code_simp+

lemma live_mode_does_not_lay_out_witness:
  "chart_content_layout_system (chart_ladder_mode_sync_system True EM_LiveManual ([laid_out], [])) =
    ([laid_out\<lparr>cr_chart_x := CHART_CHILD_LOCAL_X_LIVE, cr_price_x := CHART_CHILD_LOCAL_X_LIVE\<rparr>], [LIVE_PANE (cr_entity laid_out)])"
  by (rule live_mode_does_not_lay_out)
     (simp_all add: laid_out_def spawn_chart_panel_def CHART_PANEL_SIZE_def LIVE_COMBINED_PANEL_SIZE_def)

end
