(* ===== verification/Panels.thy ===== *)
theory Panels
  imports Startup_Panel Order_Panel F32
begin

text \<open>
  The panels that show what the other components keep: orders with the menu of a row
  (\<open>src/ui/orders.rs\<close>, \<open>order_context_menu.rs\<close>), positions, buying power and the result of a run
  with the progress of its start (\<open>src/ui/positions.rs\<close>, \<open>buying_power.rs\<close>, \<open>run_result_panel.rs\<close>),
  the rows of the sidebar (\<open>src/ui/sidebar.rs\<close>), the price and the status light
  (\<open>src/ui/systems.rs\<close>), and the end of the settings (\<open>src/ui/settings.rs\<close>). A cell is its text with the colour of the theme that it names.
\<close>

section \<open>Model\<close>

datatype colour =
    CO_Text | CO_TextMuted | CO_TextAccent | CO_Long | CO_Short
  | CO_Success | CO_Warning | CO_Error | CO_Info | CO_Disabled

type_synonym cell = "str \<times> colour"

subsection \<open>Orders\<close>

definition ORDER_ROWS :: nat where "ORDER_ROWS = 6"

datatype orders_column = OC_Symbol | OC_Side | OC_Qty | OC_Price | OC_Status

definition side_color :: "str \<Rightarrow> colour" where
  "side_color s = (if s = ''BUY'' then CO_Long else if s = ''SELL'' then CO_Short else CO_TextMuted)"

definition live_view :: "orders_filter \<Rightarrow> live_orders \<Rightarrow> live_order option list" where
  "live_view f b = map (\<lambda>row. nth_filtered f row b) [0..<ORDER_ROWS]"

definition orders_count :: "bool \<Rightarrow> orders_filter \<Rightarrow> live_orders \<Rightarrow> portfolio_state \<Rightarrow> nat" where
  "orders_count live f b pf =
     (if live then length (takeWhile (\<lambda>r. r \<noteq> None) (live_view f b)) else length (pf_orders pf))"

definition orders_status_text :: "bool \<Rightarrow> orders_filter \<Rightarrow> live_orders \<Rightarrow> portfolio_state \<Rightarrow> str" where
  "orders_status_text live f b pf =
     (if \<not> live \<and> \<not> pf_loaded pf then ''No run yet''
      else if orders_count live f b pf = 0 then ''No orders'' else [])"

definition orders_filter_text :: "bool \<Rightarrow> orders_filter \<Rightarrow> str" where
  "orders_filter_text live f = (if live then ''Filter: '' @ filter_label f else [])"

definition live_cell :: "live_order \<Rightarrow> orders_column \<Rightarrow> cell" where
  "live_cell r col =
     (case col of
        OC_Symbol \<Rightarrow> (lo_symbol r, CO_Text)
      | OC_Side \<Rightarrow> (lo_side r, side_color (lo_side r))
      | OC_Qty \<Rightarrow> (fmt_fixed 0 (lo_qty r), CO_Text)
      | OC_Price \<Rightarrow> (case lo_price r of Some p \<Rightarrow> (fmt_fixed 0 p, CO_Text) | None \<Rightarrow> (''MKT'', CO_TextMuted))
      | OC_Status \<Rightarrow> (lo_status r, CO_Text))"

definition replay_cell :: "portfolio_order \<Rightarrow> orders_column \<Rightarrow> cell" where
  "replay_cell r col =
     (case col of
        OC_Symbol \<Rightarrow> (po_symbol r, CO_Text)
      | OC_Side \<Rightarrow> (po_side r, side_color (po_side r))
      | OC_Qty \<Rightarrow> (fmt_fixed 0 (po_qty r), CO_Text)
      | OC_Price \<Rightarrow> (fmt_fixed 0 (po_price r), CO_Text)
      | OC_Status \<Rightarrow> (po_status r, CO_Text))"

text \<open>The text of the state, that of the filter, and the cells; None is a panic of \<open>expect\<close>.\<close>

definition orders_cell ::
  "bool \<Rightarrow> orders_filter \<Rightarrow> live_orders \<Rightarrow> portfolio_state \<Rightarrow> nat \<Rightarrow> orders_column \<Rightarrow> cell option" where
  "orders_cell live f b pf row col =
     (if orders_count live f b pf \<le> row then Some ([], CO_Text)
      else if live then map_option (\<lambda>r. live_cell r col) (live_view f b ! row)
      else Some (replay_cell (pf_orders pf ! row) col))"

definition orders_panel_system ::
  "execution_mode \<Rightarrow> orders_filter \<Rightarrow> live_orders \<Rightarrow> portfolio_state \<Rightarrow> str \<times> str \<times> (nat \<Rightarrow> orders_column \<Rightarrow> cell option)" where
  "orders_panel_system m f b pf =
     (let live = is_live_mode m in
      (orders_status_text live f b pf, orders_filter_text live f, orders_cell live f b pf))"

definition orders_filter_press :: "pointer_button \<Rightarrow> execution_mode \<Rightarrow> live_orders \<Rightarrow> orders_filter \<Rightarrow> orders_filter" where
  "orders_filter_press button m b f =
     (if button \<noteq> PB_Primary \<or> \<not> is_live_mode m then f else next_filter f b)"

subsection \<open>The menu of an order\<close>

record order_context_menu =
  cm_open :: bool
  cm_client_order_id :: "str option"
  cm_venue :: str
  cm_screen_pos :: vec2

definition menu_close :: "order_context_menu \<Rightarrow> order_context_menu" where
  "menu_close m = m\<lparr>cm_open := False, cm_client_order_id := None, cm_venue := []\<rparr>"

definition order_row_press ::
  "pointer_button \<Rightarrow> execution_mode \<Rightarrow> orders_filter \<Rightarrow> live_orders \<Rightarrow> str option \<Rightarrow> nat \<Rightarrow> vec2 \<Rightarrow>
   order_context_menu \<Rightarrow> order_context_menu" where
  "order_row_press button mode f b venue row pos m =
     (if button \<noteq> PB_Secondary \<or> \<not> is_live_mode mode then m
      else (case nth_filtered f row b of
              None \<Rightarrow> m
            | Some r \<Rightarrow>
                \<lparr>cm_open = True, cm_client_order_id = Some (lo_client_order_id r),
                 cm_venue = unwrap_or [] venue, cm_screen_pos = pos\<rparr>))"

text \<open>Whether it is shown, and where it is put.\<close>

definition context_menu_visibility_system :: "order_context_menu \<Rightarrow> vec2 \<Rightarrow> bool \<times> vec2" where
  "context_menu_visibility_system m place = (cm_open m, if cm_open m then cm_screen_pos m else place)"

definition context_menu_keyboard_system ::
  "bool \<Rightarrow> secret_prompt \<Rightarrow> order_confirm \<Rightarrow> modify_form \<Rightarrow> order_context_menu \<Rightarrow> order_context_menu" where
  "context_menu_keyboard_system escape prompt confirm form m =
     (if \<not> cm_open m then m
      else (let higher_priority_open = (sp_active prompt \<noteq> None \<or> oc_pending confirm \<noteq> None \<or> mf_open form) in
            if escape \<and> \<not> higher_priority_open then menu_close m else m))"

datatype context_menu_item = CI_Cancel | CI_Modify

text \<open>The items that were pressed in the frame, in order, and whether the rest of the screen was.\<close>

definition context_menu_item_system ::
  "link \<Rightarrow> context_menu_item list \<Rightarrow> bool \<Rightarrow> order_context_menu \<times> modify_form \<Rightarrow>
   (order_context_menu \<times> modify_form) \<times> transport_command list" where
  "context_menu_item_system l items backdrop t =
     (let (m, form) = t in
      if \<not> cm_open m then (t, [])
      else (case items of
              item # _ \<Rightarrow>
                (case cm_client_order_id m of
                   None \<Rightarrow> ((menu_close m, form), [])
                 | Some i \<Rightarrow>
                     (case item of
                        CI_Cancel \<Rightarrow> ((menu_close m, form), link_send l (TC_CancelOrder (cm_venue m) i None))
                      | CI_Modify \<Rightarrow>
                          ((menu_close m,
                            form\<lparr>mf_open := True, mf_client_order_id := i, mf_venue := cm_venue m, mf_new_qty_buf := [],
                                 mf_new_price_buf := [], mf_ack_kabu := False, mf_focus := MF_Qty\<rparr>), [])))
            | [] \<Rightarrow> (if backdrop then ((menu_close m, form), []) else (t, []))))"

subsection \<open>Positions and buying power\<close>

definition POSITION_ROWS :: nat where "POSITION_ROWS = 5"

datatype positions_column = PO_Symbol | PO_Qty | PO_Avg | PO_UPnl

definition positions_status_text :: "portfolio_state \<Rightarrow> str" where
  "positions_status_text pf =
     (if \<not> pf_loaded pf then ''No run yet'' else if pf_positions pf = [] then ''No positions'' else [])"

definition positions_cell :: "portfolio_state \<Rightarrow> nat \<Rightarrow> positions_column \<Rightarrow> cell" where
  "positions_cell pf row col =
     (if \<not> pf_loaded pf \<or> length (pf_positions pf) \<le> row then ([], CO_Text)
      else (let p = pf_positions pf ! row in
            case col of
              PO_Symbol \<Rightarrow> (pp_symbol p, CO_Text)
            | PO_Qty \<Rightarrow> (show_int (pp_qty p), if 0 \<le> pp_qty p then CO_Long else CO_Short)
            | PO_Avg \<Rightarrow> (fmt_fixed 0 (pp_avg_price p), CO_Text)
            | PO_UPnl \<Rightarrow> (fmt_fixed 0 (pp_unrealized_pnl p), if 0 \<le> pp_unrealized_pnl p then CO_Success else CO_Error)))"

datatype buying_power_label = BP_Equity | BP_Cash | BP_BuyingPower

definition dash :: str where "dash = utf8 [0xE2, 0x80, 0x94]"

text \<open>Without figures only a cell that shows another text is written.\<close>

definition buying_power_cell :: "portfolio_state \<Rightarrow> buying_power_label \<Rightarrow> cell \<Rightarrow> cell" where
  "buying_power_cell pf kind old =
     (if \<not> pf_loaded pf then (if fst old \<noteq> dash then (dash, CO_Text) else old)
      else (case kind of
              BP_Equity \<Rightarrow> (fmt_fixed 0 (pf_equity pf), if 0 \<le> pf_equity pf then CO_Success else CO_Error)
            | BP_Cash \<Rightarrow> (fmt_fixed 0 (pf_cash pf), CO_Text)
            | BP_BuyingPower \<Rightarrow> (fmt_fixed 0 (pf_buying_power pf), CO_Text)))"

subsection \<open>The result of a run\<close>

definition phase_label_text :: "replay_startup_phase \<Rightarrow> str" where
  "phase_label_text ph =
     (case ph of
        RP_Idle \<Rightarrow> []
      | RP_CommandAccepted \<Rightarrow> ''Starting replay command...''
      | RP_ResettingReplay \<Rightarrow> ''Resetting previous replay...''
      | RP_LoadingData \<Rightarrow> ''Loading replay data...''
      | RP_StartingStrategy \<Rightarrow> ''Starting Python strategy...''
      | RP_WaitingForFirstTick \<Rightarrow> ''Waiting for first replay tick...'')"

datatype run_result_label = RL_State | RL_RunId | RL_Stats | RL_Pnl

definition counts_text :: "current_run \<Rightarrow> str" where
  "counts_text r =
     ''strat: '' @ cr_strategy_name r @ ''  o:'' @ show_int (cr_order_count r) @ '' f:'' @ show_int (cr_fill_count r)"

definition pnl_color :: "f64 \<Rightarrow> colour" where
  "pnl_color x = (if 0 \<le> x then CO_Success else CO_Error)"

definition pnl_text :: "current_run \<Rightarrow> cell" where
  "pnl_text r =
     (''pnl: '' @ fmt_fixed 0 (cr_realized_pnl r) @ '' / unrlz: '' @ fmt_fixed 0 (cr_unrealized_pnl r),
      pnl_color (f64_add (cr_realized_pnl r) (cr_unrealized_pnl r)))"

definition is_under_way :: "run_state \<Rightarrow> bool" where
  "is_under_way s \<longleftrightarrow> s = RS_Running \<or> s = RS_Paused"

definition normal_row_content :: "run_result_label \<Rightarrow> current_run \<Rightarrow> cell" where
  "normal_row_content kind r =
     (case kind of
        RL_State \<Rightarrow>
          (case cr_state r of
             RS_Idle \<Rightarrow> (''No run yet'', CO_TextMuted)
           | RS_Running \<Rightarrow> (''Running'' @ utf8 [0xE2, 0x80, 0xA6], CO_Warning)
           | RS_Paused \<Rightarrow> (''Paused'', CO_Warning)
           | RS_Stopped \<Rightarrow> (''Stopped'', CO_TextMuted)
           | RS_Completed \<Rightarrow> (''Completed'', CO_Success)
           | RS_Failed e \<Rightarrow> (''Failed: '' @ e, CO_Error))
      | RL_RunId \<Rightarrow> (case cr_run_id r of Some i \<Rightarrow> (''run: '' @ i, CO_Info) | None \<Rightarrow> ([], CO_Text))
      | RL_Stats \<Rightarrow>
          (if is_under_way (cr_state r)
           then (if cr_strategy_name r \<noteq> [] then (counts_text r, CO_Text) else ([], CO_Text))
           else (case cr_parsed_summary r of
                   Some s \<Rightarrow>
                     (''fills:'' @ show_int (sum_fills_count s) @ ''  sh:'' @ fmt_fixed 2 (sum_sharpe s) @
                      ''  dd:'' @ fmt_fixed 0 (sum_max_drawdown s), CO_Text)
                 | None \<Rightarrow>
                     (if 0 < cr_order_count r \<or> 0 < cr_fill_count r then (counts_text r, CO_Text) else ([], CO_Text))))
      | RL_Pnl \<Rightarrow>
          (if is_under_way (cr_state r)
           then (if cr_strategy_name r \<noteq> [] then pnl_text r else ([], CO_Text))
           else (case cr_parsed_summary r of
                   Some s \<Rightarrow>
                     (''pnl:'' @ fmt_fixed 0 (sum_total_pnl s) @ ''  so:'' @ fmt_fixed 2 (sum_sortino s),
                      pnl_color (sum_total_pnl s))
                 | None \<Rightarrow>
                     (if \<not> f64_eq (cr_realized_pnl r) 0 \<or> \<not> f64_eq (cr_unrealized_pnl r) 0
                      then pnl_text r else ([], CO_Text)))))"

text \<open>Whether the bar and its label are shown, the text of the label, and the rows.\<close>

definition run_result_panel_system ::
  "current_run \<Rightarrow> replay_startup_progress \<Rightarrow> bool \<times> str \<times> (run_result_label \<Rightarrow> cell)" where
  "run_result_panel_system r pr =
     (let startup_active = (rsp_visible pr \<and> rsp_error pr = None) in
      (startup_active, if startup_active then phase_label_text (rsp_phase pr) else [],
       \<lambda>kind. if startup_active then ([], CO_Text) else normal_row_content kind r))"

definition auto_hide_startup_progress_system ::
  "trading_session \<Rightarrow> replay_startup_progress \<Rightarrow> replay_startup_progress" where
  "auto_hide_startup_progress_system s pr =
     (if \<not> rsp_visible pr \<or> rsp_error pr \<noteq> None \<or> \<not> rsp_start_engine_accepted pr then pr
      else (let running = (ts_replay_state s = Some ''RUNNING'');
                timestamp_changed = (case rsp_baseline_timestamp_ms pr of
                                       Some t \<Rightarrow> ts_timestamp_ms s \<noteq> t | None \<Rightarrow> False) in
            if running \<or> timestamp_changed then close_startup pr else pr))"

definition TIMEOUT_MESSAGE :: str where
  "TIMEOUT_MESSAGE = ''Replay startup is taking longer than expected. Check backend logs or try Force Stop.''"

text \<open>Sixty seconds of the real clock, in nanoseconds.\<close>

definition replay_startup_timeout_system :: "nat \<Rightarrow> replay_startup_progress \<Rightarrow> replay_startup_progress" where
  "replay_startup_timeout_system now pr =
     (if \<not> rsp_visible pr \<or> rsp_error pr \<noteq> None then pr
      else (case rsp_started_at_elapsed pr of
              None \<Rightarrow> pr
            | Some started \<Rightarrow> if 60 * 10 ^ 9 \<le> now - started then pr\<lparr>rsp_error := Some TIMEOUT_MESSAGE\<rparr> else pr))"

definition apply_run_result_visibility_system :: "execution_mode \<Rightarrow> bool" where
  "apply_run_result_visibility_system m \<longleftrightarrow> m \<noteq> EM_LiveManual"

subsection \<open>The sidebar\<close>

record sidebar_row =
  sb_instrument :: str
  sb_price :: str

text \<open>The rows, whether they can be removed, and the warning; None leaves what is shown.\<close>

definition update_sidebar_system :: "bool \<Rightarrow> instrument_registry \<Rightarrow> (str + sidebar_row list) \<times> bool \<times> bool \<Rightarrow>
  (str + sidebar_row list) \<times> bool \<times> bool" where
  "update_sidebar_system changed reg shown =
     (if \<not> changed then shown
      else (if ir_ids reg = [] then Inl ''No instruments''
            else Inr (map (\<lambda>i. \<lparr>sb_instrument = i, sb_price = []\<rparr>) (ir_ids reg)),
            ir_editable reg, \<not> ir_editable reg))"

definition apply_order_button_visibility_system :: "bool \<Rightarrow> execution_mode \<Rightarrow> bool \<Rightarrow> bool" where
  "apply_order_button_visibility_system changed m shown = (if changed then m = EM_LiveManual else shown)"

definition instrument_remove_button_system :: "str list \<Rightarrow> instrument_registry \<Rightarrow> instrument_registry" where
  "instrument_remove_button_system pressed reg =
     fold (\<lambda>i reg. if ir_editable reg then snd (registry_remove i reg) else reg) pressed reg"

definition format_price :: "f64 option \<Rightarrow> str" where
  "format_price v = (case v of Some x \<Rightarrow> fmt_fixed 2 x | None \<Rightarrow> [])"

definition update_instrument_price_text_system ::
  "bool \<Rightarrow> (str \<Rightarrow> f64 option) \<Rightarrow> sidebar_row list \<Rightarrow> sidebar_row list" where
  "update_instrument_price_text_system changed prices rows =
     (if \<not> changed then rows else map (\<lambda>r. r\<lparr>sb_price := format_price (prices (sb_instrument r))\<rparr>) rows)"

definition instrument_row_click_system ::
  "link \<Rightarrow> execution_mode \<Rightarrow> str list \<Rightarrow> str option \<Rightarrow> str option \<times> transport_command list" where
  "instrument_row_click_system l m pressed selected =
     fold (\<lambda>i (sel, out). (Some i, out @ (if is_live_mode m then link_send l (TC_SubscribeMarketData i) else [])))
       pressed (selected, [])"

subsection \<open>The price and the status light\<close>

definition price_label :: "(str \<Rightarrow> f64 option) \<Rightarrow> str option \<Rightarrow> str" where
  "price_label prices selected =
     (case Option.bind selected prices of Some p \<Rightarrow> ''$'' @ fmt_fixed 2 p | None \<Rightarrow> ''$--'')"

text \<open>Every chart window has such a text; they are given with the instruments of their windows.\<close>

definition update_price_display :: "(str \<Rightarrow> f64 option) \<Rightarrow> str option \<Rightarrow> (str \<times> str) list \<Rightarrow> (str \<times> str) list" where
  "update_price_display prices selected texts = map (\<lambda>(i, _). (i, price_label prices selected)) texts"

definition update_status_indicator :: "trading_settings \<Rightarrow> backend_status \<Rightarrow> colour" where
  "update_status_indicator st s =
     (if \<not> set_backend_enabled st then CO_Disabled
      else if bs_connected s then (if bs_running s then CO_Success else CO_Warning) else CO_Error)"

subsection \<open>The settings\<close>

text \<open>The windows of the settings that are open; Escape is left to the dialogs above.\<close>

definition settings_modal_close_system ::
  "bool \<Rightarrow> bool \<Rightarrow> secret_prompt \<Rightarrow> order_confirm \<Rightarrow> modify_form \<Rightarrow> nat list \<Rightarrow> nat list" where
  "settings_modal_close_system close_by_button escape prompt confirm form roots =
     (let higher_priority_open = (sp_active prompt \<noteq> None \<or> oc_pending confirm \<noteq> None \<or> mf_open form);
          close_by_escape = (escape \<and> \<not> higher_priority_open) in
      if close_by_button \<or> close_by_escape then [] else roots)"

section \<open>Properties\<close>

subsection \<open>The rows of the orders\<close>

lemma takeWhile_rows: "takeWhile (\<lambda>row. row < n) [0..<k] = [0..<min k n]"
proof (induction k)
  case (Suc k)
  then show ?case by (cases "k < n") (auto simp: min_def takeWhile_append)
qed simp

lemma row_shown: "nth_filtered f row b = (if row < length (filtered f b) then Some (filtered f b ! row) else None)"
  by (simp add: nth_filtered_def filtered_def nth_matching_filter)

lemma live_count: "orders_count True f b pf = min ORDER_ROWS (length (filtered f b))"
proof -
  have "(\<lambda>r :: live_order option. r \<noteq> None) \<circ> (\<lambda>row. nth_filtered f row b) = (\<lambda>row. row < length (filtered f b))"
    by (auto simp: row_shown fun_eq_iff)
  then show ?thesis by (simp add: orders_count_def live_view_def takeWhile_map takeWhile_rows)
qed

lemma live_cell_shown:
  assumes "row < ORDER_ROWS"
  shows "orders_cell True f b pf row col =
    Some (if row < length (filtered f b) then live_cell (filtered f b ! row) col else ([], CO_Text))"
proof -
  have "live_view f b ! row = nth_filtered f row b" using assms by (simp add: live_view_def)
  with assms show ?thesis by (simp add: orders_cell_def live_count row_shown min_le_iff_disj)
qed

text \<open>C13: What is drawn in a row, what the menu of the row is opened for and what the menu then cancels are
  the same order: a press on a row that shows an order opens the menu for it, a press below the last one
  does nothing, and the cancellation goes out for that order at most once, whatever became of the book
  in between.\<close>

theorem menu_acts_on_the_shown_order:
  assumes "row < ORDER_ROWS" and "is_live_mode mode"
  shows "let m' = order_row_press PB_Secondary mode f b venue row pos m in
    if row < orders_count True f b pf
    then (\<exists>r \<in> set b. (\<forall>col. orders_cell True f b pf row col = Some (live_cell r col)) \<and>
            cm_open m' \<and> cm_client_order_id m' = Some (lo_client_order_id r) \<and>
            context_menu_item_system l (CI_Cancel # items) backdrop (m', form) =
              ((menu_close m', form), link_send l (TC_CancelOrder (unwrap_or [] venue) (lo_client_order_id r) None)) \<and>
            context_menu_item_system l items' backdrop (menu_close m', form) = ((menu_close m', form), []))
    else m' = m \<and> (\<forall>col. orders_cell True f b pf row col = Some ([], CO_Text))"
proof (cases "row < length (filtered f b)")
  case True
  let ?r = "filtered f b ! row"
  have "?r \<in> set b" using nth_mem [OF True] by (simp add: filtered_def)
  moreover have "order_row_press PB_Secondary mode f b venue row pos m =
      \<lparr>cm_open = True, cm_client_order_id = Some (lo_client_order_id ?r), cm_venue = unwrap_or [] venue, cm_screen_pos = pos\<rparr>"
    using assms(2) True by (simp add: order_row_press_def row_shown)
  ultimately show ?thesis using True assms
    by (auto simp: Let_def live_count live_cell_shown context_menu_item_system_def menu_close_def intro!: bexI [of _ ?r])
next
  case False
  then show ?thesis using assms by (simp add: Let_def live_count live_cell_shown order_row_press_def row_shown)
qed

lemma menu_acts_on_the_shown_order_witness:
  "let b = [sample_order ''c1'' ''S'' 1, sample_order ''c2'' ''S'' 2]; mode = EM_LiveManual;
       m' = order_row_press PB_Secondary mode OF_All b (Some ''kabu'') 1 (0, 0)
              \<lparr>cm_open = False, cm_client_order_id = None, cm_venue = [], cm_screen_pos = (0, 0)\<rparr> in
    if 1 < orders_count True OF_All b portfolio_default
    then (\<exists>r \<in> set b. (\<forall>col. orders_cell True OF_All b portfolio_default 1 col = Some (live_cell r col)) \<and>
            cm_open m' \<and> cm_client_order_id m' = Some (lo_client_order_id r) \<and>
            context_menu_item_system OpenSender (CI_Cancel # []) False (m', sample_modify) =
              ((menu_close m', sample_modify), link_send OpenSender (TC_CancelOrder (unwrap_or [] (Some ''kabu'')) (lo_client_order_id r) None)) \<and>
            context_menu_item_system OpenSender [CI_Cancel] False (menu_close m', sample_modify) = ((menu_close m', sample_modify), []))
    else m' = \<lparr>cm_open = False, cm_client_order_id = None, cm_venue = [], cm_screen_pos = (0, 0)\<rparr> \<and>
      (\<forall>col. orders_cell True OF_All b portfolio_default 1 col = Some ([], CO_Text))"
  unfolding Let_def by (rule menu_acts_on_the_shown_order [unfolded Let_def]) (simp_all add: ORDER_ROWS_def)

subsection \<open>A start that failed\<close>

text \<open>What reaches the start of a run and the panel of its parameters in one frame.\<close>

record startup_frame =
  sf_updates :: "backend_status_update list"
  sf_session :: trading_session
  sf_now :: nat
  sf_cache :: "path option"
  sf_commits :: "param_commit list"
  sf_opened :: "scenario_metadata option"

definition startup_step ::
  "(str \<Rightarrow> json option) \<Rightarrow> calendar \<Rightarrow> date \<Rightarrow> startup_frame \<Rightarrow> ui_world \<times> startup_params \<times> scenario_metadata \<Rightarrow>
   ui_world \<times> startup_params \<times> scenario_metadata" where
  "startup_step parse cal today fr t =
     (let (w, p, meta) = t; w1 = status_update_system parse (sf_updates fr) w;
          pr = replay_startup_timeout_system (sf_now fr)
                 (auto_hide_startup_progress_system (sf_session fr) (w_progress w1));
          (p1, meta1) = commit_startup_params_to_scenario_system cal pr (sf_cache fr) (sf_commits fr) (p, meta);
          meta2 = (case sf_opened fr of Some m \<Rightarrow> m | None \<Rightarrow> meta1);
          p2 = sync_startup_params_from_scenario_system cal today (sf_opened fr \<noteq> None) meta2 pr p1 in
      (w1\<lparr>w_progress := pr\<rparr>, p2, meta2))"

fun completes :: "u64 \<Rightarrow> backend_status_update \<Rightarrow> bool" where
  "completes i (SU_RunComplete (Some sid) run_id summary) = (sid = i)"
| "completes i u = False"

definition failed_start :: "u64 \<Rightarrow> replay_startup_progress \<Rightarrow> bool" where
  "failed_start i pr \<longleftrightarrow> rsp_visible pr \<and> rsp_error pr \<noteq> None \<and> rsp_startup_id pr = i"

lemma failed_start_update:
  "\<not> completes i u \<Longrightarrow> failed_start i (w_progress w) \<Longrightarrow> failed_start i (w_progress (apply_status_update parse u w))"
  by (cases "(i, u)" rule: completes.cases)
     (auto simp: failed_start_def reduce_replay_startup_def reduce_run_complete_def reduce_run_failed_def
        reduce_mode_changed_def matches_startup_def Let_def split: option.splits)

lemma failed_start_updates:
  "list_all (\<lambda>u. \<not> completes i u) us \<Longrightarrow> failed_start i (w_progress w) \<Longrightarrow>
   failed_start i (w_progress (status_update_system parse us w))"
  unfolding status_update_system_def
  by (induction us arbitrary: w) (simp_all add: failed_start_update)

lemma failed_start_frame:
  assumes "list_all (\<lambda>u. \<not> completes i u) (sf_updates fr)" and "failed_start i (w_progress w)"
  shows "\<exists>w' meta'. startup_step parse cal today fr (w, p, meta) = (w', p, meta') \<and> failed_start i (w_progress w')"
  using failed_start_updates [OF assms, of parse]
  by (auto simp: startup_step_def failed_start_def replay_startup_timeout_system_def auto_hide_startup_progress_system_def
      commit_startup_params_to_scenario_system_def is_panel_disabled_def sync_startup_params_from_scenario_system_def Let_def)

text \<open>C29: A start that failed, or that took longer than a minute, stays visible, and while it is visible the
  panel of the parameters is disabled: whatever is typed into it, whichever strategy is opened and
  whatever else arrives, the parameters stay those that failed, until that start completes after all or
  another run is started with them.\<close>

theorem failed_start_locks_the_panel:
  assumes "rsp_visible (w_progress w)" and "rsp_error (w_progress w) \<noteq> None" and "rsp_startup_id (w_progress w) = i"
    and "list_all (\<lambda>fr. list_all (\<lambda>u. \<not> completes i u) (sf_updates fr)) frames"
  shows "\<exists>w' meta'. fold (startup_step parse cal today) frames (w, p, meta) = (w', p, meta') \<and>
    (\<forall>cache. is_panel_disabled (w_progress w') cache)"
proof -
  have "failed_start i (w_progress w)" using assms(1-3) by (simp add: failed_start_def)
  then have "\<exists>w' meta'. fold (startup_step parse cal today) frames (w, p, meta) = (w', p, meta') \<and> failed_start i (w_progress w')"
    using assms(4)
  proof (induction frames arbitrary: w meta)
    case (Cons fr frames)
    then obtain w1 meta1 where "startup_step parse cal today fr (w, p, meta) = (w1, p, meta1)" "failed_start i (w_progress w1)"
      using failed_start_frame [of i fr w parse cal today p meta] by auto
    with Cons show ?case by simp
  qed simp
  then show ?thesis by (auto simp: failed_start_def is_panel_disabled_def)
qed

definition failed_world :: ui_world where
  "failed_world = apply_status_update (\<lambda>_. None) (SU_RunFailed (Some 1) ''no data'')
     (world_default\<lparr>w_progress := progress_default\<lparr>rsp_visible := True, rsp_startup_id := 1\<rparr>\<rparr>)"

lemma failed_start_locks_the_panel_witness:
  "\<exists>w' meta'. fold (startup_step (\<lambda>_. None) sample_calendar 1)
      [\<lparr>sf_updates = [SU_Error ''x''], sf_session = \<lparr>ts_timestamp_ms = 5, ts_replay_state = Some ''IDLE''\<rparr>, sf_now = 7,
        sf_cache = Some ''c'', sf_commits = [PC_Start ''2024-01-04''], sf_opened = None\<rparr>]
      (failed_world, sample_params, scenario_default) = (w', sample_params, meta') \<and>
    (\<forall>cache. is_panel_disabled (w_progress w') cache)"
  by (rule failed_start_locks_the_panel [of _ 1])
     (simp_all add: failed_world_def reduce_run_failed_def matches_startup_def)

text \<open>The message is kept in the progress, but nothing that is drawn depends on it.\<close>

lemma error_of_start_not_drawn:
  "run_result_panel_system r (pr\<lparr>rsp_error := Some e\<rparr>) = run_result_panel_system r (pr\<lparr>rsp_error := Some e'\<rparr>)"
  by (simp add: run_result_panel_system_def Let_def)

subsection \<open>A start ends\<close>

lemma timeout_frame:
  "rsp_started_at_elapsed pr = Some t0 \<Longrightarrow> t0 + 60 * 10 ^ 9 \<le> now \<Longrightarrow>
   let pr' = replay_startup_timeout_system now (auto_hide_startup_progress_system s pr) in
   \<not> rsp_visible pr' \<or> rsp_error pr' \<noteq> None"
  by (auto simp: replay_startup_timeout_system_def auto_hide_startup_progress_system_def close_startup_def Let_def
      split: option.splits)

end
