(* ===== verification/Notices.thy ===== *)
theory Notices
  imports Modals Run_Control F32
begin

text \<open>
  What tells the user something or offers a choice and goes away again: the toast of the safety rails
  (\<open>src/ui/safety_toast.rs\<close>), the queue of toasts and the menu of a right click
  (\<open>src/ui/component/toast.rs\<close>, \<open>context_menu.rs\<close>), the dialogs after a logout and after a restart
  (\<open>src/ui/relogin_modal.rs\<close>, \<open>reconcile_modal.rs\<close>), and the buttons with their colours
  (\<open>src/ui/component/button.rs\<close>, the marks set by \<open>src/ui/footer.rs\<close> and \<open>menu_bar.rs\<close>). Entities are
  numbers; the ones that are alive are the state.
\<close>

section \<open>Model\<close>

subsection \<open>The toast of the safety rails\<close>

datatype notice_colour = NC_Warning | NC_Error

definition toast_color :: "str \<Rightarrow> notice_colour" where
  "toast_color kind = (if kind = ''MAX_DAILY_LOSS'' then NC_Error else NC_Warning)"

definition em_dash :: str where "em_dash = utf8 [0xE2, 0x80, 0x94]"

definition toast_header :: "safety_toast_entry \<Rightarrow> str" where
  "toast_header e =
     (case ste_toast_kind e of
        TO_SafetyRail \<Rightarrow> ''SAFETY RAIL '' @ em_dash @ '' '' @ ste_kind e
      | TO_BackendError \<Rightarrow> ''BACKEND ERROR '' @ em_dash @ '' '' @ ste_kind e)"

definition toast_body :: "safety_toast_entry \<Rightarrow> str" where
  "toast_body e =
     (if ste_run_id e = [] then ste_detail e
      else ste_detail e @ '' (run '' @ short_id (ste_run_id e) 6 @ '')'')"

text \<open>\<open>st_changed\<close> is the change mark of the resource as this system sees it.\<close>

definition TOAST_DURATION_S :: f32 where "TOAST_DURATION_S = F64_Fin 6"

record toast_sys =
  st_active :: "safety_toast_entry option"
  st_changed :: bool
  st_remaining :: f32
  st_header :: str
  st_body :: str
  st_color :: notice_colour
  st_shown :: bool

definition safety_toast_arm :: "toast_sys \<Rightarrow> toast_sys" where
  "safety_toast_arm s =
     (case st_active s of
        Some e \<Rightarrow>
          (if st_changed s
           then s\<lparr>st_remaining := TOAST_DURATION_S, st_header := toast_header e, st_body := toast_body e,
                  st_color := toast_color (ste_kind e), st_shown := True\<rparr>
           else s)
      | None \<Rightarrow> s)"

definition safety_toast_system :: "f32 \<Rightarrow> toast_sys \<Rightarrow> toast_sys" where
  "safety_toast_system delta s =
     (let s1 = (safety_toast_arm s)\<lparr>st_changed := False\<rparr> in
      if \<not> 0 < st_remaining s1 then s1
      else (let r = f32_sub (st_remaining s1) delta in
            if r \<le> 0 then s1\<lparr>st_remaining := 0, st_shown := False, st_active := None\<rparr>
            else s1\<lparr>st_remaining := r\<rparr>))"

text \<open>A violation that arrives between two frames.\<close>

definition toast_arrives :: "toast_kind \<Rightarrow> str \<Rightarrow> str \<Rightarrow> str \<Rightarrow> int \<Rightarrow> toast_sys \<Rightarrow> toast_sys" where
  "toast_arrives k run_id kind detail ts s =
     s\<lparr>st_active := safety_toast_show k run_id kind detail ts (st_active s), st_changed := True\<rparr>"

subsection \<open>The queue of toasts\<close>

definition TOAST_MAX :: nat where "TOAST_MAX = 5"

datatype toast_style = TS_Info | TS_Warning | TS_Error | TS_Success

record toast =
  to_entity :: nat
  to_kind :: toast_style
  to_text :: str
  to_elapsed :: nat
  to_duration :: nat

record toast_layer =
  tl_queue :: "nat list"
  tl_alive :: "toast list"

definition despawn_toast :: "nat \<Rightarrow> toast_layer \<Rightarrow> toast_layer" where
  "despawn_toast e l = l\<lparr>tl_alive := filter (\<lambda>t. to_entity t \<noteq> e) (tl_alive l)\<rparr>"

definition spawn_toast :: "nat \<Rightarrow> str \<Rightarrow> toast_style \<Rightarrow> nat \<Rightarrow> toast_layer \<Rightarrow> toast_layer" where
  "spawn_toast fresh msg kind duration l =
     (let l1 = (if TOAST_MAX \<le> length (tl_queue l)
                then (case tl_queue l of
                        oldest # rest \<Rightarrow> despawn_toast oldest (l\<lparr>tl_queue := rest\<rparr>)
                      | [] \<Rightarrow> l)
                else l) in
      \<lparr>tl_queue = tl_queue l1 @ [fresh],
       tl_alive = tl_alive l1 @ [\<lparr>to_entity = fresh, to_kind = kind, to_text = msg, to_elapsed = 0, to_duration = duration\<rparr>]\<rparr>)"

text \<open>A timer that runs once finishes in the tick in which its duration is reached, and stays there.\<close>

definition just_finished :: "nat \<Rightarrow> toast \<Rightarrow> bool" where
  "just_finished delta t \<longleftrightarrow> to_elapsed t < to_duration t \<and> to_duration t \<le> to_elapsed t + delta \<or>
     to_duration t = 0 \<and> to_elapsed t = 0"

definition tick_toast :: "nat \<Rightarrow> toast \<Rightarrow> toast" where
  "tick_toast delta t = t\<lparr>to_elapsed := min (to_duration t) (to_elapsed t + delta)\<rparr>"

definition toast_expiry_system :: "nat \<Rightarrow> toast_layer \<Rightarrow> toast_layer" where
  "toast_expiry_system delta l =
     (let expired = set (map to_entity (filter (just_finished delta) (tl_alive l))) in
      \<lparr>tl_queue = filter (\<lambda>e. e \<notin> expired) (tl_queue l),
       tl_alive = map (tick_toast delta) (filter (\<lambda>t. to_entity t \<notin> expired) (tl_alive l))\<rparr>)"

subsection \<open>The menu of a right click\<close>

record popup_layer =
  pu_current :: "nat option"
  pu_alive :: "(nat \<times> str list) list"

definition popup_open :: "nat \<Rightarrow> popup_layer \<Rightarrow> nat option \<times> popup_layer" where
  "popup_open e l = (pu_current l, l\<lparr>pu_current := Some e\<rparr>)"

definition popup_close :: "popup_layer \<Rightarrow> nat option \<times> popup_layer" where
  "popup_close l = (pu_current l, l\<lparr>pu_current := None\<rparr>)"

definition despawn_popup :: "nat option \<Rightarrow> popup_layer \<Rightarrow> popup_layer" where
  "despawn_popup e l = (case e of Some i \<Rightarrow> l\<lparr>pu_alive := filter (\<lambda>m. fst m \<noteq> i) (pu_alive l)\<rparr> | None \<Rightarrow> l)"

definition spawn_context_menu :: "nat \<Rightarrow> str list \<Rightarrow> popup_layer \<Rightarrow> popup_layer" where
  "spawn_context_menu fresh entries l =
     (let (old, l1) = popup_open fresh (l\<lparr>pu_alive := pu_alive l @ [(fresh, entries)]\<rparr>) in despawn_popup old l1)"

definition context_menu_esc_system :: "bool \<Rightarrow> popup_layer \<Rightarrow> popup_layer" where
  "context_menu_esc_system escape l =
     (if pu_current l = None \<or> \<not> escape then l
      else (let (old, l1) = popup_close l in despawn_popup old l1))"

subsection \<open>After a logout, after a restart\<close>

text \<open>Shown or not; the rest follows only a change of the prompt.\<close>

definition relogin_modal_visibility_system :: "bool \<Rightarrow> str option \<Rightarrow> bool \<Rightarrow> bool" where
  "relogin_modal_visibility_system changed prompt shown = (if changed then prompt \<noteq> None else shown)"

definition relogin_modal_button_system :: "bool \<Rightarrow> str option \<Rightarrow> str option" where
  "relogin_modal_button_system pressed prompt = (if prompt = None then prompt else if pressed then None else prompt)"

definition relogin_modal_sync_system :: "bool \<Rightarrow> str option \<Rightarrow> str \<Rightarrow> str" where
  "relogin_modal_sync_system changed prompt shown =
     (if \<not> changed then shown else (case prompt of Some v \<Rightarrow> ''venue: '' @ v | None \<Rightarrow> []))"

definition relogin_modal_reconcile_system ::
  "nat \<Rightarrow> bool \<Rightarrow> bool \<times> modal_layer \<times> str option \<Rightarrow> bool \<times> modal_layer \<times> str option" where
  "relogin_modal_reconcile_system rt changed = modal_reconcile_step (\<lambda>v. v \<noteq> None) (\<lambda>_. None) rt 260 changed"

definition reconcile_modal_visibility_system :: "bool \<Rightarrow> reconcile_unknown_order list \<Rightarrow> bool \<Rightarrow> bool" where
  "reconcile_modal_visibility_system changed unknown shown = (if changed then unknown \<noteq> [] else shown)"

definition reconcile_modal_button_system :: "bool \<Rightarrow> reconcile_unknown_order list \<Rightarrow> reconcile_unknown_order list" where
  "reconcile_modal_button_system pressed unknown = (if pressed then [] else unknown)"

definition unknown_line :: "reconcile_unknown_order \<Rightarrow> str" where
  "unknown_line r =
     utf8 [0xE2, 0x80, 0xA2] @ '' '' @ ru_symbol r @ '' '' @ ru_client_order_id r @ '' ('' @
     utf8 [0xE6, 0x9C, 0x80, 0xE5, 0xBE, 0x8C, 0xE3, 0x81, 0xAE, 0xE7, 0x8A, 0xB6, 0xE6, 0x85, 0x8B] @
     '': '' @ ru_status r @ '')''"

definition format_unknown_list :: "reconcile_unknown_order list \<Rightarrow> str" where
  "format_unknown_list unknown = join [newline] (map unknown_line unknown)"

definition reconcile_modal_sync_system :: "bool \<Rightarrow> reconcile_unknown_order list \<Rightarrow> str \<Rightarrow> str" where
  "reconcile_modal_sync_system changed unknown shown = (if changed then format_unknown_list unknown else shown)"

definition reconcile_modal_reconcile_system ::
  "nat \<Rightarrow> bool \<Rightarrow> bool \<times> modal_layer \<times> reconcile_unknown_order list \<Rightarrow>
   bool \<times> modal_layer \<times> reconcile_unknown_order list" where
  "reconcile_modal_reconcile_system rt changed = modal_reconcile_step (\<lambda>us. us \<noteq> []) (\<lambda>_. []) rt 262 changed"

subsection \<open>Buttons\<close>

datatype tint_color = TI_Accent | TI_Error | TI_Warning | TI_Success

datatype button_style =
    ST_Filled | ST_Tinted tint_color | ST_Outlined | ST_OutlinedGhost | ST_Subtle | ST_Transparent

datatype button_state = BS_Enabled | BS_Hovered | BS_Active | BS_Focused | BS_Disabled | BS_Selected

text \<open>The names of the theme that the table of the buttons reads.\<close>

datatype token =
    TK_element_background | TK_element_hover | TK_element_active | TK_element_selected | TK_element_disabled
  | TK_ghost_element_background | TK_ghost_element_hover | TK_ghost_element_active
  | TK_ghost_element_selected | TK_ghost_element_disabled | TK_element_selection_background
  | TK_border | TK_border_variant | TK_border_selected | TK_border_focused | TK_border_disabled
  | TK_text | TK_text_muted | TK_text_accent | TK_text_disabled
  | TK_icon | TK_icon_muted | TK_icon_accent | TK_icon_disabled | TK_accent
  | TK_error | TK_error_background | TK_error_border
  | TK_warning | TK_warning_background | TK_warning_border
  | TK_success | TK_success_background | TK_success_border

text \<open>A theme gives every name a colour, and None is no colour.\<close>

type_synonym 'c theme = "token \<Rightarrow> 'c"

record 'c resolved_colors =
  bc_background :: "'c option"
  bc_border :: "'c option"
  bc_label :: 'c
  bc_icon :: 'c

definition tint_tokens :: "tint_color \<Rightarrow> token \<times> token \<times> token \<times> token" where
  "tint_tokens t =
     (case t of
        TI_Accent \<Rightarrow> (TK_accent, TK_element_selection_background, TK_border_selected, TK_text_accent)
      | TI_Error \<Rightarrow> (TK_error, TK_error_background, TK_error_border, TK_error)
      | TI_Warning \<Rightarrow> (TK_warning, TK_warning_background, TK_warning_border, TK_warning)
      | TI_Success \<Rightarrow> (TK_success, TK_success_background, TK_success_border, TK_success))"

definition tinted_tokens :: "tint_color \<Rightarrow> button_state \<Rightarrow> token option \<times> token option \<times> token" where
  "tinted_tokens t st =
     (let (solid, soft, bd, lb) = tint_tokens t in
      case st of
        BS_Enabled \<Rightarrow> (Some soft, Some bd, lb)
      | BS_Hovered \<Rightarrow> (Some solid, Some bd, TK_text)
      | BS_Active \<Rightarrow> (Some solid, Some bd, TK_text)
      | BS_Selected \<Rightarrow> (Some solid, Some bd, TK_text)
      | BS_Focused \<Rightarrow> (Some soft, Some TK_border_focused, lb)
      | BS_Disabled \<Rightarrow> (Some TK_element_disabled, Some TK_border_disabled, TK_text_disabled))"

fun button_tokens :: "button_style \<Rightarrow> button_state \<Rightarrow> token option \<times> token option \<times> token" where
  "button_tokens ST_Filled BS_Enabled = (Some TK_element_background, None, TK_text)"
| "button_tokens ST_Filled BS_Hovered = (Some TK_element_hover, None, TK_text)"
| "button_tokens ST_Filled BS_Active = (Some TK_element_active, None, TK_text)"
| "button_tokens ST_Filled BS_Selected = (Some TK_element_selected, Some TK_border_selected, TK_text)"
| "button_tokens ST_Filled BS_Focused = (Some TK_element_background, Some TK_border_focused, TK_text)"
| "button_tokens ST_Filled BS_Disabled = (Some TK_element_disabled, Some TK_border_disabled, TK_text_disabled)"
| "button_tokens (ST_Tinted t) st = tinted_tokens t st"
| "button_tokens ST_Outlined BS_Enabled = (None, Some TK_border, TK_text)"
| "button_tokens ST_Outlined BS_Hovered = (Some TK_element_hover, Some TK_border_variant, TK_text)"
| "button_tokens ST_Outlined BS_Active = (Some TK_element_active, Some TK_border_variant, TK_text)"
| "button_tokens ST_Outlined BS_Selected = (Some TK_element_selected, Some TK_border_selected, TK_text)"
| "button_tokens ST_Outlined BS_Focused = (None, Some TK_border_focused, TK_text)"
| "button_tokens ST_Outlined BS_Disabled = (None, Some TK_border_disabled, TK_text_disabled)"
| "button_tokens ST_OutlinedGhost BS_Enabled = (None, Some TK_border, TK_text_muted)"
| "button_tokens ST_OutlinedGhost BS_Hovered = (Some TK_ghost_element_hover, Some TK_border, TK_text)"
| "button_tokens ST_OutlinedGhost BS_Active = (Some TK_ghost_element_active, Some TK_border, TK_text)"
| "button_tokens ST_OutlinedGhost BS_Selected = (Some TK_ghost_element_selected, Some TK_border_selected, TK_text)"
| "button_tokens ST_OutlinedGhost BS_Focused = (None, Some TK_border_focused, TK_text_muted)"
| "button_tokens ST_OutlinedGhost BS_Disabled = (None, Some TK_border_disabled, TK_text_disabled)"
| "button_tokens ST_Subtle BS_Enabled = (Some TK_ghost_element_background, None, TK_text_muted)"
| "button_tokens ST_Subtle BS_Hovered = (Some TK_ghost_element_hover, None, TK_text)"
| "button_tokens ST_Subtle BS_Active = (Some TK_ghost_element_active, None, TK_text)"
| "button_tokens ST_Subtle BS_Selected = (Some TK_ghost_element_selected, None, TK_text)"
| "button_tokens ST_Subtle BS_Focused = (Some TK_ghost_element_background, Some TK_border_focused, TK_text_muted)"
| "button_tokens ST_Subtle BS_Disabled = (Some TK_ghost_element_disabled, None, TK_text_disabled)"
| "button_tokens ST_Transparent BS_Enabled = (None, None, TK_text_muted)"
| "button_tokens ST_Transparent BS_Hovered = (Some TK_ghost_element_hover, None, TK_text)"
| "button_tokens ST_Transparent BS_Active = (Some TK_ghost_element_active, None, TK_text)"
| "button_tokens ST_Transparent BS_Selected = (Some TK_ghost_element_selected, None, TK_text)"
| "button_tokens ST_Transparent BS_Focused = (None, Some TK_border_focused, TK_text_muted)"
| "button_tokens ST_Transparent BS_Disabled = (None, None, TK_text_disabled)"

text \<open>The icon follows the label by colour, not by name.\<close>

definition button_colors :: "'c theme \<Rightarrow> button_style \<Rightarrow> button_state \<Rightarrow> 'c resolved_colors" where
  "button_colors th style st =
     (let (bg, bd, lb) = button_tokens style st; label = th lb in
      \<lparr>bc_background = map_option th bg, bc_border = map_option th bd, bc_label = label,
       bc_icon = (if label = th TK_text_disabled then th TK_icon_disabled
                  else if label = th TK_text_muted then th TK_icon_muted
                  else if label = th TK_text_accent then th TK_icon_accent else th TK_icon)\<rparr>)"

datatype interaction = IN_Pressed | IN_Hovered | IN_None

text \<open>A button with its marks and what was painted last; \<open>tb_dirty\<close> says that the interaction or a mark
  was written, or the button spawned, since the painting system last ran. Taking a mark off is not a
  write.\<close>

record 'c themed_button =
  tb_style :: button_style
  tb_interaction :: interaction
  tb_selected :: bool
  tb_disabled :: bool
  tb_dirty :: bool
  tb_painted :: "'c option \<times> 'c option \<times> 'c"

definition state_of_button :: "'c themed_button \<Rightarrow> button_state" where
  "state_of_button b =
     (if tb_disabled b then BS_Disabled else if tb_selected b then BS_Selected
      else (case tb_interaction b of IN_Pressed \<Rightarrow> BS_Active | IN_Hovered \<Rightarrow> BS_Hovered | IN_None \<Rightarrow> BS_Enabled))"

definition paint_button :: "'c theme \<Rightarrow> 'c themed_button \<Rightarrow> 'c themed_button" where
  "paint_button th b =
     (if \<not> tb_dirty b then b
      else (let c = button_colors th (tb_style b) (state_of_button b) in
            b\<lparr>tb_dirty := False, tb_painted := (bc_background c, bc_border c, bc_label c)\<rparr>))"

definition button_interaction_system :: "'c theme \<Rightarrow> 'c themed_button list \<Rightarrow> 'c themed_button list" where
  "button_interaction_system th = map (paint_button th)"

text \<open>Insertion and removal of the marks, as the systems of the footer and of the menus do it.\<close>

definition mark_selected :: "bool \<Rightarrow> 'c themed_button \<Rightarrow> 'c themed_button" where
  "mark_selected on b = (if on then b\<lparr>tb_selected := True, tb_dirty := True\<rparr> else b\<lparr>tb_selected := False\<rparr>)"

definition mark_disabled :: "bool \<Rightarrow> 'c themed_button \<Rightarrow> 'c themed_button" where
  "mark_disabled on b =
     (if on \<and> \<not> tb_disabled b then b\<lparr>tb_disabled := True, tb_dirty := True\<rparr>
      else if \<not> on \<and> tb_disabled b then b\<lparr>tb_disabled := False\<rparr> else b)"

section \<open>Properties\<close>

subsection \<open>A violation is shown for its time\<close>

fun lasts :: "f32 \<Rightarrow> f32 list \<Rightarrow> bool" where
  "lasts r [] = True"
| "lasts r (d # ds) = (0 < f32_sub r d \<and> lasts (f32_sub r d) ds)"

definition delta_ok :: "f32 \<Rightarrow> bool" where
  "delta_ok d \<longleftrightarrow> f64_is_finite d \<and> 0 \<le> d"

definition toast_shows :: "safety_toast_entry \<Rightarrow> toast_sys \<Rightarrow> bool" where
  "toast_shows e s \<longleftrightarrow>
     st_shown s \<and> st_active s = Some e \<and> st_header s = toast_header e \<and> st_body s = toast_body e \<and>
     st_color s = toast_color (ste_kind e) \<and> 0 < st_remaining s"

definition toast_gone :: "toast_sys \<Rightarrow> bool" where
  "toast_gone s \<longleftrightarrow> \<not> st_shown s \<and> st_active s = None \<and> \<not> 0 < st_remaining s"

lemma sub_finite_not_nan:
  assumes "f64_is_finite d" and "0 < r" and "r \<le> TOAST_DURATION_S"
  shows "f32_sub r d \<noteq> F64_NaN"
  using assms by (cases r; cases d)
    (auto simp: f32_sub_def f32_add_def f64_is_finite_def TOAST_DURATION_S_def zero_f64_def less_f64_def less_eq_f64_def f64_eq_def)

lemma le_0_iff: "x \<noteq> F64_NaN \<Longrightarrow> x \<le> 0 \<longleftrightarrow> \<not> 0 < (x :: f64)"
  using f64_not_less [of 0 x] by (simp add: zero_f64_def)

lemma sub_within:
  assumes "delta_ok d" and "r \<le> TOAST_DURATION_S" and "0 < r"
  shows "f32_sub r d \<le> TOAST_DURATION_S"
proof -
  obtain x where d: "d = F64_Fin x" and x: "0 \<le> x"
    using assms(1) by (cases d) (auto simp: delta_ok_def f64_is_finite_def zero_f64_def)
  have "f32_add r (F64_Fin (- x)) \<le> f32_add TOAST_DURATION_S (F64_Fin (- x))" using assms(2) by (rule f32_add_mono)
  moreover have "f32_add TOAST_DURATION_S (F64_Fin (- x)) \<le> f32_add TOAST_DURATION_S (F64_Fin 0)"
    unfolding TOAST_DURATION_S_def by (rule f32_add_mono_left) (use x in simp)
  moreover have "f32_add TOAST_DURATION_S (F64_Fin 0) = TOAST_DURATION_S" by code_simp
  ultimately show ?thesis using f64_le_trans by (simp add: f32_sub_def d)
qed

definition counting :: "safety_toast_entry \<Rightarrow> f32 \<Rightarrow> toast_sys \<Rightarrow> bool" where
  "counting e r s \<longleftrightarrow> toast_shows e s \<and> \<not> st_changed s \<and> st_remaining s = r \<and> r \<le> TOAST_DURATION_S"

lemma gone_stays: "toast_gone s \<and> \<not> st_changed s \<Longrightarrow>
    toast_gone (fold safety_toast_system ds s) \<and> \<not> st_changed (fold safety_toast_system ds s)"
  by (induction ds arbitrary: s) (auto simp: toast_gone_def safety_toast_system_def safety_toast_arm_def Let_def)

lemma counted_down:
  assumes "delta_ok d" and "toast_shows e (s\<lparr>st_remaining := r\<rparr>)" and "r \<le> TOAST_DURATION_S"
  shows "let s' = (let q = f32_sub r d in
                   if q \<le> 0 then s\<lparr>st_changed := False, st_remaining := 0, st_shown := False, st_active := None\<rparr>
                   else s\<lparr>st_changed := False, st_remaining := q\<rparr>) in
         if 0 < f32_sub r d then counting e (f32_sub r d) s' else toast_gone s' \<and> \<not> st_changed s'"
proof -
  have "0 < r" "f64_is_finite d" using assms(1,2) by (simp_all add: toast_shows_def delta_ok_def)
  then have "f32_sub r d \<le> 0 \<longleftrightarrow> \<not> 0 < f32_sub r d" "f32_sub r d \<le> TOAST_DURATION_S"
    using le_0_iff [OF sub_finite_not_nan [of d r]] sub_within [OF assms(1,3)] assms(3) by simp_all
  then show ?thesis using assms(2) by (auto simp: counting_def toast_shows_def toast_gone_def Let_def zero_f64_def)
qed

lemma counting_step:
  assumes "counting e r s" and "delta_ok d"
  shows "if 0 < f32_sub r d then counting e (f32_sub r d) (safety_toast_system d s)
    else toast_gone (safety_toast_system d s) \<and> \<not> st_changed (safety_toast_system d s)"
proof -
  have s: "s\<lparr>st_remaining := r\<rparr> = s" "\<not> st_changed s" "0 < r" "r \<le> TOAST_DURATION_S" "toast_shows e s"
    using assms(1) by (auto simp: counting_def toast_shows_def)
  have "safety_toast_system d s = (let q = f32_sub r d in
      if q \<le> 0 then s\<lparr>st_changed := False, st_remaining := 0, st_shown := False, st_active := None\<rparr>
      else s\<lparr>st_changed := False, st_remaining := q\<rparr>)"
    using s assms(1) by (auto simp: safety_toast_system_def safety_toast_arm_def counting_def Let_def split: option.splits)
  with counted_down [where e = e and s = s and r = r, OF assms(2)] s show ?thesis by (simp add: Let_def)
qed

lemma counting_frames:
  "counting e r s \<Longrightarrow> list_all delta_ok ds \<Longrightarrow>
   if lasts r ds then toast_shows e (fold safety_toast_system ds s) else toast_gone (fold safety_toast_system ds s)"
proof (induction ds arbitrary: r s)
  case (Cons d ds)
  then show ?case using counting_step [OF Cons.prems(1), of d] gone_stays [of "safety_toast_system d s" ds]
    by (cases "0 < f32_sub r d") auto
qed (simp add: counting_def)

text \<open>C14: Whatever was shown before, a violation is shown from the next frame on with its own header, detail
  and colour, until the times of the frames have used up six seconds, and is gone after that.\<close>

theorem violation_shown_for_its_time:
  assumes "list_all delta_ok (d # ds)"
  shows "let e = \<lparr>ste_toast_kind = k, ste_run_id = run_id, ste_kind = kind, ste_detail = detail, ste_ts_ms = ts\<rparr>;
             s' = fold safety_toast_system (d # ds) (toast_arrives k run_id kind detail ts s) in
    if lasts TOAST_DURATION_S (d # ds) then toast_shows e s' else toast_gone s'"
proof -
  let ?e = "\<lparr>ste_toast_kind = k, ste_run_id = run_id, ste_kind = kind, ste_detail = detail, ste_ts_ms = ts\<rparr>"
  let ?t = "toast_arrives k run_id kind detail ts s"
  let ?a = "(safety_toast_arm ?t)\<lparr>st_changed := False\<rparr>"
  have pos: "0 < TOAST_DURATION_S" by (simp add: TOAST_DURATION_S_def zero_f64_def)
  have a: "counting ?e TOAST_DURATION_S ?a"
    using pos by (simp add: counting_def toast_shows_def safety_toast_arm_def toast_arrives_def safety_toast_show_def
        TOAST_DURATION_S_def f64_le_refl)
  have "safety_toast_system d ?t = safety_toast_system d ?a"
    by (simp add: safety_toast_system_def safety_toast_arm_def toast_arrives_def safety_toast_show_def Let_def)
  then have eq: "fold safety_toast_system (d # ds) ?t = fold safety_toast_system (d # ds) ?a" by simp
  show ?thesis unfolding Let_def eq by (rule counting_frames [OF a assms])
qed

lemma violation_shown_for_its_time_witness:
  "let e = \<lparr>ste_toast_kind = TO_SafetyRail, ste_run_id = ''r1'', ste_kind = ''MAX_DAILY_LOSS'', ste_detail = ''x'', ste_ts_ms = 1\<rparr>;
       s' = fold safety_toast_system [F64_Fin 2, F64_Fin 3]
              (toast_arrives TO_SafetyRail ''r1'' ''MAX_DAILY_LOSS'' ''x'' 1
                 \<lparr>st_active = None, st_changed = False, st_remaining = 0, st_header = [], st_body = [],
                  st_color = NC_Warning, st_shown = False\<rparr>) in
    if lasts TOAST_DURATION_S [F64_Fin 2, F64_Fin 3] then toast_shows e s' else toast_gone s'"
  by (rule violation_shown_for_its_time) (simp add: delta_ok_def f64_is_finite_def zero_f64_def)

subsection \<open>The queue of toasts\<close>

text \<open>The layers that can come about: toasts are spawned with new entities, and time passes.\<close>

inductive toast_reached :: "toast_layer \<Rightarrow> bool" where
  start: "toast_reached \<lparr>tl_queue = [], tl_alive = []\<rparr>"
| spawn: "toast_reached l \<Longrightarrow> fresh \<notin> set (tl_queue l) \<Longrightarrow> toast_reached (spawn_toast fresh msg kind duration l)"
| tick: "toast_reached l \<Longrightarrow> toast_reached (toast_expiry_system delta l)"

lemma queue_of_filter:
  "filter (\<lambda>e. e \<notin> A) (map to_entity ts) = map to_entity (filter (\<lambda>t. to_entity t \<notin> A) ts)"
  by (simp add: filter_map o_def)

lemma spawn_queue:
  assumes "tl_queue l = map to_entity (tl_alive l)" and "distinct (tl_queue l)" and "fresh \<notin> set (tl_queue l)"
  shows "tl_queue (spawn_toast fresh msg kind duration l) = map to_entity (tl_alive (spawn_toast fresh msg kind duration l))"
    and "tl_queue (spawn_toast fresh msg kind duration l) =
      (if TOAST_MAX \<le> length (tl_queue l) then tl (tl_queue l) else tl_queue l) @ [fresh]"
proof -
  have drop_first: "map to_entity (filter (\<lambda>t. to_entity t \<noteq> x) (tl_alive l)) = xs" if "tl_queue l = x # xs" for x xs
  proof -
    have "map to_entity (filter (\<lambda>t. to_entity t \<noteq> x) (tl_alive l)) = filter (\<lambda>e. e \<noteq> x) (x # xs)"
      using assms(1) that by (simp add: filter_map o_def)
    also have "\<dots> = xs" using assms(2) that by (auto simp: filter_id_conv)
    finally show ?thesis .
  qed
  show "tl_queue (spawn_toast fresh msg kind duration l) = map to_entity (tl_alive (spawn_toast fresh msg kind duration l))"
    "tl_queue (spawn_toast fresh msg kind duration l) =
      (if TOAST_MAX \<le> length (tl_queue l) then tl (tl_queue l) else tl_queue l) @ [fresh]"
    using assms(1) drop_first
    by (auto simp: spawn_toast_def despawn_toast_def TOAST_MAX_def Let_def split: list.splits)
qed

lemma toast_queue_sound:
  "toast_reached l \<Longrightarrow> tl_queue l = map to_entity (tl_alive l) \<and> distinct (tl_queue l) \<and> length (tl_queue l) \<le> TOAST_MAX"
proof (induction rule: toast_reached.induct)
  case (spawn l fresh msg kind duration)
  then have l: "tl_queue l = map to_entity (tl_alive l)" "distinct (tl_queue l)" "fresh \<notin> set (tl_queue l)"
    and len: "length (tl_queue l) \<le> TOAST_MAX" by blast+
  have "distinct ((if TOAST_MAX \<le> length (tl_queue l) then tl (tl_queue l) else tl_queue l) @ [fresh])"
    using l(2,3) by (cases "tl_queue l") auto
  moreover have "length ((if TOAST_MAX \<le> length (tl_queue l) then tl (tl_queue l) else tl_queue l) @ [fresh]) \<le> TOAST_MAX"
    using len by (simp add: TOAST_MAX_def)
  ultimately show ?case
    using spawn_queue(1) [OF l, of msg kind duration] unfolding spawn_queue(2) [OF l, of msg kind duration, symmetric]
    by blast
next
  case (tick l delta)
  then show ?case
    by (auto simp: toast_expiry_system_def Let_def queue_of_filter o_def tick_toast_def distinct_map_filter
        intro: order_trans [OF length_filter_le])
qed simp

text \<open>The queue lists exactly the toasts that are alive, each once, oldest first and never more than five;
  the one spawned last is always among them.\<close>

theorem toast_queue_is_what_is_alive:
  assumes "toast_reached l" and "fresh \<notin> set (tl_queue l)"
  shows "let l' = spawn_toast fresh msg kind duration l in
    tl_queue l' = map to_entity (tl_alive l') \<and> distinct (tl_queue l') \<and> length (tl_queue l') \<le> 5 \<and>
    tl_queue l' = drop (length (tl_queue l) - 4) (tl_queue l) @ [fresh]"
proof -
  note l = toast_queue_sound [OF assms(1)]
  note l' = toast_queue_sound [OF toast_reached.spawn [OF assms], of msg kind duration]
  have latest: "(if TOAST_MAX \<le> length xs then tl xs else xs) = drop (length xs - 4) xs"
    if "length xs \<le> TOAST_MAX" for xs :: "nat list"
    using that by (cases "length xs = 5") (auto simp: TOAST_MAX_def drop_Suc)
  have "tl_queue (spawn_toast fresh msg kind duration l) = drop (length (tl_queue l) - 4) (tl_queue l) @ [fresh]"
    by (rule trans [OF spawn_queue(2) [OF conjunct1 [OF l] conjunct1 [OF conjunct2 [OF l]] assms(2)]])
       (simp only: latest [OF conjunct2 [OF conjunct2 [OF l]]])
  with l' show ?thesis unfolding Let_def TOAST_MAX_def by blast
qed

lemma toast_queue_is_what_is_alive_witness:
  "let l = spawn_toast 1 ''a'' TS_Info 5 \<lparr>tl_queue = [], tl_alive = []\<rparr>; l' = spawn_toast 2 ''b'' TS_Error 7 l in
    tl_queue l' = map to_entity (tl_alive l') \<and> distinct (tl_queue l') \<and> length (tl_queue l') \<le> 5 \<and>
    tl_queue l' = drop (length (tl_queue l) - 4) (tl_queue l) @ [2]"
proof -
  have "toast_reached (spawn_toast 1 ''a'' TS_Info 5 \<lparr>tl_queue = [], tl_alive = []\<rparr>)"
    by (rule toast_reached.spawn [OF toast_reached.start]) simp
  moreover have "2 \<notin> set (tl_queue (spawn_toast 1 ''a'' TS_Info 5 \<lparr>tl_queue = [], tl_alive = []\<rparr>))"
    by (simp add: spawn_toast_def TOAST_MAX_def)
  ultimately show ?thesis
    using toast_queue_is_what_is_alive [of _ 2 "''b''" TS_Error 7] unfolding Let_def by blast
qed

subsection \<open>One menu at a time\<close>

inductive popup_reached :: "popup_layer \<Rightarrow> bool" where
  start: "popup_reached \<lparr>pu_current = None, pu_alive = []\<rparr>"
| opened: "popup_reached l \<Longrightarrow> fresh \<notin> fst ` set (pu_alive l) \<Longrightarrow> popup_reached (spawn_context_menu fresh entries l)"
| escaped: "popup_reached l \<Longrightarrow> popup_reached (context_menu_esc_system escape l)"

lemma one_menu_at_a_time:
  "popup_reached l \<Longrightarrow> map fst (pu_alive l) = (case pu_current l of Some e \<Rightarrow> [e] | None \<Rightarrow> [])"
  by (induction rule: popup_reached.induct)
     (auto simp: spawn_context_menu_def context_menu_esc_system_def popup_open_def popup_close_def despawn_popup_def
        split: option.splits)

subsection \<open>Dialogs that only tell\<close>

lemma told_dialogs_reconcile:
  "modal_synced (\<lambda>v. v \<noteq> None) rt (was, st, v) \<Longrightarrow> v \<noteq> None \<Longrightarrow> \<not> on_stack rt st' \<Longrightarrow>
   relogin_modal_reconcile_system rt False (was, st', v) = (False, st', None)"
  "modal_synced (\<lambda>us. us \<noteq> []) rt (was, st, us) \<Longrightarrow> us \<noteq> [] \<Longrightarrow> \<not> on_stack rt st' \<Longrightarrow>
   reconcile_modal_reconcile_system rt False (was, st', us) = (False, st', [])"
  unfolding relogin_modal_reconcile_system_def reconcile_modal_reconcile_system_def
  by (rule relogin_modal.escape_clears reconcile_modal.escape_clears; assumption)+

subsection \<open>A mark that is taken off is not painted\<close>

definition looks_selected :: "'c theme \<Rightarrow> 'c themed_button \<Rightarrow> bool" where
  "looks_selected th b \<longleftrightarrow>
     (let c = button_colors th (tb_style b) BS_Selected in tb_painted b = (bc_background c, bc_border c, bc_label c))"

lemma paint_clean: "\<not> tb_dirty b \<Longrightarrow> paint_button th b = b"
  by (simp add: paint_button_def)

lemma paint_twice: "paint_button th (paint_button th b) = paint_button th b"
  by (simp add: paint_button_def Let_def)

lemma paint_frames: "\<not> tb_dirty b \<Longrightarrow> (paint_button th ^^ n) b = b"
  by (induction n) (simp_all add: paint_clean)

lemma selected_is_painted: "\<not> tb_disabled b \<Longrightarrow> looks_selected th (paint_button th (mark_selected True b))"
  by (simp add: looks_selected_def paint_button_def mark_selected_def state_of_button_def Let_def)

text \<open>C30: The painting system looks for a changed or added mark; a removed one is neither. So when another
  speed is chosen, the button of the old one keeps the colours of a selected button beside the new one,
  however many frames pass, until the pointer touches it.\<close>

theorem deselected_button_keeps_its_highlight:
  assumes "looks_selected th old" and "\<not> tb_dirty old" and "\<not> tb_disabled new" and "a \<noteq> b"
  shows "let marks = update_speed_buttons_system True b [(a, True), (b, False)];
             painted = (button_interaction_system th ^^ Suc n)
               (map2 (\<lambda>(mult, on) x. mark_selected on x) marks [old, new]) in
    list_all (looks_selected th) painted \<and> map tb_selected painted = [False, True]"
proof -
  let ?old = "mark_selected False old" and ?new = "mark_selected True new"
  have frames: "(button_interaction_system th ^^ k) xs = map (paint_button th ^^ k) xs" for k xs
    by (induction k) (simp_all add: button_interaction_system_def)
  have "\<not> tb_dirty ?old" using assms(2) by (simp add: mark_selected_def)
  then have old: "(paint_button th ^^ Suc n) ?old = ?old" by (rule paint_frames)
  have new: "(paint_button th ^^ Suc n) ?new = paint_button th ?new"
    by (induction n) (simp_all add: paint_twice)
  have painted: "(button_interaction_system th ^^ Suc n) [?old, ?new] = [?old, paint_button th ?new]"
    by (simp only: frames list.map old new)
  have "looks_selected th ?old" using assms(1) by (simp add: looks_selected_def mark_selected_def)
  moreover have "tb_selected (paint_button th ?new)" "\<not> tb_selected ?old"
    by (simp_all add: mark_selected_def paint_button_def Let_def)
  moreover have "map2 (\<lambda>(mult, on) x. mark_selected on x) (update_speed_buttons_system True b [(a, True), (b, False)]) [old, new] =
      [?old, ?new]"
    using assms(4) by (simp add: update_speed_buttons_system_def)
  ultimately show ?thesis using selected_is_painted [OF assms(3), of th]
    unfolding Let_def by (simp only: painted list.pred_inject list.map simp_thms)
qed

definition sample_button :: "token themed_button" where
  "sample_button =
     \<lparr>tb_style = ST_Filled, tb_interaction = IN_None, tb_selected = True, tb_disabled = False, tb_dirty = False,
      tb_painted = (Some TK_element_selected, Some TK_border_selected, TK_text)\<rparr>"

lemma deselected_button_keeps_its_highlight_witness:
  "let marks = update_speed_buttons_system True 10 [(1, True), (10, False)];
       painted = (button_interaction_system (\<lambda>t. t) ^^ Suc 3)
         (map2 (\<lambda>(mult, on) x. mark_selected on x) marks [sample_button, sample_button\<lparr>tb_selected := False\<rparr>]) in
    list_all (looks_selected (\<lambda>t. t)) painted \<and> map tb_selected painted = [False, True]"
  by (rule deselected_button_keeps_its_highlight)
     (simp_all add: sample_button_def looks_selected_def button_colors_def Let_def)

end
