(* ===== verification/Camera.thy ===== *)
theory Camera
  imports Chart_View Panels
begin

text \<open>
  Who gets the wheel and the drag: the camera, or the editor or chart below the cursor
  (\<open>src/camera.rs\<close>). The camera itself, with what it does to the view while it is enabled, belongs to
  another crate. A rectangle is its centre with the size that its sprite has, if it has one.
\<close>

section \<open>Model\<close>

type_synonym rectangle = "vec2 \<times> vec2 option"

definition hits_sprite :: "vec2 \<Rightarrow> rectangle \<Rightarrow> bool" where
  "hits_sprite cursor r =
     (let (centre, size) = r; (w, h) = unwrap_or (F64_Fin 1, F64_Fin 1) size;
          half_w = f32_div w (F64_Fin 2); half_h = f32_div h (F64_Fin 2) in
      f32_sub (fst centre) half_w < fst cursor \<and> fst cursor < f32_add (fst centre) half_w \<and>
      f32_sub (snd centre) half_h < snd cursor \<and> snd cursor < f32_add (snd centre) half_h)"

definition cursor_hits_any_sprite :: "vec2 option \<Rightarrow> rectangle list \<Rightarrow> bool" where
  "cursor_hits_any_sprite cursor sprites =
     (case cursor of None \<Rightarrow> False | Some c \<Rightarrow> list_ex (hits_sprite c) sprites)"

text \<open>What a frame shows to the system: the keys and buttons, the cursor on the screen with the camera
  that places it in the world, and the rectangles of editors and charts.\<close>

record camera_input =
  ca_ctrl :: bool
  ca_right :: bool
  ca_middle :: bool
  ca_cursor :: "vec2 option"
  ca_to_world :: "vec2 \<Rightarrow> vec2 option"
  ca_editors :: "rectangle list"
  ca_charts :: "rectangle list"

definition pancam_suppression_over_editor_system ::
  "camera_input \<Rightarrow> order_context_menu option \<Rightarrow> bool \<Rightarrow> bool" where
  "pancam_suppression_over_editor_system ca menu enabled =
     (let cursor_world = Option.bind (ca_cursor ca) (ca_to_world ca);
          over_editor = cursor_hits_any_sprite cursor_world (ca_editors ca);
          over_chart = cursor_hits_any_sprite cursor_world (ca_charts ca);
          dragging = ca_right ca \<or> ca_middle ca;
          context_menu_open = (case menu of Some m \<Rightarrow> cm_open m | None \<Rightarrow> False);
          should_enable = (\<not> context_menu_open \<and> (ca_ctrl ca \<or> \<not> (over_editor \<or> over_chart) \<or> dragging)) in
      if enabled \<noteq> should_enable then should_enable else enabled)"

section \<open>Properties\<close>

subsection \<open>One wheel, one consumer\<close>

text \<open>What the system sees of the charts is what the zoom of the charts sees: the chart that the pointer
  picks is one of the rectangles below the cursor.\<close>

definition same_picture :: "camera_input \<Rightarrow> pointer_env \<Rightarrow> chart list \<Rightarrow> bool" where
  "same_picture ca pe cs \<longleftrightarrow>
     (hovered_chart pe cs \<noteq> None \<longrightarrow> cursor_hits_any_sprite (Option.bind (ca_cursor ca) (ca_to_world ca)) (ca_charts ca))"

lemma nothing_picked: "hovered_chart pe cs = None \<Longrightarrow> zoom_event pe ev cs = Some cs"
  by (simp add: zoom_event_def Let_def)

lemma zoomed_was_picked:
  assumes "chart_scroll_zoom_system ctrl pe wheel cs = Some cs'" and "cs' \<noteq> cs"
  shows "\<not> ctrl" and "hovered_chart pe cs \<noteq> None"
proof -
  show "\<not> ctrl" using assms by (auto simp: chart_scroll_zoom_system_def)
  show "hovered_chart pe cs \<noteq> None"
  proof
    assume none: "hovered_chart pe cs = None"
    have "fold (\<lambda>ev acc. Option.bind acc (zoom_event pe ev)) wheel (Some cs) = Some cs"
      by (induction wheel) (simp_all add: nothing_picked [OF none])
    with assms \<open>\<not> ctrl\<close> show False by (simp add: chart_scroll_zoom_system_def)
  qed
qed

text \<open>A wheel that changes a chart reaches the camera too exactly while something is dragged with the
  right or the middle button and no menu of an order is open; in every other frame it has one consumer.\<close>

theorem wheel_reaches_both_while_dragging:
  assumes "same_picture ca pe cs" and "chart_scroll_zoom_system (ca_ctrl ca) pe wheel cs = Some cs'" and "cs' \<noteq> cs"
  shows "pancam_suppression_over_editor_system ca menu enabled \<longleftrightarrow>
    (ca_right ca \<or> ca_middle ca) \<and> (case menu of Some m \<Rightarrow> \<not> cm_open m | None \<Rightarrow> True)"
  using zoomed_was_picked [OF assms(2,3)] assms(1)
  by (auto simp: same_picture_def pancam_suppression_over_editor_system_def Let_def split: option.splits)

definition sample_camera :: camera_input where
  "sample_camera =
     \<lparr>ca_ctrl = False, ca_right = True, ca_middle = False, ca_cursor = Some (F64_Fin 10, F64_Fin 20), ca_to_world = Some,
      ca_editors = [], ca_charts = [((F64_Fin 0, F64_Fin 0), Some (F64_Fin 100, F64_Fin 100))]\<rparr>"

lemma sample_zoomed:
  "\<exists>cs'. chart_scroll_zoom_system False sample_pointer [(SU_Line, F64_Fin 1)] [sample_chart] = Some cs' \<and> cs' \<noteq> [sample_chart]"
proof -
  let ?cursor = "(f32_sub (F64_Fin 10) 0, f32_sub (F64_Fin 20) 0)"
  have "zoomable (ch_view sample_chart)"
    by (simp add: zoomable_def sample_chart_def chart_view_default_def f64_is_finite_def DEFAULT_CELL_WIDTH_def)
  then obtain v where v: "apply_cursor_zoom ?cursor (F64_Fin 1) (ch_view sample_chart) = Some v"
    by (rule zoom_one [where r = 1 and cursor = ?cursor]) (simp_all add: pow2_def)
  have "cv_auto_scale (ch_view sample_chart)" by (simp add: sample_chart_def chart_view_default_def)
  with zoom_stops_scaling [OF v] have "sample_chart\<lparr>ch_view := v, ch_changed := True\<rparr> \<noteq> sample_chart"
    by (auto simp: sample_chart_def)
  with v show ?thesis
    by (simp add: chart_scroll_zoom_system_def zoom_event_def zoom_chart_def wheel_lines_def hovered_chart_def
        pointer_location_def sample_pointer_def sample_chart_def f64_eq_def zero_f64_def Let_def)
qed

lemma sample_hit: "hits_sprite (F64_Fin 10, F64_Fin 20) ((F64_Fin 0, F64_Fin 0), Some (F64_Fin 100, F64_Fin 100))"
proof -
  have "f32_div (F64_Fin 100) (F64_Fin 2) = F64_Fin 50" "f32_sub (F64_Fin 0) (F64_Fin 50) = F64_Fin (- 50)"
    "f32_add (F64_Fin 0) (F64_Fin 50) = F64_Fin 50" by code_simp+
  then show ?thesis by (simp add: hits_sprite_def)
qed

lemma wheel_reaches_both_while_dragging_witness:
  "pancam_suppression_over_editor_system sample_camera None False \<longleftrightarrow>
    (ca_right sample_camera \<or> ca_middle sample_camera) \<and> (case (None :: order_context_menu option) of Some m \<Rightarrow> \<not> cm_open m | None \<Rightarrow> True)"
proof -
  obtain cs' where cs': "chart_scroll_zoom_system False sample_pointer [(SU_Line, F64_Fin 1)] [sample_chart] = Some cs'"
      "cs' \<noteq> [sample_chart]"
    using sample_zoomed by auto
  have picture: "same_picture sample_camera sample_pointer [sample_chart]"
    by (simp add: same_picture_def sample_camera_def cursor_hits_any_sprite_def sample_hit)
  have "chart_scroll_zoom_system (ca_ctrl sample_camera) sample_pointer [(SU_Line, F64_Fin 1)] [sample_chart] = Some cs'"
    using cs'(1) by (simp add: sample_camera_def)
  with picture show ?thesis using cs'(2) by (rule wheel_reaches_both_while_dragging)
qed

end
