(* ===== verification/Window_Frame.thy ===== *)
theory Window_Frame
  imports History Chart_Windows
begin

text \<open>
  A floating window below the pointer (\<open>src/ui/floating_window.rs\<close>): dragging its title, dragging one of
  its three handles, pressing it to bring it to the front, and the parts of its frame, as they are
  spawned and as they follow its size. The start and the end of a drag and the closing belong to the
  history (theory \<open>History\<close>).
\<close>

section \<open>Model\<close>

subsection \<open>Dragging and pressing\<close>

definition MIN_WINDOW_SIZE :: vec2 where "MIN_WINDOW_SIZE = (num 280, num 180)"

datatype resize_axis = RA_Right | RA_Bottom | RA_Corner

text \<open>The scale is that of the camera, and 1 when there is not exactly one.\<close>

definition resize_drag :: "pointer_button \<Rightarrow> resize_axis \<Rightarrow> vec2 \<Rightarrow> f32 option \<Rightarrow> window \<Rightarrow> window" where
  "resize_drag button axis delta scale w =
     (if button \<noteq> PB_Primary then w
      else (let s = unwrap_or (num 1) scale; dx = f32_mul (fst delta) s; dy = f32_mul (snd delta) s in
            case wi_size w of
              None \<Rightarrow> w
            | Some cur \<Rightarrow>
                (let (dw, dh) = (case axis of RA_Right \<Rightarrow> (dx, num 0) | RA_Bottom \<Rightarrow> (num 0, dy) | RA_Corner \<Rightarrow> (dx, dy));
                     new_w = f32_max (f32_add (fst cur) dw) (fst MIN_WINDOW_SIZE);
                     new_h = f32_max (f32_add (snd cur) dh) (snd MIN_WINDOW_SIZE);
                     adw = f32_sub new_w (fst cur); adh = f32_sub new_h (snd cur) in
                 w\<lparr>wi_size := Some (new_w, new_h),
                   wi_position := (f32_add (fst (wi_position w)) (f32_div adw (num 2)),
                                   f32_sub (snd (wi_position w)) (f32_div adh (num 2)))\<rparr>)))"

definition title_drag :: "pointer_button \<Rightarrow> vec2 \<Rightarrow> f32 option \<Rightarrow> window \<Rightarrow> window" where
  "title_drag button delta scale w =
     (if button \<noteq> PB_Primary then w
      else (let s = unwrap_or (num 1) scale in
            w\<lparr>wi_position := (f32_add (fst (wi_position w)) (f32_mul (fst delta) s),
                              f32_sub (snd (wi_position w)) (f32_mul (snd delta) s))\<rparr>))"

text \<open>The largest depth handed out is counted from the depth at which windows are spawned.\<close>

definition press_window :: "nat \<Rightarrow> window list \<times> f32 \<Rightarrow> window list \<times> f32" where
  "press_window e t =
     (let (ws, max_z) = t; max_z1 = f32_add max_z (num 2) in
      (map (\<lambda>w. if wi_entity w = e then w\<lparr>wi_z := f32_add (num 10) max_z1\<rparr> else w) ws, max_z1))"

datatype cursor_icon = CI_EwResize | CI_NsResize | CI_SeResize | CI_Default

definition handle_over :: "resize_axis \<Rightarrow> cursor_icon" where
  "handle_over axis = (case axis of RA_Right \<Rightarrow> CI_EwResize | RA_Bottom \<Rightarrow> CI_NsResize | RA_Corner \<Rightarrow> CI_SeResize)"

definition handle_out :: cursor_icon where "handle_out = CI_Default"

subsection \<open>The parts of a frame\<close>

definition RESIZE_HANDLE_THICKNESS :: f32 where "RESIZE_HANDLE_THICKNESS = num 8"
definition TITLE_PADDING_LEFT :: f32 where "TITLE_PADDING_LEFT = num 16"
definition CLOSE_BTN_SIZE :: f32 where "CLOSE_BTN_SIZE = num 20"
definition CLOSE_BTN_MARGIN :: f32 where "CLOSE_BTN_MARGIN = num 8"

record window_spec =
  ws_size :: vec2
  ws_position :: vec2
  ws_closeable :: bool
  ws_resizable :: bool

text \<open>Size and place of a part in its window; the text of the title has its place in the title bar.\<close>

record frame_part =
  fp_size :: vec2
  fp_place :: vec2

record frame_parts =
  fr_inner_glow :: frame_part
  fr_rim_light :: frame_part
  fr_title_bar :: frame_part
  fr_title_text :: vec2
  fr_close_button :: "frame_part option"
  fr_resize_right :: "frame_part option"
  fr_resize_bottom :: "frame_part option"
  fr_resize_corner :: "frame_part option"

definition widened :: "vec2 \<Rightarrow> f32 \<Rightarrow> vec2" where
  "widened sz d = (f32_add (fst sz) d, f32_add (snd sz) d)"

definition narrowed :: "vec2 \<Rightarrow> f32 \<Rightarrow> vec2" where
  "narrowed sz d = (f32_sub (fst sz) d, f32_sub (snd sz) d)"

definition title_bar_y :: "vec2 \<Rightarrow> f32" where
  "title_bar_y sz = f32_sub (f32_div (snd sz) (num 2)) (f32_div TITLE_BAR_HEIGHT (num 2))"

definition title_text_x :: "vec2 \<Rightarrow> f32" where
  "title_text_x sz = f32_add (f32_div (f64_neg (fst sz)) (num 2)) TITLE_PADDING_LEFT"

definition close_btn_x :: "vec2 \<Rightarrow> f32" where
  "close_btn_x sz = f32_sub (f32_sub (f32_div (fst sz) (num 2)) (f32_div CLOSE_BTN_SIZE (num 2))) CLOSE_BTN_MARGIN"

definition close_button_part :: "window_spec \<Rightarrow> frame_part option" where
  "close_button_part spec =
     (if ws_closeable spec
      then Some \<lparr>fp_size = (CLOSE_BTN_SIZE, CLOSE_BTN_SIZE), fp_place = (close_btn_x (ws_size spec), title_bar_y (ws_size spec))\<rparr>
      else None)"

text \<open>The handles at the right, at the bottom and in the corner.\<close>

definition resize_handles :: "window_spec \<Rightarrow> frame_part option \<times> frame_part option \<times> frame_part option" where
  "resize_handles spec =
     (if ws_resizable spec
      then (let (w, h) = ws_size spec; half_w = f32_div w (num 2); bottom = f32_div (f64_neg h) (num 2) in
            (Some \<lparr>fp_size = (RESIZE_HANDLE_THICKNESS, h), fp_place = (half_w, num 0)\<rparr>,
             Some \<lparr>fp_size = (w, RESIZE_HANDLE_THICKNESS), fp_place = (num 0, bottom)\<rparr>,
             Some \<lparr>fp_size = (RESIZE_HANDLE_THICKNESS, RESIZE_HANDLE_THICKNESS), fp_place = (half_w, bottom)\<rparr>))
      else (None, None, None))"

definition spawn_floating_window_themed :: "window_spec \<Rightarrow> frame_parts" where
  "spawn_floating_window_themed spec =
     (let sz = ws_size spec; (right, bottom, corner) = resize_handles spec in
      \<lparr>fr_inner_glow = \<lparr>fp_size = narrowed sz (num 4), fp_place = (num 0, num 0)\<rparr>,
       fr_rim_light = \<lparr>fp_size = widened sz (num 2), fp_place = (num 0, num 0)\<rparr>,
       fr_title_bar = \<lparr>fp_size = (fst sz, TITLE_BAR_HEIGHT), fp_place = (num 0, title_bar_y sz)\<rparr>,
       fr_title_text = (title_text_x sz, num 0),
       fr_close_button = close_button_part spec,
       fr_resize_right = right, fr_resize_bottom = bottom, fr_resize_corner = corner\<rparr>)"

definition floating_window_layout :: "vec2 \<Rightarrow> frame_parts \<Rightarrow> frame_parts" where
  "floating_window_layout sz fr =
     (let half_w = f32_div (fst sz) (num 2); bottom = f32_div (f64_neg (snd sz)) (num 2);
          put = (\<lambda>x y p. p\<lparr>fp_place := (moved (fst (fp_place p)) x, moved (snd (fp_place p)) y)\<rparr>) in
      fr\<lparr>fr_inner_glow := (fr_inner_glow fr)\<lparr>fp_size := narrowed sz (num 4)\<rparr>,
         fr_rim_light := (fr_rim_light fr)\<lparr>fp_size := widened sz (num 2)\<rparr>,
         fr_title_bar := \<lparr>fp_size = (fst sz, TITLE_BAR_HEIGHT),
           fp_place = (fst (fp_place (fr_title_bar fr)), moved (snd (fp_place (fr_title_bar fr))) (title_bar_y sz))\<rparr>,
         fr_title_text := (moved (fst (fr_title_text fr)) (title_text_x sz), snd (fr_title_text fr)),
         fr_close_button := map_option (put (close_btn_x sz) (title_bar_y sz)) (fr_close_button fr),
         fr_resize_right := map_option (\<lambda>p. \<lparr>fp_size = (RESIZE_HANDLE_THICKNESS, snd sz),
           fp_place = (moved (fst (fp_place p)) half_w, snd (fp_place p))\<rparr>) (fr_resize_right fr),
         fr_resize_bottom := map_option (\<lambda>p. \<lparr>fp_size = (fst sz, RESIZE_HANDLE_THICKNESS),
           fp_place = (fst (fp_place p), moved (snd (fp_place p)) bottom)\<rparr>) (fr_resize_bottom fr),
         fr_resize_corner := map_option (put half_w bottom) (fr_resize_corner fr)\<rparr>)"

text \<open>The windows whose root was written since the system last ran, with their frames.\<close>

definition floating_window_layout_system :: "(bool \<times> window \<times> frame_parts) list \<Rightarrow> (bool \<times> window \<times> frame_parts) list" where
  "floating_window_layout_system roots =
     map (\<lambda>(changed, w, fr).
       (False, w, case wi_size w of Some sz \<Rightarrow> if changed then floating_window_layout sz fr else fr | None \<Rightarrow> fr)) roots"

section \<open>Properties\<close>

subsection \<open>Never too small\<close>

type_synonym handle_drag = "pointer_button \<times> resize_axis \<times> vec2 \<times> f32 option"

definition drag_handle :: "handle_drag \<Rightarrow> window \<Rightarrow> window" where
  "drag_handle d w = (case d of (button, axis, delta, scale) \<Rightarrow> resize_drag button axis delta scale w)"

definition large_enough :: "vec2 \<Rightarrow> bool" where
  "large_enough sz \<longleftrightarrow> fst MIN_WINDOW_SIZE \<le> fst sz \<and> snd MIN_WINDOW_SIZE \<le> snd sz"

lemma max_at_least: "num a \<le> f32_max x (num a)"
  using f64_not_less [of x "num a"] by (auto simp: f32_max_def f64_max_def f64_le_refl)

lemma drag_keeps:
  assumes "wi_size w = Some sz" and "large_enough sz"
  shows "\<exists>sz'. wi_size (drag_handle d w) = Some sz' \<and> large_enough sz'"
  using assms max_at_least by (cases d; cases sz) (auto simp: drag_handle_def resize_drag_def large_enough_def MIN_WINDOW_SIZE_def Let_def split: prod.splits)

lemma drag_enlarges:
  assumes "wi_size w = Some sz" and "fst d = PB_Primary"
  shows "\<exists>sz'. wi_size (drag_handle d w) = Some sz' \<and> large_enough sz'"
  using assms max_at_least by (cases d; cases sz) (auto simp: drag_handle_def resize_drag_def large_enough_def MIN_WINDOW_SIZE_def Let_def split: prod.splits)

lemma drags_keep:
  "wi_size w = Some sz \<Longrightarrow> large_enough sz \<Longrightarrow> \<exists>sz'. wi_size (fold drag_handle ds w) = Some sz' \<and> large_enough sz'"
proof (induction ds arbitrary: w sz)
  case (Cons d ds)
  then show ?case using drag_keeps [OF Cons.prems, of d] by auto
qed simp

lemma drags_exist: "wi_size w = Some sz \<Longrightarrow> \<exists>sz'. wi_size (fold drag_handle ds w) = Some sz'"
proof (induction ds arbitrary: w sz)
  case (Cons d ds)
  have "\<exists>sz'. wi_size (drag_handle d w) = Some sz'"
    using Cons.prems by (cases d) (auto simp: drag_handle_def resize_drag_def Let_def split: prod.splits)
  then show ?case using Cons.IH by auto
qed simp

text \<open>Once a handle was dragged, a window is at least as large as the least size, whatever the pointer
  reports, numbers that are none and infinite ones included.\<close>

theorem dragged_window_is_large_enough:
  assumes "wi_size w = Some sz" and "list_ex (\<lambda>d. fst d = PB_Primary) ds"
  shows "\<exists>sz'. wi_size (fold drag_handle ds w) = Some sz' \<and> num 280 \<le> fst sz' \<and> num 180 \<le> snd sz'"
proof -
  obtain as d bs where ds: "ds = as @ d # bs" and d: "fst d = PB_Primary"
    using assms(2) by (auto simp: list_ex_iff dest!: split_list)
  obtain sz1 where "wi_size (fold drag_handle as w) = Some sz1" using drags_exist [OF assms(1)] by blast
  from drag_enlarges [OF this d] obtain sz2 where
    "wi_size (drag_handle d (fold drag_handle as w)) = Some sz2" "large_enough sz2" by blast
  from drags_keep [OF this] show ?thesis by (simp add: ds large_enough_def MIN_WINDOW_SIZE_def)
qed

lemma dragged_window_is_large_enough_witness:
  "\<exists>sz'. wi_size (fold drag_handle [(PB_Primary, RA_Corner, (F64_NaN, num (- 900)), None)]
      (new_window 1 PK_Orders (num 360, num 220) (0, 0))) = Some sz' \<and> num 280 \<le> fst sz' \<and> num 180 \<le> snd sz'"
  by (rule dragged_window_is_large_enough) (simp_all add: new_window_def)

subsection \<open>The frame follows the size\<close>

definition near :: "f32 \<Rightarrow> f32 \<Rightarrow> bool" where
  "near x y \<longleftrightarrow> \<not> f32_of (1 / 100) < f64_abs (f32_sub x y)"

definition near_part :: "frame_part \<Rightarrow> frame_part \<Rightarrow> bool" where
  "near_part p q \<longleftrightarrow> fp_size p = fp_size q \<and> near (fst (fp_place p)) (fst (fp_place q)) \<and> near (snd (fp_place p)) (snd (fp_place q))"

definition near_frame :: "frame_parts \<Rightarrow> frame_parts \<Rightarrow> bool" where
  "near_frame a b \<longleftrightarrow>
     fr_inner_glow a = fr_inner_glow b \<and> fr_rim_light a = fr_rim_light b \<and> near_part (fr_title_bar a) (fr_title_bar b) \<and>
     near (fst (fr_title_text a)) (fst (fr_title_text b)) \<and> snd (fr_title_text a) = snd (fr_title_text b) \<and>
     rel_option near_part (fr_close_button a) (fr_close_button b) \<and>
     rel_option near_part (fr_resize_right a) (fr_resize_right b) \<and>
     rel_option near_part (fr_resize_bottom a) (fr_resize_bottom b) \<and>
     rel_option near_part (fr_resize_corner a) (fr_resize_corner b)"

lemma near_self [simp]: "near x x"
proof -
  have "0 < f32_of (1 / 100)" by code_simp
  then show ?thesis using f32_sub_self [of x] f64_less_trans unfolding near_def by blast
qed

lemma near_moved [simp]: "near (moved x y) y"
proof (cases "near x y")
  case True
  then show ?thesis by (simp add: near_def moved_def)
next
  case False
  then show ?thesis using near_self [of y] by (simp add: moved_def near_def)
qed

text \<open>What a layout leaves alone.\<close>

definition framed_as :: "window_spec \<Rightarrow> frame_parts \<Rightarrow> bool" where
  "framed_as spec fr \<longleftrightarrow>
     fp_place (fr_inner_glow fr) = (num 0, num 0) \<and> fp_place (fr_rim_light fr) = (num 0, num 0) \<and>
     fst (fp_place (fr_title_bar fr)) = num 0 \<and> snd (fr_title_text fr) = num 0 \<and>
     (fr_close_button fr \<noteq> None \<longleftrightarrow> ws_closeable spec) \<and>
     list_all (\<lambda>h. h fr \<noteq> None \<longleftrightarrow> ws_resizable spec) [fr_resize_right, fr_resize_bottom, fr_resize_corner] \<and>
     pred_option (\<lambda>p. fp_size p = (CLOSE_BTN_SIZE, CLOSE_BTN_SIZE)) (fr_close_button fr) \<and>
     pred_option (\<lambda>p. snd (fp_place p) = num 0) (fr_resize_right fr) \<and>
     pred_option (\<lambda>p. fst (fp_place p) = num 0) (fr_resize_bottom fr) \<and>
     pred_option (\<lambda>p. fp_size p = (RESIZE_HANDLE_THICKNESS, RESIZE_HANDLE_THICKNESS)) (fr_resize_corner fr)"

lemma spawned_handles:
  "resize_handles spec =
    (if ws_resizable spec
     then (Some \<lparr>fp_size = (RESIZE_HANDLE_THICKNESS, snd (ws_size spec)), fp_place = (f32_div (fst (ws_size spec)) (num 2), num 0)\<rparr>,
           Some \<lparr>fp_size = (fst (ws_size spec), RESIZE_HANDLE_THICKNESS),
                 fp_place = (num 0, f32_div (f64_neg (snd (ws_size spec))) (num 2))\<rparr>,
           Some \<lparr>fp_size = (RESIZE_HANDLE_THICKNESS, RESIZE_HANDLE_THICKNESS),
                 fp_place = (f32_div (fst (ws_size spec)) (num 2), f32_div (f64_neg (snd (ws_size spec))) (num 2))\<rparr>)
     else (None, None, None))"
  by (simp add: resize_handles_def case_prod_beta Let_def)

lemmas spawned_frame = spawn_floating_window_themed_def close_button_part_def spawned_handles

lemma framed_spawn: "framed_as spec (spawn_floating_window_themed spec)"
  by (simp add: framed_as_def spawned_frame Let_def)

lemma framed_layout: "framed_as spec fr \<Longrightarrow> framed_as spec (floating_window_layout sz fr)"
  by (simp add: framed_as_def floating_window_layout_def Let_def option.pred_map o_def)

lemma framed_layouts: "framed_as spec fr \<Longrightarrow> framed_as spec (fold floating_window_layout szs fr)"
  by (induction szs arbitrary: fr) (simp_all add: framed_layout)

lemma laid_out_near:
  "framed_as spec fr \<Longrightarrow> near_frame (floating_window_layout sz fr) (spawn_floating_window_themed (spec\<lparr>ws_size := sz\<rparr>))"
  by (auto simp: framed_as_def near_frame_def near_part_def floating_window_layout_def spawned_frame
      Let_def rel_option_iff split: option.splits)

text \<open>However often a window was resized, its frame has the parts that a window spawned at its size has,
  of exactly the same sizes and at most a hundredth of a unit away from their places.\<close>

theorem frame_follows_size:
  "near_frame (fold floating_window_layout (szs @ [sz]) (spawn_floating_window_themed spec))
     (spawn_floating_window_themed (spec\<lparr>ws_size := sz\<rparr>))"
  by (simp add: laid_out_near framed_layouts framed_spawn)

subsection \<open>A pressed window is on top\<close>

lemma two_higher:
  assumes "num 0 \<le> z" and "z \<le> num (10 ^ 6)"
  shows "f32_add (num 10) z < f32_add (num 10) (f32_add z (num 2))"
proof -
  obtain r where r: "z = num r" "0 \<le> r" "r \<le> 1000000"
    using assms by (cases z) (auto simp: less_eq_f64_def less_f64_def f64_eq_def)
  have p: "pow2 21 = 2097152" by (simp add: pow2_def)
  obtain a where a: "f32_of (10 + r) = num a" "\<bar>a - (10 + r)\<bar> \<le> 1 / 4"
    using f32_of_near [of "10 + r"] r p by auto
  obtain b where b: "f32_of (r + 2) = num b" "\<bar>b - (r + 2)\<bar> \<le> 1 / 4"
    using f32_of_near [of "r + 2"] r p by auto
  have b10: "\<bar>10 + b\<bar> \<le> pow2 21" unfolding p using b(2) r(2,3) by linarith
  obtain c where c: "f32_of (10 + b) = num c" "\<bar>c - (10 + b)\<bar> \<le> 1 / 4"
    using f32_of_near [OF b10] by blast
  have "a < c" using a(2) b(2) c(2) by linarith
  then show ?thesis by (simp add: f32_add_def r(1) a(1) b(1) c(1))
qed

text \<open>The windows and the largest depth, under everything that gives a window its depth. A depth read
  from a file is a single-precision number.\<close>

inductive stacked :: "window list \<Rightarrow> f32 \<Rightarrow> bool" where
  start: "stacked [] (num 0)"
| spawned: "stacked ws z \<Longrightarrow> stacked (ws @ [w\<lparr>wi_z := num 10\<rparr>]) z"
| closed: "stacked ws z \<Longrightarrow> stacked (filter P ws) z"
| dragged: "stacked ws z \<Longrightarrow> (\<And>w. wi_z (f w) = wi_z w) \<Longrightarrow> stacked (map f ws) z"
| restored: "stacked ws z \<Longrightarrow> is_f32 (wl_z wl) \<Longrightarrow> stacked (upd_first p (restore_window wl) ws) (max_z_of wl z)"
| pressed: "stacked ws z \<Longrightarrow> press_window e (ws, z) = (ws', z') \<Longrightarrow> stacked ws' z'"

definition below_top :: "window list \<Rightarrow> f32 \<Rightarrow> bool" where
  "below_top ws z \<longleftrightarrow> is_f32 z \<and> num 0 \<le> z \<and> list_all (\<lambda>w. wi_z w \<le> f32_add (num 10) z) ws"

lemma restored_z: "wi_z (restore_window wl w) = wl_z wl"
  by (simp add: restore_window_def set_visibility_def Let_def)

lemma list_all_upd: "list_all P ws \<Longrightarrow> (\<And>w. P (f w)) \<Longrightarrow> list_all P (upd_first p f ws)"
  by (induction ws) auto

lemma stacked_below: "stacked ws z \<Longrightarrow> below_top ws z"
proof (induction rule: stacked.induct)
  case start
  then show ?case by (auto simp: below_top_def is_f32_def intro: f32_of_0 [symmetric])
next
  case (spawned ws z w)
  have "f32_add (num 10) (num 0) = num 10" by code_simp
  with spawned f32_add_mono_left [of "num 0" z 10] show ?case by (simp add: below_top_def)
next
  case (closed ws z P)
  then show ?case by (simp add: below_top_def list_all_iff)
next
  case (dragged ws z f)
  then show ?case by (simp add: below_top_def list_all_iff)
next
  case (restored ws z wl p)
  let ?z = "max_z_of wl z"
  have z: "is_f32 ?z" "z \<le> ?z" "wl_z wl \<le> ?z"
    using restored by (auto simp: max_z_of_def below_top_def f64_le_refl is_f32_def f64_less_imp_le f64_not_less)
  have "f32_add (num 10) z \<le> f32_add (num 10) ?z" using z(2) by (rule f32_add_mono_left)
  then have "list_all (\<lambda>w. wi_z w \<le> f32_add (num 10) ?z) ws"
    using restored.IH by (auto simp: below_top_def list_all_iff intro: f64_le_trans)
  moreover have "wl_z wl \<le> f32_add (num 10) ?z" using z(3) f32_above [OF z(1)] by (rule f64_le_trans)
  ultimately show ?case
    using z restored.IH by (auto simp: below_top_def restored_z intro!: list_all_upd intro: f64_le_trans)
next
  case (pressed ws z e ws' z')
  then have step: "ws' = map (\<lambda>w. if wi_entity w = e then w\<lparr>wi_z := f32_add (num 10) z'\<rparr> else w) ws" "z' = f32_add z (num 2)"
    by (auto simp: press_window_def Let_def)
  have z: "is_f32 z" "num 0 \<le> z" and all: "\<forall>w\<in>set ws. wi_z w \<le> f32_add (num 10) z"
    using pressed.IH by (simp_all add: below_top_def list_all_iff)
  have z': "is_f32 z'" "z \<le> z'" unfolding step(2) using z(1) by (rule f32_higher)+
  have "z' \<le> z'" using f64_le_not_nan [OF z'(2)] by (intro f64_le_refl) simp
  with z'(2) have "f32_add (num 10) z \<le> f32_add (num 10) z'" "f32_add (num 10) z' \<le> f32_add (num 10) z'"
    by (auto intro: f32_add_mono_left)
  then show ?case using z z' all by (auto simp: below_top_def list_all_iff step(1) intro: f64_le_trans)
qed

lemma press_result:
  assumes "press_window e (ws, z) = (ws', z')"
  shows "w \<in> set ws' \<Longrightarrow> wi_entity w = e \<Longrightarrow> wi_z w = f32_add (num 10) (f32_add z (num 2))"
    and "w \<in> set ws' \<Longrightarrow> wi_entity w \<noteq> e \<Longrightarrow> w \<in> set ws"
proof -
  have ws': "ws' = map (\<lambda>w. if wi_entity w = e then w\<lparr>wi_z := f32_add (num 10) (f32_add z (num 2))\<rparr> else w) ws"
  proof -
    have "ws' = fst (press_window e (ws, z))" by (simp only: assms fst_conv)
    then show ?thesis by (simp only: press_window_def Let_def prod.case fst_conv)
  qed
  have z: "wi_z w = f32_add (num 10) (f32_add z (num 2))" if "u \<in> set ws" "wi_entity w = e"
    "w = (if wi_entity u = e then u\<lparr>wi_z := f32_add (num 10) (f32_add z (num 2))\<rparr> else u)" for u
    by (cases "wi_entity u = e") (use that in simp_all)
  have mem: "w \<in> set ws" if "u \<in> set ws" "wi_entity w \<noteq> e"
    "w = (if wi_entity u = e then u\<lparr>wi_z := f32_add (num 10) (f32_add z (num 2))\<rparr> else u)" for u
    by (cases "wi_entity u = e") (use that in simp_all)
  show "w \<in> set ws' \<Longrightarrow> wi_entity w = e \<Longrightarrow> wi_z w = f32_add (num 10) (f32_add z (num 2))"
    "w \<in> set ws' \<Longrightarrow> wi_entity w \<noteq> e \<Longrightarrow> w \<in> set ws"
    unfolding ws' set_map by (elim imageE, erule z mem, assumption+)+
qed

text \<open>C31: Whatever was spawned, closed, moved and restored before, the window that is pressed is drawn above
  every other one, as long as the depths stay below a million.\<close>

theorem pressed_window_is_on_top:
  assumes "stacked ws z" and "z \<le> num (10 ^ 6)" and "press_window e (ws, z) = (ws', z')"
    and "w \<in> set ws'" and "wi_entity w = e" and "v \<in> set ws'" and "wi_entity v \<noteq> e"
  shows "wi_z v < wi_z w"
proof -
  have z: "num 0 \<le> z" and all: "\<forall>w\<in>set ws. wi_z w \<le> f32_add (num 10) z"
    using stacked_below [OF assms(1)] by (simp_all add: below_top_def list_all_iff)
  have w: "wi_z w = f32_add (num 10) (f32_add z (num 2))" using press_result(1) [OF assms(3-5)] .
  have "v \<in> set ws" using press_result(2) [OF assms(3,6,7)] .
  with all have "wi_z v \<le> f32_add (num 10) z" by blast
  from f64_le_less_trans [OF this two_higher [OF z assms(2)]] show ?thesis unfolding w .
qed

lemma pressed_window_is_on_top_witness:
  "wi_z ((new_window 1 PK_Orders (num 360, num 220) (0, 0))\<lparr>wi_z := num 10\<rparr>) <
   wi_z ((new_window 2 PK_Positions (num 280, num 200) (0, 0))\<lparr>wi_z := f32_add (num 10) (f32_add (num 0) (num 2))\<rparr>)"
proof -
  have "stacked [(new_window 1 PK_Orders (num 360, num 220) (0, 0))\<lparr>wi_z := num 10\<rparr>,
      (new_window 2 PK_Positions (num 280, num 200) (0, 0))\<lparr>wi_z := num 10\<rparr>] (num 0)"
    using stacked.spawned [OF stacked.spawned [OF stacked.start]] by simp
  then show ?thesis
    by (rule pressed_window_is_on_top [where e = 2, OF _ _ prod.collapse [symmetric]])
       (simp_all add: press_window_def Let_def new_window_def)
qed

text \<open>A window is spawned at the depth of the very first ones, so it appears below every window that was
  ever pressed.\<close>

lemma spawned_below_pressed:
  assumes "stacked ws z" and "z \<le> num (10 ^ 6)" and "press_window e (ws, z) = (ws', z')" and "w \<in> set ws'" and "wi_entity w = e"
  shows "wi_z (new_window i k sz pos) < wi_z w"
proof -
  let ?v = "(new_window i k sz pos)\<lparr>wi_entity := e + 1, wi_z := num 10\<rparr>"
  have s: "stacked (ws @ [?v]) z"
    using stacked.spawned [OF assms(1), of ?v] by simp
  have z: "num 0 \<le> z" using stacked_below [OF assms(1)] by (simp add: below_top_def)
  have all: "\<forall>w\<in>set (ws @ [?v]). wi_z w \<le> f32_add (num 10) z"
    using stacked_below [OF s] by (simp add: below_top_def list_all_iff)
  have w: "wi_z w = f32_add (num 10) (f32_add z (num 2))" using press_result(1) [OF assms(3-5)] .
  have "wi_z (new_window i k sz pos) \<le> f32_add (num 10) z" using all by (simp add: new_window_def)
  from f64_le_less_trans [OF this two_higher [OF z assms(2)]] show ?thesis unfolding w .
qed

end
