(* ===== verification/Dialogs.thy ===== *)
theory Dialogs
  imports Notices Order_Panel Startup_Panel Windows
begin

text \<open>
  What the dialogs and forms show of their state: the second password
  (\<open>src/ui/secret_modal.rs\<close>), the modification and the confirmation of an order
  (\<open>src/ui/modify_modal.rs\<close>, \<open>src/ui/order_panel/confirm_modal.rs\<close>), the order form
  (\<open>src/ui/order_panel/form.rs\<close>) and the start parameters (\<open>src/ui/scenario_startup_panel.rs\<close>), with the
  systems that keep the dialogs in step with the stack. The states and what changes them are in
  \<open>Modals\<close>, \<open>Order_Panel\<close> and \<open>Startup_Panel\<close>.
\<close>

section \<open>Model\<close>

subsection \<open>The second password\<close>

definition secret_mask :: "secret_input \<Rightarrow> str" where
  "secret_mask i = concat (replicate (chars_count (si_buffer i)) (utf8 [0xE2, 0x80, 0xA2]))"

text \<open>The masked line and the line of information.\<close>

definition secret_modal_sync_system :: "secret_prompt \<Rightarrow> secret_input \<Rightarrow> str \<times> str" where
  "secret_modal_sync_system prompt i = (secret_mask i, secret_info_text prompt)"

subsection \<open>The modification of an order\<close>

definition modify_modal_visibility_system :: "modify_form \<Rightarrow> bool" where
  "modify_modal_visibility_system f = mf_open f"

datatype field_background = FB_Hover | FB_Plain | FB_Success

record modify_view =
  mv_text :: "modify_focus \<Rightarrow> str"
  mv_background :: "modify_focus \<Rightarrow> field_background"
  mv_warning :: bool
  mv_checkbox :: field_background

definition modify_modal_sync_system :: "modify_form \<Rightarrow> 'c themed_button \<Rightarrow> modify_view \<times> 'c themed_button" where
  "modify_modal_sync_system f confirm =
     (\<lparr>mv_text = (\<lambda>field. case field of MF_Qty \<Rightarrow> mf_new_qty_buf f | MF_Price \<Rightarrow> mf_new_price_buf f),
       mv_background = (\<lambda>field. if field = mf_focus f then FB_Hover else FB_Plain),
       mv_warning = requires_kabu_ack f,
       mv_checkbox = (if mf_ack_kabu f then FB_Success else FB_Plain)\<rparr>,
      mark_disabled (\<not> can_confirm f) confirm)"

definition modify_modal_reconcile_system ::
  "nat \<Rightarrow> bool \<Rightarrow> bool \<times> modal_layer \<times> modify_form \<Rightarrow> bool \<times> modal_layer \<times> modify_form" where
  "modify_modal_reconcile_system rt changed = modal_reconcile_step mf_open modify_close rt 270 changed"

subsection \<open>The confirmation of an order\<close>

definition confirm_modal_visibility_system :: "order_confirm \<Rightarrow> bool" where
  "confirm_modal_visibility_system c \<longleftrightarrow> oc_pending c \<noteq> None"

text \<open>The names of the rows, in the language of the interface: symbol, side, type, quantity, price,
  execution, estimated amount (fees are not estimated yet), and a market price.\<close>

definition confirm_summary :: "order_draft \<Rightarrow> f64 option \<Rightarrow> str" where
  "confirm_summary d last_price =
     (let market = utf8 [0xE6, 0x88, 0x90, 0xE8, 0xA1, 0x8C];
          price = (case dr_price d of Some p \<Rightarrow> fmt_fixed 0 p | None \<Rightarrow> market);
          notional = (case estimated_notional d last_price of Some n \<Rightarrow> fmt_fixed 0 n | None \<Rightarrow> em_dash) in
      ''venue: '' @ dr_venue d @ [newline] @
      utf8 [0xE9, 0x8A, 0x98, 0xE6, 0x9F, 0x84] @ '': '' @ dr_symbol d @ [newline] @
      utf8 [0xE5, 0xA3, 0xB2, 0xE8, 0xB2, 0xB7] @ '': '' @ side_wire (dr_side d) @ [newline] @
      utf8 [0xE7, 0xA8, 0xAE, 0xE5, 0x88, 0xA5] @ '': '' @ order_type_wire (dr_order_type d) @ [newline] @
      utf8 [0xE6, 0x95, 0xB0, 0xE9, 0x87, 0x8F] @ '': '' @ fmt_fixed 0 (dr_qty d) @ [newline] @
      utf8 [0xE4, 0xBE, 0xA1, 0xE6, 0xA0, 0xBC] @ '': '' @ price @ [newline] @
      utf8 [0xE5, 0x9F, 0xB7, 0xE8, 0xA1, 0x8C] @ '': '' @ tif_label (dr_tif d) @ [newline] @
      utf8 [0xE6, 0xA6, 0x82, 0xE7, 0xAE, 0x97, 0xE7, 0xB4, 0x84, 0xE5, 0xAE, 0x9A, 0xE9, 0xA1, 0x8D] @ '': '' @
      notional @ '' ('' @
      utf8 [0xE6, 0x89, 0x8B, 0xE6, 0x95, 0xB0, 0xE6, 0x96, 0x99, 0xE6, 0xA6, 0x82, 0xE7, 0xAE, 0x97, 0xE3, 0x81,
        0xAF, 0xE6, 0x9C, 0xAA, 0xE5, 0xAF, 0xBE, 0xE5, 0xBF, 0x9C] @ '')'')"

definition confirm_modal_sync_system :: "(str \<Rightarrow> f64 option) \<Rightarrow> order_confirm \<Rightarrow> str \<Rightarrow> str" where
  "confirm_modal_sync_system prices c shown =
     (case oc_pending c of None \<Rightarrow> shown | Some d \<Rightarrow> confirm_summary d (prices (dr_symbol d)))"

definition confirm_modal_reconcile_system ::
  "nat \<Rightarrow> bool \<Rightarrow> bool \<times> modal_layer \<times> order_confirm \<Rightarrow> bool \<times> modal_layer \<times> order_confirm" where
  "confirm_modal_reconcile_system rt changed =
     modal_reconcile_step (\<lambda>c. oc_pending c \<noteq> None) confirm_clear rt 280 changed"

subsection \<open>The order form\<close>

definition order_window_despawn_system :: "bool \<Rightarrow> execution_mode \<Rightarrow> window list \<Rightarrow> window list" where
  "order_window_despawn_system changed m ws =
     (if \<not> changed \<or> m = EM_LiveManual then ws else filter (\<lambda>w. wi_kind w \<noteq> PK_Order) ws)"

datatype order_field = OF_Symbol | OF_Qty | OF_Price | OF_Error

definition order_field_text :: "order_form \<Rightarrow> str option \<Rightarrow> order_confirm \<Rightarrow> str option \<Rightarrow> order_field \<Rightarrow> str" where
  "order_field_text f selected c feedback field =
     (case field of
        OF_Symbol \<Rightarrow> unwrap_or em_dash selected
      | OF_Qty \<Rightarrow> fmt_fixed 0 (fm_qty f)
      | OF_Price \<Rightarrow> (case fm_order_type f of OT_Market \<Rightarrow> ''MKT'' | OT_Limit \<Rightarrow> fmt_fixed 0 (fm_price f))
      | OF_Error \<Rightarrow> (case oc_last_error c of Some e \<Rightarrow> e | None \<Rightarrow> unwrap_or [] feedback))"

text \<open>Whether a button is shown as chosen; None is a button that has no such look.\<close>

definition order_button_chosen :: "order_form \<Rightarrow> order_button \<Rightarrow> bool option" where
  "order_button_chosen f b =
     (case b of
        OB_SideBuy \<Rightarrow> Some (fm_side f = SD_Buy)
      | OB_SideSell \<Rightarrow> Some (fm_side f = SD_Sell)
      | OB_TypeMarket \<Rightarrow> Some (fm_order_type f = OT_Market)
      | OB_TypeLimit \<Rightarrow> Some (fm_order_type f = OT_Limit)
      | OB_Tif t \<Rightarrow> Some (fm_tif f = t)
      | _ \<Rightarrow> None)"

definition order_panel_sync_system ::
  "order_form \<Rightarrow> str option \<Rightarrow> order_confirm \<Rightarrow> str option \<Rightarrow> (order_field \<Rightarrow> str) \<times> (order_button \<Rightarrow> bool option)" where
  "order_panel_sync_system f selected c feedback = (order_field_text f selected c feedback, order_button_chosen f)"

subsection \<open>The start parameters\<close>

text \<open>A field that was written hands its text to each of its labels.\<close>

definition scenario_startup_field_render_system :: "(bool \<times> str \<times> str list) list \<Rightarrow> (bool \<times> str \<times> str list) list" where
  "scenario_startup_field_render_system parents =
     map (\<lambda>(changed, t, labels). (False, t, if changed then map (\<lambda>_. t) labels else labels)) parents"

definition enforce_scenario_startup_panel_readonly_system :: "replay_startup_progress \<Rightarrow> path option \<Rightarrow> bool" where
  "enforce_scenario_startup_panel_readonly_system pr cache = is_panel_disabled pr cache"

record startup_view =
  sv_dimmed :: bool
  sv_highlighted :: granularity_choice
  sv_error :: "startup_field \<Rightarrow> str"

definition update_scenario_startup_param_ui_system ::
  "startup_params \<Rightarrow> replay_startup_progress \<Rightarrow> path option \<Rightarrow> startup_view" where
  "update_scenario_startup_param_ui_system p pr cache =
     \<lparr>sv_dimmed = is_panel_disabled pr cache, sv_highlighted = stp_granularity p,
      sv_error = (\<lambda>field. unwrap_or [] (case field of
         SF_Start \<Rightarrow> pe_start (stp_errors p)
       | SF_End \<Rightarrow> pe_end (stp_errors p)
       | SF_Granularity \<Rightarrow> pe_granularity (stp_errors p)
       | SF_InitialCash \<Rightarrow> pe_initial_cash (stp_errors p)
       | SF_CrossField \<Rightarrow> pe_cross_field (stp_errors p)))\<rparr>"

section \<open>Properties\<close>

subsection \<open>What is shown is what happens\<close>

text \<open>The button of the modification is marked as disabled exactly when pressing it sends nothing.\<close>

lemma modify_mark_tells:
  "tb_disabled (snd (modify_modal_sync_system f b)) \<longleftrightarrow> snd (modify_press OpenSender MB_Confirm (f, fb)) = []"
  by (simp add: modify_modal_sync_system_def mark_disabled_def modify_press_def modify_do_confirm_def link_send_open
      Let_def split: prod.splits)

text \<open>The form highlights the side, the type and the execution that the draft will have.\<close>

lemma highlighted_is_drafted:
  "order_button_chosen f (if dr_side (build_draft f sy v) = SD_Buy then OB_SideBuy else OB_SideSell) = Some True"
  "order_button_chosen f (if dr_order_type (build_draft f sy v) = OT_Market then OB_TypeMarket else OB_TypeLimit) = Some True"
  "order_button_chosen f (OB_Tif (dr_tif (build_draft f sy v))) = Some True"
  by (cases "fm_side f"; cases "fm_order_type f"; simp add: order_button_chosen_def build_draft_def)+

text \<open>Secrets of the same length look the same.\<close>

lemma secret_not_shown:
  "chars_count (si_buffer i) = chars_count (si_buffer j) \<Longrightarrow>
   secret_modal_sync_system prompt i = secret_modal_sync_system prompt j"
  by (simp add: secret_modal_sync_system_def secret_mask_def)

text \<open>Escape closes the two dialogs of an order, and the confirmation then sends nothing.\<close>

lemma order_dialogs_reconcile:
  "modal_synced mf_open rt (was, st, f) \<Longrightarrow> mf_open f \<Longrightarrow> \<not> on_stack rt st' \<Longrightarrow>
   modify_modal_reconcile_system rt False (was, st', f) = (False, st', modify_close f)"
  "modal_synced (\<lambda>c. oc_pending c \<noteq> None) rt (was, st, c) \<Longrightarrow> oc_pending c \<noteq> None \<Longrightarrow> \<not> on_stack rt st' \<Longrightarrow>
   confirm_modal_reconcile_system rt False (was, st', c) = (False, st', confirm_clear c) \<and>
   confirm_modal_button_system l bs (confirm_clear c, fb) = ((confirm_clear c, fb), [])"
proof -
  show "modal_synced mf_open rt (was, st, f) \<Longrightarrow> mf_open f \<Longrightarrow> \<not> on_stack rt st' \<Longrightarrow>
    modify_modal_reconcile_system rt False (was, st', f) = (False, st', modify_close f)"
    unfolding modify_modal_reconcile_system_def by (rule modify_modal.escape_clears)
  assume c: "modal_synced (\<lambda>c. oc_pending c \<noteq> None) rt (was, st, c)" "oc_pending c \<noteq> None" "\<not> on_stack rt st'"
  have "confirm_modal_reconcile_system rt False (was, st', c) = (False, st', confirm_clear c)"
    unfolding confirm_modal_reconcile_system_def using c by (rule confirm_modal.escape_clears)
  moreover have "confirm_modal_button_system l bs (confirm_clear c, fb) = ((confirm_clear c, fb), [])"
    by (simp add: confirm_modal_button_system_def confirm_clear_def)
  ultimately show "confirm_modal_reconcile_system rt False (was, st', c) = (False, st', confirm_clear c) \<and>
    confirm_modal_button_system l bs (confirm_clear c, fb) = ((confirm_clear c, fb), [])" ..
qed

end
