(* ===== verification/Spec2Isabelle.thy ===== *)
theory Spec2Isabelle
  imports Prelude Rust_Str F64 Json Trading Orders Supervisor Backend_Sync Transport F64_Text Modals Order_Panel Editor Scenario Instruments Run_Control Strategy_Run Startup_Panel
    F32 Windows History Layout Find Chart_View Chart_Panes Chart_Windows
    Panels Notices Camera Window_Frame Dialogs
begin

text \<open>
  \<^bold>\<open>The program.\<close> The repository is a desktop client for replaying and running trading
  strategies: a Bevy application (\<open>src/\<close> below stands for the crate's own directory) that drives
  a Python engine in the same process. A frame loop runs systems over shared resources; a worker
  thread takes commands and turns the engine's answers into status updates; push callbacks and a
  polled state arrive beside them. The development models the part of the client that decides what is
  sent, what is stored and what is shown.

  \<^bold>\<open>How code is modelled.\<close> A resource is a record, an enum a datatype, a system a function from its
  inputs and the resources it writes to those resources and the list of what it sends. A frame's
  interactions are a list, in order; several systems are composed in the order the application
  schedules them. Strings are their UTF-8 bytes, \<open>u32\<close> and \<open>u64\<close> are words that wrap, an
  \<open>f64\<close> is a rational with the special values, rounded by every operation. Raises, early returns
  and refused sends are branches. A channel may be missing, closed or open. The file system is a map
  from paths to texts; every write, rename and removal asks the environment whether it fails. The
  Python engine, the JSON and calendar crates, lower-casing, the clock, the process environment and
  the iteration order of hash sets are parameters, with what is used of them as named premises.

  \<^bold>\<open>The theories and the code.\<close>
  \<^item> \<open>Prelude\<close>, \<open>Rust_Str\<close>, \<open>F64\<close>, \<open>F64_Text\<close>, \<open>F32\<close>, \<open>Json\<close>: shared ground: first-match update, bounded
    insertion, the generic contracts (a system with an invariant, one whose observation only grows, a
    trigger on a rising edge), Rust strings, binary64 and its texts, binary32, JSON values.
  \<^item> \<open>Trading\<close>, \<open>Orders\<close> (\<open>src/trading.rs\<close>): the data of the client; the live order book, its
    filters and the log ring.
  \<^item> \<open>Supervisor\<close> (\<open>src/backend_supervisor.rs\<close>, the end of \<open>src/main.rs\<close>), \<open>Transport\<close> (\<open>src/backend_transport.rs\<close>),
    \<open>Backend_Sync\<close> (\<open>src/backend_sync.rs\<close>): the engine's lifecycle, every command with its calls and
    responses, the worker and response loops, and the reducers with the systems that ask for orders
    and snapshots.
  \<^item> \<open>Modals\<close> (\<open>src/ui/component/modal_layer.rs\<close>, \<open>keyboard_drain.rs\<close>, \<open>secret_modal.rs\<close>,
    \<open>modify_modal.rs\<close>, \<open>src/venue_capabilities.rs\<close>), \<open>Order_Panel\<close> (\<open>src/ui/order_panel/\<close>): the
    dialogs and the order form.
  \<^item> \<open>Editor\<close> (\<open>src/ui/strategy_editor.rs\<close>): fragments of a strategy file, merged, split and saved.
  \<^item> \<open>Scenario\<close> (\<open>src/ui/components.rs\<close>, \<open>scenario_parser.rs\<close>, \<open>restore.rs\<close>): the scenario of a run, the
    registry of instruments, reading and writing back the sidecar file.
  \<^item> \<open>Instruments\<close> (\<open>src/ui/instrument_picker.rs\<close>, \<open>instruments_universe_prune.rs\<close>): the picker, pruning,
    subscriptions and fetches.
  \<^item> \<open>Run_Control\<close> (\<open>src/ui/footer.rs\<close>, the menus of \<open>src/ui/menu_bar.rs\<close>), \<open>Strategy_Run\<close> (the handlers of
    \<open>src/ui/menu_bar.rs\<close>): the buttons and menus, opening a file, and the requests to run and to step.
  \<^item> \<open>Startup_Panel\<close> (\<open>src/ui/scenario_startup_panel.rs\<close>): the dates, the granularity and the cash of a
    run, from the keys to the scenario and its file.
  \<^item> \<open>Windows\<close> (\<open>src/ui/components.rs\<close>, \<open>floating_window.rs\<close>): the floating windows as data, what is stored
    of them and how a stored entry is put back; \<open>History\<close> (\<open>src/ui/editor_history.rs\<close>,
    \<open>strategy_editor.rs\<close>, \<open>floating_window.rs\<close>): undo and redo, the text widget, spawning and closing;
    \<open>Layout\<close> (\<open>src/ui/layout_persistence.rs\<close>): saving, opening and restoring layouts and the file
    dialogs; \<open>Find\<close> (\<open>src/ui/strategy_editor_find.rs\<close>): searching and replacing.
  \<^item> \<open>Chart_View\<close> (\<open>src/ui/chart_viewstate.rs\<close>, \<open>chart_interaction.rs\<close>): the view of a chart, its
    automatic scale, the mouse; \<open>Chart_Panes\<close> (\<open>src/ui/chart_axes.rs\<close>, \<open>chart_crosshair.rs\<close>,
    \<open>chart_volume.rs\<close>, \<open>chart_render.rs\<close>, the rows of \<open>chart_ladder_pane.rs\<close>): what is computed to be
    drawn; \<open>Chart_Windows\<close> (\<open>src/ui/window.rs\<close>, the mode synchronisation of \<open>chart_ladder_pane.rs\<close>):
    the windows of the charts.
  \<^item> \<open>Panels\<close> (\<open>src/ui/orders.rs\<close>, \<open>order_context_menu.rs\<close>, \<open>positions.rs\<close>, \<open>buying_power.rs\<close>,
    \<open>run_result_panel.rs\<close>, \<open>sidebar.rs\<close>, \<open>systems.rs\<close>, \<open>settings.rs\<close>): what the panels show of the resources,
    cell by cell, and the menu of an order; \<open>Notices\<close> (\<open>src/ui/safety_toast.rs\<close>, \<open>component/toast.rs\<close>,
    \<open>component/context_menu.rs\<close>, \<open>relogin_modal.rs\<close>, \<open>reconcile_modal.rs\<close>, \<open>component/button.rs\<close>): toasts,
    menus, dialogs that only tell, and the colours of the buttons; \<open>Camera\<close> (\<open>src/camera.rs\<close>): whether
    the wheel and the drag reach the camera; \<open>Window_Frame\<close> (\<open>src/ui/floating_window.rs\<close>): dragging,
    resizing and pressing a window and the parts of its frame; \<open>Dialogs\<close> (\<open>src/ui/secret_modal.rs\<close>,
    \<open>modify_modal.rs\<close>, \<open>order_panel/\<close>, \<open>scenario_startup_panel.rs\<close>): what dialogs and forms show.
  \<^item> this theory: properties that span components, from a command to the screen.

  \<^bold>\<open>How the parts interact.\<close> A button or menu (\<open>Run_Control\<close>, \<open>Order_Panel\<close>, \<open>Modals\<close>) announces an
  event or sends a \<open>transport_command\<close>; \<open>Strategy_Run\<close> turns requests into commands after the editors
  (\<open>Editor\<close>) and the sidecar (\<open>Scenario\<close>) were written; the worker (\<open>Transport\<close>) calls the engine and
  answers with \<open>backend_status_update\<close>s, which \<open>Backend_Sync\<close> reduces into the resources that the
  panels show, among them the order book (\<open>Orders\<close>). The registry (\<open>Scenario\<close>) is narrowed, subscribed
  and filled by \<open>Instruments\<close>. Windows asked for by a button, a layout or an undo (\<open>History\<close>,
  \<open>Layout\<close>) go through one dispatcher; a layout waits until its windows exist, and the texts of the
  editors flow between fragments, text widget, history and search (\<open>Find\<close>). The registry also decides
  which charts exist (\<open>Chart_Windows\<close>); the bars that \<open>Backend_Sync\<close> stores set the scale of a chart
  (\<open>Chart_View\<close>), and its view is what the axes, the cross and the candles are computed from
  (\<open>Chart_Panes\<close>). \<open>Panels\<close> reads the book, the portfolio, the run and the prices, and its menu cancels
  and changes orders through the worker; \<open>Notices\<close> shows what \<open>Backend_Sync\<close> left for the user.

  \<^bold>\<open>What the lemmas show.\<close> For the order book: it refines a map from client order ids to orders,
  bounds, unique ids, fills that never fall while no row is evicted or replaced, settled orders that stay settled. For the transport: the
  calls and responses of the commands on every branch, secrets that do not reach the interface, the
  mode of the interface following the polled one. For the reducers: foreign runs and start-ups do not
  disturb the shown one, requests are made once per edge. For the dialogs and the form: only validated,
  consented and matching commands are sent, at most once. For the documents: merging and splitting are
  inverse up to trailing newlines for bodies without marker lines, saving and rewriting are atomic and converge, nothing but the
  instruments changes. For runs: the guards of starting, fresh start-up ids modulo the width of the
  word, what a file handed over contains. For the editor: typing into one editor is undone and
  redone exactly, a closed editor comes back when the dispatcher runs after the undo, the history is
  never left switched off, replacing all matches equals a left-to-right reference. For the layout: while
  its windows are open a stored layout puts them back and closes the others, a layout opened with its
  strategy is restored after one round once the fragments are there, saving under a new name is all or
  nothing. For the charts: the visible slice is the filter it stands for, the automatic scale settles,
  zooming stays in bounds, labels, readings and their badges are those of their places, windows follow the registry and the mode. For the panels: the order that a row
  shows is the one its menu acts on; a violation is shown for its time; a queue of toasts lists what is
  alive; the window that is pressed is on top; a frame follows its window; a dragged window is large
  enough. The properties of kind error state behaviours that the code
  has and its comments do not intend; each is also a finding of the manifest.

  \<^bold>\<open>Termination and bounds.\<close> Every function is total: loops are structural recursions over the list of
  presses, events, lines or targets, or have a measure (the trimming and line splitting of
  \<open>Rust_Str\<close>, the steps to the first time label); no fuel is used. The one loop that may run for ever, the
  first of the price axis, is a partial function whose None is not returning. The worker loop consumes the finite list of what arrives.

  \<^bold>\<open>Not modelled.\<close> Systems that only spawn, lay out or paint nodes, the movements of the camera, the
  grid, the values of the theme, tooltips, popovers and labels, and the registration of the systems:
  they call the engine and have no contract to state. \<open>src/ui/live_run_panel.rs\<close> is not part of the crate. The text
  widget and the undo crate are parameters with their documented behaviour. Log lines and the wording of I/O errors are left out, and a
  typed JSON parser stands for the derived deserialisation.
\<close>

section \<open>Properties that span components\<close>

subsection \<open>From a command to the screen\<close>

text \<open>A command taken by the worker, its responses turned into updates, the updates reduced.\<close>

definition run_command ::
  "(str \<Rightarrow> json option) \<Rightarrow> externals \<Rightarrow> str option \<Rightarrow> transport_command \<Rightarrow> ui_world \<Rightarrow> ui_world" where
  "run_command parse x catalog c w =
     status_update_system parse
       (response_loop (\<lambda>_. None) (io_out (inproc_dispatch x catalog c io_empty)) diff_init) w"

lemma upsert_full_contains: "r \<in> set (upsert_full r b)"
proof (cases "list_ex (has_id (lo_client_order_id r)) b")
  case True
  have "list_ex p b \<Longrightarrow> r \<in> set (upd_first p (\<lambda>_. r) b)" for p
    by (induction b) auto
  with True show ?thesis by (simp add: upsert_full_def)
qed (simp add: upsert_full_def insert_front_def push_front_cap_def MAX_LIVE_ORDERS_def)

text \<open>C2: pressing the order button always has a visible outcome: either the book has a row with
  the instrument, side, quantity and price of the command and the order panel's message is cleared,
  or a message is shown. This holds for every reply of the Python side, failures included.\<close>

theorem place_order_visible:
  "let w' = run_command parse x catalog (TC_PlaceOrder venue instr side q p otype tif secret) w in
   (w_feedback w' = None \<and>
      (\<exists>r \<in> set (w_orders w'). lo_symbol r = instr \<and> lo_side r = side \<and> lo_qty r = q \<and> lo_price r = p)) \<or>
   (w_feedback w' \<noteq> None \<and> w_orders w' = w_orders w)"
proof -
  have row: "\<exists>r \<in> set (upsert_full \<lparr>lo_client_order_id = co, lo_venue_order_id = vo, lo_symbol = sy,
        lo_side = si, lo_qty = qt, lo_price = pr, lo_status = st, lo_filled_qty = fq, lo_avg_price = ap,
        lo_ts_ms = ts, lo_strategy_id = sg\<rparr> b).
      lo_symbol r = sy \<and> lo_side r = si \<and> lo_qty r = qt \<and> lo_price r = pr"
    for co vo sy si qt pr st fq ap ts sg b
    by (rule bexI [OF _ upsert_full_contains]) simp
  have "io_out (inproc_dispatch x catalog (TC_PlaceOrder venue instr side q p otype tif secret) io_empty) =
      [IR_Status (place_result instr side q p (reply_json ''place_order''
         (ex_python x [live_py_call ''place_order'' (place_kwargs venue instr side q p otype tif secret)])))]"
    by (simp add: dispatch_place_order_def live_call_eq io_empty_def)
  then show ?thesis
    using row
    by (auto simp: run_command_def diff_step_def status_update_system_def place_result_def Let_def
        split: sum.split option.split)
qed

text \<open>C22: a reconciliation seeds the book with the rows of the backend's answer and then reports
  exactly the rows of the seeded book that are still working and have no client order id, or one
  that is not in the answer. When the call fails nothing changes.\<close>

theorem reconcile_end_to_end:
  "let c = live_py_call ''get_orders'' [(''venue'', PV_Str venue)];
       w' = run_command parse x catalog (TC_GetOrdersAndReconcile venue) w in
   case reply_json ''get_orders'' (ex_python x [c]) of
     Inl e \<Rightarrow> w' = w
   | Inr v \<Rightarrow>
       (let rows = List.map_filter live_order_of_json (fld_arr v ''orders'') in
        w_orders w' = fold seed_working rows (w_orders w) \<and>
        w_reconcile w' =
          map (\<lambda>r. \<lparr>ru_client_order_id = lo_client_order_id r, ru_symbol = lo_symbol r, ru_status = lo_status r\<rparr>)
            (filter (\<lambda>r. \<not> is_terminal_order_status (lo_status r) \<and>
               lo_client_order_id r \<notin> lo_client_order_id ` set rows - {[]})
              (w_orders w')))"
proof -
  have rec: "reconcile_unknown_orders b (filter (\<lambda>i. i \<noteq> []) (map lo_client_order_id rows)) =
      map (\<lambda>r. \<lparr>ru_client_order_id = lo_client_order_id r, ru_symbol = lo_symbol r, ru_status = lo_status r\<rparr>)
        (filter (\<lambda>r. \<not> is_terminal_order_status (lo_status r) \<and>
           lo_client_order_id r \<notin> lo_client_order_id ` set rows - {[]}) b)"
    for b rows
    unfolding reconcile_unknown_orders_def Let_def filter_filter
    by (rule arg_cong [where f = "map _"]) (rule filter_cong [OF refl], auto)
  show ?thesis
    by (auto simp: run_command_def seed_orders_def live_call_eq io_empty_def Let_def diff_step_def
        status_update_system_def get_orders_notice_def reconcile_ids_for_seed_def rec
        split: sum.split)
qed

subsection \<open>The restart reconciliation and the supervisor\<close>

text \<open>With the lifecycle values the supervisor publishes, the reconciliation after a restart
  is never requested: the crash it waits for is never published.\<close>

theorem restart_reconcile_unreachable:
  assumes "list_all (\<lambda>f. lifecycle_of f \<in> set (initial_lifecycle (supervisor_config_from_env env) #
             run_supervisor (supervisor_config_from_env env))) frames"
  shows "snd (resync_frames l \<lparr>rl_saw_crash = False, rl_prev = None\<rparr> frames) = []"
proof -
  have "list_all (\<lambda>f. lifecycle_of f \<noteq> BL_Crashed) frames"
    using assms
    by (auto simp: list_all_iff initial_lifecycle_def run_supervisor_def split: if_splits)
  then show ?thesis by (simp add: resync_quiet)
qed

lemma restart_reconcile_unreachable_witness:
  "snd (resync_frames OpenSender \<lparr>rl_saw_crash = False, rl_prev = None\<rparr>
     [(BL_NotStarted, [], None), (BL_Ready, [live_order_default], Some ''V'')]) = []"
  by (rule restart_reconcile_unreachable [of "(\<lambda>_. None)(''BACKEND_ENABLED'' := Some ''true'')"])
     (simp add: lifecycle_of_def initial_lifecycle_def run_supervisor_def supervisor_config_from_env_def
       eq_ignore_ascii_case_def)

end
